(* ===== verification/Prelude.thy ===== *)
theory Prelude
  imports Main "HOL-Library.Monad_Syntax" "HOL-Library.Multiset" "HOL-Library.Sublist"
begin

text \<open>
  The part of Go that the operator's code uses, shared by every component: panics, slices that
  may be nil, 32- and 64-bit conversions, the functions of the packages strings and strconv, and
  the generic facts about them.

  \<^item> A function that may panic (an index out of range, a nil pointer that is followed) returns an
    option, and \<^const>\<open>None\<close> is the panic.  A function that may fail returns a Go pair, as a sum
    whose left side is the error, or as a pair with an optional error where the code uses both.
  \<^item> An error is told apart where the code does so (IsNotFound, IsAlreadyExists); any other one carries constant
    words of its message, without the values and the wrapped error that the code prints into it.
  \<^item> A slice whose nil-ness the code observes is an optional list (type slice).
  \<^item> An int32 is an \<^typ>\<open>int\<close>, with the conversion written out (int32) where the code
    converts or where an operation may wrap around.
\<close>

section \<open>Panics, errors and slices\<close>

named_theorems go_lib \<open>evaluation rules for the Go library functions\<close>

type_synonym 'a slice = "'a list option"

type_synonym time = int

datatype error = NotFound | AlreadyExists | Errorf string

abbreviation (input) panic :: "'a option" where
  "panic \<equiv> None"

abbreviation (input) BreakResyncLoop :: bool where
  "BreakResyncLoop \<equiv> True"

abbreviation (input) ContinueResyncLoop :: bool where
  "ContinueResyncLoop \<equiv> False"

definition items :: "'a slice \<Rightarrow> 'a list" where
  "items s = (case s of None \<Rightarrow> [] | Some xs \<Rightarrow> xs)"

definition append_slice :: "'a slice \<Rightarrow> 'a \<Rightarrow> 'a slice" where
  "append_slice s x = Some (items s @ [x])"

definition index :: "'a list \<Rightarrow> int \<Rightarrow> 'a option" where
  "index xs i = (if 0 \<le> i \<and> i < int (length xs) then Some (xs ! nat i) else panic)"

lemma items_simps [simp]:
  "items None = []" "items (Some xs) = xs"
  by (simp_all add: items_def)

lemma items_append_slice [simp]:
  "items (append_slice s x) = items s @ [x]"
  by (simp add: append_slice_def)

lemma index_None_iff:
  "index xs i = None \<longleftrightarrow> i < 0 \<or> int (length xs) \<le> i"
  by (auto simp: index_def)

lemma index_Some_iff:
  "index xs i = Some x \<longleftrightarrow> 0 \<le> i \<and> i < int (length xs) \<and> x = xs ! nat i"
  by (auto simp: index_def)

lemma index_0 [simp]:
  "index [] i = None" "index (x # xs) 0 = Some x"
  by (simp_all add: index_def)

lemma index_mem:
  "index xs i = Some x \<Longrightarrow> x \<in> set xs"
  by (auto simp: index_Some_iff)

section \<open>Fixed-width integers\<close>

definition int32 :: "int \<Rightarrow> int" where
  "int32 x = signed_take_bit 31 x"

definition int64_max :: int where
  "int64_max = 2 ^ 63 - 1"

definition is_int32 :: "int \<Rightarrow> bool" where
  "is_int32 x \<longleftrightarrow> - (2 ^ 31) \<le> x \<and> x < 2 ^ 31"

lemma int32_id [simp]:
  "is_int32 x \<Longrightarrow> int32 x = x"
  unfolding int32_def is_int32_def by (rule signed_take_bit_int_eq_self) simp_all

lemma is_int32_int32 [simp]:
  "is_int32 (int32 x)"
  using signed_take_bit_int_greater_eq_minus_exp [of 31 x] signed_take_bit_int_less_exp [of 31 x]
  by (simp add: int32_def is_int32_def)

lemma int32_idem [simp]:
  "int32 (int32 x) = int32 x"
  by simp

section \<open>strings.Split and strings.Join\<close>

text \<open>Every separator of the code that is split on is a single character.\<close>

fun split_on :: "char \<Rightarrow> string \<Rightarrow> string list" where
  "split_on c [] = [[]]"
| "split_on c (x # xs) =
     (if x = c then [] # split_on c xs
      else (x # hd (split_on c xs)) # tl (split_on c xs))"

fun join :: "string \<Rightarrow> string list \<Rightarrow> string" where
  "join sep [] = []"
| "join sep [s] = s"
| "join sep (s # t # ss) = s @ sep @ join sep (t # ss)"

lemma split_on_not_Nil [simp]:
  "split_on c s \<noteq> []"
  by (cases s) auto

lemma split_on_free:
  "c \<notin> set s \<Longrightarrow> split_on c s = [s]"
  by (induction s) auto

lemma split_on_append:
  "c \<notin> set s \<Longrightarrow> split_on c (s @ c # t) = s # split_on c t"
  by (induction s) auto

lemma join_Cons:
  "ss \<noteq> [] \<Longrightarrow> join sep (s # ss) = s @ sep @ join sep ss"
  by (cases ss) auto

lemma join_split_on:
  "join [c] (split_on c s) = s"
proof (induction s)
  case (Cons x s)
  show ?case
  proof (cases "x = c")
    case True
    then show ?thesis using Cons by (simp add: join_Cons)
  next
    case False
    then show ?thesis using Cons
      by (cases "split_on c s"; cases "tl (split_on c s)") auto
  qed
qed simp

lemma split_on_join:
  assumes "ss \<noteq> []" and "\<forall>s \<in> set ss. c \<notin> set s"
  shows "split_on c (join [c] ss) = ss"
  using assms
proof (induction ss rule: induct_list012)
  case (3 s t ss)
  then show ?case by (simp add: split_on_append)
qed (simp_all add: split_on_free)

lemma split_on_parts_free:
  "p \<in> set (split_on c s) \<Longrightarrow> c \<notin> set p"
proof (induction s arbitrary: p)
  case (Cons x s)
  then show ?case
    by (cases "split_on c s") (auto split: if_splits)
qed simp

section \<open>strconv.Itoa, strconv.Atoi and the percent-d verb\<close>

definition digit_char :: "nat \<Rightarrow> char" where
  "digit_char n = char_of (48 + n)"

definition is_digit :: "char \<Rightarrow> bool" where
  "is_digit c \<longleftrightarrow> 48 \<le> (of_char c :: nat) \<and> (of_char c :: nat) \<le> 57"

definition digit_val :: "char \<Rightarrow> nat" where
  "digit_val c = of_char c - 48"

fun itoa_nat :: "nat \<Rightarrow> string" where
  "itoa_nat n = (if n < 10 then [digit_char n] else itoa_nat (n div 10) @ [digit_char (n mod 10)])"

declare itoa_nat.simps [simp del]

definition itoa :: "int \<Rightarrow> string" where
  "itoa i = (if i < 0 then CHR ''-'' # itoa_nat (nat (- i)) else itoa_nat (nat i))"

definition digits_val :: "string \<Rightarrow> nat" where
  "digits_val s = foldl (\<lambda>n c. 10 * n + digit_val c) 0 s"

text \<open>
  The code calls Atoi and drops its error: the value is 0 when the text is not a number, and the
  nearest 64-bit number when it is out of range.
\<close>

definition atoi_sat :: "string \<Rightarrow> int" where
  "atoi_sat s =
     (let neg = s \<noteq> [] \<and> hd s = CHR ''-'';
          body = (if s \<noteq> [] \<and> (hd s = CHR ''-'' \<or> hd s = CHR ''+'') then tl s else s)
      in if body = [] \<or> \<not> list_all is_digit body then 0
         else if neg then max (- int64_max - 1) (- int (digits_val body))
         else min int64_max (int (digits_val body)))"

lemma of_char_digit_char:
  "n < 10 \<Longrightarrow> (of_char (digit_char n) :: nat) = 48 + n"
  by (simp add: digit_char_def)

lemma is_digit_digit_char [simp]:
  "n < 10 \<Longrightarrow> is_digit (digit_char n)"
  by (simp add: is_digit_def of_char_digit_char)

lemma digit_val_digit_char [simp]:
  "n < 10 \<Longrightarrow> digit_val (digit_char n) = n"
  by (simp add: digit_val_def of_char_digit_char)

lemma itoa_nat_not_Nil [simp]:
  "itoa_nat n \<noteq> []"
  by (subst itoa_nat.simps) simp

lemma list_all_itoa_nat [simp]:
  "list_all is_digit (itoa_nat n)"
proof (induction n rule: itoa_nat.induct)
  case (1 n)
  then show ?case by (subst itoa_nat.simps) simp
qed

lemma digits_val_snoc:
  "digits_val (s @ [c]) = 10 * digits_val s + digit_val c"
  by (simp add: digits_val_def)

lemma digits_val_itoa_nat [simp]:
  "digits_val (itoa_nat n) = n"
proof (induction n rule: itoa_nat.induct)
  case (1 n)
  then show ?case
    by (subst itoa_nat.simps) (simp add: digits_val_snoc, simp add: digits_val_def)
qed

lemma is_digit_sign:
  "\<not> is_digit CHR ''-''" "\<not> is_digit CHR ''+''" "\<not> is_digit CHR ''.''"
  by (simp_all add: is_digit_def)

lemma itoa_nat_inject [simp]:
  "itoa_nat m = itoa_nat n \<longleftrightarrow> m = n"
  by (metis digits_val_itoa_nat)

lemma hd_itoa_nat:
  "is_digit (hd (itoa_nat n))"
  using list_all_itoa_nat [of n] by (cases "itoa_nat n") auto

lemma itoa_inject [simp]:
  "itoa i = itoa j \<longleftrightarrow> i = j"
proof -
  have "CHR ''-'' # s \<noteq> itoa_nat n" for s n
    using hd_itoa_nat [of n] is_digit_sign(1) by (metis list.sel(1))
  moreover from this have "itoa_nat n \<noteq> CHR ''-'' # s" for s n by metis
  ultimately show ?thesis by (auto simp: itoa_def)
qed

lemma dot_notin_itoa_nat [simp]:
  "CHR ''.'' \<notin> set (itoa_nat n)" "CHR ''-'' \<notin> set (itoa_nat n)"
  using list_all_itoa_nat [of n] is_digit_sign by (auto simp: list_all_iff)

lemma atoi_sat_itoa:
  assumes "- int64_max - 1 \<le> i" and "i \<le> int64_max"
  shows "atoi_sat (itoa i) = i"
proof -
  have "hd (itoa_nat n) \<noteq> CHR ''-''" "hd (itoa_nat n) \<noteq> CHR ''+''" for n
    using hd_itoa_nat [of n] is_digit_sign by auto
  then show ?thesis using assms
    by (auto simp: atoi_sat_def itoa_def Let_def)
qed

end
