(* ===== verification/K8s_Types.thy ===== *)
theory K8s_Types
  imports Prelude "HOL-Library.Char_ord" "HOL-Library.List_Lexorder"
begin

text \<open>
  The Kubernetes objects the operator reads and writes (package k8s.io/api, outside the
  repository): for each object a record with the fields the operator's code reads, writes or
  compares.  A pointer field is an option, a map is a partial map, and a slice whose nil-ness the
  code tests is a slice.  A resource.Quantity is its numeric value, counted in the finest unit a
  quantity holds (one billionth), together with the rest of the Go struct (format and cached text),
  because the code compares quantities both ways.
\<close>

type_synonym labels = "string \<rightharpoonup> string"

record owner_reference =
  own_APIVersion :: string
  own_Kind :: string
  own_Name :: string
  own_UID :: string
  own_Controller :: "bool option"

record object_meta =
  meta_Name :: string
  meta_Namespace :: string
  meta_Labels :: labels
  meta_Annotations :: labels
  meta_Finalizers :: "string list"
  meta_DeletionTimestamp :: "time option"
  meta_ResourceVersion :: string
  meta_UID :: string
  meta_OwnerReferences :: "owner_reference list"

record quantity =
  q_value :: int
  q_format :: string

type_synonym resource_list = "string \<rightharpoonup> quantity"

record resource_requirements =
  res_Limits :: "resource_list option"
  res_Requests :: "resource_list option"

datatype env_source =
    FieldRef string string       \<comment> \<open>API version, field path\<close>
  | SecretKeyRef string string   \<comment> \<open>secret, key\<close>

record env_var =
  env_Name :: string
  env_Value :: string
  env_ValueFrom :: "env_source option"

record volume_mount =
  vm_Name :: string
  vm_MountPath :: string

record container_port =
  cp_Name :: string
  cp_ContainerPort :: int
  cp_Protocol :: string

datatype probe_handler = ExecAction "string list" | HTTPGetAction int string

record probe =
  pr_InitialDelaySeconds :: int
  pr_TimeoutSeconds :: int
  pr_PeriodSeconds :: int
  pr_SuccessThreshold :: int
  pr_FailureThreshold :: int
  pr_Handler :: probe_handler

record security_context =
  sec_Add :: "string list"
  sec_ProcMount :: "string option"
  sec_ReadOnlyRootFilesystem :: "bool option"

record container =
  c_Name :: string
  c_Image :: string
  c_ImagePullPolicy :: string
  c_Command :: "string list"
  c_Args :: "string list"
  c_Env :: "env_var list"
  c_Resources :: resource_requirements
  c_VolumeMounts :: "volume_mount list"
  c_Ports :: "container_port list"
  c_SecurityContext :: "security_context option"
  c_ReadinessProbe :: "probe option"
  c_LivenessProbe :: "probe option"

record volume =
  v_Name :: string
  v_ConfigMap :: "string option"
  v_DefaultMode :: "int option"
  v_EmptyDir :: bool

record pvc_spec =
  pvcs_AccessModes :: "string list"
  pvcs_StorageClassName :: "string option"
  pvcs_VolumeMode :: "string option"
  pvcs_Requests :: "resource_list option"

record pvc =
  pvc_TypeMeta :: "string \<times> string"
  pvc_Meta :: object_meta
  pvc_Spec :: pvc_spec
  pvc_StatusCapacity :: resource_list

record toleration =
  tol_Key :: string
  tol_Operator :: string
  tol_Value :: string
  tol_Effect :: string

record container_status =
  cst_Name :: string
  cst_Ready :: bool
  cst_RestartCount :: int
  cst_WaitingReason :: "string option"

record pod_condition =
  cond_Type :: string
  cond_Status :: string
  cond_Reason :: string

record pod =
  pod_Meta :: object_meta
  pod_Hostname :: string
  pod_Subdomain :: string
  pod_Containers :: "container list"
  pod_Phase :: string
  pod_PodIP :: string
  pod_Conditions :: "pod_condition slice"
  pod_ContainerStatuses :: "container_status list"

record node_requirement =
  nr_Key :: string
  nr_Operator :: string
  nr_Values :: "string list"

record node_affinity =
  na_Required :: "node_requirement list list option"

record pod_affinity_term =
  pat_TopologyKey :: string
  pat_MatchLabels :: labels

record pod_anti_affinity =
  paa_Required :: "pod_affinity_term list"
  paa_Preferred :: "(int \<times> pod_affinity_term) list"

record pod_security_context =
  psec_RunAsUser :: "int option"
  psec_RunAsNonRoot :: "bool option"
  psec_FSGroup :: "int option"

record pod_template =
  pt_Labels :: labels
  pt_Annotations :: labels
  pt_InitContainers :: "container list"
  pt_Containers :: "container list"
  pt_Volumes :: "volume slice"
  pt_SchedulerName :: string
  pt_DNSPolicy :: string
  pt_NodeAffinity :: "node_affinity option"
  pt_PodAntiAffinity :: "pod_anti_affinity option"
  pt_Tolerations :: "toleration list"
  pt_SecurityContext :: "pod_security_context option"
  pt_RestartPolicy :: string
  pt_TerminationGracePeriodSeconds :: "int option"
  pt_ShareProcessNamespace :: "bool option"
  pt_ServiceAccountName :: string
  pt_ImagePullSecrets :: "string list"

record sts_status =
  ss_Replicas :: int
  ss_ReadyReplicas :: int
  ss_CurrentReplicas :: int
  ss_UpdatedReplicas :: int
  ss_CurrentRevision :: string
  ss_UpdateRevision :: string

record stateful_set =
  sts_Meta :: object_meta
  sts_Replicas :: "int option"
  sts_ServiceName :: string
  sts_UpdateStrategy :: string
  sts_Partition :: "int option"
  sts_MatchLabels :: labels
  sts_Template :: pod_template
  sts_VolumeClaimTemplates :: "pvc list"
  sts_Status :: sts_status

record pdb =
  pdb_Meta :: object_meta
  pdb_MaxUnavailable :: "int option"
  pdb_DisruptionsAllowed :: int
  pdb_ExpectedPods :: int
  pdb_MatchLabels :: labels

record service_port =
  sp_Port :: int
  sp_Protocol :: string
  sp_Name :: string

record service =
  svc_Meta :: object_meta
  svc_Type :: string
  svc_ClusterIP :: string
  svc_Ports :: "service_port list"
  svc_Selector :: labels
  svc_PublishNotReadyAddresses :: bool

definition empty_meta :: object_meta where
  "empty_meta = \<lparr>meta_Name = [], meta_Namespace = [], meta_Labels = Map.empty,
     meta_Annotations = Map.empty, meta_Finalizers = [], meta_DeletionTimestamp = None,
     meta_ResourceVersion = [], meta_UID = [], meta_OwnerReferences = []\<rparr>"

definition named_meta :: "string \<Rightarrow> string \<Rightarrow> object_meta" where
  "named_meta ns n = empty_meta\<lparr>meta_Name := n, meta_Namespace := ns\<rparr>"

definition zero_quantity :: quantity where
  "zero_quantity = \<lparr>q_value = 0, q_format = []\<rparr>"

definition no_resources :: resource_requirements where
  "no_resources = \<lparr>res_Limits = None, res_Requests = None\<rparr>"

text \<open>A pod that holds nothing but its name, as a failed Get leaves it.\<close>

definition bare_pod :: "string \<Rightarrow> string \<Rightarrow> pod" where
  "bare_pod ns n = \<lparr>pod_Meta = named_meta ns n, pod_Hostname = [], pod_Subdomain = [],
     pod_Containers = [], pod_Phase = [], pod_PodIP = [], pod_Conditions = None,
     pod_ContainerStatuses = []\<rparr>"

definition zero_sts_status :: sts_status where
  "zero_sts_status = \<lparr>ss_Replicas = 0, ss_ReadyReplicas = 0, ss_CurrentReplicas = 0,
     ss_UpdatedReplicas = 0, ss_CurrentRevision = [], ss_UpdateRevision = []\<rparr>"

definition zero_pod_template :: pod_template where
  "zero_pod_template = \<lparr>pt_Labels = Map.empty, pt_Annotations = Map.empty, pt_InitContainers = [],
     pt_Containers = [], pt_Volumes = None, pt_SchedulerName = [], pt_DNSPolicy = [],
     pt_NodeAffinity = None, pt_PodAntiAffinity = None, pt_Tolerations = [],
     pt_SecurityContext = None, pt_RestartPolicy = [], pt_TerminationGracePeriodSeconds = None,
     pt_ShareProcessNamespace = None, pt_ServiceAccountName = [], pt_ImagePullSecrets = []\<rparr>"

definition bare_sts :: "string \<Rightarrow> string \<Rightarrow> stateful_set" where
  "bare_sts ns n = \<lparr>sts_Meta = named_meta ns n, sts_Replicas = None, sts_ServiceName = [],
     sts_UpdateStrategy = [], sts_Partition = None, sts_MatchLabels = Map.empty, sts_Template = zero_pod_template, sts_VolumeClaimTemplates = [], sts_Status = zero_sts_status\<rparr>"

definition bare_pdb :: "string \<Rightarrow> string \<Rightarrow> pdb" where
  "bare_pdb ns n = \<lparr>pdb_Meta = named_meta ns n, pdb_MaxUnavailable = None,
     pdb_DisruptionsAllowed = 0, pdb_ExpectedPods = 0, pdb_MatchLabels = Map.empty\<rparr>"

abbreviation pod_Name :: "pod \<Rightarrow> string" where
  "pod_Name p \<equiv> meta_Name (pod_Meta p)"

abbreviation pod_Namespace :: "pod \<Rightarrow> string" where
  "pod_Namespace p \<equiv> meta_Namespace (pod_Meta p)"

abbreviation pod_Labels :: "pod \<Rightarrow> labels" where
  "pod_Labels p \<equiv> meta_Labels (pod_Meta p)"

abbreviation set_pod_Labels :: "labels \<Rightarrow> pod \<Rightarrow> pod" where
  "set_pod_Labels l p \<equiv> p\<lparr>pod_Meta := (pod_Meta p)\<lparr>meta_Labels := l\<rparr>\<rparr>"

definition PodRunning :: string where "PodRunning = ''Running''"
definition PodPending :: string where "PodPending = ''Pending''"

end
