(* ===== verification/Api_Types.thy ===== *)
theory Api_Types
  imports K8s_Types
begin

text \<open>
  The custom resource of the operator: the constants and structs of
  src/api/v2/cassandracluster_types.go and the name types of src/api/v2/names.go.  A record field
  carries the Go name of the field after a prefix for its struct.  A json.RawMessage is its text,
  and None is the nil slice.  The Go string types DcName, RackName and DcRackName are strings.
\<close>

section \<open>Constants\<close>

definition DefaultTerminationGracePeriodSeconds :: int where "DefaultTerminationGracePeriodSeconds = 1800"
definition DefaultLivenessInitialDelaySeconds :: int where "DefaultLivenessInitialDelaySeconds = 120"
definition DefaultLivenessHealthCheckTimeout :: int where "DefaultLivenessHealthCheckTimeout = 20"
definition DefaultLivenessHealthCheckPeriod :: int where "DefaultLivenessHealthCheckPeriod = 10"
definition DefaultReadinessInitialDelaySeconds :: int where "DefaultReadinessInitialDelaySeconds = 60"
definition DefaultReadinessHealthCheckTimeout :: int where "DefaultReadinessHealthCheckTimeout = 10"
definition DefaultReadinessHealthCheckPeriod :: int where "DefaultReadinessHealthCheckPeriod = 10"

definition defaultCassandraImage :: string where "defaultCassandraImage = ''cassandra:3.11.10''"
definition defaultBootstrapImage :: string where
  "defaultBootstrapImage = ''ghcr.io/cscetbon/casskop-bootstrap:0.1.21''"
definition defaultConfigBuilderImage :: string where
  "defaultConfigBuilderImage = ''datastax/cass-config-builder:1.0.4''"
definition DefaultBackRestImage :: string where
  "DefaultBackRestImage = ''ghcr.io/cscetbon/instaclustr-icarus:1.1.3''"
definition defaultServiceAccountName :: string where
  "defaultServiceAccountName = ''cassandra-cluster-node''"
definition defaultMaxPodUnavailable :: int where "defaultMaxPodUnavailable = 1"
definition defaultImagePullPolicy :: string where "defaultImagePullPolicy = ''Always''"

definition DefaultCassandraDC :: string where "DefaultCassandraDC = ''dc1''"
definition DefaultCassandraRack :: string where "DefaultCassandraRack = ''rack1''"

definition DefaultResyncPeriod :: int where "DefaultResyncPeriod = 10"
definition DefaultDelayWait :: int where "DefaultDelayWait = 2 * DefaultResyncPeriod"
definition DefaultDelayWaitForDecommission :: int where "DefaultDelayWaitForDecommission = 120"

text \<open>
  A cluster state is its number and its name.  The numbers are the values of the gauges, small
  integers that a float64 holds exactly.
\<close>

record ClusterStateInfo =
  state_ID :: int
  state_Name :: string

definition ClusterPhaseInitial :: ClusterStateInfo where
  "ClusterPhaseInitial = \<lparr>state_ID = 1, state_Name = ''Initializing''\<rparr>"
definition ClusterPhaseRunning :: ClusterStateInfo where
  "ClusterPhaseRunning = \<lparr>state_ID = 2, state_Name = ''Running''\<rparr>"
definition ClusterPhasePending :: ClusterStateInfo where
  "ClusterPhasePending = \<lparr>state_ID = 3, state_Name = ''Pending''\<rparr>"

definition ActionUpdateConfigMap :: ClusterStateInfo where
  "ActionUpdateConfigMap = \<lparr>state_ID = 1, state_Name = ''UpdateConfigMap''\<rparr>"
definition ActionUpdateDockerImage :: ClusterStateInfo where
  "ActionUpdateDockerImage = \<lparr>state_ID = 2, state_Name = ''UpdateDockerImage''\<rparr>"
definition ActionUpdateSeedList :: ClusterStateInfo where
  "ActionUpdateSeedList = \<lparr>state_ID = 3, state_Name = ''UpdateSeedList''\<rparr>"
definition ActionRollingRestart :: ClusterStateInfo where
  "ActionRollingRestart = \<lparr>state_ID = 4, state_Name = ''RollingRestart''\<rparr>"
definition ActionUpdateResources :: ClusterStateInfo where
  "ActionUpdateResources = \<lparr>state_ID = 5, state_Name = ''UpdateResources''\<rparr>"
definition ActionUpdateStatefulSet :: ClusterStateInfo where
  "ActionUpdateStatefulSet = \<lparr>state_ID = 6, state_Name = ''UpdateStatefulSet''\<rparr>"
definition ActionScaleUp :: ClusterStateInfo where
  "ActionScaleUp = \<lparr>state_ID = 7, state_Name = ''ScaleUp''\<rparr>"
definition ActionScaleDown :: ClusterStateInfo where
  "ActionScaleDown = \<lparr>state_ID = 8, state_Name = ''ScaleDown''\<rparr>"
definition ActionDeleteDC :: ClusterStateInfo where
  "ActionDeleteDC = \<lparr>state_ID = 9, state_Name = ''ActionDeleteDC''\<rparr>"
definition ActionDeleteRack :: ClusterStateInfo where
  "ActionDeleteRack = \<lparr>state_ID = 10, state_Name = ''ActionDeleteRack''\<rparr>"
definition ActionCorrectCRDConfig :: ClusterStateInfo where
  "ActionCorrectCRDConfig = \<lparr>state_ID = 11, state_Name = ''CorrectCRDConfig''\<rparr>"
definition ActionStorageUpsize :: ClusterStateInfo where
  "ActionStorageUpsize = \<lparr>state_ID = 12, state_Name = ''StorageUpsize''\<rparr>"

lemmas state_infos =
  ClusterPhaseInitial_def ClusterPhaseRunning_def ClusterPhasePending_def
  ActionUpdateConfigMap_def ActionUpdateDockerImage_def ActionUpdateSeedList_def
  ActionRollingRestart_def ActionUpdateResources_def ActionUpdateStatefulSet_def
  ActionScaleUp_def ActionScaleDown_def ActionDeleteDC_def ActionDeleteRack_def
  ActionCorrectCRDConfig_def ActionStorageUpsize_def

definition GroupVersion :: string where "GroupVersion = ''db.orange.com/v2''"

definition AnnotationLastApplied :: string where
  "AnnotationLastApplied = ''cassandraclusters.db.orange.com/last-applied-configuration''"

definition StatusOngoing :: string where "StatusOngoing = ''Ongoing''"
definition StatusDone :: string where "StatusDone = ''Done''"
definition StatusToDo :: string where "StatusToDo = ''ToDo''"
definition StatusFinalizing :: string where "StatusFinalizing = ''Finalizing''"
definition StatusContinue :: string where "StatusContinue = ''Continue''"
definition StatusConfiguring :: string where "StatusConfiguring = ''Configuring''"
definition StatusManual :: string where "StatusManual = ''Manual''"
definition StatusError :: string where "StatusError = ''Error''"

definition OperationUpgradeSSTables :: string where "OperationUpgradeSSTables = ''upgradesstables''"
definition OperationCleanup :: string where "OperationCleanup = ''cleanup''"
definition OperationDecommission :: string where "OperationDecommission = ''decommission''"
definition OperationRebuild :: string where "OperationRebuild = ''rebuild''"
definition OperationRemove :: string where "OperationRemove = ''remove''"

lemmas statuses =
  StatusOngoing_def StatusDone_def StatusToDo_def StatusFinalizing_def StatusContinue_def
  StatusConfiguring_def StatusManual_def StatusError_def

lemmas operations =
  OperationUpgradeSSTables_def OperationCleanup_def OperationDecommission_def
  OperationRebuild_def OperationRemove_def

section \<open>The spec\<close>

type_synonym raw_message = "string option"

record Rack =
  rack_Name :: string
  rack_Labels :: labels
  rack_Config :: raw_message
  rack_RollingRestart :: bool
  rack_RollingPartition :: int

record DC =
  dc_Name :: string
  dc_Labels :: labels
  dc_Config :: raw_message
  dc_Rack :: "Rack list"
  dc_NodesPerRacks :: "int option"
  dc_DataCapacity :: string
  dc_DataStorageClass :: string
  dc_Resources :: resource_requirements

record Topology =
  top_DC :: "DC list"

record JMXConfiguration =
  jmx_JMXRemote :: "bool option"
  jmx_JMXRemotePort :: int
  jmx_JMXRemoteRmiPort :: int
  jmx_JXMRemoteSSL :: "bool option"
  jmx_JMXRemoteAuthenticate :: "bool option"

record StorageConfig =
  sc_MountPath :: string
  sc_Name :: string
  sc_PVCSpec :: "pvc_spec option"

record PodPolicy =
  pp_Annotations :: labels
  pp_Tolerations :: "toleration list"

record ServicePolicy =
  sp_Annotations :: labels

record BackRestSidecar =
  br_Enabled :: "bool option"
  br_Image :: string
  br_ImagePullPolicy :: string
  br_Resources :: "resource_requirements option"
  br_VolumeMounts :: "volume_mount list"

record CassandraClusterSpec =
  spec_NodesPerRacks :: int
  spec_CassandraImage :: string
  spec_ImagePullPolicy :: string
  spec_BootstrapImage :: string
  spec_ConfigBuilderImage :: string
  spec_RunAsUser :: int
  spec_FSGroup :: int
  spec_ReadOnlyRootFilesystem :: "bool option"
  spec_Resources :: resource_requirements
  spec_HardAntiAffinity :: bool
  spec_Pod :: "PodPolicy option"
  spec_Service :: "ServicePolicy option"
  spec_DeletePVC :: bool
  spec_Debug :: bool
  spec_AutoPilot :: bool
  spec_NoCheckStsAreEqual :: bool
  spec_AutoUpdateSeedList :: bool
  spec_MaxPodUnavailable :: int
  spec_RestartCountBeforePodDeletion :: int
  spec_UnlockNextOperation :: bool
  spec_DataCapacity :: string
  spec_DataStorageClass :: string
  spec_StorageConfigs :: "StorageConfig list"
  spec_SidecarConfigs :: "container list"
  spec_ConfigMapName :: string
  spec_ServerVersion :: string
  spec_ServerType :: string
  spec_Config :: raw_message
  spec_ImagePullSecret :: string
  spec_ImageJolokiaSecret :: string
  spec_KeyspaceCleanupThreads :: int
  spec_Topology :: Topology
  spec_LivenessInitialDelaySeconds :: "int option"
  spec_LivenessHealthCheckTimeout :: "int option"
  spec_LivenessHealthCheckPeriod :: "int option"
  spec_LivenessFailureThreshold :: "int option"
  spec_LivenessSuccessThreshold :: "int option"
  spec_ReadinessInitialDelaySeconds :: "int option"
  spec_ReadinessHealthCheckTimeout :: "int option"
  spec_ReadinessHealthCheckPeriod :: "int option"
  spec_ReadinessFailureThreshold :: "int option"
  spec_ReadinessSuccessThreshold :: "int option"
  spec_ShareProcessNamespace :: "bool option"
  spec_BackRestSidecar :: "BackRestSidecar option"
  spec_ServiceAccountName :: string
  spec_JMXConfiguration :: "JMXConfiguration option"

section \<open>The status\<close>

record CassandraLastAction =
  la_Status :: string
  la_Name :: string
  la_StartTime :: "time option"
  la_EndTime :: "time option"
  la_UpdatedNodes :: "string list"

record PodLastOperation =
  po_Name :: string
  po_Status :: string
  po_StartTime :: "time option"
  po_EndTime :: "time option"
  po_Pods :: "string slice"
  po_PodsOK :: "string slice"
  po_PodsKO :: "string slice"
  po_OperatorName :: string

record CassandraRackStatus =
  rs_Phase :: string
  rs_CassandraLastAction :: CassandraLastAction
  rs_PodLastOperation :: PodLastOperation
  rs_StatefulSetSnapshotBeforeStorageResize :: string

record CassandraNodeStatus =
  ns_HostId :: string
  ns_NodeIp :: string

record CassandraClusterStatus =
  cs_Phase :: string
  cs_LastClusterAction :: string
  cs_LastClusterActionStatus :: string
  cs_SeedList :: "string slice"
  cs_CassandraNodesStatus :: "(string \<rightharpoonup> CassandraNodeStatus) option"
  cs_CassandraRackStatus :: "string \<rightharpoonup> CassandraRackStatus"

record CassandraCluster =
  cc_Meta :: object_meta
  cc_Spec :: CassandraClusterSpec
  cc_Status :: CassandraClusterStatus

record CompleteRackName =
  crn_DcName :: string
  crn_RackName :: string
  crn_DcRackName :: string

abbreviation cc_Name :: "CassandraCluster \<Rightarrow> string" where
  "cc_Name cc \<equiv> meta_Name (cc_Meta cc)"

abbreviation cc_Namespace :: "CassandraCluster \<Rightarrow> string" where
  "cc_Namespace cc \<equiv> meta_Namespace (cc_Meta cc)"

abbreviation cc_DCs :: "CassandraCluster \<Rightarrow> DC list" where
  "cc_DCs cc \<equiv> top_DC (spec_Topology (cc_Spec cc))"

abbreviation cc_RackStatus :: "CassandraCluster \<Rightarrow> string \<rightharpoonup> CassandraRackStatus" where
  "cc_RackStatus cc \<equiv> cs_CassandraRackStatus (cc_Status cc)"

definition no_action :: CassandraLastAction where
  "no_action = \<lparr>la_Status = [], la_Name = [], la_StartTime = None, la_EndTime = None,
     la_UpdatedNodes = []\<rparr>"

definition no_operation :: PodLastOperation where
  "no_operation = \<lparr>po_Name = [], po_Status = [], po_StartTime = None, po_EndTime = None,
     po_Pods = None, po_PodsOK = None, po_PodsKO = None, po_OperatorName = []\<rparr>"

definition zero_status :: CassandraClusterStatus where
  "zero_status = \<lparr>cs_Phase = [], cs_LastClusterAction = [], cs_LastClusterActionStatus = [],
     cs_SeedList = None, cs_CassandraNodesStatus = None, cs_CassandraRackStatus = Map.empty\<rparr>"

section \<open>Zero values, the base of the examples\<close>

definition zero_dc :: "string \<Rightarrow> Rack list \<Rightarrow> DC" where
  "zero_dc n rs = \<lparr>dc_Name = n, dc_Labels = Map.empty, dc_Config = None, dc_Rack = rs,
     dc_NodesPerRacks = None, dc_DataCapacity = [], dc_DataStorageClass = [],
     dc_Resources = no_resources\<rparr>"

definition zero_rack :: "string \<Rightarrow> Rack" where
  "zero_rack n = \<lparr>rack_Name = n, rack_Labels = Map.empty, rack_Config = None,
     rack_RollingRestart = False, rack_RollingPartition = 0\<rparr>"

definition zero_spec :: CassandraClusterSpec where
  "zero_spec = \<lparr>
     spec_NodesPerRacks = 0, spec_CassandraImage = [], spec_ImagePullPolicy = [],
     spec_BootstrapImage = [], spec_ConfigBuilderImage = [], spec_RunAsUser = 0, spec_FSGroup = 0,
     spec_ReadOnlyRootFilesystem = None, spec_Resources = no_resources,
     spec_HardAntiAffinity = False, spec_Pod = None, spec_Service = None, spec_DeletePVC = False,
     spec_Debug = False, spec_AutoPilot = False, spec_NoCheckStsAreEqual = False,
     spec_AutoUpdateSeedList = False, spec_MaxPodUnavailable = 0,
     spec_RestartCountBeforePodDeletion = 0, spec_UnlockNextOperation = False,
     spec_DataCapacity = [], spec_DataStorageClass = [], spec_StorageConfigs = [],
     spec_SidecarConfigs = [], spec_ConfigMapName = [], spec_ServerVersion = [],
     spec_ServerType = [], spec_Config = None, spec_ImagePullSecret = [],
     spec_ImageJolokiaSecret = [], spec_KeyspaceCleanupThreads = 0,
     spec_Topology = \<lparr>top_DC = []\<rparr>, spec_LivenessInitialDelaySeconds = None,
     spec_LivenessHealthCheckTimeout = None, spec_LivenessHealthCheckPeriod = None,
     spec_LivenessFailureThreshold = None, spec_LivenessSuccessThreshold = None,
     spec_ReadinessInitialDelaySeconds = None, spec_ReadinessHealthCheckTimeout = None,
     spec_ReadinessHealthCheckPeriod = None, spec_ReadinessFailureThreshold = None,
     spec_ReadinessSuccessThreshold = None, spec_ShareProcessNamespace = None,
     spec_BackRestSidecar = None, spec_ServiceAccountName = [], spec_JMXConfiguration = None\<rparr>"

definition example_cluster :: "int \<Rightarrow> DC list \<Rightarrow> CassandraCluster" where
  "example_cluster n dcs =
     \<lparr>cc_Meta = named_meta ''ns'' ''demo'',
      cc_Spec = zero_spec\<lparr>spec_NodesPerRacks := n, spec_Topology := \<lparr>top_DC = dcs\<rparr>\<rparr>,
      cc_Status = zero_status\<rparr>"

lemmas example_defs =
  example_cluster_def zero_spec_def zero_dc_def zero_rack_def zero_status_def no_action_def
  no_operation_def named_meta_def empty_meta_def no_resources_def

end
