(* ===== verification/Cluster_Topology.thy ===== *)
theory Cluster_Topology
  imports Api_Types
begin

text \<open>
  The methods of CassandraCluster in src/api/v2/cassandracluster_types.go: the topology accessors,
  the name of a rack's objects and its decoding, the seed list, the rack list of the status, the
  per-DC capacities, and the defaults.  A Go loop over the indices of the DCs or of the racks is a
  recursion over the list of these indices, so that the early returns inside the loops are visible.
\<close>

section \<open>Sizes and names\<close>

definition GetDCSize :: "CassandraCluster \<Rightarrow> nat" where
  "GetDCSize cc = length (cc_DCs cc)"

definition GetRackSize :: "CassandraCluster \<Rightarrow> nat \<Rightarrow> nat" where
  "GetRackSize cc dc = (if dc \<ge> GetDCSize cc then 0 else length (dc_Rack (cc_DCs cc ! dc)))"

definition GetDCRackSize :: "CassandraCluster \<Rightarrow> nat" where
  "GetDCRackSize cc = foldl (\<lambda>nb dc. nb + GetRackSize cc dc) 0 [0..<GetDCSize cc]"

definition GetDCName :: "CassandraCluster \<Rightarrow> nat \<Rightarrow> string" where
  "GetDCName cc dc = (if dc \<ge> GetDCSize cc then DefaultCassandraDC else dc_Name (cc_DCs cc ! dc))"

definition getDCNodesPerRacksFromIndex :: "CassandraCluster \<Rightarrow> nat \<Rightarrow> int" where
  "getDCNodesPerRacksFromIndex cc dc =
     (if dc \<ge> GetDCSize cc then spec_NodesPerRacks (cc_Spec cc)
      else case dc_NodesPerRacks (cc_DCs cc ! dc) of
             None \<Rightarrow> spec_NodesPerRacks (cc_Spec cc)
           | Some n \<Rightarrow> n)"

definition GetRackName :: "CassandraCluster \<Rightarrow> nat \<Rightarrow> nat \<Rightarrow> string" where
  "GetRackName cc dc rack =
     (if dc \<ge> GetDCSize cc \<or> rack \<ge> GetRackSize cc dc then DefaultCassandraRack
      else rack_Name (dc_Rack (cc_DCs cc ! dc) ! rack))"

text \<open>The regular expression "^[a-z]([-a-z0-9]*[a-z0-9])?$" of the code.\<close>

definition is_lower :: "char \<Rightarrow> bool" where
  "is_lower c \<longleftrightarrow> 97 \<le> (of_char c :: nat) \<and> (of_char c :: nat) \<le> 122"

definition is_alnum :: "char \<Rightarrow> bool" where
  "is_alnum c \<longleftrightarrow> is_lower c \<or> is_digit c"

definition regexDCRackName :: "string \<Rightarrow> bool" where
  "regexDCRackName s =
     (case s of [] \<Rightarrow> False
      | c # cs \<Rightarrow> is_lower c \<and>
          (cs = [] \<or> list_all (\<lambda>x. x = CHR ''-'' \<or> is_alnum x) (butlast cs) \<and> is_alnum (last cs)))"

definition GetDCRackName :: "string \<Rightarrow> string \<Rightarrow> string" where
  "GetDCRackName dcName rackName =
     (let dcRackName = dcName @ ''-'' @ rackName
      in if regexDCRackName dcRackName then dcRackName else '''')"

definition GetDCNameAndRackNameFromDCRackName :: "string \<Rightarrow> (string \<times> string) option" where
  "GetDCNameAndRackNameFromDCRackName dcRackName =
     (let dc = split_on CHR ''-'' dcRackName in
      do { a \<leftarrow> index dc 0; b \<leftarrow> index dc 1; Some (a, b) })"

definition GetDCNameFromDCRackName :: "string \<Rightarrow> string option" where
  "GetDCNameFromDCRackName dcRackName =
     map_option fst (GetDCNameAndRackNameFromDCRackName dcRackName)"

section \<open>Lookups over the topology\<close>

definition rack_at :: "CassandraCluster \<Rightarrow> nat \<Rightarrow> nat \<Rightarrow> string" where
  "rack_at cc dc rack = GetDCRackName (GetDCName cc dc) (GetRackName cc dc rack)"

fun dcRackNames_loop :: "CassandraCluster \<Rightarrow> nat list \<Rightarrow> string list \<Rightarrow> string list" where
  "dcRackNames_loop cc [] acc = acc"
| "dcRackNames_loop cc (dc # dcs) acc =
     (if GetRackSize cc dc < 1 then acc
      else dcRackNames_loop cc dcs (acc @ map (rack_at cc dc) [0..<GetRackSize cc dc]))"

definition GetDCRackNames :: "CassandraCluster \<Rightarrow> string list" where
  "GetDCRackNames cc = dcRackNames_loop cc [0..<GetDCSize cc] []"

fun nodesPerRacks_loop :: "CassandraCluster \<Rightarrow> string \<Rightarrow> nat list \<Rightarrow> int" where
  "nodesPerRacks_loop cc dcRackName [] = spec_NodesPerRacks (cc_Spec cc)"
| "nodesPerRacks_loop cc dcRackName (dc # dcs) =
     (if GetRackSize cc dc < 1 then spec_NodesPerRacks (cc_Spec cc)
      else if \<exists>rack \<in> set [0..<GetRackSize cc dc]. dcRackName = rack_at cc dc rack
      then getDCNodesPerRacksFromIndex cc dc
      else nodesPerRacks_loop cc dcRackName dcs)"

definition GetDCNodesPerRacksFromDCRackName :: "CassandraCluster \<Rightarrow> string \<Rightarrow> int" where
  "GetDCNodesPerRacksFromDCRackName cc dcRackName =
     nodesPerRacks_loop cc dcRackName [0..<GetDCSize cc]"

definition GetNodesPerRacks :: "CassandraCluster \<Rightarrow> string \<Rightarrow> int" where
  "GetNodesPerRacks cc dcRackName = GetDCNodesPerRacksFromDCRackName cc dcRackName"

fun rollingPartition_loop :: "CassandraCluster \<Rightarrow> string \<Rightarrow> nat list \<Rightarrow> int" where
  "rollingPartition_loop cc dcRackName [] = 0"
| "rollingPartition_loop cc dcRackName (dc # dcs) =
     (if GetRackSize cc dc < 1 then 0
      else case find (\<lambda>rack. dcRackName = rack_at cc dc rack) [0..<GetRackSize cc dc] of
             Some rack \<Rightarrow> rack_RollingPartition (dc_Rack (cc_DCs cc ! dc) ! rack)
           | None \<Rightarrow> rollingPartition_loop cc dcRackName dcs)"

definition GetRollingPartitionPerRacks :: "CassandraCluster \<Rightarrow> string \<Rightarrow> int" where
  "GetRollingPartitionPerRacks cc dcRackName = rollingPartition_loop cc dcRackName [0..<GetDCSize cc]"

definition GetDCIndexFromDCName :: "CassandraCluster \<Rightarrow> string \<Rightarrow> int" where
  "GetDCIndexFromDCName cc dcName =
     (case find (\<lambda>dc. dcName = GetDCName cc dc) [0..<GetDCSize cc] of
        Some dc \<Rightarrow> int dc | None \<Rightarrow> -1)"

text \<open>The result is a pointer: Some None is nil; an index below 0 is out of range and panics.\<close>

definition getDCFromIndex :: "CassandraCluster \<Rightarrow> int \<Rightarrow> DC option option" where
  "getDCFromIndex cc dc =
     (if dc \<ge> int (GetDCSize cc) then Some None else map_option Some (index (cc_DCs cc) dc))"

definition GetDCFromDCRackName :: "CassandraCluster \<Rightarrow> string \<Rightarrow> DC option option" where
  "GetDCFromDCRackName cc dcRackName =
     do { dcName \<leftarrow> GetDCNameFromDCRackName dcRackName;
          getDCFromIndex cc (GetDCIndexFromDCName cc dcName) }"

definition GetRackFromDCRackName :: "CassandraCluster \<Rightarrow> string \<Rightarrow> Rack option option" where
  "GetRackFromDCRackName cc dcRackName =
     do { (_, rackName) \<leftarrow> GetDCNameAndRackNameFromDCRackName dcRackName;
          dcp \<leftarrow> GetDCFromDCRackName cc dcRackName;
          dc \<leftarrow> dcp;
          Some (find (\<lambda>rack. rack_Name rack = rackName) (dc_Rack dc)) }"

definition GetDCNodesPerRacksFromName :: "CassandraCluster \<Rightarrow> string \<Rightarrow> bool \<times> int" where
  "GetDCNodesPerRacksFromName cc dctarget =
     (if GetDCSize cc < 1 then (False, spec_NodesPerRacks (cc_Spec cc))
      else case find (\<lambda>dc. dctarget = GetDCName cc dc) [0..<GetDCSize cc] of
             Some dc \<Rightarrow> (True, getDCNodesPerRacksFromIndex cc dc)
           | None \<Rightarrow> (False, spec_NodesPerRacks (cc_Spec cc)))"

definition FindDCWithNodesTo0 :: "CassandraCluster \<Rightarrow> bool \<times> string \<times> nat" where
  "FindDCWithNodesTo0 cc =
     (case find (\<lambda>dc. getDCNodesPerRacksFromIndex cc dc = 0) [0..<GetDCSize cc] of
        Some dc \<Rightarrow> (True, GetDCName cc dc, dc)
      | None \<Rightarrow> (False, '''', 0))"

definition IsValidDC :: "CassandraCluster \<Rightarrow> string \<Rightarrow> bool" where
  "IsValidDC cc dcName = list_ex (\<lambda>dc. dc_Name dc = dcName) (cc_DCs cc)"

fun removedDC_loop :: "CassandraCluster \<Rightarrow> CassandraCluster \<Rightarrow> nat list \<Rightarrow> string" where
  "removedDC_loop cc oldCRD [] = ''''"
| "removedDC_loop cc oldCRD (dc # dcs) =
     (if GetDCName oldCRD dc \<noteq> GetDCName cc dc then GetDCName oldCRD dc
      else removedDC_loop cc oldCRD dcs)"

definition GetRemovedDCName :: "CassandraCluster \<Rightarrow> CassandraCluster \<Rightarrow> string" where
  "GetRemovedDCName cc oldCRD = removedDC_loop cc oldCRD [0..<GetDCSize oldCRD]"

text \<open>DCSlice.Remove and RackSlice.Remove; the slice expressions panic beyond the length.\<close>

definition Slice_Remove :: "'a list \<Rightarrow> nat \<Rightarrow> 'a list option" where
  "Slice_Remove xs idx =
     (if idx + 1 \<le> length xs then Some (take idx xs @ drop (idx + 1) xs) else panic)"

section \<open>Capacities and storage classes\<close>

definition GetDataCapacityFromDCName :: "CassandraCluster \<Rightarrow> string \<Rightarrow> string" where
  "GetDataCapacityFromDCName cc dcName =
     (let dcIndex = GetDCIndexFromDCName cc dcName
      in if dcIndex \<ge> 0
         then case getDCFromIndex cc dcIndex of
                Some (Some dc) \<Rightarrow>
                  if dc_DataCapacity dc \<noteq> '''' then dc_DataCapacity dc
                  else spec_DataCapacity (cc_Spec cc)
              | _ \<Rightarrow> spec_DataCapacity (cc_Spec cc)
         else spec_DataCapacity (cc_Spec cc))"

definition GetDataStorageClassFromDCName :: "CassandraCluster \<Rightarrow> string \<Rightarrow> string" where
  "GetDataStorageClassFromDCName cc dcName =
     (let dcIndex = GetDCIndexFromDCName cc dcName
      in if dcIndex \<ge> 0
         then case getDCFromIndex cc dcIndex of
                Some (Some dc) \<Rightarrow>
                  if dc_DataCapacity dc \<noteq> '''' then dc_DataStorageClass dc
                  else spec_DataStorageClass (cc_Spec cc)
              | _ \<Rightarrow> spec_DataStorageClass (cc_Spec cc)
         else spec_DataStorageClass (cc_Spec cc))"

section \<open>The seed list\<close>

definition addNewSeed ::
  "CassandraCluster \<Rightarrow> string slice \<Rightarrow> string \<Rightarrow> string \<Rightarrow> int \<Rightarrow> string slice" where
  "addNewSeed cc seedList dcName rackName indice =
     append_slice seedList
       (cc_Name cc @ ''-'' @ GetDCRackName dcName rackName @ ''-'' @ itoa indice @ ''.'' @
        cc_Name cc @ ''.'' @ cc_Namespace cc)"

text \<open>
  The loop of a DC without racks: the index runs while it is below the number of nodes and 3.
\<close>

function seeds_default ::
  "CassandraCluster \<Rightarrow> string \<Rightarrow> string \<Rightarrow> int \<Rightarrow> string slice \<Rightarrow> string slice" where
  "seeds_default cc dcName rackName indice seedList =
     (if indice < spec_NodesPerRacks (cc_Spec cc) \<and> indice < 3
      then seeds_default cc dcName rackName (indice + 1)
             (addNewSeed cc seedList dcName rackName indice)
      else seedList)"
  by pat_completeness auto
termination
  by (relation "measure (\<lambda>(_, _, _, i, _). nat (3 - i))") auto

text \<open>The loop of one rack of a DC with one or two racks.\<close>

function seeds_rack ::
  "CassandraCluster \<Rightarrow> string \<Rightarrow> string \<Rightarrow> int \<Rightarrow> nat \<Rightarrow> int \<Rightarrow> nat \<times> string slice
     \<Rightarrow> nat \<times> string slice" where
  "seeds_rack cc dcName rackName nodesPerRacks racksize indice (nbSeedInDC, seedList) =
     (if indice < nodesPerRacks \<and> indice < int32 (4 - int racksize) \<and> nbSeedInDC < 3
      then seeds_rack cc dcName rackName nodesPerRacks racksize (indice + 1)
             (nbSeedInDC + 1, addNewSeed cc seedList dcName rackName indice)
      else (nbSeedInDC, seedList))"
  by pat_completeness auto
termination
  by (relation "measure (\<lambda>(_, _, _, n, _, i, _). nat (n - i))") auto

declare seeds_default.simps [simp del] seeds_rack.simps [simp del]

definition seeds_rack_step ::
  "CassandraCluster \<Rightarrow> nat \<Rightarrow> nat \<times> string slice \<Rightarrow> nat \<Rightarrow> nat \<times> string slice" where
  "seeds_rack_step cc dc acc rack =
     (let dcName = GetDCName cc dc; racksize = GetRackSize cc dc;
          rackName = GetRackName cc dc rack;
          nodesPerRacks = GetNodesPerRacks cc (GetDCRackName dcName rackName)
      in if racksize = 1 \<or> racksize = 2
         then seeds_rack cc dcName rackName nodesPerRacks racksize 0 acc
         else if fst acc < 3
         then (fst acc + 1, addNewSeed cc (snd acc) dcName rackName 0)
         else acc)"

definition seeds_dc :: "CassandraCluster \<Rightarrow> string slice \<Rightarrow> nat \<Rightarrow> string slice" where
  "seeds_dc cc seedList dc =
     (if GetRackSize cc dc < 1
      then seeds_default cc (GetDCName cc dc) DefaultCassandraRack 0 seedList
      else snd (foldl (seeds_rack_step cc dc) (0, seedList) [0..<GetRackSize cc dc]))"

definition InitSeedList :: "CassandraCluster \<Rightarrow> string slice" where
  "InitSeedList cc =
     (if GetDCSize cc < 1
      then seeds_default cc DefaultCassandraDC DefaultCassandraRack 0 None
      else foldl (seeds_dc cc) None [0..<GetDCSize cc])"

definition SeedList :: "string slice \<Rightarrow> string" where
  "SeedList seedListTab = join '','' (items seedListTab)"

definition IsPodInSeedList :: "CassandraCluster \<Rightarrow> string \<Rightarrow> bool" where
  "IsPodInSeedList cc podName = list_ex (\<lambda>s. s = podName) (items (cs_SeedList (cc_Status cc)))"

section \<open>The rack list of the status\<close>

definition initial_rack_status :: CassandraRackStatus where
  "initial_rack_status = \<lparr>rs_Phase = state_Name ClusterPhaseInitial,
     rs_CassandraLastAction = no_action\<lparr>la_Name := state_Name ClusterPhaseInitial,
                                       la_Status := StatusOngoing\<rparr>,
     rs_PodLastOperation = no_operation,
     rs_StatefulSetSnapshotBeforeStorageResize = ''''\<rparr>"

definition InitCassandraRackStatus ::
  "CassandraClusterStatus \<Rightarrow> string \<Rightarrow> string \<Rightarrow> CassandraClusterStatus" where
  "InitCassandraRackStatus status dcName rackName =
     status\<lparr>cs_CassandraRackStatus :=
       (cs_CassandraRackStatus status)(GetDCRackName dcName rackName \<mapsto> initial_rack_status)\<rparr>"

definition set_topology :: "Topology \<Rightarrow> CassandraCluster \<Rightarrow> CassandraCluster" where
  "set_topology t cc = cc\<lparr>cc_Spec := (cc_Spec cc)\<lparr>spec_Topology := t\<rparr>\<rparr>"

definition initTopology :: "CassandraCluster \<Rightarrow> string \<Rightarrow> string \<Rightarrow> CassandraCluster" where
  "initTopology cc dcName rackName =
     set_topology \<lparr>top_DC = [zero_dc dcName [zero_rack rackName]]\<rparr> cc"

definition init_rack :: "CassandraCluster \<Rightarrow> string \<Rightarrow> string \<Rightarrow> CassandraCluster" where
  "init_rack cc dcName rackName =
     cc\<lparr>cc_Status := InitCassandraRackStatus (cc_Status cc) dcName rackName\<rparr>"

definition init_dc :: "nat \<times> CassandraCluster \<Rightarrow> nat \<Rightarrow> nat \<times> CassandraCluster" where
  "init_dc acc dc =
     (let cc = snd acc; dcName = GetDCName cc dc in
      if GetRackSize cc dc < 1
      then (fst acc + 1,
            initTopology (init_rack cc dcName DefaultCassandraRack) dcName DefaultCassandraRack)
      else foldl (\<lambda>(nb, cc) rack. (nb + 1, init_rack cc dcName (GetRackName cc dc rack)))
             acc [0..<GetRackSize cc dc])"

definition InitCassandraRackList :: "CassandraCluster \<Rightarrow> nat \<times> CassandraCluster" where
  "InitCassandraRackList cc0 =
     (let cc = cc0\<lparr>cc_Status := (cc_Status cc0)\<lparr>cs_CassandraRackStatus := Map.empty\<rparr>\<rparr> in
      if GetDCSize cc < 1
      then (1, initTopology (init_rack cc DefaultCassandraDC DefaultCassandraRack)
                 DefaultCassandraDC DefaultCassandraRack)
      else foldl init_dc (0, cc) [0..<GetDCSize cc])"

text \<open>
  The loop over the map of the status runs in an order Go leaves open: the order is an argument,
  any enumeration of the keys.
\<close>

definition FixCassandraRackList ::
  "CassandraCluster \<Rightarrow> string list \<Rightarrow> CassandraClusterStatus
     \<Rightarrow> string list \<times> CassandraClusterStatus" where
  "FixCassandraRackList cc order status =
     (let newcc = snd (InitCassandraRackList cc) in
      foldl (\<lambda>(rackList, status) dcRackName.
               if cc_RackStatus newcc dcRackName = None
               then (rackList @ [dcRackName],
                     status\<lparr>cs_CassandraRackStatus :=
                       (cs_CassandraRackStatus status)(dcRackName := None)\<rparr>)
               else (rackList, status))
        ([], status) order)"

section \<open>Defaults\<close>

abbreviation dflt :: "string \<Rightarrow> string \<Rightarrow> string" where
  "dflt d s \<equiv> (if length s = 0 then d else s)"

abbreviation dflt_ptr :: "'a \<Rightarrow> 'a option \<Rightarrow> 'a option" where
  "dflt_ptr d p \<equiv> (case p of None \<Rightarrow> Some d | Some x \<Rightarrow> Some x)"

definition default_backrest :: "BackRestSidecar option \<Rightarrow> BackRestSidecar option" where
  "default_backrest b =
     (case b of
        None \<Rightarrow> Some \<lparr>br_Enabled = Some True, br_Image = DefaultBackRestImage,
                     br_ImagePullPolicy = '''', br_Resources = None, br_VolumeMounts = []\<rparr>
      | Some s \<Rightarrow> Some (s\<lparr>br_Enabled := dflt_ptr True (br_Enabled s),
                        br_Image := (if br_Image s = '''' then DefaultBackRestImage
                                     else br_Image s)\<rparr>))"

definition default_spec :: "CassandraClusterSpec \<Rightarrow> CassandraClusterSpec" where
  "default_spec ccs = ccs\<lparr>
     spec_CassandraImage := dflt defaultCassandraImage (spec_CassandraImage ccs),
     spec_ImagePullPolicy := dflt defaultImagePullPolicy (spec_ImagePullPolicy ccs),
     spec_BootstrapImage := dflt defaultBootstrapImage (spec_BootstrapImage ccs),
     spec_ConfigBuilderImage := dflt defaultConfigBuilderImage (spec_ConfigBuilderImage ccs),
     spec_ServiceAccountName := dflt defaultServiceAccountName (spec_ServiceAccountName ccs),
     spec_ReadOnlyRootFilesystem := dflt_ptr True (spec_ReadOnlyRootFilesystem ccs),
     spec_LivenessInitialDelaySeconds :=
       dflt_ptr DefaultLivenessInitialDelaySeconds (spec_LivenessInitialDelaySeconds ccs),
     spec_LivenessHealthCheckTimeout :=
       dflt_ptr DefaultLivenessHealthCheckTimeout (spec_LivenessHealthCheckTimeout ccs),
     spec_LivenessHealthCheckPeriod :=
       dflt_ptr DefaultLivenessHealthCheckPeriod (spec_LivenessHealthCheckPeriod ccs),
     spec_ReadinessInitialDelaySeconds :=
       dflt_ptr DefaultReadinessInitialDelaySeconds (spec_ReadinessInitialDelaySeconds ccs),
     spec_ReadinessHealthCheckTimeout :=
       dflt_ptr DefaultReadinessHealthCheckTimeout (spec_ReadinessHealthCheckTimeout ccs),
     spec_ReadinessHealthCheckPeriod :=
       dflt_ptr DefaultReadinessHealthCheckPeriod (spec_ReadinessHealthCheckPeriod ccs),
     spec_BackRestSidecar := default_backrest (spec_BackRestSidecar ccs)\<rparr>"

definition CheckDefaults :: "CassandraCluster \<Rightarrow> CassandraCluster" where
  "CheckDefaults cc = cc\<lparr>cc_Spec := default_spec (cc_Spec cc)\<rparr>"

definition SetDefaults :: "CassandraCluster \<Rightarrow> bool \<times> CassandraCluster" where
  "SetDefaults cc0 =
     (let (changed, cc) =
            (if spec_NodesPerRacks (cc_Spec cc0) = 0
             then (True, cc0\<lparr>cc_Spec := (cc_Spec cc0)\<lparr>spec_NodesPerRacks := 1\<rparr>\<rparr>)
             else (False, cc0));
          (changed, cc) =
            (if length (cs_Phase (cc_Status cc)) = 0
             then let cc = cc\<lparr>cc_Status := (cc_Status cc)\<lparr>cs_Phase := state_Name ClusterPhaseInitial\<rparr>\<rparr>;
                      cc = snd (InitCassandraRackList cc);
                      cc = (if cs_SeedList (cc_Status cc) = None
                            then cc\<lparr>cc_Status := (cc_Status cc)\<lparr>cs_SeedList := InitSeedList cc\<rparr>\<rparr>
                            else cc)
                  in (True, cc)
             else (changed, cc));
          (changed, cc) =
            (if spec_MaxPodUnavailable (cc_Spec cc) = 0
             then (True, cc\<lparr>cc_Spec := (cc_Spec cc)\<lparr>spec_MaxPodUnavailable := defaultMaxPodUnavailable\<rparr>\<rparr>)
             else (changed, cc))
      in if res_Limits (spec_Resources (cc_Spec cc)) = None
         then (True, cc\<lparr>cc_Spec := (cc_Spec cc)\<lparr>spec_Resources := (spec_Resources (cc_Spec cc))
                       \<lparr>res_Limits := res_Requests (spec_Resources (cc_Spec cc))\<rparr>\<rparr>\<rparr>)
         else (changed, cc))"

text \<open>
  ComputeLastAppliedConfiguration serialises the object without its status, annotations and
  resource version; the serialisation (encoding/json over the Kubernetes types' own encoders) is
  an argument.
\<close>

definition last_applied_view :: "CassandraCluster \<Rightarrow> CassandraCluster" where
  "last_applied_view cc =
     cc\<lparr>cc_Meta := (cc_Meta cc)\<lparr>meta_Annotations := Map.empty, meta_ResourceVersion := ''''\<rparr>,
        cc_Status := zero_status\<rparr>"

definition ComputeLastAppliedConfiguration ::
  "(CassandraCluster \<Rightarrow> error + string) \<Rightarrow> CassandraCluster \<Rightarrow> error + string" where
  "ComputeLastAppliedConfiguration marshal cc = marshal (last_applied_view cc)"

section \<open>Names of racks\<close>

text \<open>
  The interface of the rack names: an encoding of a DC and a rack into the key of the status map
  (and into object names), and its decoding.  What the users of the names rely on is proved once
  from the law that decoding inverts encoding on valid names.
\<close>

locale rack_codec =
  fixes enc :: "'a \<Rightarrow> 'b \<Rightarrow> 'k"
    and dec :: "'k \<Rightarrow> ('a \<times> 'b) option"
    and valid :: "'a \<Rightarrow> 'b \<Rightarrow> bool"
  assumes dec_enc: "valid a b \<Longrightarrow> dec (enc a b) = Some (a, b)"
begin

lemma enc_inject:
  "valid a b \<Longrightarrow> valid c d \<Longrightarrow> enc a b = enc c d \<longleftrightarrow> a = c \<and> b = d"
  using dec_enc by (metis option.inject prod.inject)

lemma enc_update_other:
  "valid a b \<Longrightarrow> valid c d \<Longrightarrow> (a, b) \<noteq> (c, d) \<Longrightarrow> (m(enc a b := v)) (enc c d) = m (enc c d)"
  by (auto simp: enc_inject)

lemma enc_inj_on:
  "inj_on (\<lambda>(a, b). enc a b) {(a, b). valid a b}"
  by (auto simp: inj_on_def enc_inject)

end

text \<open>The validation pattern of the two names in the custom resource is "^[^-]+$".\<close>

definition no_dash :: "string \<Rightarrow> bool" where
  "no_dash s \<longleftrightarrow> s \<noteq> [] \<and> CHR ''-'' \<notin> set s"

definition valid_rack_name :: "string \<Rightarrow> string \<Rightarrow> bool" where
  "valid_rack_name dcName rackName \<longleftrightarrow>
     no_dash dcName \<and> no_dash rackName \<and> regexDCRackName (dcName @ ''-'' @ rackName)"

lemma split_two:
  "c \<notin> set a \<Longrightarrow> c \<notin> set b \<Longrightarrow> split_on c (a @ c # b) = [a, b]"
  by (simp add: split_on_append split_on_free)

lemma GetDCRackName_valid [simp]:
  "valid_rack_name a b \<Longrightarrow> GetDCRackName a b = a @ ''-'' @ b"
  by (simp add: GetDCRackName_def valid_rack_name_def)

lemma GetDCRackName_eq_Nil:
  "GetDCRackName a b = [] \<longleftrightarrow> \<not> regexDCRackName (a @ ''-'' @ b)"
  by (simp add: GetDCRackName_def Let_def)

lemma decode_rack_name:
  "valid_rack_name a b \<Longrightarrow> GetDCNameAndRackNameFromDCRackName (GetDCRackName a b) = Some (a, b)"
  by (simp add: GetDCNameAndRackNameFromDCRackName_def split_two valid_rack_name_def
      GetDCRackName_def no_dash_def index_def)

interpretation rack_name: rack_codec GetDCRackName GetDCNameAndRackNameFromDCRackName valid_rack_name
  by unfold_locales (rule decode_rack_name)

lemma decode_no_dash:
  "CHR ''-'' \<notin> set s \<Longrightarrow> GetDCNameAndRackNameFromDCRackName s = None"
  by (simp add: GetDCNameAndRackNameFromDCRackName_def split_on_free index_def)

section \<open>Well-formed topologies\<close>

definition wf_dc :: "DC \<Rightarrow> bool" where
  "wf_dc dc \<longleftrightarrow> dc_Rack dc \<noteq> [] \<and> list_all (\<lambda>r. valid_rack_name (dc_Name dc) (rack_Name r)) (dc_Rack dc) \<and>
     distinct (map rack_Name (dc_Rack dc))"

definition wf_topology :: "CassandraCluster \<Rightarrow> bool" where
  "wf_topology cc \<longleftrightarrow> list_all wf_dc (cc_DCs cc) \<and> distinct (map dc_Name (cc_DCs cc))"

lemma wf_topology_dc:
  "wf_topology cc \<Longrightarrow> dc < GetDCSize cc \<Longrightarrow> wf_dc (cc_DCs cc ! dc)"
  by (simp add: wf_topology_def GetDCSize_def list_all_length)

lemma wf_GetRackSize:
  "wf_topology cc \<Longrightarrow> dc < GetDCSize cc \<Longrightarrow> GetRackSize cc dc > 0"
  using wf_topology_dc [of cc dc] by (simp add: GetRackSize_def wf_dc_def)

lemma GetRackSize_pos_less:
  "rack < GetRackSize cc dc \<Longrightarrow> dc < GetDCSize cc"
  by (auto simp: GetRackSize_def split: if_splits)

lemma wf_rack_valid:
  assumes "wf_topology cc" and "rack < GetRackSize cc dc"
  shows "valid_rack_name (GetDCName cc dc) (GetRackName cc dc rack)"
  using assms wf_topology_dc [of cc dc] GetRackSize_pos_less [of rack cc dc]
  by (auto simp: GetDCName_def GetRackName_def GetRackSize_def wf_dc_def list_all_length)

lemma wf_GetDCName_inject:
  assumes "wf_topology cc" and "i < GetDCSize cc" and "j < GetDCSize cc"
  shows "GetDCName cc i = GetDCName cc j \<longleftrightarrow> i = j"
  using assms by (auto simp: wf_topology_def GetDCName_def GetDCSize_def distinct_conv_nth)

lemma wf_GetRackName_inject:
  assumes "wf_topology cc" and "r < GetRackSize cc dc" and "s < GetRackSize cc dc"
  shows "GetRackName cc dc r = GetRackName cc dc s \<longleftrightarrow> r = s"
  using assms wf_topology_dc [of cc dc] GetRackSize_pos_less [of r cc dc]
  by (auto simp: GetRackName_def GetRackSize_def wf_dc_def distinct_conv_nth)

lemma wf_rack_at_inject:
  assumes "wf_topology cc" and "r < GetRackSize cc i" and "s < GetRackSize cc j"
  shows "rack_at cc i r = rack_at cc j s \<longleftrightarrow> i = j \<and> r = s"
  using assms wf_rack_valid [of cc r i] wf_rack_valid [of cc s j]
    GetRackSize_pos_less [of r cc i] GetRackSize_pos_less [of s cc j]
  unfolding rack_at_def
  by (auto simp del: GetDCRackName_valid
      simp: rack_name.enc_inject wf_GetDCName_inject wf_GetRackName_inject)

lemma wf_rack_at_not_Nil:
  "wf_topology cc \<Longrightarrow> rack < GetRackSize cc dc \<Longrightarrow> rack_at cc dc rack \<noteq> []"
  using wf_rack_valid [of cc rack dc] by (auto simp: rack_at_def)

lemma nodesPerRacks_loop_wf:
  assumes "wf_topology cc" and "rack < GetRackSize cc dc"
    and "dc \<in> set dcs" and "set dcs \<subseteq> {0..<GetDCSize cc}"
  shows "nodesPerRacks_loop cc (rack_at cc dc rack) dcs = getDCNodesPerRacksFromIndex cc dc"
  using assms(3,4)
proof (induction dcs)
  case (Cons d dcs)
  have "GetRackSize cc d > 0" using Cons.prems assms(1) by (intro wf_GetRackSize) auto
  moreover have "(\<exists>r \<in> set [0..<GetRackSize cc d]. rack_at cc dc rack = rack_at cc d r) \<longleftrightarrow> d = dc"
    using assms by (auto simp: wf_rack_at_inject)
  ultimately show ?case using Cons by auto
qed simp

lemma GetNodesPerRacks_wf:
  "wf_topology cc \<Longrightarrow> rack < GetRackSize cc dc \<Longrightarrow>
     GetNodesPerRacks cc (rack_at cc dc rack) = getDCNodesPerRacksFromIndex cc dc"
  unfolding GetNodesPerRacks_def GetDCNodesPerRacksFromDCRackName_def
  using GetRackSize_pos_less by (intro nodesPerRacks_loop_wf) auto

section \<open>The seed list as a plan\<close>

definition seed_str :: "CassandraCluster \<Rightarrow> string \<Rightarrow> string \<Rightarrow> nat \<Rightarrow> string" where
  "seed_str cc dcName rackName i =
     cc_Name cc @ ''-'' @ GetDCRackName dcName rackName @ ''-'' @ itoa (int i) @ ''.'' @
     cc_Name cc @ ''.'' @ cc_Namespace cc"

lemma items_addNewSeed [simp]:
  "items (addNewSeed cc sl d r (int i)) = items sl @ [seed_str cc d r i]"
  by (simp add: addNewSeed_def seed_str_def)

lemma addNewSeed_0 [simp]:
  "items (addNewSeed cc sl d r 0) = items sl @ [seed_str cc d r 0]"
  using items_addNewSeed [of cc sl d r 0] by simp

lemma seeds_default_unfold:
  "seeds_default cc d r (int i) sl =
     (if int i < spec_NodesPerRacks (cc_Spec cc) \<and> i < 3
      then seeds_default cc d r (int (Suc i)) (addNewSeed cc sl d r (int i)) else sl)"
  by (subst seeds_default.simps) (simp add: add.commute)

lemma seeds_default_items:
  "items (seeds_default cc d r (int i) sl) =
     items sl @ map (seed_str cc d r) [i..<nat (min (spec_NodesPerRacks (cc_Spec cc)) 3)]"
proof (induction "3 - i" arbitrary: i sl)
  case 0
  then show ?case by (subst seeds_default_unfold) simp
next
  case (Suc k)
  have "k = 3 - Suc i" using Suc(2) by simp
  note IH = Suc(1) [OF this]
  show ?case
  proof (cases "int i < spec_NodesPerRacks (cc_Spec cc)")
    case True
    then have "i < nat (min (spec_NodesPerRacks (cc_Spec cc)) 3)" using Suc(2) by simp
    note upt = upt_conv_Cons [OF this]
    have "i < 3" using Suc(2) by simp
    with True have "seeds_default cc d r (int i) sl =
        seeds_default cc d r (int (Suc i)) (addNewSeed cc sl d r (int i))"
      by (subst seeds_default_unfold) simp
    then show ?thesis by (simp only: IH upt) simp
  next
    case False
    then show ?thesis by (subst seeds_default_unfold) simp
  qed
qed

lemma seeds_rack_unfold:
  assumes "racksize = 1 \<or> racksize = 2"
  shows "seeds_rack cc d r n racksize (int i) (nb, sl) =
     (if int i < n \<and> i < 4 - racksize \<and> nb < 3
      then seeds_rack cc d r n racksize (int (Suc i)) (Suc nb, addNewSeed cc sl d r (int i))
      else (nb, sl))"
  using assms by (subst seeds_rack.simps) (auto simp: add.commute is_int32_def)

lemma seeds_rack_result:
  assumes "racksize = 1 \<or> racksize = 2"
  shows "\<exists>sl'. seeds_rack cc d r n racksize (int i) (nb, sl) =
             (nb + min (nat n - i) (min (4 - racksize - i) (3 - nb)), sl') \<and>
           items sl' = items sl @ map (seed_str cc d r)
             [i..<i + min (nat n - i) (min (4 - racksize - i) (3 - nb))]"
  using assms
proof (induction "3 - nb" arbitrary: i nb sl)
  case 0
  then show ?case by (subst seeds_rack_unfold) simp_all
next
  case (Suc k)
  define m where "m = min (nat n - i) (min (4 - racksize - i) (3 - nb))"
  show ?case
  proof (cases "int i < n \<and> i < 4 - racksize \<and> nb < 3")
    case True
    define m' where "m' = min (nat n - Suc i) (min (4 - racksize - Suc i) (3 - Suc nb))"
    have "nat n - i = Suc (nat n - Suc i)" "4 - racksize - i = Suc (4 - racksize - Suc i)"
      "3 - nb = Suc (3 - Suc nb)" using True by linarith+
    then have m: "m = Suc m'"
      unfolding m_def m'_def by (simp only: min_Suc_Suc)
    have "k = 3 - Suc nb" using Suc.hyps(2) by simp
    from Suc.hyps(1) [OF this Suc.prems, of "Suc i" "addNewSeed cc sl d r (int i)"]
    obtain sl' where "seeds_rack cc d r n racksize (int (Suc i)) (Suc nb, addNewSeed cc sl d r (int i))
        = (Suc nb + m', sl')" and
      "items sl' = items (addNewSeed cc sl d r (int i)) @ map (seed_str cc d r) [Suc i..<Suc i + m']"
      unfolding m'_def by blast
    moreover have "[i..<i + Suc m'] = i # [Suc i..<Suc i + m']"
      using upt_conv_Cons [of i "i + Suc m'"] by simp
    moreover from True have "seeds_rack cc d r n racksize (int i) (nb, sl) =
        seeds_rack cc d r n racksize (int (Suc i)) (Suc nb, addNewSeed cc sl d r (int i))"
      by (subst seeds_rack_unfold [OF Suc.prems]) simp
    ultimately show ?thesis
      unfolding m_def [symmetric] m by simp
  next
    case False
    then have "nat n - i = 0 \<or> 4 - racksize - i = 0 \<or> 3 - nb = 0" by linarith
    then have "m = 0" unfolding m_def by auto
    then show ?thesis using False
      unfolding m_def [symmetric] by (subst seeds_rack_unfold [OF Suc.prems]) auto
  qed
qed

text \<open>
  The reference: a DC with one or two racks takes its seeds from the first nodes of each rack, a DC
  with more racks the first node of each of its first racks, and no DC has more than three.
\<close>

definition seed_plan :: "nat \<Rightarrow> nat \<Rightarrow> (nat \<times> nat) list" where
  "seed_plan racks nodes =
     take 3 (concat (map (\<lambda>r. map (Pair r) [0..<(if racks \<le> 2 then min nodes (4 - racks) else 1)])
                       [0..<racks]))"

definition dc_seeds :: "CassandraCluster \<Rightarrow> nat \<Rightarrow> string list" where
  "dc_seeds cc dc = map (\<lambda>(r, i). seed_str cc (GetDCName cc dc) (GetRackName cc dc r) i)
     (seed_plan (GetRackSize cc dc) (nat (getDCNodesPerRacksFromIndex cc dc)))"

lemma seeds_rack_step_small:
  assumes "wf_topology cc" and "rack < GetRackSize cc dc" and "GetRackSize cc dc = 1 \<or> GetRackSize cc dc = 2"
  shows "\<exists>sl'. seeds_rack_step cc dc (nb, sl) rack =
      (nb + min (nat (getDCNodesPerRacksFromIndex cc dc)) (min (4 - GetRackSize cc dc) (3 - nb)), sl') \<and>
    items sl' = items sl @ map (seed_str cc (GetDCName cc dc) (GetRackName cc dc rack))
      [0..<min (nat (getDCNodesPerRacksFromIndex cc dc)) (min (4 - GetRackSize cc dc) (3 - nb))]"
proof -
  have n: "GetNodesPerRacks cc (GetDCRackName (GetDCName cc dc) (GetRackName cc dc rack)) =
      getDCNodesPerRacksFromIndex cc dc"
    using GetNodesPerRacks_wf [OF assms(1,2)] by (simp add: rack_at_def)
  from seeds_rack_result [OF assms(3), of cc "GetDCName cc dc" "GetRackName cc dc rack"
      "getDCNodesPerRacksFromIndex cc dc" 0 nb sl]
  show ?thesis using assms(3) by (auto simp: seeds_rack_step_def Let_def n)
qed

lemma seeds_rack_step_large:
  assumes "GetRackSize cc dc > 2" and "k \<le> GetRackSize cc dc"
  shows "fst (foldl (seeds_rack_step cc dc) (0, sl) [0..<k]) = min 3 k \<and>
         items (snd (foldl (seeds_rack_step cc dc) (0, sl) [0..<k])) =
           items sl @ map (\<lambda>r. seed_str cc (GetDCName cc dc) (GetRackName cc dc r) 0) [0..<min 3 k]"
  using assms(2)
proof (induction k)
  case (Suc k)
  then show ?case using assms(1)
    by (cases "k < 3") (auto simp: seeds_rack_step_def Let_def min_absorb1 min_absorb2)
qed simp

lemma seed_plan_large:
  "racks > 2 \<Longrightarrow> seed_plan racks nodes = map (\<lambda>r. (r, 0)) [0..<min 3 racks]"
proof -
  assume a: "racks > 2"
  have "concat (map (\<lambda>r. map (Pair r) [0..<1::nat]) xs) = map (\<lambda>r. (r, 0)) xs" for xs :: "nat list"
    by (induction xs) auto
  then show ?thesis using a by (simp add: seed_plan_def take_map)
qed

lemma seed_plan_1:
  "seed_plan (Suc 0) nodes = map (Pair 0) [0..<min nodes 3]"
  by (simp add: seed_plan_def take_map)

lemma seed_plan_2:
  "seed_plan 2 nodes =
     map (Pair 0) [0..<min nodes 2] @ map (Pair 1) [0..<min nodes (min 2 (3 - min nodes 2))]"
proof -
  consider "nodes = 0" | "nodes = 1" | "nodes \<ge> 2" by linarith
  then show ?thesis
    by cases (simp_all add: seed_plan_def numeral_2_eq_2 numeral_3_eq_3 min_absorb2)
qed

lemma seeds_dc_items:
  assumes "wf_topology cc" and "dc < GetDCSize cc"
  shows "items (seeds_dc cc sl dc) = items sl @ dc_seeds cc dc"
proof -
  have pos: "GetRackSize cc dc > 0" using assms by (rule wf_GetRackSize)
  consider "GetRackSize cc dc = 1" | "GetRackSize cc dc = 2" | "GetRackSize cc dc > 2"
    using pos by linarith
  then show ?thesis
  proof cases
    case 1
    from seeds_rack_step_small [OF assms(1), of 0 dc 0 sl] 1 obtain sl' where
      "seeds_rack_step cc dc (0, sl) 0 = (min (nat (getDCNodesPerRacksFromIndex cc dc)) 3, sl')"
      "items sl' = items sl @ map (seed_str cc (GetDCName cc dc) (GetRackName cc dc 0))
        [0..<min (nat (getDCNodesPerRacksFromIndex cc dc)) 3]"
      by auto
    with 1 show ?thesis by (simp add: seeds_dc_def dc_seeds_def seed_plan_1)
  next
    case 2
    let ?n = "nat (getDCNodesPerRacksFromIndex cc dc)"
    from seeds_rack_step_small [OF assms(1), of 0 dc 0 sl] 2 obtain sl1 where
      1: "seeds_rack_step cc dc (0, sl) 0 = (min ?n 2, sl1)"
      "items sl1 = items sl @ map (seed_str cc (GetDCName cc dc) (GetRackName cc dc 0)) [0..<min ?n 2]"
      by auto
    from seeds_rack_step_small [OF assms(1), of 1 dc "min ?n 2" sl1] 2 obtain sl2 nb2 where
      "seeds_rack_step cc dc (min ?n 2, sl1) 1 = (nb2, sl2)"
      "items sl2 = items sl1 @ map (seed_str cc (GetDCName cc dc) (GetRackName cc dc 1))
         [0..<min ?n (min 2 (3 - min ?n 2))]"
      by auto
    moreover have "[0..<GetRackSize cc dc] = [0, 1]" using 2 by (simp add: upt_rec)
    ultimately show ?thesis using 1 2
      by (simp add: seeds_dc_def dc_seeds_def seed_plan_2 comp_def)
  next
    case 3
    then show ?thesis
      using seeds_rack_step_large [OF 3, of "GetRackSize cc dc" sl]
      by (simp add: seeds_dc_def dc_seeds_def seed_plan_large comp_def)
  qed
qed

lemma foldl_seeds_dc:
  assumes "wf_topology cc" and "set dcs \<subseteq> {0..<GetDCSize cc}"
  shows "items (foldl (seeds_dc cc) sl dcs) = items sl @ concat (map (dc_seeds cc) dcs)"
  using assms(2) by (induction dcs arbitrary: sl) (simp_all add: seeds_dc_items [OF assms(1)])

lemma length_seed_plan:
  "length (seed_plan racks nodes) = (if racks > 2 then 3 else min 3 (racks * nodes))"
proof -
  consider "racks = 0" | "racks = Suc 0" | "racks = 2" | "racks > 2" by linarith
  then show ?thesis
  proof cases
    case 3
    consider "nodes = 0" | "nodes = 1" | "nodes \<ge> 2" by linarith
    then show ?thesis using 3 by cases (simp_all add: seed_plan_2)
  qed (simp_all add: seed_plan_1 seed_plan_large seed_plan_def [of 0] min.commute)
qed

lemma distinct_seed_plan: "distinct (seed_plan racks nodes)"
  unfolding seed_plan_def
proof (rule distinct_take)
  show "distinct (concat (map (\<lambda>r. map (Pair r) [0..<k]) [0..<racks]))" for k :: nat
    by (induction racks) (auto simp: distinct_map inj_on_def)
qed

lemma seed_plan_rack:
  "(r, i) \<in> set (seed_plan racks nodes) \<Longrightarrow> r < racks"
  unfolding seed_plan_def by (auto dest!: in_set_takeD)

lemma seed_str_inject:
  assumes "valid_rack_name d r" and "valid_rack_name d' r'"
  shows "seed_str cc d r i = seed_str cc d' r' i' \<longleftrightarrow> d = d' \<and> r = r' \<and> i = i'"
proof -
  have "split_on CHR ''-'' (d @ ''-'' @ r @ ''-'' @ itoa_nat i) = [d, r, itoa_nat i]"
    if "valid_rack_name d r" for d r i
    using that by (simp add: valid_rack_name_def no_dash_def split_on_append split_on_free)
  then have "d @ ''-'' @ r @ ''-'' @ itoa_nat i = d' @ ''-'' @ r' @ ''-'' @ itoa_nat i' \<longleftrightarrow>
      d = d' \<and> r = r' \<and> i = i'"
    using assms by (metis itoa_nat_inject list.inject)
  moreover have "seed_str cc d r i = seed_str cc d' r' i' \<longleftrightarrow>
      d @ ''-'' @ r @ ''-'' @ itoa_nat i = d' @ ''-'' @ r' @ ''-'' @ itoa_nat i'"
  proof -
    have "seed_str cc d r i =
        (cc_Name cc @ ''-'') @ (d @ ''-'' @ r @ ''-'' @ itoa_nat i) @ ''.'' @ cc_Name cc @ ''.'' @ cc_Namespace cc"
      if "valid_rack_name d r" for d r i
      using that by (simp add: seed_str_def itoa_def)
    then show ?thesis using assms by (simp only: same_append_eq append_same_eq)
  qed
  ultimately show ?thesis by simp
qed

lemma distinct_concat_dc_seeds:
  assumes "wf_topology cc" and "n \<le> GetDCSize cc"
  shows "distinct (concat (map (dc_seeds cc) [0..<n]))"
  using assms(2)
proof (induction n)
  case (Suc n)
  have valid: "valid_rack_name (GetDCName cc dc) (GetRackName cc dc r)"
    if "(r, i) \<in> set (seed_plan (GetRackSize cc dc) k)" for dc r i k
    using that assms(1) by (auto intro: wf_rack_valid dest: seed_plan_rack)
  have "distinct (dc_seeds cc n)"
    unfolding dc_seeds_def distinct_map
    using valid seed_plan_rack assms(1)
    by (auto simp: distinct_seed_plan inj_on_def seed_str_inject wf_GetRackName_inject)
  moreover have disj: "x \<notin> set (dc_seeds cc n)" if "dc < n" "x \<in> set (dc_seeds cc dc)" for dc x
    using that Suc.prems valid assms(1)
    by (auto simp: dc_seeds_def seed_str_inject wf_GetDCName_inject)
  ultimately show ?case using Suc by (auto dest: disj)
qed simp

section \<open>The rack list\<close>

lemma init_rack_simps [simp]:
  "cc_Spec (init_rack cc d r) = cc_Spec cc"
  "cc_RackStatus (init_rack cc d r) = (cc_RackStatus cc)(GetDCRackName d r \<mapsto> initial_rack_status)"
  by (simp_all add: init_rack_def InitCassandraRackStatus_def)

lemma GetRackName_cong:
  "cc_Spec cc = cc_Spec cc' \<Longrightarrow> GetRackName cc = GetRackName cc'"
  "cc_Spec cc = cc_Spec cc' \<Longrightarrow> GetDCName cc = GetDCName cc'"
  "cc_Spec cc = cc_Spec cc' \<Longrightarrow> GetRackSize cc = GetRackSize cc'"
  "cc_Spec cc = cc_Spec cc' \<Longrightarrow> GetDCSize cc = GetDCSize cc'"
  by (auto simp: fun_eq_iff GetRackName_def GetDCName_def GetRackSize_def GetDCSize_def)

lemma init_dc_racks:
  "\<exists>cc'. foldl (\<lambda>(nb, cc) rack. (nb + 1, init_rack cc d (GetRackName cc dc rack))) (nb, cc) rs =
      (nb + length rs, cc') \<and> cc_Spec cc' = cc_Spec cc \<and>
    cc_RackStatus cc' = (\<lambda>k. if k \<in> (\<lambda>r. GetDCRackName d (GetRackName cc dc r)) ` set rs
                             then Some initial_rack_status else cc_RackStatus cc k)"
proof (induction rs arbitrary: nb cc)
  case (Cons r rs)
  let ?cc = "init_rack cc d (GetRackName cc dc r)"
  have "GetRackName ?cc = GetRackName cc" by (rule GetRackName_cong) simp
  with Cons [of "nb + 1" ?cc] show ?case by (auto simp: fun_eq_iff)
qed (simp add: fun_eq_iff)

lemma init_dc_result:
  assumes "GetRackSize cc dc > 0"
  shows "\<exists>cc'. init_dc (nb, cc) dc = (nb + GetRackSize cc dc, cc') \<and> cc_Spec cc' = cc_Spec cc \<and>
    cc_RackStatus cc' = (\<lambda>k. if k \<in> rack_at cc dc ` {0..<GetRackSize cc dc}
                             then Some initial_rack_status else cc_RackStatus cc k)"
  using assms init_dc_racks [of "GetDCName cc dc" dc nb cc "[0..<GetRackSize cc dc]"]
  by (simp add: init_dc_def Let_def rack_at_def)

lemma foldl_init_dc:
  assumes "\<forall>dc \<in> set dcs. GetRackSize cc dc > 0"
  shows "\<exists>cc'. foldl init_dc (nb, cc) dcs = (nb + sum_list (map (GetRackSize cc) dcs), cc') \<and>
    cc_Spec cc' = cc_Spec cc \<and>
    cc_RackStatus cc' = (\<lambda>k. if \<exists>dc \<in> set dcs. k \<in> rack_at cc dc ` {0..<GetRackSize cc dc}
                             then Some initial_rack_status else cc_RackStatus cc k)"
  using assms
proof (induction dcs arbitrary: nb cc)
  case (Cons dc dcs)
  from init_dc_result [of cc dc nb] Cons.prems obtain cc1 where
    1: "init_dc (nb, cc) dc = (nb + GetRackSize cc dc, cc1)" "cc_Spec cc1 = cc_Spec cc"
    "cc_RackStatus cc1 = (\<lambda>k. if k \<in> rack_at cc dc ` {0..<GetRackSize cc dc}
                             then Some initial_rack_status else cc_RackStatus cc k)" by auto
  have same: "GetRackSize cc1 = GetRackSize cc" "rack_at cc1 = rack_at cc"
    using GetRackName_cong [OF 1(2)] by (auto simp: rack_at_def fun_eq_iff)
  from Cons.IH [of cc1 "nb + GetRackSize cc dc"] Cons.prems
  show ?case by (auto simp: 1 same fun_eq_iff add.assoc)
qed (simp add: fun_eq_iff)

lemma foldl_add_sum_list:
  "foldl (\<lambda>nb x. nb + f x) (n :: nat) xs = n + sum_list (map f xs)"
  by (induction xs arbitrary: n) auto

text \<open>
  For a well-formed topology, InitCassandraRackList counts the
  racks of the topology, leaves the spec alone, and gives the status exactly one initial entry for
  each rack of the topology.
\<close>

lemma InitCassandraRackList_complete:
  assumes "wf_topology cc" and "GetDCSize cc > 0"
  shows "fst (InitCassandraRackList cc) = GetDCRackSize cc \<and>
    cc_Spec (snd (InitCassandraRackList cc)) = cc_Spec cc \<and>
    (\<forall>k. cc_RackStatus (snd (InitCassandraRackList cc)) k =
       (if \<exists>dc rack. rack < GetRackSize cc dc \<and> k = rack_at cc dc rack
        then Some initial_rack_status else None))"
proof -
  let ?cc = "cc\<lparr>cc_Status := (cc_Status cc)\<lparr>cs_CassandraRackStatus := Map.empty\<rparr>\<rparr>"
  have same: "GetRackSize ?cc = GetRackSize cc" "rack_at ?cc = rack_at cc" "GetDCSize ?cc = GetDCSize cc"
    using GetRackName_cong [of ?cc cc] by (auto simp: rack_at_def fun_eq_iff)
  have "\<forall>dc \<in> set [0..<GetDCSize cc]. GetRackSize ?cc dc > 0"
    using assms wf_GetRackSize by (auto simp: same)
  note fold = foldl_init_dc [OF this, of 0]
  have "(\<exists>dc \<in> set [0..<GetDCSize cc]. k \<in> rack_at cc dc ` {0..<GetRackSize cc dc}) \<longleftrightarrow>
      (\<exists>dc rack. rack < GetRackSize cc dc \<and> k = rack_at cc dc rack)" for k
    using GetRackSize_pos_less by fastforce
  with fold show ?thesis using assms
    by (auto simp: InitCassandraRackList_def Let_def same GetDCRackSize_def foldl_add_sum_list
        simp del: set_upt) blast
qed

lemma initTopology_simps [simp]:
  "cc_DCs (initTopology cc d r) = [zero_dc d [zero_rack r]]"
  "cc_Status (initTopology cc d r) = cc_Status cc"
  by (simp_all add: initTopology_def set_topology_def)

lemma init_dc_beyond:
  assumes "dc \<ge> GetDCSize cc"
  shows "cc_DCs (snd (init_dc (nb, cc) dc)) = [zero_dc DefaultCassandraDC [zero_rack DefaultCassandraRack]]"
  using assms by (simp add: init_dc_def GetDCName_def GetRackSize_def Let_def)

lemma foldl_init_dc_beyond:
  assumes "GetDCSize cc = 1" and "dcs \<noteq> []" and "\<forall>dc \<in> set dcs. dc \<ge> 1"
  shows "cc_DCs (snd (foldl init_dc (nb, cc) dcs)) =
    [zero_dc DefaultCassandraDC [zero_rack DefaultCassandraRack]]"
  using assms
proof (induction dcs arbitrary: nb cc)
  case (Cons dc dcs)
  obtain nb' cc' where 1: "init_dc (nb, cc) dc = (nb', cc')" by (cases "init_dc (nb, cc) dc")
  then have 2: "cc_DCs cc' = [zero_dc DefaultCassandraDC [zero_rack DefaultCassandraRack]]"
    using init_dc_beyond [of cc dc nb] Cons.prems by simp
  then have "GetDCSize cc' = 1" by (simp add: GetDCSize_def)
  then show ?case using Cons.IH [of cc' nb'] Cons.prems 1 2 by (cases "dcs = []") auto
qed simp

text \<open>
  When the first of several DCs lists no rack, the topology of
  the spec is overwritten: whatever DCs it declared, it becomes the single default DC dc1 with the
  rack rack1.
\<close>

lemma InitCassandraRackList_rackless:
  assumes "GetDCSize cc \<ge> 2" and "GetRackSize cc 0 = 0"
  shows "cc_DCs (snd (InitCassandraRackList cc)) =
    [zero_dc DefaultCassandraDC [zero_rack DefaultCassandraRack]]"
proof -
  let ?cc = "cc\<lparr>cc_Status := (cc_Status cc)\<lparr>cs_CassandraRackStatus := Map.empty\<rparr>\<rparr>"
  have same: "GetRackSize ?cc = GetRackSize cc" "GetDCSize ?cc = GetDCSize cc"
    using GetRackName_cong [of ?cc cc] by auto
  obtain cc' where 1: "init_dc (0, ?cc) 0 = (1, cc')" "GetDCSize cc' = 1"
    using assms(2) by (simp add: init_dc_def same Let_def GetDCSize_def)
  have "[0..<GetDCSize cc] = 0 # [1..<GetDCSize cc]" using assms(1) by (simp add: upt_conv_Cons)
  then have "snd (InitCassandraRackList cc) = snd (foldl init_dc (1, cc') [1..<GetDCSize cc])"
    using assms(1) 1(1) by (simp add: InitCassandraRackList_def Let_def same)
  then show ?thesis using foldl_init_dc_beyond [OF 1(2), of "[1..<GetDCSize cc]" 1] assms(1) by auto
qed

lemma FixCassandraRackList_fold:
  "foldl (\<lambda>(rackList, status) k. if new k = None
            then (rackList @ [k], status\<lparr>cs_CassandraRackStatus := (cs_CassandraRackStatus status)(k := None)\<rparr>)
            else (rackList, status)) (acc, status) order =
   (acc @ filter (\<lambda>k. new k = None) order,
    status\<lparr>cs_CassandraRackStatus :=
      (\<lambda>k. if k \<in> set order \<and> new k = None then None else cs_CassandraRackStatus status k)\<rparr>)"
  by (induction order arbitrary: acc status) (auto simp: fun_eq_iff intro!: arg_cong [where f = "\<lambda>m. status\<lparr>cs_CassandraRackStatus := m\<rparr>" for status])

text \<open>
  In whatever order the map is visited, the racks reported are
  those of the status that the topology no longer yields, and exactly these are deleted from the
  status.
\<close>

lemma FixCassandraRackList_exact:
  assumes "set order = dom (cc_RackStatus cc)"
  shows "set (fst (FixCassandraRackList cc order status)) =
      dom (cc_RackStatus cc) - dom (cc_RackStatus (snd (InitCassandraRackList cc))) \<and>
    cs_CassandraRackStatus (snd (FixCassandraRackList cc order status)) =
      cs_CassandraRackStatus status |`
        (- (dom (cc_RackStatus cc) - dom (cc_RackStatus (snd (InitCassandraRackList cc)))))"
  unfolding FixCassandraRackList_def Let_def FixCassandraRackList_fold
  by (auto simp: assms fun_eq_iff restrict_map_def)

lemma GetDCIndexFromDCName_nth:
  assumes "distinct (map dc_Name (cc_DCs cc))" and "i < length (cc_DCs cc)"
  shows "GetDCIndexFromDCName cc (dc_Name (cc_DCs cc ! i)) = int i"
proof -
  have "find (\<lambda>dc. dc_Name (cc_DCs cc ! i) = GetDCName cc dc) [0..<GetDCSize cc] = Some i"
    unfolding find_Some_iff using assms
    by (intro exI [of _ i]) (auto simp: GetDCSize_def GetDCName_def distinct_conv_nth)
  then show ?thesis by (simp add: GetDCIndexFromDCName_def)
qed

lemma GetDCIndexFromDCName_unknown:
  assumes "d \<notin> dc_Name ` set (cc_DCs cc)"
  shows "GetDCIndexFromDCName cc d = -1"
proof -
  have "find (\<lambda>dc. d = GetDCName cc dc) [0..<GetDCSize cc] = None"
    unfolding find_None_iff using assms by (auto simp: GetDCSize_def GetDCName_def)
  then show ?thesis by (simp add: GetDCIndexFromDCName_def)
qed

lemma getDCFromIndex_nth:
  "i < length (cc_DCs cc) \<Longrightarrow> getDCFromIndex cc (int i) = Some (Some (cc_DCs cc ! i))"
  by (simp add: getDCFromIndex_def GetDCSize_def index_def)

text \<open>
  The capacity of a DC is the one it declares, and the one of the spec when it declares none or is unknown.
\<close>

lemma GetDataCapacity_own_or_global:
  assumes "distinct (map dc_Name (cc_DCs cc))"
  shows "GetDataCapacityFromDCName cc d =
    (case find (\<lambda>dc. dc_Name dc = d) (cc_DCs cc) of
       Some dc \<Rightarrow> if dc_DataCapacity dc = '''' then spec_DataCapacity (cc_Spec cc) else dc_DataCapacity dc
     | None \<Rightarrow> spec_DataCapacity (cc_Spec cc))"
proof (cases "find (\<lambda>dc. dc_Name dc = d) (cc_DCs cc)")
  case None
  then have "d \<notin> dc_Name ` set (cc_DCs cc)" by (auto simp: find_None_iff)
  then show ?thesis using None by (simp add: GetDataCapacityFromDCName_def GetDCIndexFromDCName_unknown)
next
  case (Some dc)
  then obtain i where i: "i < length (cc_DCs cc)" "dc = cc_DCs cc ! i" "dc_Name (cc_DCs cc ! i) = d"
    by (auto simp: find_Some_iff)
  then have "GetDCIndexFromDCName cc d = int i" using GetDCIndexFromDCName_nth [OF assms] by auto
  then show ?thesis using Some i by (simp add: GetDataCapacityFromDCName_def getDCFromIndex_nth Let_def)
qed

text \<open>
  The storage class of a DC is its own exactly when the DC declares a capacity of its own, whatever
  storage class it declares.
\<close>

lemma GetDataStorageClass_needs_capacity:
  assumes "distinct (map dc_Name (cc_DCs cc))" and "i < length (cc_DCs cc)"
  shows "GetDataStorageClassFromDCName cc (dc_Name (cc_DCs cc ! i)) =
    (if dc_DataCapacity (cc_DCs cc ! i) = '''' then spec_DataStorageClass (cc_Spec cc)
     else dc_DataStorageClass (cc_DCs cc ! i))"
  by (simp add: GetDataStorageClassFromDCName_def GetDCIndexFromDCName_nth [OF assms]
      getDCFromIndex_nth [OF assms(2)] Let_def)

lemma removedDC_loop_find:
  "removedDC_loop cc old dcs =
     (case find (\<lambda>dc. GetDCName old dc \<noteq> GetDCName cc dc) dcs of
        Some dc \<Rightarrow> GetDCName old dc | None \<Rightarrow> '''')"
  by (induction dcs) auto

lemma GetRemovedDCName_removed:
  assumes "distinct (map dc_Name (cc_DCs old))" and "k < length (cc_DCs old)"
    and "cc_DCs cc = take k (cc_DCs old) @ drop (Suc k) (cc_DCs old)"
  shows "GetRemovedDCName cc old =
    (if Suc k = length (cc_DCs old) \<and> dc_Name (cc_DCs old ! k) = DefaultCassandraDC then ''''
     else dc_Name (cc_DCs old ! k))"
proof -
  let ?n = "length (cc_DCs old)"
  have below: "GetDCName old i = GetDCName cc i" if "i < k" for i
    using that assms(2,3) by (auto simp: GetDCName_def GetDCSize_def nth_append)
  have old_k: "GetDCName old k = dc_Name (cc_DCs old ! k)"
    using assms(2) by (simp add: GetDCName_def GetDCSize_def)
  have cc_k: "GetDCName cc k = (if Suc k = ?n then DefaultCassandraDC else dc_Name (cc_DCs old ! Suc k))"
    using assms(2,3) by (auto simp: GetDCName_def GetDCSize_def nth_append min_def)
  have diff: "dc_Name (cc_DCs old ! k) \<noteq> dc_Name (cc_DCs old ! Suc k)" if "Suc k < ?n"
    using that assms(1) by (simp add: distinct_conv_nth)
  show ?thesis
  proof (cases "Suc k = ?n \<and> dc_Name (cc_DCs old ! k) = DefaultCassandraDC")
    case True
    then have "GetDCName old i = GetDCName cc i" if "i < ?n" for i
      using that below [of i] old_k cc_k by (cases "i = k") auto
    then have "find (\<lambda>dc. GetDCName old dc \<noteq> GetDCName cc dc) [0..<?n] = None"
      by (simp add: find_None_iff)
    then show ?thesis using True by (simp add: GetRemovedDCName_def removedDC_loop_find GetDCSize_def)
  next
    case False
    then have "find (\<lambda>dc. GetDCName old dc \<noteq> GetDCName cc dc) [0..<?n] = Some k"
      unfolding find_Some_iff using below old_k cc_k diff assms(2)
      by (intro exI [of _ k]) (auto simp: less_Suc_eq)
    then show ?thesis using False old_k by (auto simp: GetRemovedDCName_def removedDC_loop_find GetDCSize_def)
  qed
qed

lemma CheckDefaults_idem:
  "CheckDefaults (CheckDefaults cc) = CheckDefaults cc"
proof -
  have "default_backrest (default_backrest b) = default_backrest b" for b
    by (auto simp: default_backrest_def DefaultBackRestImage_def split: option.splits)
  then have "default_spec (default_spec s) = default_spec s" for s
    by (simp add: default_spec_def split: option.splits)
  then show ?thesis by (simp add: CheckDefaults_def)
qed

lemma length_dc_seeds:
  "length (dc_seeds cc dc) =
     (if GetRackSize cc dc > 2 then 3
      else min 3 (GetRackSize cc dc * nat (getDCNodesPerRacksFromIndex cc dc)))"
  by (simp add: dc_seeds_def length_seed_plan)

section \<open>Properties of the names, the seeds and the node counts\<close>

text \<open>
  C39 (rack_name_round_trip): the key of a rack in the status determines its DC and its rack.
  Splitting it gives the two names back, and two different racks never share a key.
\<close>

theorem rack_name_round_trip:
  assumes "valid_rack_name dcName rackName" and "valid_rack_name dcName' rackName'"
  shows "GetDCNameAndRackNameFromDCRackName (GetDCRackName dcName rackName) = Some (dcName, rackName) \<and>
    (GetDCRackName dcName rackName = GetDCRackName dcName' rackName' \<longleftrightarrow>
       dcName = dcName' \<and> rackName = rackName')"
  using assms rack_name.dec_enc rack_name.enc_inject by blast

text \<open>
  C18 (InitSeedList_plan): for a well-formed topology with at least one DC the loops of InitSeedList compute the plan of
  seeds DC by DC, and no seed is listed twice.  A DC of one or two racks gets 3 seeds, or one per node when it has
  fewer nodes; a DC of more racks gets the first pod of each of its first 3 racks, also when these racks have no node.
\<close>

theorem InitSeedList_plan:
  assumes "wf_topology cc" and "GetDCSize cc > 0"
  shows "items (InitSeedList cc) = concat (map (dc_seeds cc) [0..<GetDCSize cc]) \<and>
    (\<forall>dc < GetDCSize cc. length (dc_seeds cc dc) =
       (if GetRackSize cc dc > 2 then 3
        else min 3 (GetRackSize cc dc * nat (getDCNodesPerRacksFromIndex cc dc)))) \<and>
    distinct (items (InitSeedList cc))"
  using assms foldl_seeds_dc [OF assms(1), of "[0..<GetDCSize cc]" None]
  by (simp add: InitSeedList_def length_dc_seeds distinct_concat_dc_seeds)

text \<open>
  In a well-formed topology the number of nodes of a rack is the one
  of its own DC, which is the DC's override or the value of the spec.
\<close>

lemma GetNodesPerRacks_own_dc:
  assumes "wf_topology cc" and "rack < GetRackSize cc dc"
  shows "GetNodesPerRacks cc (rack_at cc dc rack) =
    (case dc_NodesPerRacks (cc_DCs cc ! dc) of
       None \<Rightarrow> spec_NodesPerRacks (cc_Spec cc) | Some n \<Rightarrow> n)"
  using GetNodesPerRacks_wf [OF assms] GetRackSize_pos_less [OF assms(2)]
  by (simp add: getDCNodesPerRacksFromIndex_def)

section \<open>Witnesses\<close>

definition two_dcs :: CassandraCluster where
  "two_dcs = example_cluster 2
     [zero_dc ''dc1'' [zero_rack ''rack1'', zero_rack ''rack2''],
      (zero_dc ''dc2'' [zero_rack ''rack1''])\<lparr>dc_NodesPerRacks := Some 5, dc_DataCapacity := ''10Gi'',
         dc_DataStorageClass := ''fast''\<rparr>]"

lemma two_dcs_wf: "wf_topology two_dcs"
  by code_simp

lemma two_dcs_sizes [simp]:
  "GetDCSize two_dcs = 2" "GetRackSize two_dcs 0 = 2" "GetRackSize two_dcs (Suc 0) = 1"
  by code_simp+

theorem rack_name_round_trip_witness:
  "valid_rack_name ''dc1'' ''rack1'' \<and> valid_rack_name ''dc1'' ''rack2'' \<and>
   GetDCNameAndRackNameFromDCRackName (GetDCRackName ''dc1'' ''rack1'') = Some (''dc1'', ''rack1'') \<and>
   GetDCRackName ''dc1'' ''rack1'' \<noteq> GetDCRackName ''dc1'' ''rack2''"
proof -
  have "valid_rack_name ''dc1'' ''rack1''" "valid_rack_name ''dc1'' ''rack2''" by code_simp+
  then show ?thesis using rack_name_round_trip [of "''dc1''" "''rack1''" "''dc1''" "''rack2''"] by simp
qed

theorem InitSeedList_plan_witness:
  "wf_topology two_dcs \<and> GetDCSize two_dcs > 0 \<and> length (items (InitSeedList two_dcs)) = 6 \<and>
   distinct (items (InitSeedList two_dcs))"
proof -
  have "getDCNodesPerRacksFromIndex two_dcs 0 = 2" "getDCNodesPerRacksFromIndex two_dcs (Suc 0) = 5"
    by code_simp+
  then have "length (dc_seeds two_dcs 0) = 3" "length (dc_seeds two_dcs (Suc 0)) = 3"
    using InitSeedList_plan [OF two_dcs_wf] by auto
  moreover have "items (InitSeedList two_dcs) = dc_seeds two_dcs 0 @ dc_seeds two_dcs (Suc 0)"
    using InitSeedList_plan [OF two_dcs_wf] by (simp add: upt_rec)
  moreover have "distinct (items (InitSeedList two_dcs))"
    using InitSeedList_plan [OF two_dcs_wf] two_dcs_sizes(1) by (metis zero_less_numeral)
  ultimately show ?thesis using two_dcs_wf by simp
qed

end
