(* ===== verification/K8s_Util.thy ===== *)
theory K8s_Util
  imports Cluster_Topology
begin

text \<open>
  The helpers of src/pkg/k8s/util.go and src/pkg/util/util.go: slices of strings, label maps, the
  selectors of the operator's objects, and the times written into labels.
\<close>

section \<open>Slices of strings\<close>

fun RemoveString :: "string list \<Rightarrow> string \<Rightarrow> string list" where
  "RemoveString [] r = []"
| "RemoveString (v # s) r = (if v = r then s else v # RemoveString s r)"

fun Contains :: "string list \<Rightarrow> string \<Rightarrow> bool" where
  "Contains [] e = False"
| "Contains (a # s) e = (if a = e then True else Contains s e)"

fun ContainSlice :: "string list \<Rightarrow> string list \<Rightarrow> bool" where
  "ContainSlice ref [] = True"
| "ContainSlice ref (x # n) = (if \<not> Contains ref x then False else ContainSlice ref n)"

definition MergeSlice :: "string list \<Rightarrow> string list \<Rightarrow> string slice" where
  "MergeSlice old new =
     (let result = foldl (\<lambda>result x. if Contains new x then append_slice result x else result) None old
      in foldl (\<lambda>result x. if \<not> Contains old x then append_slice result x else result) result new)"

definition StringSliceContains :: "string list \<Rightarrow> string \<Rightarrow> bool" where
  "StringSliceContains list s = list_ex (\<lambda>v. v = s) list"

text \<open>
  StringSliceRemove deletes inside the loop that walks the slice.  The loop runs over the length the
  slice had at its start and reads the shared array, which each deletion shifts; the expression
  list[i+1:] is out of range once i+1 exceeds the length of the shortened slice.
\<close>

fun slice_remove_loop :: "string \<Rightarrow> nat list \<Rightarrow> string list \<Rightarrow> nat \<Rightarrow> string list option" where
  "slice_remove_loop s [] arr len = Some (take len arr)"
| "slice_remove_loop s (i # is) arr len =
     (if arr ! i = s
      then if i + 1 \<le> len
           then slice_remove_loop s is
                  (take i arr @ take (len - (i + 1)) (drop (i + 1) arr) @ drop (len - 1) arr) (len - 1)
           else panic
      else slice_remove_loop s is arr len)"

definition StringSliceRemove :: "string list \<Rightarrow> string \<Rightarrow> string list option" where
  "StringSliceRemove list s = slice_remove_loop s [0..<length list] list (length list)"

section \<open>Labels\<close>

definition MergeLabels :: "labels list \<Rightarrow> labels" where
  "MergeLabels allLabels = foldl (++) Map.empty allLabels"

abbreviation cc_Labels :: "CassandraCluster \<Rightarrow> labels" where
  "cc_Labels cc \<equiv> meta_Labels (cc_Meta cc)"

definition LabelsForCassandraDCRack :: "CassandraCluster \<Rightarrow> string \<Rightarrow> string \<Rightarrow> labels" where
  "LabelsForCassandraDCRack cc dcName rackName =
     MergeLabels [cc_Labels cc,
       [''app'' \<mapsto> ''cassandracluster'',
        ''cassandracluster'' \<mapsto> cc_Name cc,
        ''dc-rack'' \<mapsto> GetDCRackName dcName rackName,
        ''cassandraclusters.db.orange.com.dc'' \<mapsto> dcName,
        ''cassandraclusters.db.orange.com.rack'' \<mapsto> rackName]]"

definition LabelsForCassandraDC :: "CassandraCluster \<Rightarrow> string \<Rightarrow> labels" where
  "LabelsForCassandraDC cc dcName =
     (let m = [''app'' \<mapsto> ''cassandracluster'', ''cassandracluster'' \<mapsto> cc_Name cc];
          m = (if length dcName > 0 then m(''cassandraclusters.db.orange.com.dc'' \<mapsto> dcName) else m)
      in MergeLabels [cc_Labels cc, m])"

definition LabelsForCassandra :: "CassandraCluster \<Rightarrow> labels" where
  "LabelsForCassandra cc =
     MergeLabels [cc_Labels cc, [''app'' \<mapsto> ''cassandracluster'', ''cassandracluster'' \<mapsto> cc_Name cc]]"

definition DCRackLabelsAndNodeSelectorForStatefulSet ::
  "CassandraCluster \<Rightarrow> nat \<Rightarrow> nat \<Rightarrow> labels \<times> labels" where
  "DCRackLabelsAndNodeSelectorForStatefulSet cc dc rack =
     (let dcsize = length (cc_DCs cc);
          (dcName, rackName, nodeSelector) =
            (if dcsize < 1 \<or> dc > dcsize - 1
             then (DefaultCassandraDC, DefaultCassandraRack, Map.empty)
             else let d = cc_DCs cc ! dc; nodeSelector = MergeLabels [dc_Labels d];
                      racksize = length (dc_Rack d)
                  in if racksize < 1 \<or> rack > racksize - 1
                     then (dc_Name d, ''Rack-1'', nodeSelector)
                     else (dc_Name d, rack_Name (dc_Rack d ! rack),
                           MergeLabels [nodeSelector, rack_Labels (dc_Rack d ! rack)]));
          labels = MergeLabels [LabelsForCassandraDCRack cc dcName rackName,
            [''cassandraclusters.db.orange.com.dc'' \<mapsto> dcName,
             ''cassandraclusters.db.orange.com.rack'' \<mapsto> rackName]]
      in (labels, nodeSelector))"

definition AsOwner :: "CassandraCluster \<Rightarrow> owner_reference" where
  "AsOwner cc = \<lparr>own_APIVersion = GroupVersion, own_Kind = ''CassandraCluster'', own_Name = cc_Name cc,
     own_UID = meta_UID (cc_Meta cc), own_Controller = Some True\<rparr>"

definition AddOwnerRefToObject :: "object_meta \<Rightarrow> owner_reference \<Rightarrow> object_meta" where
  "AddOwnerRefToObject m r = m\<lparr>meta_OwnerReferences := meta_OwnerReferences m @ [r]\<rparr>"

definition IsMarkedForDeletion :: "object_meta \<Rightarrow> bool" where
  "IsMarkedForDeletion m = (meta_DeletionTimestamp m \<noteq> None)"

definition PodHostname :: "pod \<Rightarrow> string" where
  "PodHostname p = pod_Hostname p @ ''.'' @ pod_Subdomain p"

definition PodByName :: "pod list \<Rightarrow> string \<Rightarrow> pod option" where
  "PodByName podList podName = find (\<lambda>p. pod_Name p = podName) podList"

section \<open>Times in labels\<close>

text \<open>
  The reading of the wall clock as a civil date, as Year, Month, ..., Second return it.  Times are
  nanoseconds since the zero time of Go, January 1 of year 1.
\<close>

record civil =
  cv_year :: nat
  cv_month :: nat
  cv_day :: nat
  cv_hour :: nat
  cv_minute :: nat
  cv_second :: nat

text \<open>The verb "%02d".\<close>

definition pad2 :: "nat \<Rightarrow> string" where
  "pad2 n = (if n < 10 then CHR ''0'' # itoa_nat n else itoa_nat n)"

definition LabelTime :: "civil \<Rightarrow> string" where
  "LabelTime t =
     itoa_nat (cv_year t) @ pad2 (cv_month t) @ pad2 (cv_day t) @ ''T'' @
     pad2 (cv_hour t) @ pad2 (cv_minute t) @ pad2 (cv_second t)"

text \<open>The expression ReLabelTime at the start of a text, and its replacement.\<close>

definition matches_label :: "string \<Rightarrow> bool" where
  "matches_label s \<longleftrightarrow> length s \<ge> 15 \<and> list_all is_digit (take 8 s) \<and> s ! 8 = CHR ''T'' \<and>
     list_all is_digit (take 6 (drop 9 s))"

definition reformat_label :: "string \<Rightarrow> string" where
  "reformat_label s =
     take 4 s @ ''-'' @ take 2 (drop 4 s) @ ''-'' @ take 2 (drop 6 s) @ ''T'' @
     take 2 (drop 9 s) @ '':'' @ take 2 (drop 11 s) @ '':'' @ take 2 (drop 13 s)"

function replace_labels :: "string \<Rightarrow> string" where
  "replace_labels s =
     (if matches_label s then reformat_label s @ replace_labels (drop 15 s)
      else case s of [] \<Rightarrow> [] | c # cs \<Rightarrow> c # replace_labels cs)"
  by pat_completeness auto
termination
  by (relation "measure length") (auto simp: matches_label_def)

declare replace_labels.simps [simp del]

text \<open>
  time.Parse for the layout "2006-01-02T15:04:05": two-digit fields except the hour, whose second
  digit may be missing, and an optional fraction after the seconds.
\<close>

definition num2 :: "string \<Rightarrow> (nat \<times> string) option" where
  "num2 s = (if length s \<ge> 2 \<and> list_all is_digit (take 2 s)
             then Some (digits_val (take 2 s), drop 2 s) else None)"

definition num12 :: "string \<Rightarrow> (nat \<times> string) option" where
  "num12 s =
     (case s of
        [] \<Rightarrow> None
      | c # cs \<Rightarrow> if \<not> is_digit c then None
                  else if cs \<noteq> [] \<and> is_digit (hd cs) then Some (digits_val [c, hd cs], tl cs)
                  else Some (digits_val [c], cs))"

definition num4 :: "string \<Rightarrow> (nat \<times> string) option" where
  "num4 s = (if length s \<ge> 4 \<and> list_all is_digit (take 4 s)
             then Some (digits_val (take 4 s), drop 4 s) else None)"

definition expect :: "char \<Rightarrow> string \<Rightarrow> string option" where
  "expect c s = (case s of [] \<Rightarrow> None | x # xs \<Rightarrow> if x = c then Some xs else None)"

definition fraction :: "string \<Rightarrow> nat \<times> string" where
  "fraction s =
     (if length s \<ge> 2 \<and> (hd s = CHR ''.'' \<or> hd s = CHR '','') \<and> is_digit (s ! 1)
      then let ds = takeWhile is_digit (tl s); ns = take 9 ds
           in (digits_val ns * 10 ^ (9 - length ns), drop (length ds) (tl s))
      else (0, s))"

definition leap :: "nat \<Rightarrow> bool" where
  "leap y \<longleftrightarrow> y mod 4 = 0 \<and> (y mod 100 \<noteq> 0 \<or> y mod 400 = 0)"

definition month_days :: "nat \<Rightarrow> nat \<Rightarrow> nat" where
  "month_days y mo = (if mo = 2 then (if leap y then 29 else 28)
                      else if mo \<in> {4, 6, 9, 11} then 30 else 31)"

definition civil_days :: "nat \<Rightarrow> nat \<Rightarrow> nat \<Rightarrow> int" where
  "civil_days y mo d =
     (let p = int y - 1 in 365 * p + p div 4 - p div 100 + p div 400 +
      int (sum_list (map (month_days y) [1..<mo])) + int d - 1)"

definition civil_time :: "civil \<Rightarrow> time" where
  "civil_time c =
     (civil_days (cv_year c) (cv_month c) (cv_day c) * 86400 +
      int (cv_hour c) * 3600 + int (cv_minute c) * 60 + int (cv_second c)) * 10 ^ 9"

definition parse_time :: "string \<Rightarrow> time option" where
  "parse_time s =
     do { (y, s) \<leftarrow> num4 s; s \<leftarrow> expect (CHR ''-'') s;
          (mo, s) \<leftarrow> num2 s; s \<leftarrow> expect (CHR ''-'') s;
          (d, s) \<leftarrow> num2 s; s \<leftarrow> expect (CHR ''T'') s;
          (h, s) \<leftarrow> num12 s; s \<leftarrow> expect (CHR '':'') s;
          (mi, s) \<leftarrow> num2 s; s \<leftarrow> expect (CHR '':'') s;
          (sec, s) \<leftarrow> num2 s;
          let (nano, rest) = fraction s in
          if rest = [] \<and> 1 \<le> mo \<and> mo \<le> 12 \<and> 1 \<le> d \<and> d \<le> month_days y mo \<and> h < 24 \<and> mi < 60 \<and> sec < 60
          then Some (civil_time \<lparr>cv_year = y, cv_month = mo, cv_day = d, cv_hour = h, cv_minute = mi,
                                 cv_second = sec\<rparr> + int nano)
          else None }"

definition LabelTime2Time :: "string \<Rightarrow> time \<times> error option" where
  "LabelTime2Time label =
     (case parse_time (replace_labels label) of
        Some t \<Rightarrow> (t, None)
      | None \<Rightarrow> (0, Some (Errorf ''parsing time'')))"

section \<open>Facts about slices\<close>

lemma Contains_iff [simp]: "Contains s e \<longleftrightarrow> e \<in> set s"
  by (induction s) auto

lemma ContainSlice_iff [simp]: "ContainSlice ref n \<longleftrightarrow> set n \<subseteq> set ref"
  by (induction n) auto

lemma foldl_append_slice:
  "items (foldl (\<lambda>r x. if P x then append_slice r x else r) acc xs) = items acc @ filter P xs"
  by (induction xs arbitrary: acc) auto

lemma items_MergeSlice:
  "items (MergeSlice old new) = filter (\<lambda>x. x \<in> set new) old @ filter (\<lambda>x. x \<notin> set old) new"
  by (simp add: MergeSlice_def foldl_append_slice)

lemma foldl_append_slice_None:
  "foldl (\<lambda>r x. if P x then append_slice r x else r) acc xs = None \<longleftrightarrow>
     acc = None \<and> filter P xs = []"
  by (induction xs arbitrary: acc) (auto simp: append_slice_def)

text \<open>
  The interface of a removal from a slice: it takes out one occurrence of an element.  The users
  keep several slices disjoint by moving elements between them.
\<close>

locale slice_removal =
  fixes remove :: "'a list \<Rightarrow> 'a \<Rightarrow> 'a list"
  assumes mset_remove: "mset (remove s x) = mset s - {#x#}"
begin

lemma remove_absent: "x \<notin> set s \<Longrightarrow> mset (remove s x) = mset s"
  by (simp add: mset_remove)

lemma mem_remove_distinct:
  "distinct s \<Longrightarrow> a \<in> set (remove s x) \<longleftrightarrow> a \<in> set s \<and> a \<noteq> x"
proof -
  assume "distinct s"
  then have "count (mset s) a = (if a \<in> set s then 1 else 0)" by (simp add: distinct_count_atmost_1)
  moreover have "a \<in> set (remove s x) \<longleftrightarrow> count (mset (remove s x)) a > 0" by simp
  ultimately show ?thesis by (simp only: mset_remove) simp
qed

lemma distinct_remove: "distinct s \<Longrightarrow> distinct (remove s x)"
proof -
  assume d: "distinct s"
  have "count (mset (remove s x)) a = (if a \<in> set (remove s x) then 1 else 0)" for a
    using d distinct_count_atmost_1 [of s] by (simp add: mem_remove_distinct mset_remove)
  then show ?thesis by (simp add: distinct_count_atmost_1)
qed

end

interpretation remove_string: slice_removal RemoveString
proof
  show "mset (RemoveString s x) = mset s - {#x#}" for s x
    by (induction s) auto
qed

text \<open>
  MergeSlice old new has exactly the elements of new; those that were in old
  keep the order of old and come first, and no duplicate is introduced.
\<close>

lemma MergeSlice_stable:
  "set (items (MergeSlice old new)) = set new \<and>
   (\<exists>added. items (MergeSlice old new) = filter (\<lambda>x. x \<in> set new) old @ added \<and> set added \<inter> set old = {}) \<and>
   (distinct old \<and> distinct new \<longrightarrow> distinct (items (MergeSlice old new)))"
  by (auto simp: items_MergeSlice)

text \<open>
  StringSliceRemove panics on a slice that ends in two copies of the
  element to remove and holds no other copy.
\<close>

lemma StringSliceRemove_repeated:
  assumes "s \<notin> set xs"
  shows "StringSliceRemove (xs @ [s, s]) s = panic"
proof -
  have skip: "slice_remove_loop s (is @ js) arr len = slice_remove_loop s js arr len"
    if "\<forall>i \<in> set is. arr ! i \<noteq> s" for "is" js arr len
    using that by (induction "is") auto
  have "[0..<length (xs @ [s, s])] = [0..<length xs] @ [length xs, Suc (length xs)]" by simp
  moreover have "\<forall>i \<in> set [0..<length xs]. (xs @ [s, s]) ! i \<noteq> s"
    using assms by (auto simp: nth_append)
  ultimately show ?thesis
    unfolding StringSliceRemove_def by (simp add: skip nth_append)
qed

section \<open>Facts about label times\<close>

definition valid_civil :: "civil \<Rightarrow> bool" where
  "valid_civil c \<longleftrightarrow> 1000 \<le> cv_year c \<and> cv_year c \<le> 9999 \<and> 1 \<le> cv_month c \<and> cv_month c \<le> 12 \<and>
     1 \<le> cv_day c \<and> cv_day c \<le> month_days (cv_year c) (cv_month c) \<and>
     cv_hour c < 24 \<and> cv_minute c < 60 \<and> cv_second c < 60"

lemma itoa_nat_small: "n < 10 \<Longrightarrow> itoa_nat n = [digit_char n]"
  by (subst itoa_nat.simps) simp

lemma itoa_nat_large: "n \<ge> 10 \<Longrightarrow> itoa_nat n = itoa_nat (n div 10) @ [digit_char (n mod 10)]"
  by (subst itoa_nat.simps) simp

lemma digit_char_0: "digit_char 0 = CHR ''0''"
  by code_simp

lemma pad2_digits:
  assumes "n < 100"
  shows "pad2 n = [digit_char (n div 10), digit_char (n mod 10)]"
proof (cases "n < 10")
  case True
  then show ?thesis by (simp add: pad2_def itoa_nat_small digit_char_0)
next
  case False
  moreover from assms have "n div 10 < 10" by simp
  ultimately show ?thesis by (simp add: pad2_def itoa_nat_large itoa_nat_small)
qed

lemma itoa_nat_4:
  assumes "1000 \<le> n" and "n \<le> 9999"
  shows "itoa_nat n = [digit_char (n div 1000), digit_char (n div 100 mod 10),
    digit_char (n div 10 mod 10), digit_char (n mod 10)]"
proof -
  have "itoa_nat n = itoa_nat (n div 10) @ [digit_char (n mod 10)]"
    using assms by (intro itoa_nat_large) simp
  also have "itoa_nat (n div 10) = itoa_nat (n div 100) @ [digit_char (n div 10 mod 10)]"
    using assms by (subst itoa_nat_large) (simp_all flip: div_mult2_eq)
  also have "itoa_nat (n div 100) = itoa_nat (n div 1000) @ [digit_char (n div 100 mod 10)]"
    using assms by (subst itoa_nat_large) (simp_all flip: div_mult2_eq)
  also have "itoa_nat (n div 1000) = [digit_char (n div 1000)]"
    using assms by (intro itoa_nat_small) simp
  finally show ?thesis by simp
qed

lemma month_days_less: "month_days y mo < 100"
  by (simp add: month_days_def)

lemma digits_val_2:
  "n < 100 \<Longrightarrow> digits_val [digit_char (n div 10), digit_char (n mod 10)] = n"
  by (simp add: digits_val_def)

lemma digits_val_4:
  assumes "n \<le> 9999"
  shows "digits_val [digit_char (n div 1000), digit_char (n div 100 mod 10),
    digit_char (n div 10 mod 10), digit_char (n mod 10)] = n"
proof -
  have "n div 1000 < 10" using assms by simp
  then have "digits_val [digit_char (n div 1000), digit_char (n div 100 mod 10),
      digit_char (n div 10 mod 10), digit_char (n mod 10)] =
    10 * (10 * (10 * (n div 1000) + n div 100 mod 10) + n div 10 mod 10) + n mod 10"
    by (simp add: digits_val_def)
  also have "10 * (n div 1000) + n div 100 mod 10 = n div 100"
    using mult_div_mod_eq [of 10 "n div 100"] by (simp flip: div_mult2_eq)
  also have "10 * (n div 100) + n div 10 mod 10 = n div 10"
    using mult_div_mod_eq [of 10 "n div 10"] by (simp flip: div_mult2_eq)
  also have "10 * (n div 10) + n mod 10 = n" by (rule mult_div_mod_eq)
  finally show ?thesis .
qed

lemma LabelTime_chars:
  assumes "valid_civil c"
  shows "LabelTime c =
    [digit_char (cv_year c div 1000), digit_char (cv_year c div 100 mod 10),
     digit_char (cv_year c div 10 mod 10), digit_char (cv_year c mod 10),
     digit_char (cv_month c div 10), digit_char (cv_month c mod 10),
     digit_char (cv_day c div 10), digit_char (cv_day c mod 10), CHR ''T'',
     digit_char (cv_hour c div 10), digit_char (cv_hour c mod 10),
     digit_char (cv_minute c div 10), digit_char (cv_minute c mod 10),
     digit_char (cv_second c div 10), digit_char (cv_second c mod 10)]"
proof -
  have "cv_day c < 100" using assms month_days_less [of "cv_year c" "cv_month c"]
    by (simp add: valid_civil_def)
  then show ?thesis using assms by (simp add: LabelTime_def valid_civil_def itoa_nat_4 pad2_digits)
qed

lemma valid_civil_digits:
  assumes "valid_civil c"
  shows "cv_year c div 1000 < 10" "cv_month c div 10 < 10" "cv_day c div 10 < 10"
    "cv_hour c div 10 < 10" "cv_minute c div 10 < 10" "cv_second c div 10 < 10"
  using assms month_days_less [of "cv_year c" "cv_month c"] by (auto simp: valid_civil_def)

lemma replace_LabelTime:
  assumes "valid_civil c"
  shows "replace_labels (LabelTime c) = reformat_label (LabelTime c)"
proof -
  have "matches_label (LabelTime c)"
    using valid_civil_digits [OF assms] by (simp add: LabelTime_chars [OF assms] matches_label_def)
  moreover have "drop 15 (LabelTime c) = []" by (simp add: LabelTime_chars [OF assms])
  moreover have "replace_labels [] = []" by (subst replace_labels.simps) (simp add: matches_label_def)
  ultimately show ?thesis by (subst replace_labels.simps) simp
qed

text \<open>
  The time written into a label is read back without loss: for every
  valid civil date of a four-digit year, LabelTime2Time of its LabelTime is that date, without error.
\<close>

lemma LabelTime_round_trip:
  assumes "valid_civil c"
  shows "LabelTime2Time (LabelTime c) = (civil_time c, None)"
proof -
  have day: "cv_day c < 100" using assms month_days_less [of "cv_year c" "cv_month c"]
    by (simp add: valid_civil_def)
  have "parse_time (reformat_label (LabelTime c)) = Some (civil_time c)"
    using assms valid_civil_digits [OF assms] day
    by (simp add: LabelTime_chars [OF assms] reformat_label_def parse_time_def num4_def num2_def
        num12_def expect_def fraction_def digits_val_2 digits_val_4 valid_civil_def civil_time_def)
  then show ?thesis by (simp add: LabelTime2Time_def replace_LabelTime [OF assms])
qed

end
