(* ===== verification/Pods.thy ===== *)
theory Pods
  imports K8s_Util
begin

text \<open>
  The pure part of src/controllers/cassandracluster/pod.go and of
  src/controllers/cassandracluster/cassandrapod/cassandra_pod.go: readiness of a Cassandra pod, the
  order of the pods of a statefulset, and the choice of the first or last pod.
\<close>

section \<open>Readiness\<close>

definition CassandraContainerName :: string where
  "CassandraContainerName = ''cassandra''"

definition getContainerStatus :: "pod \<Rightarrow> container_status option" where
  "getContainerStatus p = find (\<lambda>cs. cst_Name cs = CassandraContainerName) (pod_ContainerStatuses p)"

definition IsReady :: "pod \<Rightarrow> bool" where
  "IsReady p =
     (case getContainerStatus p of
        Some cs \<Rightarrow> pod_Phase p = PodRunning \<and> cst_Ready cs
      | None \<Rightarrow> False)"

definition RestartCount :: "pod \<Rightarrow> int" where
  "RestartCount p =
     (case find (\<lambda>cs. cst_Name cs = CassandraContainerName) (pod_ContainerStatuses p) of
        Some cs \<Rightarrow> cst_RestartCount cs
      | None \<Rightarrow> 0)"

fun containers_ready_loop :: "container_status list \<Rightarrow> bool" where
  "containers_ready_loop [] = True"
| "containers_ready_loop (cs # css) = (if \<not> cst_Ready cs then False else containers_ready_loop css)"

definition PodContainersReady :: "pod \<Rightarrow> bool" where
  "PodContainersReady p =
     (if length (pod_ContainerStatuses p) > 0 then containers_ready_loop (pod_ContainerStatuses p)
      else False)"

text \<open>The loop body of hasUnschedulablePod.\<close>

definition pod_unschedulable :: "pod \<Rightarrow> bool" where
  "pod_unschedulable p \<longleftrightarrow>
     pod_Phase p \<noteq> PodRunning \<and> pod_Conditions p \<noteq> None \<and>
     (list_ex (\<lambda>cs. \<not> cst_Ready cs \<and> cst_WaitingReason cs = Some ''ImagePullBackOff'')
        (pod_ContainerStatuses p) \<or>
      list_ex (\<lambda>cond. cond_Reason cond = ''Unschedulable'' \<or>
                 (cond_Type cond = ''Ready'' \<and> cond_Status cond = ''False'' \<and>
                  cond_Reason cond = ''ContainersNotReady''))
        (items (pod_Conditions p)))"

text \<open>A pod the code works on: it runs and is not being deleted.\<close>

definition pod_active :: "pod \<Rightarrow> bool" where
  "pod_active p \<longleftrightarrow> \<not> (pod_Phase p \<noteq> PodRunning \<or> meta_DeletionTimestamp (pod_Meta p) \<noteq> None)"

section \<open>Order of the pods\<close>

text \<open>
  The expression "[0-9]+$" matches the longest run of digits at the end of a name; Atoi of it is 0
  when there is none and the largest 64-bit number when it is too long.
\<close>

definition reEndingNumber :: "string \<Rightarrow> string" where
  "reEndingNumber s = rev (takeWhile is_digit (rev s))"

definition pod_id :: "pod \<Rightarrow> int" where
  "pod_id p = atoi_sat (reEndingNumber (pod_Name p))"

text \<open>
  sort.Slice sorts by the ending number; the order of pods with the same number is left open by Go,
  and the stable order is taken here.  Within a statefulset the numbers differ.
\<close>

definition sortPodsList :: "pod list \<Rightarrow> pod list" where
  "sortPodsList podsList = sort_key pod_id podsList"

definition GetLastOrFirstPodItem :: "pod list \<Rightarrow> bool \<Rightarrow> error + pod" where
  "GetLastOrFirstPodItem podsList lastp =
     (let nb = length podsList in
      if nb < 1 then Inl (Errorf ''there is no pod'')
      else let podsList = sortPodsList podsList; idx = (if lastp then nb - 1 else 0)
           in Inr (podsList ! idx))"

definition GetLastOrFirstPodReady :: "pod list \<Rightarrow> bool \<Rightarrow> error + pod" where
  "GetLastOrFirstPodReady podsList lastp = GetLastOrFirstPodItem (filter IsReady podsList) lastp"

section \<open>Facts\<close>

text \<open>
  What the code relies on about the sort: a rearrangement in ascending order of the numbers.  The
  choice of the first and last pod follows from these laws alone, whatever the order of ties.
\<close>

locale pod_sorter =
  fixes srt :: "'a list \<Rightarrow> 'a list" and num :: "'a \<Rightarrow> int"
  assumes mset_srt: "mset (srt xs) = mset xs"
    and sorted_srt: "sorted (map num (srt xs))"
begin

lemma length_srt: "length (srt xs) = length xs"
  using mset_srt by (metis size_mset)

lemma set_srt: "set (srt xs) = set xs"
  using mset_srt by (metis set_mset_mset)

lemma srt_first_least:
  "xs \<noteq> [] \<Longrightarrow> x \<in> set xs \<Longrightarrow> num (srt xs ! 0) \<le> num x"
proof -
  assume "xs \<noteq> []" and "x \<in> set xs"
  then obtain i where "i < length (srt xs)" "srt xs ! i = x" by (metis in_set_conv_nth set_srt)
  then show ?thesis using sorted_srt [of xs] by (auto simp: sorted_iff_nth_mono)
qed

lemma srt_last_greatest:
  "xs \<noteq> [] \<Longrightarrow> x \<in> set xs \<Longrightarrow> num x \<le> num (srt xs ! (length xs - 1))"
proof -
  assume "xs \<noteq> []" and "x \<in> set xs"
  then obtain i where "i < length (srt xs)" "srt xs ! i = x" by (metis in_set_conv_nth set_srt)
  then show ?thesis using sorted_srt [of xs] by (auto simp: sorted_iff_nth_mono length_srt)
qed

lemma srt_nth_mem: "i < length xs \<Longrightarrow> srt xs ! i \<in> set xs"
  by (metis length_srt nth_mem set_srt)

end

interpretation sorted_pods: pod_sorter sortPodsList pod_id
  by unfold_locales (simp_all add: sortPodsList_def)

lemma reEndingNumber_digits: "list_all is_digit (reEndingNumber s)"
  by (auto simp: reEndingNumber_def list_all_iff dest: set_takeWhileD)

lemma reEndingNumber_append:
  assumes "list_all is_digit ds" and "s = [] \<or> \<not> is_digit (last s)"
  shows "reEndingNumber (s @ ds) = ds"
proof -
  have "takeWhile is_digit (rev ds @ rev s) = rev ds @ takeWhile is_digit (rev s)"
    using assms(1) by (intro takeWhile_append2) (simp add: list_all_iff)
  moreover have "takeWhile is_digit (rev s) = []"
    using assms(2) by (cases s rule: rev_cases) auto
  ultimately show ?thesis by (simp add: reEndingNumber_def)
qed

lemma atoi_sat_itoa_nat:
  "int n \<le> int64_max \<Longrightarrow> atoi_sat (itoa_nat n) = int n"
  using atoi_sat_itoa [of "int n"] by (simp add: itoa_def int64_max_def)

lemma pod_id_ordinal:
  assumes "pod_Name p = s @ ''-'' @ itoa_nat n" and "int n \<le> int64_max"
  shows "pod_id p = int n"
proof -
  have "reEndingNumber ((s @ ''-'') @ itoa_nat n) = itoa_nat n"
    by (rule reEndingNumber_append) (simp_all add: is_digit_sign)
  then show ?thesis using assms by (simp add: pod_id_def atoi_sat_itoa_nat)
qed

lemma PodContainersReady_iff:
  "PodContainersReady p \<longleftrightarrow> pod_ContainerStatuses p \<noteq> [] \<and> list_all cst_Ready (pod_ContainerStatuses p)"
proof -
  have "containers_ready_loop css \<longleftrightarrow> list_all cst_Ready css" for css
    by (induction css) auto
  then show ?thesis by (simp add: PodContainersReady_def)
qed

lemma IsReady_running: "IsReady p \<Longrightarrow> pod_Phase p = PodRunning"
  by (auto simp: IsReady_def split: option.splits)

text \<open>
  Among the pods of a statefulset, named by a common prefix and
  their ordinal, the pod chosen as the last one is one of them and has the highest ordinal, and the
  one chosen as the first has the lowest; ordinals compare as numbers, so pod 10 comes after pod 9.
\<close>

lemma last_pod_has_highest_ordinal:
  assumes "\<forall>p \<in> set ps. pod_Name p = s @ ''-'' @ itoa_nat (ord p) \<and> int (ord p) \<le> int64_max"
    and "ps \<noteq> []"
  shows "\<exists>l f. GetLastOrFirstPodItem ps True = Inr l \<and> GetLastOrFirstPodItem ps False = Inr f \<and>
    l \<in> set ps \<and> f \<in> set ps \<and> (\<forall>p \<in> set ps. ord f \<le> ord p \<and> ord p \<le> ord l)"
proof -
  have id: "pod_id p = int (ord p)" if "p \<in> set ps" for p
    using assms(1) that by (intro pod_id_ordinal) auto
  let ?l = "sortPodsList ps ! (length ps - 1)" and ?f = "sortPodsList ps ! 0"
  have mem: "?l \<in> set ps" "?f \<in> set ps"
    using assms(2) by (auto intro: sorted_pods.srt_nth_mem)
  have "ord ?f \<le> ord p \<and> ord p \<le> ord ?l" if "p \<in> set ps" for p
    using sorted_pods.srt_first_least [OF assms(2) that] sorted_pods.srt_last_greatest [OF assms(2) that]
      id [OF that] id [OF mem(1)] id [OF mem(2)] by simp
  moreover have "GetLastOrFirstPodItem ps True = Inr ?l" "GetLastOrFirstPodItem ps False = Inr ?f"
    using assms(2) by (simp_all add: GetLastOrFirstPodItem_def Let_def Suc_le_eq)
  ultimately show ?thesis using mem by blast
qed

definition example_pod :: "string \<Rightarrow> pod" where
  "example_pod n = (bare_pod ''ns'' n)\<lparr>pod_Hostname := n, pod_Subdomain := ''demo'',
     pod_Phase := PodRunning, pod_PodIP := ''10.0.0.1'',
     pod_ContainerStatuses := [\<lparr>cst_Name = CassandraContainerName, cst_Ready = True,
        cst_RestartCount = 0, cst_WaitingReason = None\<rparr>]\<rparr>"

end
