(* ===== verification/Rcc.thy ===== *)
theory Rcc
  imports Pods
begin

text \<open>
  The reconciler (struct CassandraClusterReconciler of
  src/controllers/cassandracluster/cassandracluster_controller.go): its state, its environment, and
  the thin methods that talk to the API server.

  \<^item> The environment is everything outside the repository: the API server behind controller-runtime's
    client, the Jolokia endpoint of the Cassandra nodes, the clock, the encoders.  It answers each
    request as an arbitrary function of the requests already made, so that no assumption is built in
    about what the cluster does between two requests.
  \<^item> The state has the cluster object cc, the working copy status of its status, the global flag
    needUpdate, the two stored objects, the channel of finished pod operations, and the trace of the
    requests made so far, in order.  Setting a Prometheus gauge and starting a goroutine are entries
    of the trace as well.
\<close>

section \<open>Jolokia values\<close>

datatype jval = JString string | JInt int | JBool bool | JNull | JList "jval list"
  | JMap "(string \<times> jval) list"

record jresponse =
  jr_Error :: string
  jr_Value :: jval

datatype jrequest =
    JRead string string string                  \<comment> \<open>host, MBean, attribute\<close>
  | JExec string string string "jval list"      \<comment> \<open>host, MBean, operation, arguments\<close>

section \<open>Requests\<close>

record finalizedOp =
  fo_err :: "error option"
  fo_dcRackName :: string
  fo_pod :: pod
  fo_operationName :: string

datatype kind = KPod | KStatefulSet | KPvc | KPdb | KSecret | KCassandraCluster

datatype routine =
    MonitorOperation string string pod string   \<comment> \<open>host, dc-rack, pod, operation\<close>
  | RunOperation string string pod string
  | RunDecommission string bool                 \<comment> \<open>host, Cassandra 4 or later\<close>
  | MonitorDisruption string string             \<comment> \<open>namespace and name of the budget\<close>

datatype request =
    GetReq kind string string
  | ListPodsReq string labels
  | ListPvcReq string labels
  | CreatePodReq pod
  | UpdatePodReq pod
  | DeletePodReq string string bool             \<comment> \<open>namespace, name, grace period 0\<close>
  | CreateStsReq stateful_set
  | UpdateStsReq stateful_set
  | DeleteStsReq string string bool             \<comment> \<open>namespace, name, orphan policy\<close>
  | UpdatePvcReq pvc
  | DeletePvcReq string string
  | CreateSvcReq service
  | DeleteSvcReq string string
  | CreatePdbReq pdb
  | DeletePdbReq pdb
  | UpdatePdbReq pdb
  | UpdateCCReq CassandraCluster
  | UpdateCCStatusReq CassandraCluster
  | JolokiaReq jrequest
  | PhaseMetric ClusterStateInfo string
  | ActionMetric ClusterStateInfo string
  | Spawn routine

section \<open>Environment and state\<close>

text \<open>
  The libraries the code calls are part of the environment too: the differences r3labs/diff finds
  between two seed lists or two topologies, whether the patch computed by objectmatcher is empty, the
  parser of quantities, the JSON encoders, and the trees of Jeffail/gabs, where a nil container is None
  and a container that holds nil is Some JNull.  The order in which a map is iterated is the choice
  of the runtime.  A write of the custom resource is answered by its new resource version.
\<close>

type_synonym gabs = "jval option"

datatype change_type = CREATE | UPDATE | DELETE

record change =
  ch_Type :: change_type
  ch_Path :: "string list"

record env =
  env_now :: "request list \<Rightarrow> time"
  env_wall :: "request list \<Rightarrow> civil"
  env_getPod :: "request list \<Rightarrow> string \<Rightarrow> string \<Rightarrow> error + pod"
  env_listPods :: "request list \<Rightarrow> string \<Rightarrow> labels \<Rightarrow> error + pod list"
  env_getSts :: "request list \<Rightarrow> string \<Rightarrow> string \<Rightarrow> error + stateful_set"
  env_getPvc :: "request list \<Rightarrow> string \<Rightarrow> string \<Rightarrow> error + pvc"
  env_listPvc :: "request list \<Rightarrow> string \<Rightarrow> labels \<Rightarrow> error + pvc list"
  env_getPdb :: "request list \<Rightarrow> string \<Rightarrow> string \<Rightarrow> error + pdb"
  env_getSecret :: "request list \<Rightarrow> string \<Rightarrow> string \<Rightarrow> error option"
  env_getCC :: "request list \<Rightarrow> string \<Rightarrow> string \<Rightarrow> error + CassandraCluster"
  env_write :: "request list \<Rightarrow> request \<Rightarrow> error option"
  env_updateCC :: "request list \<Rightarrow> CassandraCluster \<Rightarrow> error + string"
  env_updateCCStatus :: "request list \<Rightarrow> CassandraCluster \<Rightarrow> error + string"
  env_jolokia :: "request list \<Rightarrow> jrequest \<Rightarrow> error + jresponse"
  env_marshal :: "CassandraCluster \<Rightarrow> error + string"
  env_unmarshal :: "string \<Rightarrow> error + CassandraCluster"
  env_seedListsDiffer :: "string list \<Rightarrow> string list \<Rightarrow> bool"
  env_topologyDiff :: "Topology \<Rightarrow> Topology \<Rightarrow> change list"
  env_patchIsEmpty :: "stateful_set \<Rightarrow> stateful_set \<Rightarrow> bool"
  env_parseQuantity :: "string \<Rightarrow> quantity option"
  env_marshalSts :: "stateful_set \<Rightarrow> error + string"
  env_unmarshalSts :: "string \<Rightarrow> error + stateful_set"
  env_originalSts :: "stateful_set \<Rightarrow> error + stateful_set"
  env_encodeLastApplied :: "stateful_set \<Rightarrow> error + string"
  env_modifiedSts :: "stateful_set \<Rightarrow> error + string"
  env_mapOrder :: "string list \<Rightarrow> string list"
  env_marshalConfig :: "jval \<Rightarrow> string"
  env_ParseJSON :: "string \<Rightarrow> gabs"
  env_Path :: "gabs \<Rightarrow> string \<Rightarrow> gabs"
  env_SetP :: "gabs \<Rightarrow> jval \<Rightarrow> string \<Rightarrow> gabs"
  env_DeleteP :: "gabs \<Rightarrow> string \<Rightarrow> gabs"
  env_MergeFn :: "gabs \<Rightarrow> gabs \<Rightarrow> (jval \<Rightarrow> jval \<Rightarrow> jval) \<Rightarrow> gabs"
  env_gabsString :: "gabs \<Rightarrow> string"
  env_POD_NAME :: string

record rstate =
  st_cc :: CassandraCluster
  st_status :: CassandraClusterStatus
  st_needUpdate :: bool
  st_storedPdb :: pdb
  st_storedStatefulSet :: "stateful_set option"
  st_chanRunningOp :: "finalizedOp list"
  st_trace :: "request list"

definition call :: "request \<Rightarrow> rstate \<Rightarrow> rstate" where
  "call r st = st\<lparr>st_trace := st_trace st @ [r]\<rparr>"

text \<open>The clock, read after the requests made so far; times are in nanoseconds.\<close>

definition now :: "env \<Rightarrow> rstate \<Rightarrow> time" where
  "now e st = env_now e (st_trace st)"

definition second :: time where
  "second = 10 ^ 9"

section \<open>Access to the rack statuses\<close>

text \<open>
  status.CassandraRackStatus maps names to pointers; following the pointer of an absent rack panics.
\<close>

abbreviation st_racks :: "rstate \<Rightarrow> string \<rightharpoonup> CassandraRackStatus" where
  "st_racks st \<equiv> cs_CassandraRackStatus (st_status st)"

definition put_rack :: "string \<Rightarrow> CassandraRackStatus \<Rightarrow> rstate \<Rightarrow> rstate" where
  "put_rack r rs st =
     st\<lparr>st_status := (st_status st)\<lparr>cs_CassandraRackStatus := (st_racks st)(r \<mapsto> rs)\<rparr>\<rparr>"

definition upd_rack ::
  "string \<Rightarrow> (CassandraRackStatus \<Rightarrow> CassandraRackStatus) \<Rightarrow> rstate \<Rightarrow> rstate option" where
  "upd_rack r f st = do { rs \<leftarrow> st_racks st r; Some (put_rack r (f rs) st) }"

abbreviation upd_action ::
  "string \<Rightarrow> (CassandraLastAction \<Rightarrow> CassandraLastAction) \<Rightarrow> rstate \<Rightarrow> rstate option" where
  "upd_action r f \<equiv>
     upd_rack r (\<lambda>rs. rs\<lparr>rs_CassandraLastAction := f (rs_CassandraLastAction rs)\<rparr>)"

abbreviation upd_podop ::
  "string \<Rightarrow> (PodLastOperation \<Rightarrow> PodLastOperation) \<Rightarrow> rstate \<Rightarrow> rstate option" where
  "upd_podop r f \<equiv> upd_rack r (\<lambda>rs. rs\<lparr>rs_PodLastOperation := f (rs_PodLastOperation rs)\<rparr>)"

abbreviation upd_phase :: "string \<Rightarrow> string \<Rightarrow> rstate \<Rightarrow> rstate option" where
  "upd_phase r p \<equiv> upd_rack r (\<lambda>rs. rs\<lparr>rs_Phase := p\<rparr>)"

section \<open>Objects of the API server\<close>

definition GetPod :: "env \<Rightarrow> string \<Rightarrow> string \<Rightarrow> rstate \<Rightarrow> (error + pod) \<times> rstate" where
  "GetPod e ns name st = (env_getPod e (st_trace st) ns name, call (GetReq KPod ns name) st)"

definition ListPods :: "env \<Rightarrow> string \<Rightarrow> labels \<Rightarrow> rstate \<Rightarrow> (error + pod list) \<times> rstate" where
  "ListPods e ns selector st =
     (env_listPods e (st_trace st) ns selector, call (ListPodsReq ns selector) st)"

definition ListPodsOrderByNameAscending ::
  "env \<Rightarrow> string \<Rightarrow> labels \<Rightarrow> rstate \<Rightarrow> (error + pod list) \<times> rstate" where
  "ListPodsOrderByNameAscending e ns selector st =
     (let (r, st) = ListPods e ns selector st in (map_sum id sortPodsList r, st))"

definition GetLastPod :: "env \<Rightarrow> string \<Rightarrow> labels \<Rightarrow> rstate \<Rightarrow> (error + pod) \<times> rstate" where
  "GetLastPod e ns selector st =
     (let (r, st) = ListPods e ns selector st in
      (case r of Inl err \<Rightarrow> Inl (Errorf ''failed to get cassandra's pods'')
       | Inr ps \<Rightarrow> GetLastOrFirstPodItem ps True, st))"

definition CreatePod :: "env \<Rightarrow> pod \<Rightarrow> rstate \<Rightarrow> error option \<times> rstate" where
  "CreatePod e p st =
     (case env_write e (st_trace st) (CreatePodReq p) of
        None \<Rightarrow> None
      | Some err \<Rightarrow> if err \<noteq> AlreadyExists then Some (Errorf ''pod already exists'')
                    else Some (Errorf ''failed to create cassandra pod''),
      call (CreatePodReq p) st)"

definition UpdatePod :: "env \<Rightarrow> pod \<Rightarrow> rstate \<Rightarrow> error option \<times> rstate" where
  "UpdatePod e p st =
     (case env_write e (st_trace st) (UpdatePodReq p) of
        None \<Rightarrow> None
      | Some err \<Rightarrow> if err \<noteq> AlreadyExists then Some (Errorf ''pod already exists'')
                    else Some (Errorf ''failed to update cassandra pod''),
      call (UpdatePodReq p) st)"

definition CreateOrUpdatePod :: "env \<Rightarrow> string \<Rightarrow> pod \<Rightarrow> rstate \<Rightarrow> error option \<times> rstate" where
  "CreateOrUpdatePod e ns p st =
     (let (r, st) = GetPod e ns (pod_Name p) st in
      case r of
        Inl err \<Rightarrow> if err = NotFound then CreatePod e p st else (Some err, st)
      | Inr storedPod \<Rightarrow>
          UpdatePod e (p\<lparr>pod_Meta := (pod_Meta p)\<lparr>meta_ResourceVersion :=
            meta_ResourceVersion (pod_Meta storedPod)\<rparr>\<rparr>) st)"

definition UpdatePodLabel :: "env \<Rightarrow> pod \<Rightarrow> labels \<Rightarrow> rstate \<Rightarrow> error option \<times> rstate" where
  "UpdatePodLabel e p label st =
     (let (r, st) = GetPod e (pod_Namespace p) (pod_Name p) st in
      case r of
        Inl err \<Rightarrow> (Some err, st)
      | Inr podToUpdate \<Rightarrow>
          UpdatePod e (set_pod_Labels (MergeLabels [pod_Labels podToUpdate, label]) podToUpdate) st)"

definition DeletePod :: "env \<Rightarrow> bool \<Rightarrow> pod \<Rightarrow> rstate \<Rightarrow> error option \<times> rstate" where
  "DeletePod e force p st =
     (let r = DeletePodReq (pod_Namespace p) (pod_Name p) force in
      (map_option (\<lambda>_. Errorf ''failed to delete Pod'') (env_write e (st_trace st) r), call r st))"

definition hasUnschedulablePod :: "env \<Rightarrow> string \<Rightarrow> string \<Rightarrow> rstate \<Rightarrow> bool \<times> rstate" where
  "hasUnschedulablePod e dcName rackName st =
     (let (r, st) = ListPods e (cc_Namespace (st_cc st))
                      (LabelsForCassandraDCRack (st_cc st) dcName rackName) st in
      (case r of Inl _ \<Rightarrow> False | Inr ps \<Rightarrow> list_ex pod_unschedulable ps, st))"

definition GetStatefulSet :: "env \<Rightarrow> string \<Rightarrow> string \<Rightarrow> rstate \<Rightarrow> (error + stateful_set) \<times> rstate" where
  "GetStatefulSet e ns name st =
     (env_getSts e (st_trace st) ns name, call (GetReq KStatefulSet ns name) st)"

definition DeleteStatefulSet :: "env \<Rightarrow> string \<Rightarrow> string \<Rightarrow> rstate \<Rightarrow> error option \<times> rstate" where
  "DeleteStatefulSet e ns name st =
     (env_write e (st_trace st) (DeleteStsReq ns name False), call (DeleteStsReq ns name False) st)"

definition DeleteStatefulSetWithOrphanOption ::
  "env \<Rightarrow> string \<Rightarrow> string \<Rightarrow> rstate \<Rightarrow> error option \<times> rstate" where
  "DeleteStatefulSetWithOrphanOption e ns name st =
     (env_write e (st_trace st) (DeleteStsReq ns name True), call (DeleteStsReq ns name True) st)"

definition CreateStatefulSet :: "env \<Rightarrow> stateful_set \<Rightarrow> rstate \<Rightarrow> error option \<times> rstate" where
  "CreateStatefulSet e ss st =
     (map_option (\<lambda>err. if err = AlreadyExists then Errorf ''statefulset already exists''
                        else Errorf ''failed to create cassandra statefulset'')
        (env_write e (st_trace st) (CreateStsReq ss)),
      call (CreateStsReq ss) st)"

definition IsStatefulSetReady :: "stateful_set \<Rightarrow> bool option" where
  "IsStatefulSetReady ss =
     do { replicas \<leftarrow> sts_Replicas ss; Some (ss_ReadyReplicas (sts_Status ss) = replicas) }"

definition IsStatefulSetNotReady :: "stateful_set \<Rightarrow> bool option" where
  "IsStatefulSetNotReady ss = map_option Not (IsStatefulSetReady ss)"

definition GetPVC :: "env \<Rightarrow> string \<Rightarrow> string \<Rightarrow> rstate \<Rightarrow> (error + pvc) \<times> rstate" where
  "GetPVC e ns name st = (env_getPvc e (st_trace st) ns name, call (GetReq KPvc ns name) st)"

definition ListPVC :: "env \<Rightarrow> string \<Rightarrow> labels \<Rightarrow> rstate \<Rightarrow> (error + pvc list) \<times> rstate" where
  "ListPVC e ns selector st =
     (env_listPvc e (st_trace st) ns selector, call (ListPvcReq ns selector) st)"

definition UpdatePVC :: "env \<Rightarrow> pvc \<Rightarrow> rstate \<Rightarrow> error option \<times> rstate" where
  "UpdatePVC e p st = (env_write e (st_trace st) (UpdatePvcReq p), call (UpdatePvcReq p) st)"

definition deletePVC :: "env \<Rightarrow> pvc \<Rightarrow> rstate \<Rightarrow> error option \<times> rstate" where
  "deletePVC e p st =
     (let r = DeletePvcReq (meta_Namespace (pvc_Meta p)) (meta_Name (pvc_Meta p)) in
      (env_write e (st_trace st) r, call r st))"

definition DeletePVCs :: "env \<Rightarrow> string \<Rightarrow> string \<Rightarrow> rstate \<Rightarrow> rstate" where
  "DeletePVCs e dcName rackName st =
     (let (r, st) = ListPVC e (cc_Namespace (st_cc st))
                      (LabelsForCassandraDCRack (st_cc st) dcName rackName) st in
      foldl (\<lambda>st p. snd (deletePVC e p st)) st (case r of Inl _ \<Rightarrow> [] | Inr ps \<Rightarrow> ps))"

definition DeleteService :: "env \<Rightarrow> string \<Rightarrow> string \<Rightarrow> rstate \<Rightarrow> error option \<times> rstate" where
  "DeleteService e ns name st =
     (env_write e (st_trace st) (DeleteSvcReq ns name), call (DeleteSvcReq ns name) st)"

section \<open>Disruptions and scale downs\<close>

definition hasNoPodDisruption :: "rstate \<Rightarrow> bool" where
  "hasNoPodDisruption st \<longleftrightarrow>
     pdb_DisruptionsAllowed (st_storedPdb st) > 0 \<or> pdb_ExpectedPods (st_storedPdb st) = 0"

definition weAreScalingDown :: "CassandraRackStatus \<Rightarrow> bool" where
  "weAreScalingDown rs =
     (la_Name (rs_CassandraLastAction rs) = state_Name ActionScaleDown \<and>
      (la_Status (rs_CassandraLastAction rs) = StatusToDo \<or>
       la_Status (rs_CassandraLastAction rs) = StatusOngoing \<or>
       la_Status (rs_CassandraLastAction rs) = StatusContinue))"

section \<open>Updating the custom resource\<close>

text \<open>
  updateCassandraStatus(ctx, cc, status) for the cluster object cc and the status given: nothing is
  written when nothing changed; otherwise the object is updated, then its status.  The first error is
  dropped and the second one returned.  An update that succeeds leaves its resource version in cc.
\<close>

definition set_version :: "string \<Rightarrow> CassandraCluster \<Rightarrow> CassandraCluster" where
  "set_version v cc = cc\<lparr>cc_Meta := (cc_Meta cc)\<lparr>meta_ResourceVersion := v\<rparr>\<rparr>"

definition updateCC :: "env \<Rightarrow> rstate \<Rightarrow> error option \<times> rstate" where
  "updateCC e st =
     (case env_updateCC e (st_trace st) (st_cc st) of
        Inl err \<Rightarrow> (Some err, call (UpdateCCReq (st_cc st)) st)
      | Inr v \<Rightarrow> (None, (call (UpdateCCReq (st_cc st)) st)\<lparr>st_cc := set_version v (st_cc st)\<rparr>))"

definition marshalled :: "env \<Rightarrow> CassandraCluster \<Rightarrow> string" where
  "marshalled e cc = (case ComputeLastAppliedConfiguration (env_marshal e) cc of
      Inl _ \<Rightarrow> '''' | Inr s \<Rightarrow> s)"

definition annotation :: "CassandraCluster \<Rightarrow> string" where
  "annotation cc = (case meta_Annotations (cc_Meta cc) AnnotationLastApplied of
      None \<Rightarrow> '''' | Some s \<Rightarrow> s)"

definition set_annotation :: "string \<Rightarrow> CassandraCluster \<Rightarrow> CassandraCluster" where
  "set_annotation s cc = cc\<lparr>cc_Meta := (cc_Meta cc)\<lparr>meta_Annotations :=
      (meta_Annotations (cc_Meta cc))(AnnotationLastApplied \<mapsto> s)\<rparr>\<rparr>"

definition updateCassandraStatus_obj ::
  "env \<Rightarrow> CassandraCluster \<Rightarrow> CassandraClusterStatus \<Rightarrow> rstate
     \<Rightarrow> error option \<times> CassandraCluster \<times> rstate" where
  "updateCassandraStatus_obj e cc status st =
     (let lastApplied = marshalled e cc in
      if \<not> st_needUpdate st \<and> cc_Status cc = status \<and>
         annotation cc = lastApplied \<and> annotation cc \<noteq> ''''
      then (None, cc, st)
      else
        let st = st\<lparr>st_needUpdate := False\<rparr>;
            cc = set_annotation lastApplied cc;
            upd = env_updateCC e (st_trace st) cc;
            st = call (UpdateCCReq cc) st;
            cc = (case upd of Inl _ \<Rightarrow> cc | Inr v \<Rightarrow> set_version v cc);
            cc = cc\<lparr>cc_Status := status\<rparr>;
            upd = env_updateCCStatus e (st_trace st) cc;
            st = call (UpdateCCStatusReq cc) st
        in case upd of
             Inl err \<Rightarrow> (Some err, cc, st)
           | Inr v \<Rightarrow> (None, set_version v cc, st))"

text \<open>The usual call, on rcc.cc and the working status.\<close>

definition updateCassandraStatus :: "env \<Rightarrow> rstate \<Rightarrow> error option \<times> rstate" where
  "updateCassandraStatus e st =
     (let (err, cc, st) = updateCassandraStatus_obj e (st_cc st) (st_status st) st
      in (err, st\<lparr>st_cc := cc\<rparr>))"

section \<open>Frame facts\<close>

lemma call_simps [simp]:
  "st_cc (call r st) = st_cc st" "st_status (call r st) = st_status st"
  "st_needUpdate (call r st) = st_needUpdate st" "st_storedPdb (call r st) = st_storedPdb st"
  "st_storedStatefulSet (call r st) = st_storedStatefulSet st"
  "st_chanRunningOp (call r st) = st_chanRunningOp st"
  "st_trace (call r st) = st_trace st @ [r]"
  by (simp_all add: call_def)

lemma put_rack_simps [simp]:
  "st_cc (put_rack r rs st) = st_cc st" "st_needUpdate (put_rack r rs st) = st_needUpdate st"
  "st_storedPdb (put_rack r rs st) = st_storedPdb st"
  "st_storedStatefulSet (put_rack r rs st) = st_storedStatefulSet st"
  "st_chanRunningOp (put_rack r rs st) = st_chanRunningOp st"
  "st_trace (put_rack r rs st) = st_trace st"
  "st_racks (put_rack r rs st) = (st_racks st)(r \<mapsto> rs)"
  "cs_SeedList (st_status (put_rack r rs st)) = cs_SeedList (st_status st)"
  "cs_Phase (st_status (put_rack r rs st)) = cs_Phase (st_status st)"
  "cs_LastClusterAction (st_status (put_rack r rs st)) = cs_LastClusterAction (st_status st)"
  "cs_LastClusterActionStatus (st_status (put_rack r rs st)) = cs_LastClusterActionStatus (st_status st)"
  "cs_CassandraNodesStatus (st_status (put_rack r rs st)) = cs_CassandraNodesStatus (st_status st)"
  by (simp_all add: put_rack_def)

lemma upd_rack_Some [simp]:
  "st_racks st r = Some rs \<Longrightarrow> upd_rack r f st = Some (put_rack r (f rs) st)"
  by (simp add: upd_rack_def)

lemma upd_rack_None [simp]:
  "st_racks st r = None \<Longrightarrow> upd_rack r f st = None"
  by (simp add: upd_rack_def)

lemma upd_rack_Some_iff:
  "upd_rack r f st = Some st' \<longleftrightarrow> (\<exists>rs. st_racks st r = Some rs \<and> st' = put_rack r (f rs) st)"
  by (auto simp: upd_rack_def bind_eq_Some_conv)

lemma put_rack_put_rack [simp]:
  "put_rack r rs' (put_rack r rs st) = put_rack r rs' st"
  by (simp add: put_rack_def)

lemma call_put_rack: "put_rack r rs (call q st) = call q (put_rack r rs st)"
  by (simp add: put_rack_def call_def)

text \<open>
  The requests a step made, the racks it left alone, and the kinds of requests the properties speak
  about.
\<close>

definition requests :: "rstate \<Rightarrow> rstate \<Rightarrow> request list" where
  "requests st st' = drop (length (st_trace st)) (st_trace st')"

definition touches_sts :: "request \<Rightarrow> bool" where
  "touches_sts r = (case r of CreateStsReq _ \<Rightarrow> True | UpdateStsReq _ \<Rightarrow> True | DeleteStsReq _ _ _ \<Rightarrow> True
     | _ \<Rightarrow> False)"

definition is_query :: "request \<Rightarrow> bool" where
  "is_query r = (case r of JolokiaReq _ \<Rightarrow> True | GetReq _ _ _ \<Rightarrow> True | ListPodsReq _ _ \<Rightarrow> True
     | ListPvcReq _ _ \<Rightarrow> True | _ \<Rightarrow> False)"

definition deletes_pvc :: "request \<Rightarrow> bool" where
  "deletes_pvc r = (case r of DeletePvcReq _ _ \<Rightarrow> True | _ \<Rightarrow> False)"

definition only_rack :: "string \<Rightarrow> rstate \<Rightarrow> rstate \<Rightarrow> bool" where
  "only_rack r st st' \<longleftrightarrow> (\<forall>k. k \<noteq> r \<longrightarrow> st_racks st' k = st_racks st k)"

text \<open>A step that only asks: queries are made, nothing of the state changes.\<close>

definition only_queries :: "rstate \<Rightarrow> rstate \<Rightarrow> bool" where
  "only_queries st st' \<longleftrightarrow> (\<exists>rs. st' = st\<lparr>st_trace := st_trace st @ rs\<rparr> \<and> (\<forall>r \<in> set rs. is_query r))"

lemma is_query_simps [simp]:
  "is_query (JolokiaReq q)" "is_query (GetReq k ns n)" "is_query (ListPodsReq ns l)"
  "is_query (ListPvcReq ns l)" "\<not> is_query (UpdateStsReq ss)" "\<not> is_query (CreateStsReq ss)"
  "\<not> is_query (DeleteStsReq ns n b)" "\<not> is_query (DeletePvcReq ns n)"
  by (simp_all add: is_query_def)

lemma touches_sts_simps [simp]:
  "is_query r \<Longrightarrow> \<not> touches_sts r" "touches_sts (UpdateStsReq ss)" "touches_sts (CreateStsReq ss)"
  "touches_sts (DeleteStsReq ns n b)" "\<not> touches_sts (UpdatePodReq p)" "\<not> touches_sts (UpdateCCReq cc)"
  "\<not> touches_sts (UpdateCCStatusReq cc)" "\<not> touches_sts (DeletePvcReq ns n)" "\<not> touches_sts (Spawn g)"
  "\<not> touches_sts (PhaseMetric i n)" "\<not> touches_sts (ActionMetric i n)"
  by (auto simp: touches_sts_def is_query_def split: request.splits)

lemma deletes_pvc_simps [simp]:
  "is_query r \<Longrightarrow> \<not> deletes_pvc r" "deletes_pvc (DeletePvcReq ns n)" "\<not> deletes_pvc (UpdatePodReq p)"
  "\<not> deletes_pvc (UpdateCCReq cc)" "\<not> deletes_pvc (UpdateCCStatusReq cc)" "\<not> deletes_pvc (Spawn g)"
  "\<not> deletes_pvc (PhaseMetric i n)" "\<not> deletes_pvc (ActionMetric i n)"
  by (auto simp: deletes_pvc_def is_query_def split: request.splits)

lemma only_queries_refl [simp]: "only_queries st st"
  unfolding only_queries_def by (intro exI [of _ "[]"]) simp

lemma only_queries_call [simp]:
  "is_query q \<Longrightarrow> only_queries st (call q st)"
  unfolding only_queries_def call_def by (intro exI [of _ "[q]"]) simp

lemma only_queries_trans [trans]:
  assumes "only_queries st st'" and "only_queries st' st''"
  shows "only_queries st st''"
proof -
  from assms(1) obtain rs where 1: "st' = st\<lparr>st_trace := st_trace st @ rs\<rparr>" "\<forall>r \<in> set rs. is_query r"
    by (auto simp: only_queries_def)
  from assms(2) obtain rs' where 2: "st'' = st'\<lparr>st_trace := st_trace st' @ rs'\<rparr>" "\<forall>r \<in> set rs'. is_query r"
    by (auto simp: only_queries_def)
  from 1 2 have "st'' = st\<lparr>st_trace := st_trace st @ (rs @ rs')\<rparr>" "\<forall>r \<in> set (rs @ rs'). is_query r"
    by auto
  then show ?thesis unfolding only_queries_def by blast
qed

lemma only_queries_state:
  "only_queries st st' \<Longrightarrow> st_cc st' = st_cc st \<and> st_status st' = st_status st \<and>
     st_needUpdate st' = st_needUpdate st \<and> st_storedPdb st' = st_storedPdb st \<and>
     st_storedStatefulSet st' = st_storedStatefulSet st \<and> st_chanRunningOp st' = st_chanRunningOp st"
  by (auto simp: only_queries_def)

lemma only_rack_refl [simp]: "only_rack r st st"
  by (simp add: only_rack_def)

lemma only_rack_trans: "only_rack r st st' \<Longrightarrow> only_rack r st' st'' \<Longrightarrow> only_rack r st st''"
  by (simp add: only_rack_def)

lemma only_rack_put [simp]: "only_rack r st (put_rack r rs st') \<longleftrightarrow> only_rack r st st'"
  by (simp add: only_rack_def)

lemma only_rack_call [simp]: "only_rack r st (call q st') \<longleftrightarrow> only_rack r st st'"
  by (simp add: only_rack_def)

lemma requests_self [simp]: "requests st st = []"
  by (simp add: requests_def)

lemma requests_call:
  "prefix (st_trace st) (st_trace st') \<Longrightarrow> requests st (call q st') = requests st st' @ [q]"
  by (auto simp: requests_def prefix_def)

lemma requests_put [simp]: "requests st (put_rack r rs st') = requests st st'"
  by (simp add: requests_def)

text \<open>A step that neither writes a statefulset nor deletes a volume claim.\<close>

definition quiet :: "rstate \<Rightarrow> rstate \<Rightarrow> bool" where
  "quiet st st' \<longleftrightarrow> (\<exists>rs. st_trace st' = st_trace st @ rs \<and> (\<forall>q \<in> set rs. \<not> touches_sts q \<and> \<not> deletes_pvc q))"

lemma quiet_refl [simp]: "quiet st st"
  unfolding quiet_def by (intro exI [of _ "[]"]) simp

lemma quiet_trans [trans]:
  assumes "quiet st st'" and "quiet st' st''"
  shows "quiet st st''"
proof -
  from assms(1) obtain rs where 1: "st_trace st' = st_trace st @ rs"
      "\<forall>q \<in> set rs. \<not> touches_sts q \<and> \<not> deletes_pvc q" by (auto simp: quiet_def)
  from assms(2) obtain rs' where 2: "st_trace st'' = st_trace st' @ rs'"
      "\<forall>q \<in> set rs'. \<not> touches_sts q \<and> \<not> deletes_pvc q" by (auto simp: quiet_def)
  from 1 2 have "st_trace st'' = st_trace st @ (rs @ rs')"
      "\<forall>q \<in> set (rs @ rs'). \<not> touches_sts q \<and> \<not> deletes_pvc q" by auto
  then show ?thesis unfolding quiet_def by blast
qed

lemma quiet_call:
  assumes "quiet st st'" and "\<not> touches_sts q" and "\<not> deletes_pvc q"
  shows "quiet st (call q st')"
proof -
  have "quiet st' (call q st')"
    unfolding quiet_def using assms(2,3) by (intro exI [of _ "[q]"]) simp
  with assms(1) show ?thesis by (rule quiet_trans)
qed

lemma quiet_same_trace: "st_trace st' = st_trace st \<Longrightarrow> quiet st st'"
  unfolding quiet_def by (intro exI [of _ "[]"]) simp

lemma quiet_simps [simp]:
  "quiet st (put_rack r rs st') \<longleftrightarrow> quiet st st'"
  "quiet st (st'\<lparr>st_cc := cc\<rparr>) \<longleftrightarrow> quiet st st'"
  "quiet st (st'\<lparr>st_status := s\<rparr>) \<longleftrightarrow> quiet st st'"
  "quiet st (st'\<lparr>st_storedStatefulSet := ss\<rparr>) \<longleftrightarrow> quiet st st'"
  "quiet st (st'\<lparr>st_needUpdate := b\<rparr>) \<longleftrightarrow> quiet st st'"
  "quiet (st\<lparr>st_storedStatefulSet := ss\<rparr>) st' \<longleftrightarrow> quiet st st'"
  by (simp_all add: quiet_def)

lemma only_queries_quiet: "only_queries st st' \<Longrightarrow> quiet st st'"
  by (auto simp: only_queries_def quiet_def)

lemma only_queries_only_rack: "only_queries st st' \<Longrightarrow> only_rack r st st'"
  by (auto simp: only_queries_def only_rack_def)

lemma quiet_no_sts: "quiet st st' \<Longrightarrow> q \<in> set (requests st st') \<Longrightarrow> \<not> touches_sts q \<and> \<not> deletes_pvc q"
  by (auto simp: quiet_def requests_def)

lemma quiet_put_left [simp]: "quiet (put_rack r rs st) st' \<longleftrightarrow> quiet st st'"
  by (simp add: quiet_def)

lemma quiet_from_call:
  "quiet (call q st) st' \<Longrightarrow> \<not> touches_sts q \<Longrightarrow> \<not> deletes_pvc q \<Longrightarrow> quiet st st'"
  by (blast intro: quiet_trans quiet_call quiet_refl)

text \<open>
  The contract of the steps that decide for a rack r without acting on its statefulset or its volumes:
  the working status of no other rack changes, no statefulset is written and no claim is deleted.
\<close>

locale quiet_step =
  fixes r :: string and f :: "rstate \<Rightarrow> ('a \<times> rstate) option"
  assumes frame: "f st = Some (x, st') \<Longrightarrow> only_rack r st st' \<and> quiet st st'"
begin

lemma frame_requests:
  "f st = Some (x, st') \<Longrightarrow> q \<in> set (requests st st') \<Longrightarrow> \<not> touches_sts q \<and> \<not> deletes_pvc q"
  using frame quiet_no_sts by blast

lemma frame_other: "f st = Some (x, st') \<Longrightarrow> k \<noteq> r \<Longrightarrow> st_racks st' k = st_racks st k"
  using frame by (auto simp: only_rack_def)

end

section \<open>Examples\<close>

text \<open>
  An environment in which every write succeeds, every read finds nothing and the clock stands at
  1000 seconds, a reconciler at the start of a pass, and a rack in a given phase with a given action.
\<close>

definition example_env :: env where
  "example_env = \<lparr>
     env_now = \<lambda>_. 1000 * second,
     env_wall = \<lambda>_. \<lparr>cv_year = 2024, cv_month = 1, cv_day = 1, cv_hour = 0, cv_minute = 0, cv_second = 0\<rparr>,
     env_getPod = \<lambda>_ _ _. Inl NotFound, env_listPods = \<lambda>_ _ _. Inr [],
     env_getSts = \<lambda>_ _ _. Inl NotFound, env_getPvc = \<lambda>_ _ _. Inl NotFound,
     env_listPvc = \<lambda>_ _ _. Inr [], env_getPdb = \<lambda>_ _ _. Inl NotFound,
     env_getSecret = \<lambda>_ _ _. None, env_getCC = \<lambda>_ _ _. Inl NotFound,
     env_write = \<lambda>_ _. None, env_updateCC = \<lambda>_ _. Inr ''2'', env_updateCCStatus = \<lambda>_ _. Inr ''3'',
     env_jolokia = \<lambda>_ _. Inr \<lparr>jr_Error = '''', jr_Value = JNull\<rparr>,
     env_marshal = \<lambda>_. Inr ''{}'', env_unmarshal = \<lambda>_. Inl (Errorf ''unmarshal''),
     env_seedListsDiffer = (\<noteq>), env_topologyDiff = \<lambda>_ _. [], env_patchIsEmpty = \<lambda>_ _. True,
     env_parseQuantity = \<lambda>s. if s \<noteq> '''' \<and> list_all is_digit s
       then Some \<lparr>q_value = int (digits_val s) * 10 ^ 9, q_format = s\<rparr> else None,
     env_marshalSts = \<lambda>_. Inr ''sts'', env_unmarshalSts = \<lambda>_. Inl (Errorf ''unmarshal''),
     env_originalSts = Inr, env_encodeLastApplied = \<lambda>_. Inr ''applied'',
     env_modifiedSts = \<lambda>_. Inr ''applied'', env_mapOrder = id, env_marshalConfig = \<lambda>_. ''{}'',
     env_ParseJSON = \<lambda>_. Some JNull, env_Path = \<lambda>_ _. Some JNull, env_SetP = \<lambda>g _ _. g,
     env_DeleteP = \<lambda>g _. g, env_MergeFn = \<lambda>g _ _. g, env_gabsString = \<lambda>_. ''{}'',
     env_POD_NAME = ''casskop-0''\<rparr>"

definition example_rack :: "string \<Rightarrow> string \<Rightarrow> string \<Rightarrow> CassandraRackStatus" where
  "example_rack phase name status =
     \<lparr>rs_Phase = phase, rs_CassandraLastAction = no_action\<lparr>la_Name := name, la_Status := status\<rparr>,
      rs_PodLastOperation = no_operation, rs_StatefulSetSnapshotBeforeStorageResize = []\<rparr>"

definition example_state :: "CassandraCluster \<Rightarrow> (string \<rightharpoonup> CassandraRackStatus) \<Rightarrow> rstate" where
  "example_state cc racks =
     \<lparr>st_cc = cc\<lparr>cc_Status := (cc_Status cc)\<lparr>cs_CassandraRackStatus := racks\<rparr>\<rparr>,
      st_status = (cc_Status cc)\<lparr>cs_CassandraRackStatus := racks\<rparr>, st_needUpdate = False,
      st_storedPdb = (bare_pdb ''ns'' ''demo'')\<lparr>pdb_DisruptionsAllowed := 1\<rparr>,
      st_storedStatefulSet = None, st_chanRunningOp = [], st_trace = []\<rparr>"

text \<open>
  Two racks of three nodes, the first of which is looked at, its statefulset of n ready nodes, and an
  environment with three ready pods where no node is joining.
\<close>

definition demo_cluster :: CassandraCluster where
  "demo_cluster = example_cluster 3 [zero_dc ''dc1'' [zero_rack ''rack1'', zero_rack ''rack2'']]"

definition demo_rack :: CompleteRackName where
  "demo_rack = \<lparr>crn_DcName = ''dc1'', crn_RackName = ''rack1'', crn_DcRackName = ''dc1-rack1''\<rparr>"

definition demo_sts :: "int \<Rightarrow> stateful_set" where
  "demo_sts n = (bare_sts ''ns'' ''demo-dc1-rack1'')\<lparr>sts_Replicas := Some n,
     sts_Status := zero_sts_status\<lparr>ss_Replicas := n, ss_ReadyReplicas := n\<rparr>\<rparr>"

definition demo_env :: env where
  "demo_env = example_env\<lparr>
     env_listPods := \<lambda>_ _ _. Inr [example_pod ''demo-dc1-rack1-2'', example_pod ''demo-dc1-rack1-0'',
       example_pod ''demo-dc1-rack1-1''],
     env_jolokia := \<lambda>_ _. Inr \<lparr>jr_Error = '''', jr_Value = JList []\<rparr>\<rparr>"

end
