(* ===== verification/Node_Operations.thy ===== *)
theory Node_Operations
  imports Rcc
begin

text \<open>
  src/controllers/cassandracluster/node_operations.go: the calls to a Cassandra node through its
  Jolokia agent.  A client is the host it talks to.  The checked type assertions of Go are case
  distinctions on the value of the response; the unchecked ones (a compaction that is not a map, a
  token range that is not a string) panic.
\<close>

definition StorageService :: string where
  "StorageService = ''org.apache.cassandra.db:type=StorageService''"

definition StreamManager :: string where
  "StreamManager = ''org.apache.cassandra.net:type=StreamManager''"

definition CompactionManager :: string where
  "CompactionManager = ''org.apache.cassandra.db:type=CompactionManager''"

definition localSystemKeyspaces :: "string list" where
  "localSystemKeyspaces = [''system'', ''system_schema'']"

definition NewJolokiaClient ::
  "env \<Rightarrow> string \<Rightarrow> string \<Rightarrow> string \<Rightarrow> rstate \<Rightarrow> (error + string) \<times> rstate" where
  "NewJolokiaClient e host secretRef namespace st =
     (if secretRef \<noteq> ''''
      then (case env_getSecret e (st_trace st) namespace secretRef of
              Some err \<Rightarrow> Inl err | None \<Rightarrow> Inr host,
            call (GetReq KSecret namespace secretRef) st)
      else (Inr host, st))"

definition checkJolokiaErrors :: "error + jresponse \<Rightarrow> error + jval" where
  "checkJolokiaErrors r =
     (case r of Inl err \<Rightarrow> Inl err
      | Inr resp \<Rightarrow> if jr_Error resp \<noteq> '''' then Inl (Errorf (jr_Error resp)) else Inr (jr_Value resp))"

definition executeReadRequest ::
  "env \<Rightarrow> string \<Rightarrow> string \<Rightarrow> string \<Rightarrow> rstate \<Rightarrow> (error + jval) \<times> rstate" where
  "executeReadRequest e host mBean attribute st =
     (let q = JRead host mBean attribute in
      (checkJolokiaErrors (env_jolokia e (st_trace st) q), call (JolokiaReq q) st))"

definition executeOperation ::
  "env \<Rightarrow> string \<Rightarrow> string \<Rightarrow> string \<Rightarrow> jval list \<Rightarrow> rstate \<Rightarrow> (error + jval) \<times> rstate" where
  "executeOperation e host mBean operation args st =
     (let q = JExec host mBean operation args in
      (checkJolokiaErrors (env_jolokia e (st_trace st) q), call (JolokiaReq q) st))"

fun jstrings :: "jval list \<Rightarrow> string list" where
  "jstrings [] = []"
| "jstrings (JString s # vs) = s # jstrings vs"
| "jstrings (v # vs) = jstrings vs"

definition string_slice :: "error + jval \<Rightarrow> error + string list" where
  "string_slice r =
     (case r of Inl err \<Rightarrow> Inl (Errorf ''cannot get list'')
      | Inr (JList vs) \<Rightarrow> Inr (jstrings vs)
      | Inr _ \<Rightarrow> Inl (Errorf ''value returned by Jolokia is not a slice''))"

definition leavingNodes :: "env \<Rightarrow> string \<Rightarrow> rstate \<Rightarrow> (error + string list) \<times> rstate" where
  "leavingNodes e host st =
     (let (r, st) = executeReadRequest e host StorageService ''LeavingNodes'' st in (string_slice r, st))"

definition hostIDMap :: "env \<Rightarrow> string \<Rightarrow> rstate \<Rightarrow> (error + labels) \<times> rstate" where
  "hostIDMap e host st =
     (let (r, st) = executeReadRequest e host StorageService ''HostIdMap'' st in
      (case r of Inl err \<Rightarrow> Inl (Errorf ''cannot get host id map'')
       | Inr (JMap m) \<Rightarrow> Inr (\<lambda>k. case map_of m k of Some (JString s) \<Rightarrow> Some s | _ \<Rightarrow> None)
       | Inr _ \<Rightarrow> Inl (Errorf ''value returned by Jolokia is not a map''), st))"

definition keyspaces :: "env \<Rightarrow> string \<Rightarrow> rstate \<Rightarrow> (error + string list) \<times> rstate" where
  "keyspaces e host st =
     (let (r, st) = executeReadRequest e host StorageService ''Keyspaces'' st in (string_slice r, st))"

definition nonLocalKeyspaces :: "env \<Rightarrow> string \<Rightarrow> rstate \<Rightarrow> (error + string list) \<times> rstate" where
  "nonLocalKeyspaces e host st =
     (let (r, st) = keyspaces e host st in
      (map_sum id (filter (\<lambda>k. \<not> List.member localSystemKeyspaces k)) r, st))"

fun NodeCleanupKeyspaces ::
  "env \<Rightarrow> string \<Rightarrow> int \<Rightarrow> string list \<Rightarrow> rstate \<Rightarrow> error option \<times> rstate" where
  "NodeCleanupKeyspaces e host threads [] st = (None, st)"
| "NodeCleanupKeyspaces e host threads (k # ks) st =
     (let (r, st) = executeOperation e host StorageService
                      ''forceKeyspaceCleanup(int,java.lang.String,[Ljava.lang.String;)''
                      [JInt threads, JString k, JList []] st in
      case r of Inl err \<Rightarrow> (Some err, st) | Inr _ \<Rightarrow> NodeCleanupKeyspaces e host threads ks st)"

definition NodeCleanup :: "env \<Rightarrow> string \<Rightarrow> int \<Rightarrow> rstate \<Rightarrow> error option \<times> rstate" where
  "NodeCleanup e host threads st =
     (let (r, st) = nonLocalKeyspaces e host st in
      case r of Inl err \<Rightarrow> (Some err, st) | Inr ks \<Rightarrow> NodeCleanupKeyspaces e host threads ks st)"

fun NodeUpgradeSSTablesKeyspaces ::
  "env \<Rightarrow> string \<Rightarrow> string list \<Rightarrow> int \<Rightarrow> rstate \<Rightarrow> error option \<times> rstate" where
  "NodeUpgradeSSTablesKeyspaces e host [] threads st = (None, st)"
| "NodeUpgradeSSTablesKeyspaces e host (k # ks) threads st =
     (let (r, st) = executeOperation e host StorageService
                      ''upgradeSSTables(java.lang.String,boolean,int,[Ljava.lang.String;)''
                      [JString k, JBool True, JInt threads, JList []] st in
      case r of Inl err \<Rightarrow> (Some err, st) | Inr _ \<Rightarrow> NodeUpgradeSSTablesKeyspaces e host ks threads st)"

definition NodeUpgradeSSTables :: "env \<Rightarrow> string \<Rightarrow> int \<Rightarrow> rstate \<Rightarrow> error option \<times> rstate" where
  "NodeUpgradeSSTables e host threads st =
     (let (r, st) = keyspaces e host st in
      case r of Inl err \<Rightarrow> (Some err, st) | Inr ks \<Rightarrow> NodeUpgradeSSTablesKeyspaces e host ks threads st)"

definition NodeRebuild :: "env \<Rightarrow> string \<Rightarrow> string \<Rightarrow> rstate \<Rightarrow> error option \<times> rstate" where
  "NodeRebuild e host dc st =
     (let (r, st) = executeOperation e host StorageService ''rebuild(java.lang.String)'' [JString dc] st in
      (case r of Inl _ \<Rightarrow> Some (Errorf ''cannot rebuild'') | Inr _ \<Rightarrow> None, st))"

definition NodeDecommission :: "env \<Rightarrow> string \<Rightarrow> bool \<Rightarrow> rstate \<Rightarrow> error option \<times> rstate" where
  "NodeDecommission e host v4 st =
     (let (r, st) = executeOperation e host StorageService ''decommission''
                      (if v4 then [JBool True] else []) st in
      (case r of Inl _ \<Rightarrow> Some (Errorf ''cannot decommission'') | Inr _ \<Rightarrow> None, st))"

definition NodeRemove :: "env \<Rightarrow> string \<Rightarrow> string \<Rightarrow> rstate \<Rightarrow> error option \<times> rstate" where
  "NodeRemove e host hostid st =
     (let (r, st) = executeOperation e host StorageService ''removeNode'' [JString hostid] st in
      (case r of Inl _ \<Rightarrow> Some (Errorf ''cannot remove node'') | Inr _ \<Rightarrow> None, st))"

definition NodeOperationMode :: "env \<Rightarrow> string \<Rightarrow> rstate \<Rightarrow> (error + string) \<times> rstate" where
  "NodeOperationMode e host st =
     (let (r, st) = executeReadRequest e host StorageService ''OperationMode'' st in
      (case r of Inl _ \<Rightarrow> Inl (Errorf ''cannot get OperationMode'')
       | Inr (JString s) \<Rightarrow> Inr s | Inr _ \<Rightarrow> Inr '''', st))"

definition jlist :: "jval \<Rightarrow> jval list" where
  "jlist v = (case v of JList vs \<Rightarrow> vs | _ \<Rightarrow> [])"

definition hasStreamingSessions :: "env \<Rightarrow> string \<Rightarrow> rstate \<Rightarrow> (error + bool) \<times> rstate" where
  "hasStreamingSessions e host st =
     (let (r, st) = executeReadRequest e host StreamManager ''CurrentStreams'' st in
      (case r of Inl _ \<Rightarrow> Inl (Errorf ''cannot get list of current streams'')
       | Inr v \<Rightarrow> Inr (length (jlist v) > 0), st))"

fun compactions_loop :: "string \<Rightarrow> jval list \<Rightarrow> bool option" where
  "compactions_loop name [] = Some False"
| "compactions_loop name (c # cs) =
     (case c of
        JMap m \<Rightarrow> if map_of m ''taskType'' = Some (JString name) then Some True else compactions_loop name cs
      | _ \<Rightarrow> panic)"

definition hasCompactions :: "env \<Rightarrow> string \<Rightarrow> string \<Rightarrow> rstate \<Rightarrow> ((error + bool) \<times> rstate) option" where
  "hasCompactions e host name st =
     (let (r, st) = executeReadRequest e host CompactionManager ''Compactions'' st in
      case r of Inl _ \<Rightarrow> Some (Inl (Errorf ''cannot get list of current compactions''), st)
      | Inr v \<Rightarrow> do { b \<leftarrow> compactions_loop name (jlist v); Some (Inr b, st) })"

definition hasCleanupCompactions :: "env \<Rightarrow> string \<Rightarrow> rstate \<Rightarrow> ((error + bool) \<times> rstate) option" where
  "hasCleanupCompactions e host st = hasCompactions e host ''Cleanup'' st"

definition hasUpgradeSSTablesCompactions ::
  "env \<Rightarrow> string \<Rightarrow> rstate \<Rightarrow> ((error + bool) \<times> rstate) option" where
  "hasUpgradeSSTablesCompactions e host st = hasCompactions e host ''Upgrade sstables'' st"

definition hasLeavingNodes :: "env \<Rightarrow> string \<Rightarrow> rstate \<Rightarrow> (error + bool) \<times> rstate" where
  "hasLeavingNodes e host st =
     (let (r, st) = leavingNodes e host st in (map_sum id (\<lambda>ns. length ns > 0) r, st))"

definition jolokia_hasJoiningNodes :: "env \<Rightarrow> string \<Rightarrow> rstate \<Rightarrow> (error + bool) \<times> rstate" where
  "jolokia_hasJoiningNodes e host st =
     (let (r, st) = executeReadRequest e host StorageService ''JoiningNodes'' st in
      (case r of Inl _ \<Rightarrow> Inl (Errorf ''cannot check if there are joining nodes'')
       | Inr v \<Rightarrow> Inr (length (jlist v) > 0), st))"

text \<open>
  The expression "datacenter:" followed by the name, searched for anywhere in the text.  The name is
  a DC name or a label value, so the only character of it with a meaning in an expression is the dot.
\<close>

fun pattern_prefix :: "string \<Rightarrow> string \<Rightarrow> bool" where
  "pattern_prefix [] s = True"
| "pattern_prefix (p # ps) [] = False"
| "pattern_prefix (p # ps) (c # cs) =
     ((p = c \<or> p = CHR ''.'' \<and> c \<noteq> CHR 0x0A) \<and> pattern_prefix ps cs)"

definition MatchString :: "string \<Rightarrow> string \<Rightarrow> bool" where
  "MatchString pat s = list_ex (pattern_prefix pat) (suffixes s)"

fun token_ranges_loop :: "string \<Rightarrow> jval list \<Rightarrow> bool option" where
  "token_ranges_loop pat [] = Some False"
| "token_ranges_loop pat (v # vs) =
     (case v of JString s \<Rightarrow> if MatchString pat s then Some True else token_ranges_loop pat vs
      | _ \<Rightarrow> panic)"

definition hasKeyspaceDataInDC ::
  "env \<Rightarrow> string \<Rightarrow> string \<Rightarrow> string \<Rightarrow> rstate \<Rightarrow> ((error + bool) \<times> rstate) option" where
  "hasKeyspaceDataInDC e host keyspace dc st =
     (let (r, st) = executeOperation e host StorageService ''describeRingJMX'' [JString keyspace] st in
      case r of Inl _ \<Rightarrow> Some (Inl (Errorf ''cannot describe ring''), st)
      | Inr v \<Rightarrow> do { b \<leftarrow> token_ranges_loop (''datacenter:'' @ dc) (jlist v); Some (Inr b, st) })"

fun keyspaces_in_dc_loop ::
  "env \<Rightarrow> string \<Rightarrow> string \<Rightarrow> string list \<Rightarrow> string list \<Rightarrow> rstate
     \<Rightarrow> ((error + string list) \<times> rstate) option" where
  "keyspaces_in_dc_loop e host dc [] acc st = Some (Inr acc, st)"
| "keyspaces_in_dc_loop e host dc (k # ks) acc st =
     do { (r, st) \<leftarrow> hasKeyspaceDataInDC e host k dc st;
          case r of
            Inl err \<Rightarrow> Some (Inl err, st)
          | Inr dataFound \<Rightarrow>
              keyspaces_in_dc_loop e host dc ks (if dataFound then acc @ [k] else acc) st }"

definition NonLocalKeyspacesInDC ::
  "env \<Rightarrow> string \<Rightarrow> string \<Rightarrow> rstate \<Rightarrow> ((error + string list) \<times> rstate) option" where
  "NonLocalKeyspacesInDC e host dc st =
     (let (r, st) = nonLocalKeyspaces e host st in
      case r of Inl err \<Rightarrow> Some (Inl err, st) | Inr ks \<Rightarrow> keyspaces_in_dc_loop e host dc ks [] st)"

section \<open>Facts\<close>

text \<open>
  Every call of this file reads or drives a node; none touches the state of the reconciler.
\<close>

lemma execute_queries [simp]:
  "only_queries st (snd (executeReadRequest e host mBean attribute st))"
  "only_queries st (snd (executeOperation e host mBean operation args st))"
  "only_queries st (snd (NewJolokiaClient e host secretRef namespace st))"
  by (simp_all add: executeReadRequest_def executeOperation_def NewJolokiaClient_def Let_def)

lemma node_reads_queries [simp]:
  "only_queries st (snd (leavingNodes e host st))"
  "only_queries st (snd (hostIDMap e host st))"
  "only_queries st (snd (keyspaces e host st))"
  "only_queries st (snd (nonLocalKeyspaces e host st))"
  "only_queries st (snd (NodeOperationMode e host st))"
  "only_queries st (snd (jolokia_hasJoiningNodes e host st))"
  "only_queries st (snd (NodeRemove e host hostid st))"
  "only_queries st (snd (NodeDecommission e host v4 st))"
  by (simp_all add: leavingNodes_def hostIDMap_def keyspaces_def nonLocalKeyspaces_def NodeOperationMode_def
      jolokia_hasJoiningNodes_def NodeRemove_def NodeDecommission_def Let_def split: prod.split)
    (metis execute_queries(1,2) prod.sel(2))+

lemma pattern_prefix_literal:
  "CHR ''.'' \<notin> set pat \<Longrightarrow> pattern_prefix pat s \<longleftrightarrow> prefix pat s"
  by (induction pat s rule: pattern_prefix.induct) auto

lemma MatchString_literal:
  "CHR ''.'' \<notin> set pat \<Longrightarrow> MatchString pat s \<longleftrightarrow> sublist pat s"
  by (auto simp: MatchString_def list_ex_iff pattern_prefix_literal in_set_suffixes
      sublist_altdef')

lemma token_ranges_loop_strings:
  "token_ranges_loop pat (map JString ss) = Some (list_ex (MatchString pat) ss)"
  by (induction ss) auto

text \<open>A node that reports the keyspaces ks, with the token ranges ring k for each keyspace k.\<close>

definition reports :: "env \<Rightarrow> string \<Rightarrow> string list \<Rightarrow> (string \<Rightarrow> string list) \<Rightarrow> bool" where
  "reports e host ks ring \<longleftrightarrow>
     (\<forall>tr. env_jolokia e tr (JRead host StorageService ''Keyspaces'') =
        Inr \<lparr>jr_Error = '''', jr_Value = JList (map JString ks)\<rparr>) \<and>
     (\<forall>tr k. env_jolokia e tr (JExec host StorageService ''describeRingJMX'' [JString k]) =
        Inr \<lparr>jr_Error = '''', jr_Value = JList (map JString (ring k))\<rparr>)"

lemma jstrings_map [simp]: "jstrings (map JString ss) = ss"
  by (induction ss) auto

lemma hasKeyspaceDataInDC_reports:
  "reports e host ks ring \<Longrightarrow> \<exists>st'. hasKeyspaceDataInDC e host k dc st =
     Some (Inr (list_ex (MatchString (''datacenter:'' @ dc)) (ring k)), st') \<and> only_queries st st'"
  by (auto simp: hasKeyspaceDataInDC_def executeOperation_def checkJolokiaErrors_def reports_def jlist_def
      token_ranges_loop_strings)

lemma keyspaces_in_dc_loop_reports:
  assumes "reports e host kss ring"
  shows "\<exists>st'. keyspaces_in_dc_loop e host dc ks acc st =
     Some (Inr (acc @ filter (\<lambda>k. list_ex (MatchString (''datacenter:'' @ dc)) (ring k)) ks), st') \<and>
     only_queries st st'"
proof (induction ks arbitrary: acc st)
  case (Cons k ks)
  obtain st1 where 1: "hasKeyspaceDataInDC e host k dc st =
     Some (Inr (list_ex (MatchString (''datacenter:'' @ dc)) (ring k)), st1)" "only_queries st st1"
    using hasKeyspaceDataInDC_reports [OF assms] by blast
  let ?m = "list_ex (MatchString (''datacenter:'' @ dc)) (ring k)"
  obtain st' where "keyspaces_in_dc_loop e host dc ks (if ?m then acc @ [k] else acc) st1 =
     Some (Inr ((if ?m then acc @ [k] else acc) @
       filter (\<lambda>k. list_ex (MatchString (''datacenter:'' @ dc)) (ring k)) ks), st')" "only_queries st1 st'"
    using Cons by blast
  with 1 show ?case by (auto intro: only_queries_trans)
qed simp

lemma NonLocalKeyspacesInDC_reports:
  assumes "reports e host ks ring" and "CHR ''.'' \<notin> set dc"
  shows "\<exists>st'. NonLocalKeyspacesInDC e host dc st =
     Some (Inr (filter (\<lambda>k. k \<notin> {''system'', ''system_schema''} \<and>
       (\<exists>s \<in> set (ring k). sublist (''datacenter:'' @ dc) s)) ks), st') \<and> only_queries st st'"
proof -
  let ?st = "call (JolokiaReq (JRead host StorageService ''Keyspaces'')) st"
  let ?ks = "filter (\<lambda>k. \<not> List.member localSystemKeyspaces k) ks"
  have m: "MatchString (''datacenter:'' @ dc) = sublist (''datacenter:'' @ dc)"
    using assms(2) by (intro ext MatchString_literal) simp
  have "NonLocalKeyspacesInDC e host dc st = keyspaces_in_dc_loop e host dc ?ks [] ?st"
    using assms(1) by (simp add: NonLocalKeyspacesInDC_def nonLocalKeyspaces_def keyspaces_def
        executeReadRequest_def checkJolokiaErrors_def string_slice_def reports_def)
  moreover obtain st' where 2: "keyspaces_in_dc_loop e host dc ?ks [] ?st =
     Some (Inr (filter (\<lambda>k. list_ex (MatchString (''datacenter:'' @ dc)) (ring k)) ?ks), st')"
     "only_queries ?st st'"
    using keyspaces_in_dc_loop_reports [OF assms(1), of dc ?ks "[]" ?st] by auto
  moreover have "filter (\<lambda>k. list_ex (MatchString (''datacenter:'' @ dc)) (ring k)) ?ks =
      filter (\<lambda>k. k \<notin> {''system'', ''system_schema''} \<and> (\<exists>s \<in> set (ring k). sublist (''datacenter:'' @ dc) s)) ks"
    by (simp only: m list_ex_iff filter_filter) (simp add: localSystemKeyspaces_def conj_commute)
  moreover have "only_queries st st'"
    by (rule only_queries_trans [OF _ 2(2)]) simp
  ultimately show ?thesis by simp
qed

lemma hasKeyspaceDataInDC_queries: "hasKeyspaceDataInDC e host k dc st = Some (r, st') \<Longrightarrow> only_queries st st'"
  by (auto simp: hasKeyspaceDataInDC_def executeOperation_def Let_def split: sum.split_asm Option.bind_split_asm)

lemma keyspaces_in_dc_loop_queries: "keyspaces_in_dc_loop e host dc ks acc st = Some (r, st') \<Longrightarrow> only_queries st st'"
proof (induction ks arbitrary: acc st)
  case (Cons k ks)
  then obtain x st1 where 1: "hasKeyspaceDataInDC e host k dc st = Some (x, st1)" by (auto split: Option.bind_split_asm)
  note q = hasKeyspaceDataInDC_queries [OF 1]
  show ?case
  proof (cases x)
    case (Inl err)
    with Cons.prems 1 q show ?thesis by auto
  next
    case (Inr found)
    with Cons.prems 1 have "keyspaces_in_dc_loop e host dc ks (if found then acc @ [k] else acc) st1 = Some (r, st')" by simp
    from only_queries_trans [OF q Cons.IH [OF this]] show ?thesis .
  qed
qed simp

lemma NonLocalKeyspacesInDC_queries:
  assumes "NonLocalKeyspacesInDC e host dc st = Some (r, st')"
  shows "only_queries st st'"
proof -
  obtain x st1 where 1: "nonLocalKeyspaces e host st = (x, st1)" by fastforce
  then have "only_queries st st1" using node_reads_queries(4) [of st e host] by simp
  with 1 assms show ?thesis
    by (auto simp: NonLocalKeyspacesInDC_def split: sum.split_asm dest!: keyspaces_in_dc_loop_queries intro: only_queries_trans)
qed

text \<open>A keyspace replicated to dc10 only.\<close>

definition ring_env :: env where
  "ring_env = example_env\<lparr>env_jolokia := \<lambda>_ q. Inr \<lparr>jr_Error = '''', jr_Value =
     (case q of JRead _ _ _ \<Rightarrow> JList [JString ''system'', JString ''shop'']
      | JExec _ _ _ _ \<Rightarrow> JList [JString ''endpoint, datacenter:dc10, rack''])\<rparr>\<rparr>"

section \<open>Properties\<close>

text \<open>
  For a node that answers, the keyspaces said to have data in a DC are, in the order the
  node lists them, the keyspaces other than the local system ones one of whose token ranges contains
  the text "datacenter:" followed by the name.  The name is not delimited, so data in dc10 counts as
  data in dc1.
\<close>

lemma keyspaces_in_dc:
  assumes "reports e host ks ring" and "CHR ''.'' \<notin> set dc"
  shows "\<exists>st'. NonLocalKeyspacesInDC e host dc st =
     Some (Inr (filter (\<lambda>k. k \<notin> {''system'', ''system_schema''} \<and>
       (\<exists>s \<in> set (ring k). sublist (''datacenter:'' @ dc) s)) ks), st') \<and> only_queries st st'"
  by (rule NonLocalKeyspacesInDC_reports [OF assms])

end
