(* ===== verification/Cluster_Pods.thy ===== *)
theory Cluster_Pods
  imports Node_Operations
begin

text \<open>
  The checks that go over all pods of a cluster: ListCassandraClusterPods, CheckPodsState and its
  helpers of src/controllers/cassandracluster/reconcile.go, and hasJoiningNodes and
  addPodOperationLabels of src/controllers/cassandracluster/pod_operation.go.
\<close>

text \<open>The pairs of indices that the nested loops over the DCs and their racks visit, in order.\<close>

definition rack_indices :: "CassandraCluster \<Rightarrow> (nat \<times> nat) list" where
  "rack_indices cc = concat (map (\<lambda>dc. map (Pair dc) [0..<GetRackSize cc dc]) [0..<GetDCSize cc])"

definition bad_names :: error where
  "bad_names = Errorf ''name used for DC and/or Rack are not good''"

fun list_cluster_pods_loop ::
  "env \<Rightarrow> CassandraCluster \<Rightarrow> (nat \<times> nat) list \<Rightarrow> pod list \<Rightarrow> rstate \<Rightarrow> (error + pod list) \<times> rstate" where
  "list_cluster_pods_loop e cc [] acc st = (Inr acc, st)"
| "list_cluster_pods_loop e cc ((dc, rack) # rs) acc st =
     (let dcName = GetDCName cc dc; rackName = GetRackName cc dc rack in
      if GetDCRackName dcName rackName = '''' then (Inl bad_names, st)
      else let (r, st) = ListPods e (cc_Namespace cc) (LabelsForCassandraDCRack cc dcName rackName) st
           in case r of Inl err \<Rightarrow> (Inl err, st) | Inr ps \<Rightarrow> list_cluster_pods_loop e cc rs (acc @ ps) st)"

definition ListCassandraClusterPods :: "env \<Rightarrow> rstate \<Rightarrow> (error + pod list) \<times> rstate" where
  "ListCassandraClusterPods e st =
     list_cluster_pods_loop e (st_cc st) (rack_indices (st_cc st)) [] st"

definition hasJoiningNodes :: "env \<Rightarrow> rstate \<Rightarrow> (error + bool) \<times> rstate" where
  "hasJoiningNodes e st =
     (let (r, st) = ListCassandraClusterPods e st in
      case r of Inl err \<Rightarrow> (Inl err, st)
      | Inr podsList \<Rightarrow>
          case GetLastOrFirstPodReady podsList False of
            Inl err \<Rightarrow> (Inl err, st)
          | Inr firstPod \<Rightarrow>
              let (r, st) = NewJolokiaClient e (PodHostname firstPod)
                              (spec_ImageJolokiaSecret (cc_Spec (st_cc st))) (cc_Namespace (st_cc st)) st in
              case r of Inl err \<Rightarrow> (Inl err, st)
              | Inr host \<Rightarrow> jolokia_hasJoiningNodes e host st)"

definition addPodOperationLabels ::
  "env \<Rightarrow> string \<Rightarrow> string \<Rightarrow> labels \<Rightarrow> rstate \<Rightarrow> rstate" where
  "addPodOperationLabels e dcName rackName labels st =
     (let (r, st) = ListPods e (cc_Namespace (st_cc st))
                      (MergeLabels [LabelsForCassandraDCRack (st_cc st) dcName rackName]) st in
      foldl (\<lambda>st p. if \<not> pod_active p then st
                    else snd (UpdatePod e (set_pod_Labels (MergeLabels [pod_Labels p, labels]) p) st))
        st (case r of Inl _ \<Rightarrow> [] | Inr ps \<Rightarrow> ps))"

section \<open>CheckPodsState\<close>

abbreviation st_nodes :: "rstate \<Rightarrow> (string \<rightharpoonup> CassandraNodeStatus) option" where
  "st_nodes st \<equiv> cs_CassandraNodesStatus (st_status st)"

definition set_nodes :: "(string \<rightharpoonup> CassandraNodeStatus) option \<Rightarrow> rstate \<Rightarrow> rstate" where
  "set_nodes m st = st\<lparr>st_status := (st_status st)\<lparr>cs_CassandraNodesStatus := m\<rparr>\<rparr>"

text \<open>Writing into the nil map panics; reading it finds nothing.\<close>

definition updateCassandraNodesStatusForPod :: "labels \<Rightarrow> pod \<Rightarrow> rstate \<Rightarrow> rstate option" where
  "updateCassandraNodesStatusForPod hostIDs p st =
     (case hostIDs (pod_PodIP p) of
        Some hostId \<Rightarrow>
          if IsReady p
          then do { m \<leftarrow> st_nodes st;
                    Some (set_nodes (Some (m(pod_Name p \<mapsto>
                      \<lparr>ns_HostId = hostId, ns_NodeIp = pod_PodIP p\<rparr>))) st) }
          else Some st
      | None \<Rightarrow> Some st)"

definition node_host_id :: "rstate \<Rightarrow> string \<Rightarrow> string" where
  "node_host_id st n =
     (case st_nodes st of None \<Rightarrow> ''''
      | Some m \<Rightarrow> (case m n of None \<Rightarrow> '''' | Some ns \<Rightarrow> ns_HostId ns))"

definition checkPodCrossIpUseCaseForPod :: "labels \<Rightarrow> pod \<Rightarrow> rstate \<Rightarrow> pod option" where
  "checkPodCrossIpUseCaseForPod hostIDs p st =
     (case hostIDs (pod_PodIP p) of
        Some hostId \<Rightarrow> if node_host_id st (pod_Name p) \<noteq> hostId then Some p else None
      | None \<Rightarrow> None)"

fun processingPods :: "labels \<Rightarrow> int \<Rightarrow> pod list \<Rightarrow> rstate \<Rightarrow> (pod option \<times> rstate) option" where
  "processingPods hostIDs restartLimit [] st = Some (None, st)"
| "processingPods hostIDs restartLimit (p # ps) st =
     (if restartLimit > 0 \<and> RestartCount p > restartLimit
      then Some (checkPodCrossIpUseCaseForPod hostIDs p st, st)
      else do { st \<leftarrow> updateCassandraNodesStatusForPod hostIDs p st;
                processingPods hostIDs restartLimit ps st })"

text \<open>The part of CheckPodsState after the Jolokia client of the first ready pod is there.\<close>

definition check_listed_pods :: "env \<Rightarrow> pod list \<Rightarrow> string \<Rightarrow> rstate \<Rightarrow> (error option \<times> rstate) option" where
  "check_listed_pods e podsList host st =
     (let (r, st) = hostIDMap e host st in
      case r of Inl err \<Rightarrow> Some (Some err, st)
      | Inr hostIDs \<Rightarrow>
          do { (podToDelete, st) \<leftarrow>
                 processingPods hostIDs (spec_RestartCountBeforePodDeletion (cc_Spec (st_cc st))) podsList st;
               case podToDelete of
                 None \<Rightarrow> Some (None, st)
               | Some p \<Rightarrow>
                   let q = DeletePodReq (pod_Namespace p) (pod_Name p) False
                   in Some (env_write e (st_trace st) q, call q st) })"

definition CheckPodsState :: "env \<Rightarrow> rstate \<Rightarrow> (error option \<times> rstate) option" where
  "CheckPodsState e st =
     (let (r, st) = ListCassandraClusterPods e st in
      case r of Inl err \<Rightarrow> Some (Some err, st)
      | Inr podsList \<Rightarrow>
          let st = (if st_nodes st = None then set_nodes (Some Map.empty) st else st) in
          if length podsList < 1 then Some (None, st)
          else
            case GetLastOrFirstPodReady podsList False of
              Inl err \<Rightarrow> Some (Some err, st)
            | Inr firstPod \<Rightarrow>
                let (r, st) = NewJolokiaClient e (PodHostname firstPod)
                                (spec_ImageJolokiaSecret (cc_Spec (st_cc st))) (cc_Namespace (st_cc st)) st in
                case r of Inl err \<Rightarrow> Some (Some err, st)
                | Inr host \<Rightarrow> check_listed_pods e podsList host st)"

section \<open>Facts\<close>

lemma ListPods_queries [simp]: "only_queries st (snd (ListPods e ns l st))"
  by (simp add: ListPods_def)

lemma list_cluster_pods_loop_queries:
  "only_queries st (snd (list_cluster_pods_loop e cc rs acc st))"
proof (induction e cc rs acc st rule: list_cluster_pods_loop.induct)
  case (2 e cc dc rack rs acc st)
  let ?l = "LabelsForCassandraDCRack cc (GetDCName cc dc) (GetRackName cc dc rack)"
  obtain r st1 where 1: "ListPods e (cc_Namespace cc) ?l st = (r, st1)" by (cases "ListPods e (cc_Namespace cc) ?l st")
  then have "only_queries st st1" by (metis ListPods_queries snd_conv)
  with 1 2 show ?case by (auto simp: Let_def split: sum.split intro: only_queries_trans)
qed simp

lemma ListCassandraClusterPods_queries [simp]:
  "only_queries st (snd (ListCassandraClusterPods e st))"
  by (simp add: ListCassandraClusterPods_def list_cluster_pods_loop_queries)

lemma hasJoiningNodes_queries [simp]:
  "only_queries st (snd (hasJoiningNodes e st))"
proof -
  obtain r st1 where 1: "ListCassandraClusterPods e st = (r, st1)" by (cases "ListCassandraClusterPods e st")
  then have q1: "only_queries st st1" by (metis ListCassandraClusterPods_queries snd_conv)
  have q2: "only_queries st1 (snd (NewJolokiaClient e h s n st1))" for h s n by simp
  have q3: "only_queries st2 (snd (jolokia_hasJoiningNodes e h st2))" for h st2 by simp
  show ?thesis unfolding hasJoiningNodes_def 1
    using q1 by (auto simp: Let_def split: sum.split prod.split)
      (metis only_queries_trans q2 q3 snd_conv)+
qed

lemma updateCassandraNodesStatusForPod_total:
  assumes "st_nodes st \<noteq> None"
  shows "\<exists>st'. updateCassandraNodesStatusForPod ids p st = Some st' \<and> st_nodes st' \<noteq> None \<and>
    st_cc st' = st_cc st \<and> st_trace st' = st_trace st \<and> st_racks st' = st_racks st"
  using assms by (auto simp: updateCassandraNodesStatusForPod_def set_nodes_def split: option.split)

definition cross_ip :: "labels \<Rightarrow> pod \<Rightarrow> rstate \<Rightarrow> bool" where
  "cross_ip hostIDs p st \<longleftrightarrow> (\<exists>hostId. hostIDs (pod_PodIP p) = Some hostId \<and> node_host_id st (pod_Name p) \<noteq> hostId)"

lemma processingPods_result:
  assumes "st_nodes st \<noteq> None"
  shows "\<exists>r st'. processingPods ids lim ps st = Some (r, st') \<and> st_cc st' = st_cc st \<and>
    st_trace st' = st_trace st \<and> st_racks st' = st_racks st \<and>
    (\<forall>p. r = Some p \<longrightarrow> p \<in> set ps \<and> 0 < lim \<and> lim < RestartCount p \<and> cross_ip ids p st')"
  using assms
proof (induction ps arbitrary: st)
  case (Cons p ps)
  show ?case
  proof (cases "0 < lim \<and> lim < RestartCount p")
    case True
    then show ?thesis by (auto simp: checkPodCrossIpUseCaseForPod_def cross_ip_def split: option.split)
  next
    case False
    obtain st1 where 1: "updateCassandraNodesStatusForPod ids p st = Some st1" "st_nodes st1 \<noteq> None"
      "st_cc st1 = st_cc st" "st_trace st1 = st_trace st" "st_racks st1 = st_racks st"
      using updateCassandraNodesStatusForPod_total [OF Cons.prems] by blast
    from Cons.IH [OF 1(2)] obtain r st' where "processingPods ids lim ps st1 = Some (r, st')"
      "st_cc st' = st_cc st1" "st_trace st' = st_trace st1" "st_racks st' = st_racks st1"
      "\<forall>p. r = Some p \<longrightarrow> p \<in> set ps \<and> 0 < lim \<and> lim < RestartCount p \<and> cross_ip ids p st'" by blast
    with 1 False show ?thesis by auto
  qed
qed simp

text \<open>Only queries were made, whatever happened to the state.\<close>

definition asked :: "rstate \<Rightarrow> rstate \<Rightarrow> bool" where
  "asked st st' \<longleftrightarrow> (\<exists>qs. st_trace st' = st_trace st @ qs \<and> list_all is_query qs)"

lemma asked_trans: "asked st st' \<Longrightarrow> asked st' st'' \<Longrightarrow> asked st st''"
  by (auto simp: asked_def)

lemma only_queries_asked: "only_queries st st' \<Longrightarrow> asked st st'"
  by (auto simp: only_queries_def asked_def list_all_iff)

lemma asked_requests:
  assumes "asked st st'"
  shows "\<exists>qs. list_all is_query qs \<and> requests st st' = qs \<and> requests st (call q st') = qs @ [q]"
  using assms by (auto simp: asked_def requests_def)

lemma check_listed_pods_result:
  assumes "st_nodes st \<noteq> None"
  shows "\<exists>err st'. check_listed_pods e pods host st = Some (err, st') \<and> st_racks st' = st_racks st \<and>
    (asked st st' \<or>
     (\<exists>p st1 ids. asked st st1 \<and> st' = call (DeletePodReq (pod_Namespace p) (pod_Name p) False) st1 \<and>
        p \<in> set pods \<and> 0 < spec_RestartCountBeforePodDeletion (cc_Spec (st_cc st)) \<and>
        spec_RestartCountBeforePodDeletion (cc_Spec (st_cc st)) < RestartCount p \<and> cross_ip ids p st1))"
proof -
  obtain r st1 where 1: "hostIDMap e host st = (r, st1)" by fastforce
  then have q: "only_queries st st1" by (metis node_reads_queries(2) snd_conv)
  note same = only_queries_state [OF q]
  show ?thesis
  proof (cases r)
    case (Inl err)
    then show ?thesis using 1 q same by (auto simp: check_listed_pods_def only_queries_asked)
  next
    case (Inr ids)
    from assms same have "st_nodes st1 \<noteq> None" by simp
    from processingPods_result [OF this] obtain d st2 where
      2: "processingPods ids (spec_RestartCountBeforePodDeletion (cc_Spec (st_cc st1))) pods st1 = Some (d, st2)"
        "st_trace st2 = st_trace st1" "st_racks st2 = st_racks st1"
        "\<forall>p. d = Some p \<longrightarrow> p \<in> set pods \<and> 0 < spec_RestartCountBeforePodDeletion (cc_Spec (st_cc st1)) \<and>
          spec_RestartCountBeforePodDeletion (cc_Spec (st_cc st1)) < RestartCount p \<and> cross_ip ids p st2" by blast
    from only_queries_asked [OF q] 2(2) have a: "asked st st2" by (simp add: asked_def)
    show ?thesis
      using 1 Inr 2 a same by (cases d) (auto simp: check_listed_pods_def Let_def)
  qed
qed

section \<open>Properties\<close>

text \<open>CheckPodsState asks for the pods and for a Jolokia client, and stops there or goes through the listed pods.\<close>

lemma CheckPodsState_start:
  "\<exists>st1. asked st st1 \<and> st_cc st1 = st_cc st \<and> st_racks st1 = st_racks st \<and>
    ((\<exists>err. CheckPodsState e st = Some (err, st1)) \<or>
     (\<exists>pods host. fst (ListCassandraClusterPods e st) = Inr pods \<and> st_nodes st1 \<noteq> None \<and>
        CheckPodsState e st = check_listed_pods e pods host st1))"
proof -
  obtain r st1 where 1: "ListCassandraClusterPods e st = (r, st1)" by (cases "ListCassandraClusterPods e st")
  then have q1: "only_queries st st1" by (metis ListCassandraClusterPods_queries snd_conv)
  define st2 where "st2 = (if st_nodes st1 = None then set_nodes (Some Map.empty) st1 else st1)"
  have st2: "st_cc st2 = st_cc st" "st_racks st2 = st_racks st" "st_trace st2 = st_trace st1" "st_nodes st2 \<noteq> None"
    using only_queries_state [OF q1] by (auto simp: st2_def set_nodes_def)
  have a2: "asked st st2" using only_queries_asked [OF q1] by (simp add: asked_def st2(3))
  show ?thesis
  proof (cases r)
    case (Inl err)
    with 1 have "CheckPodsState e st = Some (Some err, st1)" by (simp add: CheckPodsState_def)
    then show ?thesis using only_queries_asked [OF q1] only_queries_state [OF q1] by (intro exI [of _ st1]) simp
  next
    case (Inr pods)
    note pods = this
    show ?thesis
    proof (cases "(\<exists>err. GetLastOrFirstPodReady pods False = Inl err) \<or> length pods < 1")
      case True
      then have "\<exists>err. CheckPodsState e st = Some (err, st2)"
        by (cases "GetLastOrFirstPodReady pods False") (auto simp: CheckPodsState_def 1 pods st2_def)
      then show ?thesis using a2 st2 by (intro exI [of _ st2]) simp
    next
      case False
      then obtain firstPod where first: "GetLastOrFirstPodReady pods False = Inr firstPod" by (cases "GetLastOrFirstPodReady pods False") auto
      obtain r3 st3 where 3: "NewJolokiaClient e (PodHostname firstPod) (spec_ImageJolokiaSecret (cc_Spec (st_cc st2)))
          (cc_Namespace (st_cc st2)) st2 = (r3, st3)" by fastforce
      then have q3: "only_queries st2 st3" by (metis execute_queries(3) snd_conv)
      have "CheckPodsState e st = (case r3 of Inl err \<Rightarrow> Some (Some err, st3) | Inr host \<Rightarrow> check_listed_pods e pods host st3)"
        using 1 pods first False 3 by (simp add: CheckPodsState_def st2_def)
      then show ?thesis using asked_trans [OF a2 only_queries_asked [OF q3]] only_queries_state [OF q3] st2 1 pods
        by (intro exI [of _ st3]) (cases r3, auto)
    qed
  qed
qed

text \<open>
  CheckPodsState always returns, changes no rack, and deletes at most one pod, as its
  last request: a listed pod that restarted more often than the positive limit and whose address
  belongs, according to Cassandra, to the host id of another node.
\<close>

lemma CheckPodsState_deletes_cross_ip:
  "\<exists>err st' qs. CheckPodsState e st = Some (err, st') \<and> st_racks st' = st_racks st \<and> list_all is_query qs \<and>
    (requests st st' = qs \<or>
     (\<exists>p pods st1 ids. requests st st' = qs @ [DeletePodReq (pod_Namespace p) (pod_Name p) False] \<and>
        fst (ListCassandraClusterPods e st) = Inr pods \<and> p \<in> set pods \<and>
        0 < spec_RestartCountBeforePodDeletion (cc_Spec (st_cc st)) \<and>
        spec_RestartCountBeforePodDeletion (cc_Spec (st_cc st)) < RestartCount p \<and>
        cross_ip ids p st1))"
proof -
  obtain st1 where a1: "asked st st1" and same: "st_cc st1 = st_cc st" "st_racks st1 = st_racks st"
    and start: "(\<exists>err. CheckPodsState e st = Some (err, st1)) \<or>
     (\<exists>pods host. fst (ListCassandraClusterPods e st) = Inr pods \<and> st_nodes st1 \<noteq> None \<and> CheckPodsState e st = check_listed_pods e pods host st1)"
    using CheckPodsState_start [of st e] by (elim exE conjE)
  have stop: ?thesis if "CheckPodsState e st = Some (err, st3)" "asked st st3" "st_racks st3 = st_racks st" for err st3
    using that asked_requests [OF that(2)] by blast
  from start show ?thesis
  proof (elim disjE exE conjE)
    fix pods host
    assume pods: "fst (ListCassandraClusterPods e st) = Inr pods" "st_nodes st1 \<noteq> None" "CheckPodsState e st = check_listed_pods e pods host st1"
    from check_listed_pods_result [OF pods(2), of e pods host] obtain err st4 where
      4: "check_listed_pods e pods host st1 = Some (err, st4)" "st_racks st4 = st_racks st1"
      "asked st1 st4 \<or> (\<exists>p st5 ids. asked st1 st5 \<and> st4 = call (DeletePodReq (pod_Namespace p) (pod_Name p) False) st5 \<and>
         p \<in> set pods \<and> 0 < spec_RestartCountBeforePodDeletion (cc_Spec (st_cc st1)) \<and>
         spec_RestartCountBeforePodDeletion (cc_Spec (st_cc st1)) < RestartCount p \<and> cross_ip ids p st5)" by blast
    have r4: "CheckPodsState e st = Some (err, st4)" and racks: "st_racks st4 = st_racks st" using pods(3) 4(1,2) same(2) by simp_all
    from 4(3) show ?thesis
    proof (elim disjE exE conjE)
      assume "asked st1 st4"
      with a1 have "asked st st4" by (rule asked_trans)
      then show ?thesis using racks by (rule stop [OF r4])
    next
      fix p st5 ids
      assume 5: "asked st1 st5" "st4 = call (DeletePodReq (pod_Namespace p) (pod_Name p) False) st5"
        "p \<in> set pods" "0 < spec_RestartCountBeforePodDeletion (cc_Spec (st_cc st1))"
        "spec_RestartCountBeforePodDeletion (cc_Spec (st_cc st1)) < RestartCount p" "cross_ip ids p st5"
      from asked_requests [OF asked_trans [OF a1 5(1)]] obtain qs where
        "list_all is_query qs" "requests st st4 = qs @ [DeletePodReq (pod_Namespace p) (pod_Name p) False]"
        using 5(2) by blast
      with r4 racks pods(1) 5(3-6) [unfolded same(1)] show ?thesis by blast
    qed
  qed (rule stop [OF _ a1 same(2)])
qed

end
