(* ===== verification/Storage_Upsize.thy ===== *)
theory Storage_Upsize
  imports Cluster_Pods
begin

text \<open>
  The storage upsize action: src/controllers/cassandracluster/storageupsize and
  src/controllers/cassandracluster/storage_upsize_adapter.go.  The view of a rack is the name of the
  rack and the state of the reconciler, whose stored statefulset is the living one (None when there is
  none).  A step returns its result and the state; Reconcile runs the steps until one of them fails or
  breaks.
\<close>

section \<open>Quantities and volume claims\<close>

definition DataPVCName :: string where
  "DataPVCName = ''data''"

definition quantity_equal :: "quantity \<Rightarrow> quantity \<Rightarrow> bool" where
  "quantity_equal a b \<longleftrightarrow> q_value a = q_value b"

definition lookup_quantity :: "resource_list option \<Rightarrow> string \<Rightarrow> quantity" where
  "lookup_quantity m k =
     (case m of None \<Rightarrow> zero_quantity
      | Some l \<Rightarrow> (case l k of None \<Rightarrow> zero_quantity | Some q \<Rightarrow> q))"

definition silentParseResourceQuantity :: "env \<Rightarrow> string \<Rightarrow> quantity" where
  "silentParseResourceQuantity e qs =
     (case env_parseQuantity e qs of None \<Rightarrow> zero_quantity | Some q \<Rightarrow> q)"

fun findDataCapacity_from :: "nat \<Rightarrow> pvc list \<Rightarrow> int \<times> quantity" where
  "findDataCapacity_from i [] = (-1, zero_quantity)"
| "findDataCapacity_from i (t # ts) =
     (if meta_Name (pvc_Meta t) = DataPVCName
      then (int i, lookup_quantity (pvcs_Requests (pvc_Spec t)) ''storage'')
      else findDataCapacity_from (Suc i) ts)"

definition findDataCapacity :: "pvc list \<Rightarrow> int \<times> quantity" where
  "findDataCapacity pvcs = findDataCapacity_from 0 pvcs"

definition set_request :: "quantity \<Rightarrow> pvc \<Rightarrow> pvc" where
  "set_request q p =
     p\<lparr>pvc_Spec := (pvc_Spec p)\<lparr>pvcs_Requests :=
        Some ((case pvcs_Requests (pvc_Spec p) of None \<Rightarrow> Map.empty | Some l \<Rightarrow> l)(''storage'' \<mapsto> q))\<rparr>\<rparr>"

datatype CapacityChange = CapacityNoChange | CapacitySyntacticChange | CapacityUpsize | CapacityDownsize

definition AnalyzeDataCapacityChange :: "env \<Rightarrow> string \<Rightarrow> string \<Rightarrow> CapacityChange" where
  "AnalyzeDataCapacityChange e oldCapacity newCapacity =
     (let oldParsed = silentParseResourceQuantity e oldCapacity;
          newParsed = silentParseResourceQuantity e newCapacity
      in if oldCapacity = newCapacity then CapacityNoChange
         else if q_value newParsed = q_value oldParsed then CapacitySyntacticChange
         else if q_value newParsed > q_value oldParsed then CapacityUpsize
         else CapacityDownsize)"

section \<open>Start and end of the action\<close>

definition ShouldBeStarted :: "env \<Rightarrow> string \<Rightarrow> rstate \<Rightarrow> bool option" where
  "ShouldBeStarted e requestedCapacity st =
     do { living \<leftarrow> st_storedStatefulSet st;
          Some (\<not> quantity_equal (silentParseResourceQuantity e requestedCapacity)
                    (snd (findDataCapacity (sts_VolumeClaimTemplates living)))) }"

definition startUpsizeAction :: "env \<Rightarrow> string \<Rightarrow> rstate \<Rightarrow> rstate option" where
  "startUpsizeAction e r st =
     upd_rack r (\<lambda>rs. rs\<lparr>rs_Phase := state_Name ClusterPhasePending,
       rs_CassandraLastAction := (rs_CassandraLastAction rs)\<lparr>la_Status := StatusOngoing,
         la_Name := state_Name ActionStorageUpsize, la_StartTime := Some (now e st), la_EndTime := None\<rparr>\<rparr>) st"

definition finalizeUpsizeAction :: "env \<Rightarrow> string \<Rightarrow> rstate \<Rightarrow> rstate option" where
  "finalizeUpsizeAction e r st =
     upd_rack r (\<lambda>rs. rs\<lparr>
       rs_CassandraLastAction := (rs_CassandraLastAction rs)\<lparr>la_Status := StatusDone,
         la_Name := state_Name ActionStorageUpsize, la_EndTime := Some (now e st)\<rparr>,
       rs_StatefulSetSnapshotBeforeStorageResize := ''''\<rparr>) st"

definition IsStarted :: "CassandraRackStatus \<Rightarrow> bool" where
  "IsStarted rs \<longleftrightarrow> la_Name (rs_CassandraLastAction rs) = state_Name ActionStorageUpsize \<and>
     la_Status (rs_CassandraLastAction rs) \<noteq> StatusDone"

definition UpdateStatusIfStorageUpsize ::
  "env \<Rightarrow> CompleteRackName \<Rightarrow> rstate \<Rightarrow> (bool \<times> rstate) option" where
  "UpdateStatusIfStorageUpsize e crn st =
     do { start \<leftarrow> ShouldBeStarted e (GetDataCapacityFromDCName (st_cc st) (crn_DcName crn)) st;
          if start
          then do { st \<leftarrow> startUpsizeAction e (crn_DcRackName crn) st;
                    let n = cc_Name (st_cc st) in
                    Some (True, call (ActionMetric ActionStorageUpsize n)
                                  (call (PhaseMetric ClusterPhasePending n) st)) }
          else Some (False, st) }"

text \<open>
  RevertAnyStorageUpsizeBeyondUpsizeAction: outside of the action the capacity of the generated
  statefulset is the one of the living statefulset.  The index is -1, and the access panics, when the
  generated statefulset has no data claim.
\<close>

definition RevertAnyStorageUpsizeBeyondUpsizeAction ::
  "CassandraRackStatus \<Rightarrow> stateful_set option \<Rightarrow> stateful_set \<Rightarrow> stateful_set option" where
  "RevertAnyStorageUpsizeBeyondUpsizeAction rs living newSts =
     (if \<not> IsStarted rs
      then do { living \<leftarrow> living;
                let current = snd (findDataCapacity (sts_VolumeClaimTemplates living));
                    (i, requested) = findDataCapacity (sts_VolumeClaimTemplates newSts) in
                if \<not> quantity_equal requested current
                then do { p \<leftarrow> index (sts_VolumeClaimTemplates newSts) i;
                          Some (newSts\<lparr>sts_VolumeClaimTemplates :=
                            (sts_VolumeClaimTemplates newSts)[nat i := set_request current p]\<rparr>) }
                else Some newSts }
      else Some newSts)"

section \<open>Steps\<close>

datatype StepResult = StepError error | StepBreak | StepPass

type_synonym step = "pvc list \<times> rstate \<Rightarrow> (StepResult \<times> pvc list \<times> rstate) option"

definition prepareStatefulSetSnapshot :: "env \<Rightarrow> stateful_set \<Rightarrow> error + string" where
  "prepareStatefulSetSnapshot e living =
     env_marshalSts e (living\<lparr>
       sts_Meta := (sts_Meta living)\<lparr>meta_UID := '''', meta_ResourceVersion := '''',
                                     meta_DeletionTimestamp := None\<rparr>,
       sts_Status := zero_sts_status\<rparr>)"

definition makeOldStatefulSetSnapshot :: "env \<Rightarrow> string \<Rightarrow> step" where
  "makeOldStatefulSetSnapshot e r = (\<lambda>(pvcs, st).
     do { rs \<leftarrow> st_racks st r;
          if rs_StatefulSetSnapshotBeforeStorageResize rs \<noteq> '''' then Some (StepPass, pvcs, st)
          else case st_storedStatefulSet st of
            None \<Rightarrow> Some (StepError (Errorf ''StatefulSet snapshot not exist and StatefulSet itself is not found, cannot proceed with storage upsize''), pvcs, st)
          | Some living \<Rightarrow>
              (case prepareStatefulSetSnapshot e living of
                 Inl err \<Rightarrow> Some (StepError err, pvcs, st)
               | Inr json \<Rightarrow>
                   Some (StepBreak, pvcs,
                         put_rack r (rs\<lparr>rs_StatefulSetSnapshotBeforeStorageResize := json\<rparr>) st)) })"

definition doesStatefulSetHaveNewCapacity :: "env \<Rightarrow> CassandraCluster \<Rightarrow> stateful_set \<Rightarrow> bool" where
  "doesStatefulSetHaveNewCapacity e cc living =
     quantity_equal (silentParseResourceQuantity e (spec_DataCapacity (cc_Spec cc)))
       (snd (findDataCapacity (sts_VolumeClaimTemplates living)))"

definition removeStatefulSetOrphan :: "env \<Rightarrow> step" where
  "removeStatefulSetOrphan e = (\<lambda>(pvcs, st).
     case st_storedStatefulSet st of
       None \<Rightarrow> Some (StepPass, pvcs, st)
     | Some living \<Rightarrow>
         if doesStatefulSetHaveNewCapacity e (st_cc st) living then Some (StepPass, pvcs, st)
         else let (err, st) = DeleteStatefulSetWithOrphanOption e (cc_Namespace (st_cc st))
                                (meta_Name (sts_Meta living)) st
              in Some (case err of Some x \<Rightarrow> StepError x | None \<Rightarrow> StepBreak, pvcs, st))"

text \<open>setNewDataCapacity writes into the map of requests, which panics when it is nil.\<close>

fun set_capacity_templates :: "quantity \<Rightarrow> pvc list \<Rightarrow> (error + pvc list) option" where
  "set_capacity_templates q [] = Some (Inl (Errorf '' pvc found in statefulSet ''))"
| "set_capacity_templates q (t # ts) =
     (if meta_Name (pvc_Meta t) = DataPVCName
      then if pvcs_Requests (pvc_Spec t) = None then panic else Some (Inr (set_request q t # ts))
      else do { r \<leftarrow> set_capacity_templates q ts; Some (map_sum id ((#) t) r) })"

definition setNewDataCapacity :: "quantity \<Rightarrow> stateful_set \<Rightarrow> (error + stateful_set) option" where
  "setNewDataCapacity q ss =
     do { r \<leftarrow> set_capacity_templates q (sts_VolumeClaimTemplates ss);
          Some (map_sum id (\<lambda>ts. ss\<lparr>sts_VolumeClaimTemplates := ts\<rparr>) r) }"

definition LastAppliedConfig :: string where
  "LastAppliedConfig = ''banzaicloud.com/last-applied''"

definition enrichWithCleanLastAppliedAnnotation ::
  "env \<Rightarrow> quantity \<Rightarrow> stateful_set \<Rightarrow> stateful_set option" where
  "enrichWithCleanLastAppliedAnnotation e q ss =
     (case env_originalSts e ss of
        Inl _ \<Rightarrow> Some ss
      | Inr original \<Rightarrow>
          do { r \<leftarrow> setNewDataCapacity q original;
               case r of
                 Inl _ \<Rightarrow> Some ss
               | Inr original \<Rightarrow>
                   (case env_encodeLastApplied e original of
                      Inl _ \<Rightarrow> Some ss
                    | Inr lastApplied \<Rightarrow>
                        Some (ss\<lparr>sts_Meta := (sts_Meta ss)\<lparr>meta_Annotations :=
                          (meta_Annotations (sts_Meta ss))(LastAppliedConfig \<mapsto> lastApplied)\<rparr>\<rparr>)) })"

definition applyPVCModification :: "env \<Rightarrow> quantity \<Rightarrow> stateful_set \<Rightarrow> (error + stateful_set) option" where
  "applyPVCModification e q ss =
     do { r \<leftarrow> setNewDataCapacity q ss;
          case r of
            Inl err \<Rightarrow> Some (Inl err)
          | Inr ss \<Rightarrow> map_option Inr (enrichWithCleanLastAppliedAnnotation e q ss) }"

definition recreateStatefulSetWithNewCapacity :: "env \<Rightarrow> string \<Rightarrow> quantity \<Rightarrow> step" where
  "recreateStatefulSetWithNewCapacity e r q = (\<lambda>(pvcs, st).
     if st_storedStatefulSet st \<noteq> None then Some (StepPass, pvcs, st)
     else do { rs \<leftarrow> st_racks st r;
               case env_unmarshalSts e (rs_StatefulSetSnapshotBeforeStorageResize rs) of
                 Inl err \<Rightarrow> Some (StepError (Errorf ''cannot unmarshall snapshotted statefulSet for storage upsize: ''), pvcs, st)
               | Inr newSts \<Rightarrow>
                   do { m \<leftarrow> applyPVCModification e q newSts;
                        case m of
                          Inl err \<Rightarrow> Some (StepError err, pvcs, st)
                        | Inr newSts \<Rightarrow>
                            let (err, st) = CreateStatefulSet e newSts st
                            in Some (case err of Some x \<Rightarrow> StepError x | None \<Rightarrow> StepBreak, pvcs, st) } })"

definition rack_selector :: "CompleteRackName \<Rightarrow> rstate \<Rightarrow> labels" where
  "rack_selector crn st = LabelsForCassandraDCRack (st_cc st) (crn_DcName crn) (crn_RackName crn)"

definition getAllDataPvcs ::
  "env \<Rightarrow> CompleteRackName \<Rightarrow> rstate \<Rightarrow> ((error + pvc list) \<times> rstate) option" where
  "getAllDataPvcs e crn st =
     (case st_storedStatefulSet st of
        None \<Rightarrow> Some (Inl (Errorf '']: cannot fetch PVC list for storage upsize because''), st)
      | Some living \<Rightarrow>
          let (r, st) = ListPVC e (cc_Namespace (st_cc st)) (rack_selector crn st) st in
          case r of
            Inl err \<Rightarrow> Some (Inl err, st)
          | Inr pvcs \<Rightarrow>
              let dataPVCs = filter (\<lambda>p. prefix (DataPVCName @ ''-'' @ meta_Name (sts_Meta living))
                                           (meta_Name (pvc_Meta p))) pvcs in
              do { replicas \<leftarrow> sts_Replicas living;
                   if int (length dataPVCs) \<noteq> replicas
                   then Some (Inl (Errorf '']: Number of Data PVCs (''), st)
                   else Some (Inr dataPVCs, st) })"

definition fetchDataPvcs :: "env \<Rightarrow> CompleteRackName \<Rightarrow> step" where
  "fetchDataPvcs e crn = (\<lambda>(pvcs, st).
     do { (r, st) \<leftarrow> getAllDataPvcs e crn st;
          Some (case r of Inl err \<Rightarrow> (StepError err, pvcs, st) | Inr ps \<Rightarrow> (StepPass, ps, st)) })"

definition requested_capacity :: "env \<Rightarrow> CompleteRackName \<Rightarrow> rstate \<Rightarrow> quantity" where
  "requested_capacity e crn st =
     silentParseResourceQuantity e (GetDataCapacityFromDCName (st_cc st) (crn_DcName crn))"

text \<open>
  The loop of ensureAllPVCsHaveNewCapacity: the state, whether a claim was changed, and whether an
  update failed.  The claims are compared as Go structs.
\<close>

fun resize_pvcs :: "env \<Rightarrow> quantity \<Rightarrow> pvc list \<Rightarrow> bool \<times> error option \<times> rstate \<Rightarrow> bool \<times> error option \<times> rstate" where
  "resize_pvcs e q [] acc = acc"
| "resize_pvcs e q (p # ps) (changed, multiError, st) =
     (if lookup_quantity (pvcs_Requests (pvc_Spec p)) ''storage'' \<noteq> q
      then let (err, st) = UpdatePVC e (set_request q p) st
           in resize_pvcs e q ps (True, (case err of None \<Rightarrow> multiError | Some x \<Rightarrow> Some x), st)
      else resize_pvcs e q ps (changed, multiError, st))"

definition ensureAllPVCsHaveNewCapacity :: "env \<Rightarrow> CompleteRackName \<Rightarrow> step" where
  "ensureAllPVCsHaveNewCapacity e crn = (\<lambda>(pvcs, st).
     let (changed, multiError, st) = resize_pvcs e (requested_capacity e crn st) pvcs (False, None, st)
     in Some (case multiError of
                Some err \<Rightarrow> (StepError err, pvcs, st)
              | None \<Rightarrow> (if changed then StepBreak else StepPass, pvcs, st)))"

definition waitTillAllFilesystemsHaveNewCapacity :: "env \<Rightarrow> CompleteRackName \<Rightarrow> step" where
  "waitTillAllFilesystemsHaveNewCapacity e crn = (\<lambda>(pvcs, st).
     let notResizedYet = filter (\<lambda>p. \<not> quantity_equal
           (case pvc_StatusCapacity p ''storage'' of None \<Rightarrow> zero_quantity | Some q \<Rightarrow> q)
           (requested_capacity e crn st)) pvcs
     in Some (if length notResizedYet = 0 then StepPass else StepBreak, pvcs, st))"

definition allPodsReady :: "pod list \<Rightarrow> bool" where
  "allPodsReady ps = list_all IsReady ps"

definition waitTillStatefulSetAndAllPodsAreReady :: "env \<Rightarrow> CompleteRackName \<Rightarrow> step" where
  "waitTillStatefulSetAndAllPodsAreReady e crn = (\<lambda>(pvcs, st).
     do { living \<leftarrow> st_storedStatefulSet st;
          if \<not> doesStatefulSetHaveNewCapacity e (st_cc st) living then Some (StepBreak, pvcs, st)
          else do { ready \<leftarrow> IsStatefulSetReady living;
                    if ready
                    then let (r, st) = ListPods e (cc_Namespace (st_cc st)) (rack_selector crn st) st in
                         case r of
                           Inl err \<Rightarrow> Some (StepError err, pvcs, st)
                         | Inr ps \<Rightarrow>
                             do { replicas \<leftarrow> sts_Replicas living;
                                  if int (length ps) \<noteq> replicas
                                  then Some (StepError (Errorf ''Number of pods (''), pvcs, st)
                                  else if allPodsReady ps
                                  then do { st \<leftarrow> finalizeUpsizeAction e (crn_DcRackName crn) st;
                                            Some (StepPass, pvcs, st) }
                                  else Some (StepBreak, pvcs, st) }
                    else Some (StepBreak, pvcs, st) } })"

fun run_steps :: "step list \<Rightarrow> pvc list \<times> rstate \<Rightarrow> (error option \<times> rstate) option" where
  "run_steps [] (pvcs, st) = Some (None, st)"
| "run_steps (s # ss) (pvcs, st) =
     do { (res, pvcs, st) \<leftarrow> s (pvcs, st);
          case res of
            StepError err \<Rightarrow> Some (Some err, st)
          | StepBreak \<Rightarrow> Some (None, st)
          | StepPass \<Rightarrow> run_steps ss (pvcs, st) }"

definition upsize_steps :: "env \<Rightarrow> CompleteRackName \<Rightarrow> quantity \<Rightarrow> step list" where
  "upsize_steps e crn q =
     [makeOldStatefulSetSnapshot e (crn_DcRackName crn),
      removeStatefulSetOrphan e,
      recreateStatefulSetWithNewCapacity e (crn_DcRackName crn) q,
      fetchDataPvcs e crn,
      ensureAllPVCsHaveNewCapacity e crn,
      waitTillAllFilesystemsHaveNewCapacity e crn,
      waitTillStatefulSetAndAllPodsAreReady e crn]"

definition ReconcileStorageUpsize ::
  "env \<Rightarrow> CompleteRackName \<Rightarrow> rstate \<Rightarrow> (error option \<times> rstate) option" where
  "ReconcileStorageUpsize e crn st =
     do { st \<leftarrow> upd_phase (crn_DcRackName crn) (state_Name ClusterPhasePending) st;
          let st = call (PhaseMetric ClusterPhasePending (cc_Name (st_cc st))) st in
          run_steps (upsize_steps e crn (requested_capacity e crn st)) ([], st) }"

section \<open>The contract of the steps\<close>

text \<open>
  The requests of a step: it lists, writes volume claims, creates a statefulset, or deletes one
  leaving its pods.
\<close>

definition upsize_request :: "request \<Rightarrow> bool" where
  "upsize_request q = (case q of ListPodsReq _ _ \<Rightarrow> True | ListPvcReq _ _ \<Rightarrow> True | UpdatePvcReq _ \<Rightarrow> True
     | CreateStsReq _ \<Rightarrow> True | DeleteStsReq _ _ orphan \<Rightarrow> orphan | PhaseMetric _ _ \<Rightarrow> True | _ \<Rightarrow> False)"

definition upsize_frame :: "string \<Rightarrow> rstate \<Rightarrow> rstate \<Rightarrow> bool" where
  "upsize_frame r st st' \<longleftrightarrow> st_cc st' = st_cc st \<and> st_storedStatefulSet st' = st_storedStatefulSet st \<and>
     only_rack r st st' \<and> (\<exists>qs. st_trace st' = st_trace st @ qs \<and> list_all upsize_request qs)"

lemma upsize_frame_refl [simp]: "upsize_frame r st st"
  by (simp add: upsize_frame_def)

lemma upsize_frame_trans: "upsize_frame r st st' \<Longrightarrow> upsize_frame r st' st'' \<Longrightarrow> upsize_frame r st st''"
  unfolding upsize_frame_def
  by (elim conjE exE, intro conjI) (auto intro: only_rack_trans)

lemma upsize_frame_call:
  "upsize_frame r st st' \<Longrightarrow> upsize_request q \<Longrightarrow> upsize_frame r st (call q st')"
  by (auto simp: upsize_frame_def)

lemma upsize_frame_put [simp]: "upsize_frame r st (put_rack r rs st') \<longleftrightarrow> upsize_frame r st st'"
  by (simp add: upsize_frame_def)

lemma upsize_request_simps [simp]:
  "upsize_request (ListPodsReq ns l)" "upsize_request (ListPvcReq ns l)" "upsize_request (UpdatePvcReq p)"
  "upsize_request (CreateStsReq ss)" "upsize_request (DeleteStsReq ns n True)" "upsize_request (PhaseMetric i n)"
  by (simp_all add: upsize_request_def)

locale upsize_step =
  fixes r :: string and s :: step
  assumes frame: "s (pvcs, st) = Some (res, pvcs', st') \<Longrightarrow> upsize_frame r st st'"

locale preparing_step = upsize_step +
  assumes keeps_action: "s (pvcs, st) = Some (res, pvcs', st') \<Longrightarrow>
    map_option rs_CassandraLastAction (st_racks st' r) = map_option rs_CassandraLastAction (st_racks st r)"

interpretation snapshot_step: preparing_step r "makeOldStatefulSetSnapshot e r" for e r
  by unfold_locales
    (auto simp: makeOldStatefulSetSnapshot_def bind_eq_Some_conv split: if_splits option.splits sum.splits)

interpretation orphan_step: preparing_step r "removeStatefulSetOrphan e" for e r
  by unfold_locales
    (auto simp: removeStatefulSetOrphan_def DeleteStatefulSetWithOrphanOption_def upsize_frame_call
       split: if_splits option.splits)

interpretation recreate_step: preparing_step r "recreateStatefulSetWithNewCapacity e k q" for e r k q
  by unfold_locales
    (auto simp: recreateStatefulSetWithNewCapacity_def CreateStatefulSet_def upsize_frame_call
       split: Option.bind_split_asm if_split_asm sum.split_asm)

interpretation fetch_step: preparing_step r "fetchDataPvcs e crn" for e r crn
  by unfold_locales
    (auto simp: fetchDataPvcs_def getAllDataPvcs_def ListPVC_def upsize_frame_call Let_def
       split: Option.bind_split_asm if_split_asm sum.split_asm option.split_asm)

lemma resize_pvcs_frame:
  "resize_pvcs e q ps (c, m, st) = (c', m', st') \<Longrightarrow>
     upsize_frame r st st' \<and> st_status st' = st_status st"
proof (induction ps arbitrary: c m st)
  case (Cons p ps)
  then show ?case
    by (auto simp: UpdatePVC_def Let_def split: if_split_asm)
      (blast intro: upsize_frame_trans upsize_frame_call upsize_frame_refl upsize_request_simps)
qed simp

interpretation resize_step: preparing_step r "ensureAllPVCsHaveNewCapacity e crn" for e r crn
proof
  fix pvcs st res pvcs' st'
  assume "ensureAllPVCsHaveNewCapacity e crn (pvcs, st) = Some (res, pvcs', st')"
  then obtain c m where "resize_pvcs e (requested_capacity e crn st) pvcs (False, None, st) = (c, m, st')"
    by (auto simp: ensureAllPVCsHaveNewCapacity_def split: prod.splits option.splits)
  from resize_pvcs_frame [OF this] show "upsize_frame r st st'"
    "map_option rs_CassandraLastAction (st_racks st' r) = map_option rs_CassandraLastAction (st_racks st r)" by auto
qed

interpretation filesystem_step: preparing_step r "waitTillAllFilesystemsHaveNewCapacity e crn" for e r crn
  by unfold_locales (auto simp: waitTillAllFilesystemsHaveNewCapacity_def Let_def)

interpretation finish_step: upsize_step "crn_DcRackName crn" "waitTillStatefulSetAndAllPodsAreReady e crn" for e crn
proof
  fix pvcs st res pvcs' st'
  assume "waitTillStatefulSetAndAllPodsAreReady e crn (pvcs, st) = Some (res, pvcs', st')"
  then show "upsize_frame (crn_DcRackName crn) st st'"
    by (auto simp: waitTillStatefulSetAndAllPodsAreReady_def finalizeUpsizeAction_def upd_rack_def
        ListPods_def upsize_frame_call split: Option.bind_split_asm if_split_asm sum.split_asm)
qed

lemma run_steps_frame:
  "\<forall>s \<in> set ss. upsize_step r s \<Longrightarrow> run_steps ss (pvcs, st) = Some (err, st') \<Longrightarrow> upsize_frame r st st'"
proof (induction ss arbitrary: pvcs st)
  case (Cons s ss)
  from Cons.prems(2) obtain res pvcs1 st1 where 1: "s (pvcs, st) = Some (res, pvcs1, st1)"
    and 2: "st' = st1 \<or> run_steps ss (pvcs1, st1) = Some (err, st')"
    by (auto split: Option.bind_split_asm StepResult.split_asm)
  from Cons.prems(1) 1 have "upsize_frame r st st1" by (auto dest: upsize_step.frame)
  with 2 Cons show ?case by (auto intro: upsize_frame_trans)
qed simp

lemma upsize_steps_contract: "\<forall>s \<in> set (upsize_steps e crn q). upsize_step (crn_DcRackName crn) s"
  by (simp add: upsize_steps_def snapshot_step.upsize_step_axioms orphan_step.upsize_step_axioms
      recreate_step.upsize_step_axioms fetch_step.upsize_step_axioms resize_step.upsize_step_axioms
      filesystem_step.upsize_step_axioms finish_step.upsize_step_axioms)

lemma ReconcileStorageUpsize_run:
  assumes "ReconcileStorageUpsize e crn st = Some (err, st')"
  obtains rs st1 where "st_racks st (crn_DcRackName crn) = Some rs"
    "st1 = call (PhaseMetric ClusterPhasePending (cc_Name (st_cc st)))
       (put_rack (crn_DcRackName crn) (rs\<lparr>rs_Phase := state_Name ClusterPhasePending\<rparr>) st)"
    "run_steps (upsize_steps e crn (requested_capacity e crn st1)) ([], st1) = Some (err, st')"
  using assms by (auto simp: ReconcileStorageUpsize_def Let_def bind_eq_Some_conv upd_rack_def)

section \<open>Walking through the steps\<close>

lemma run_steps_Cons:
  assumes "run_steps (s # ss) (pvcs, st) = Some (err, st')"
  obtains (stop) res pvcs1 where "s (pvcs, st) = Some (res, pvcs1, st')" "res \<noteq> StepPass"
  | (pass) pvcs1 st1 where "s (pvcs, st) = Some (StepPass, pvcs1, st1)"
      "run_steps ss (pvcs1, st1) = Some (err, st')"
  using assms by (auto split: Option.bind_split_asm StepResult.split_asm)

definition action_status :: "string \<Rightarrow> rstate \<Rightarrow> string option" where
  "action_status r st = map_option (la_Status \<circ> rs_CassandraLastAction) (st_racks st r)"

fun passes :: "step list \<Rightarrow> pvc list \<times> rstate \<Rightarrow> (pvc list \<times> rstate) option" where
  "passes [] x = Some x"
| "passes (s # ss) x =
     do { (res, pvcs, st) \<leftarrow> s x; if res = StepPass then passes ss (pvcs, st) else None }"

text \<open>
  A run that changes the status of the action passes all preparing steps it starts with.
\<close>

lemma run_steps_passes:
  assumes "\<forall>s \<in> set pre. preparing_step r s" and "run_steps (pre @ post) (pvcs, st) = Some (err, st')"
    and "action_status r st' \<noteq> action_status r st"
  shows "\<exists>pvcs1 st1. passes pre (pvcs, st) = Some (pvcs1, st1) \<and>
    run_steps post (pvcs1, st1) = Some (err, st') \<and> upsize_frame r st st1 \<and>
    action_status r st1 = action_status r st"
  using assms
proof (induction pre arbitrary: pvcs st)
  case (Cons s pre)
  then have s: "preparing_step r s" by simp
  have keep: "action_status r st2 = action_status r st \<and> upsize_frame r st st2"
    if "s (pvcs, st) = Some (res, pvcs2, st2)" for res pvcs2 st2
    using preparing_step.keeps_action [OF s that] upsize_step.frame [OF preparing_step.axioms(1) [OF s] that]
    by (metis action_status_def option.map_comp)
  from Cons.prems(2) have "run_steps (s # (pre @ post)) (pvcs, st) = Some (err, st')" by simp
  then show ?case
  proof (cases rule: run_steps_Cons)
    case (stop res pvcs1)
    with keep Cons.prems(3) show ?thesis by blast
  next
    case (pass pvcs1 st1)
    with keep Cons.prems have "action_status r st' \<noteq> action_status r st1" by metis
    with pass Cons obtain pvcs2 st2 where "passes pre (pvcs1, st1) = Some (pvcs2, st2)"
      "run_steps post (pvcs2, st2) = Some (err, st')" "upsize_frame r st1 st2"
      "action_status r st2 = action_status r st1" by (metis list.set_intros(2))
    with pass keep show ?thesis by (auto intro: upsize_frame_trans)
  qed
qed simp

lemma resize_pvcs_unchanged:
  "resize_pvcs e q ps (c, m, st) = (False, m', st') \<Longrightarrow>
     st' = st \<and> \<not> c \<and> (\<forall>p \<in> set ps. lookup_quantity (pvcs_Requests (pvc_Spec p)) ''storage'' = q)"
proof (induction ps arbitrary: c m st)
  case (Cons p ps)
  then show ?case by (auto simp: UpdatePVC_def Let_def split: if_split_asm)
qed simp

text \<open>What a pass of all steps up to the last one says about the statefulset and its claims.\<close>

definition resized :: "quantity \<Rightarrow> pvc \<Rightarrow> bool" where
  "resized q p \<longleftrightarrow> lookup_quantity (pvcs_Requests (pvc_Spec p)) ''storage'' = q \<and>
     quantity_equal (case pvc_StatusCapacity p ''storage'' of None \<Rightarrow> zero_quantity | Some q \<Rightarrow> q) q"

definition data_claims :: "stateful_set \<Rightarrow> pvc list \<Rightarrow> pvc list" where
  "data_claims living ps =
     filter (\<lambda>p. prefix (DataPVCName @ ''-'' @ meta_Name (sts_Meta living)) (meta_Name (pvc_Meta p))) ps"

lemma fetch_pass:
  assumes "fetchDataPvcs e crn (pvcs, st) = Some (StepPass, pvcs', st')"
  shows "\<exists>living ps. st_storedStatefulSet st = Some living \<and> env_listPvc e (st_trace st) (cc_Namespace (st_cc st)) (rack_selector crn st) = Inr ps \<and>
    pvcs' = data_claims living ps \<and>
    sts_Replicas living = Some (int (length pvcs'))"
  using assms by (auto simp: fetchDataPvcs_def getAllDataPvcs_def ListPVC_def data_claims_def Let_def
       split: Option.bind_split_asm if_split_asm sum.split_asm option.split_asm)

lemma resize_pass:
  assumes "ensureAllPVCsHaveNewCapacity e crn (pvcs, st) = Some (StepPass, pvcs', st')"
  shows "pvcs' = pvcs \<and> st' = st \<and>
    (\<forall>p \<in> set pvcs. lookup_quantity (pvcs_Requests (pvc_Spec p)) ''storage'' = requested_capacity e crn st)"
  using assms by (auto simp: ensureAllPVCsHaveNewCapacity_def dest: resize_pvcs_unchanged
      split: prod.splits option.split_asm if_split_asm)

lemma filesystem_pass:
  assumes "waitTillAllFilesystemsHaveNewCapacity e crn (pvcs, st) = Some (StepPass, pvcs', st')"
  shows "pvcs' = pvcs \<and> st' = st \<and> (\<forall>p \<in> set pvcs. quantity_equal
      (case pvc_StatusCapacity p ''storage'' of None \<Rightarrow> zero_quantity | Some q \<Rightarrow> q) (requested_capacity e crn st))"
  using assms by (auto simp: waitTillAllFilesystemsHaveNewCapacity_def Let_def filter_empty_conv split: if_split_asm)

lemma finish_done:
  assumes "waitTillStatefulSetAndAllPodsAreReady e crn (pvcs, st) = Some (res, pvcs', st')"
    and "action_status (crn_DcRackName crn) st' \<noteq> action_status (crn_DcRackName crn) st"
  shows "\<exists>living ps. st_storedStatefulSet st = Some living \<and> doesStatefulSetHaveNewCapacity e (st_cc st) living \<and>
    IsStatefulSetReady living = Some True \<and>
    env_listPods e (st_trace st) (cc_Namespace (st_cc st)) (rack_selector crn st) = Inr ps \<and>
    sts_Replicas living = Some (int (length ps)) \<and> list_all IsReady ps"
  using assms by (auto simp: waitTillStatefulSetAndAllPodsAreReady_def ListPods_def allPodsReady_def action_status_def
      split: Option.bind_split_asm if_split_asm sum.split_asm)

lemma upsize_steps_split:
  "upsize_steps e crn q =
     [makeOldStatefulSetSnapshot e (crn_DcRackName crn), removeStatefulSetOrphan e,
      recreateStatefulSetWithNewCapacity e (crn_DcRackName crn) q] @
     [fetchDataPvcs e crn, ensureAllPVCsHaveNewCapacity e crn, waitTillAllFilesystemsHaveNewCapacity e crn] @
     [waitTillStatefulSetAndAllPodsAreReady e crn]"
  by (simp add: upsize_steps_def)

lemma rack_selector_cong: "st_cc st' = st_cc st \<Longrightarrow> rack_selector crn st' = rack_selector crn st"
  by (simp add: rack_selector_def)

lemma requested_capacity_cong: "st_cc st' = st_cc st \<Longrightarrow> requested_capacity e crn st' = requested_capacity e crn st"
  by (simp add: requested_capacity_def)

lemma claims_pass:
  assumes "passes [fetchDataPvcs e crn, ensureAllPVCsHaveNewCapacity e crn,
      waitTillAllFilesystemsHaveNewCapacity e crn] (pvcs, st) = Some (pvcs', st')"
  shows "\<exists>living ps. st_storedStatefulSet st = Some living \<and>
    env_listPvc e (st_trace st) (cc_Namespace (st_cc st)) (rack_selector crn st) = Inr ps \<and>
    sts_Replicas living = Some (int (length (data_claims living ps))) \<and>
    list_all (resized (requested_capacity e crn st)) (data_claims living ps)"
proof -
  from assms obtain p1 st1 p2 st2 where 1: "fetchDataPvcs e crn (pvcs, st) = Some (StepPass, p1, st1)"
    and 2: "ensureAllPVCsHaveNewCapacity e crn (p1, st1) = Some (StepPass, p2, st2)"
    and 3: "waitTillAllFilesystemsHaveNewCapacity e crn (p2, st2) = Some (StepPass, pvcs', st')"
    by (auto split: Option.bind_split_asm if_split_asm)
  have "requested_capacity e crn st1 = requested_capacity e crn st"
    using fetch_step.frame [OF 1] by (intro requested_capacity_cong) (simp add: upsize_frame_def)
  with fetch_pass [OF 1] resize_pass [OF 2] filesystem_pass [OF 3] show ?thesis
    by (auto simp: resized_def list_all_iff)
qed

lemma lookup_set_request [simp]:
  "lookup_quantity (pvcs_Requests (pvc_Spec (set_request q p))) ''storage'' = q"
  "pvc_Meta (set_request q p) = pvc_Meta p"
  by (simp_all add: set_request_def lookup_quantity_def)

lemma findDataCapacity_from_cases:
  "(\<forall>p \<in> set ps. meta_Name (pvc_Meta p) \<noteq> DataPVCName) \<and> findDataCapacity_from k ps = (-1, zero_quantity) \<or>
   (\<exists>as p bs. ps = as @ p # bs \<and> (\<forall>a \<in> set as. meta_Name (pvc_Meta a) \<noteq> DataPVCName) \<and>
      meta_Name (pvc_Meta p) = DataPVCName \<and>
      findDataCapacity_from k ps = (int (k + length as), lookup_quantity (pvcs_Requests (pvc_Spec p)) ''storage''))"
proof (induction ps arbitrary: k)
  case (Cons a ps)
  show ?case
  proof (cases "meta_Name (pvc_Meta a) = DataPVCName")
    case True
    then show ?thesis by (intro disjI2 exI [of _ "[]"]) auto
  next
    case False
    from Cons [of "Suc k"] show ?thesis
    proof (elim disjE exE conjE)
      fix as p bs
      assume "ps = as @ p # bs" "\<forall>a \<in> set as. meta_Name (pvc_Meta a) \<noteq> DataPVCName"
        "meta_Name (pvc_Meta p) = DataPVCName"
        "findDataCapacity_from (Suc k) ps = (int (Suc k + length as), lookup_quantity (pvcs_Requests (pvc_Spec p)) ''storage'')"
      with False show ?thesis by (intro disjI2 exI [of _ "a # as"]) auto
    qed (use False in auto)
  qed
qed simp

lemma findDataCapacity_from_found:
  "\<forall>a \<in> set as. meta_Name (pvc_Meta a) \<noteq> DataPVCName \<Longrightarrow> meta_Name (pvc_Meta p) = DataPVCName \<Longrightarrow>
   findDataCapacity_from k (as @ p # bs) = (int (k + length as), lookup_quantity (pvcs_Requests (pvc_Spec p)) ''storage'')"
  by (induction as arbitrary: k) auto

lemma map_sum_Inr_conv: "map_sum id f r = Inr y \<longleftrightarrow> (\<exists>x. r = Inr x \<and> y = f x)"
  by (cases r) auto

lemma set_capacity_templates_found:
  "set_capacity_templates q ps = Some (Inr ps') \<Longrightarrow> snd (findDataCapacity_from k ps') = q"
proof (induction ps arbitrary: ps' k)
  case (Cons p ps)
  then show ?case
    by (cases "meta_Name (pvc_Meta p) = DataPVCName") (auto split: Option.bind_split_asm if_split_asm simp: map_sum_Inr_conv)
qed simp

lemma setNewDataCapacity_found:
  "setNewDataCapacity q ss = Some (Inr ss') \<Longrightarrow> snd (findDataCapacity (sts_VolumeClaimTemplates ss')) = q"
  by (auto simp: setNewDataCapacity_def findDataCapacity_def map_sum_Inr_conv bind_eq_Some_conv
      intro: set_capacity_templates_found)

lemma enrich_templates:
  "enrichWithCleanLastAppliedAnnotation e q ss = Some ss' \<Longrightarrow>
     sts_VolumeClaimTemplates ss' = sts_VolumeClaimTemplates ss"
  by (auto simp: enrichWithCleanLastAppliedAnnotation_def split: Option.bind_split_asm sum.split_asm)

lemma applyPVCModification_found:
  "applyPVCModification e q ss = Some (Inr ss') \<Longrightarrow> snd (findDataCapacity (sts_VolumeClaimTemplates ss')) = q"
  by (auto simp: applyPVCModification_def enrich_templates dest!: setNewDataCapacity_found
      split: Option.bind_split_asm sum.split_asm)

lemma snapshot_trace:
  "makeOldStatefulSetSnapshot e r (p, st) = Some (res, p', st') \<Longrightarrow>
     st_trace st' = st_trace st \<and> st_cc st' = st_cc st \<and> st_storedStatefulSet st' = st_storedStatefulSet st"
  by (auto simp: makeOldStatefulSetSnapshot_def split: Option.bind_split_asm if_split_asm option.split_asm sum.split_asm)

lemma orphan_result:
  assumes "removeStatefulSetOrphan e (p, st) = Some (res, p', st')"
    and "\<forall>l. st_storedStatefulSet st = Some l \<longrightarrow> \<not> doesStatefulSetHaveNewCapacity e (st_cc st) l"
  shows "st_storedStatefulSet st = None \<and> st' = st \<or>
    res \<noteq> StepPass \<and> (\<exists>n. st' = call (DeleteStsReq (cc_Namespace (st_cc st)) n True) st)"
  using assms by (auto simp: removeStatefulSetOrphan_def DeleteStatefulSetWithOrphanOption_def Let_def
      split: option.split_asm if_split_asm)

lemma recreate_result:
  assumes "recreateStatefulSetWithNewCapacity e r q (p, st) = Some (res, p', st')"
    and "st_storedStatefulSet st = None"
  shows "res \<noteq> StepPass \<and>
    (st' = st \<or> (\<exists>ss. st' = call (CreateStsReq ss) st \<and> snd (findDataCapacity (sts_VolumeClaimTemplates ss)) = q))"
  using assms by (auto simp: recreateStatefulSetWithNewCapacity_def CreateStatefulSet_def Let_def
      dest!: applyPVCModification_found split: Option.bind_split_asm option.split_asm sum.split_asm)

lemma upsize_stuck:
  assumes steps: "run_steps (upsize_steps e crn q) (p, st) = Some (err, st')"
    and living: "\<forall>l. st_storedStatefulSet st = Some l \<longrightarrow> \<not> doesStatefulSetHaveNewCapacity e (st_cc st) l"
  shows "action_status (crn_DcRackName crn) st' = action_status (crn_DcRackName crn) st \<and>
    (st_trace st' = st_trace st \<or>
     (\<exists>ns n. st_trace st' = st_trace st @ [DeleteStsReq ns n True]) \<or>
     (\<exists>ss. st_trace st' = st_trace st @ [CreateStsReq ss] \<and> snd (findDataCapacity (sts_VolumeClaimTemplates ss)) = q))"
proof -
  let ?r = "crn_DcRackName crn"
  have keep: "action_status ?r b = action_status ?r a"
    if "s (x, a) = Some (res, y, b)" and "preparing_step ?r s" for s x a res y b
    using preparing_step.keeps_action [OF that(2,1)] by (metis action_status_def option.map_comp)
  from steps [unfolded upsize_steps_def] show ?thesis
  proof (cases rule: run_steps_Cons)
    case (stop res pvcs1)
    then show ?thesis using keep snapshot_step.preparing_step_axioms snapshot_trace by metis
  next
    case (pass p1 st1)
    note 1 = snapshot_trace [OF pass(1)] keep [OF pass(1) snapshot_step.preparing_step_axioms]
    from pass(2) show ?thesis
    proof (cases rule: run_steps_Cons)
      case (stop res p2)
      with orphan_result [OF stop(1)] living 1 keep [OF stop(1) orphan_step.preparing_step_axioms]
      show ?thesis by auto
    next
      case (pass p2 st2)
      with orphan_result [OF pass(1)] living 1 have 2: "st2 = st1" "st_storedStatefulSet st2 = None" by auto
      from pass(2) show ?thesis
      proof (cases rule: run_steps_Cons)
        case (stop res p3)
        with recreate_result [OF stop(1) 2(2)] 1 2 keep [OF stop(1) recreate_step.preparing_step_axioms]
        show ?thesis by auto
      next
        case (pass p3 st3)
        with recreate_result [OF pass(1) 2(2)] show ?thesis by simp
      qed
    qed
  qed
qed

lemma revert_total:
  assumes "\<exists>p \<in> set (sts_VolumeClaimTemplates newSts). meta_Name (pvc_Meta p) = DataPVCName"
  shows "RevertAnyStorageUpsizeBeyondUpsizeAction rs (Some living) newSts \<noteq> None"
  using findDataCapacity_from_cases [of "sts_VolumeClaimTemplates newSts" 0] assms
  by (auto simp: RevertAnyStorageUpsizeBeyondUpsizeAction_def findDataCapacity_def index_def Let_def)

section \<open>Examples\<close>

definition data_claim :: "string \<Rightarrow> quantity \<Rightarrow> pvc" where
  "data_claim n q = \<lparr>pvc_TypeMeta = ('''', ''''), pvc_Meta = named_meta ''ns'' n,
     pvc_Spec = \<lparr>pvcs_AccessModes = [], pvcs_StorageClassName = None, pvcs_VolumeMode = None,
       pvcs_Requests = Some [''storage'' \<mapsto> q]\<rparr>,
     pvc_StatusCapacity = [''storage'' \<mapsto> q]\<rparr>"

definition twenty :: quantity where
  "twenty = \<lparr>q_value = 20 * 10 ^ 9, q_format = ''20''\<rparr>"

text \<open>A cluster that asks for 20, a statefulset of one node that has it, and the claim of its node.\<close>

definition upsize_cluster :: CassandraCluster where
  "upsize_cluster = demo_cluster\<lparr>cc_Spec := (cc_Spec demo_cluster)\<lparr>spec_DataCapacity := ''20''\<rparr>\<rparr>"

text \<open>The same with 10 for the cluster and 20 for its only DC.\<close>

definition own_capacity_cluster :: CassandraCluster where
  "own_capacity_cluster = demo_cluster\<lparr>cc_Spec := (cc_Spec demo_cluster)\<lparr>spec_DataCapacity := ''10'',
     spec_Topology := \<lparr>top_DC = [(zero_dc ''dc1'' [zero_rack ''rack1''])\<lparr>dc_DataCapacity := ''20''\<rparr>]\<rparr>\<rparr>\<rparr>"

definition upsize_sts :: "quantity \<Rightarrow> stateful_set" where
  "upsize_sts q = (demo_sts 1)\<lparr>sts_VolumeClaimTemplates := [data_claim ''data'' q]\<rparr>"

definition upsize_env :: env where
  "upsize_env = example_env\<lparr>
     env_listPvc := \<lambda>_ _ _. Inr [data_claim ''data-demo-dc1-rack1-0'' twenty],
     env_listPods := \<lambda>_ _ _. Inr [example_pod ''demo-dc1-rack1-0'']\<rparr>"

definition upsize_rack :: CassandraRackStatus where
  "upsize_rack = (example_rack (state_Name ClusterPhasePending) (state_Name ActionStorageUpsize) StatusOngoing)
     \<lparr>rs_StatefulSetSnapshotBeforeStorageResize := ''snapshot''\<rparr>"

definition upsize_state :: "CassandraCluster \<Rightarrow> stateful_set option \<Rightarrow> rstate" where
  "upsize_state cc living = (example_state cc [''dc1-rack1'' \<mapsto> upsize_rack])\<lparr>st_storedStatefulSet := living\<rparr>"

lemma upsize_state_racks: "st_racks (upsize_state cc l) (crn_DcRackName demo_rack) = Some upsize_rack"
  by (simp add: upsize_state_def example_state_def demo_rack_def)

section \<open>Properties\<close>

text \<open>
  C16 (upsize_keeps_pods): during a storage upsize the statefulset is only ever deleted with the orphan policy, so
  that its pods survive, and no pod and no volume claim is deleted.  While the status of the rack has no snapshot
  of the statefulset, a pass makes no request at all but for the metric of the phase: neither the
  statefulset nor a volume claim is touched.
\<close>

theorem upsize_keeps_pods:
  assumes run: "ReconcileStorageUpsize e crn st = Some (err, st')"
    and rs: "st_racks st (crn_DcRackName crn) = Some rs"
    and q: "q \<in> set (requests st st')"
  shows "(\<forall>ns n orphan. q = DeleteStsReq ns n orphan \<longrightarrow> orphan) \<and> \<not> deletes_pvc q \<and>
    (\<forall>ns n force. q \<noteq> DeletePodReq ns n force) \<and>
    (rs_StatefulSetSnapshotBeforeStorageResize rs = '''' \<longrightarrow>
       requests st st' = [PhaseMetric ClusterPhasePending (cc_Name (st_cc st))])"
proof -
  let ?r = "crn_DcRackName crn"
  obtain st1 where st1: "st1 = call (PhaseMetric ClusterPhasePending (cc_Name (st_cc st)))
       (put_rack ?r (rs\<lparr>rs_Phase := state_Name ClusterPhasePending\<rparr>) st)"
    and steps: "run_steps (upsize_steps e crn (requested_capacity e crn st1)) ([], st1) = Some (err, st')"
    using ReconcileStorageUpsize_run [OF run] rs by (metis option.inject)
  have "upsize_frame ?r st st1" by (simp add: st1 upsize_frame_call)
  with run_steps_frame [OF upsize_steps_contract steps] have "upsize_frame ?r st st'"
    by (blast intro: upsize_frame_trans)
  with q have "upsize_request q" by (auto simp: upsize_frame_def requests_def list_all_iff)
  moreover have "requests st st' = [PhaseMetric ClusterPhasePending (cc_Name (st_cc st))]"
    if "rs_StatefulSetSnapshotBeforeStorageResize rs = ''''"
    using steps that unfolding upsize_steps_def run_steps.simps
    by (auto simp: makeOldStatefulSetSnapshot_def st1 requests_def split: option.split_asm sum.split_asm)
  ultimately show ?thesis
    by (cases q) (auto simp: upsize_request_def deletes_pvc_def)
qed

theorem upsize_keeps_pods_witness:
  "\<exists>err st' ns n. ReconcileStorageUpsize example_env demo_rack
      (upsize_state upsize_cluster (Some (upsize_sts zero_quantity))) = Some (err, st') \<and>
    DeleteStsReq ns n True \<in>
      set (requests (upsize_state upsize_cluster (Some (upsize_sts zero_quantity))) st')"
proof -
  let ?st = "upsize_state upsize_cluster (Some (upsize_sts zero_quantity))"
  have "map_option (\<lambda>(err, st'). (case last (st_trace st') of DeleteStsReq ns n b \<Rightarrow> length (st_trace st') > 1 | _ \<Rightarrow> False))
      (ReconcileStorageUpsize example_env demo_rack ?st) = Some True" by code_simp
  then obtain err st' where 1: "ReconcileStorageUpsize example_env demo_rack ?st = Some (err, st')"
    and 2: "case last (st_trace st') of DeleteStsReq ns n b \<Rightarrow> length (st_trace st') > 1 | _ \<Rightarrow> False" by auto
  from 2 obtain ns n b where 3: "last (st_trace st') = DeleteStsReq ns n b" "st_trace st' \<noteq> []"
    by (cases "last (st_trace st')"; cases "st_trace st' = []") auto
  have "st_trace ?st = []" by (simp add: upsize_state_def example_state_def)
  with 3 have 4: "DeleteStsReq ns n b \<in> set (requests ?st st')"
    by (metis drop0 last_in_set list.size(3) requests_def)
  with upsize_keeps_pods [OF 1 upsize_state_racks 4] 1 show ?thesis by auto
qed

text \<open>An upsize that ends in this pass went through all its steps.\<close>

lemma upsize_last_steps:
  assumes run: "ReconcileStorageUpsize e crn st = Some (err, st')"
    and rs: "st_racks st (crn_DcRackName crn) = Some rs" "la_Status (rs_CassandraLastAction rs) \<noteq> StatusDone"
    and rs': "st_racks st' (crn_DcRackName crn) = Some rs'" "la_Status (rs_CassandraLastAction rs') = StatusDone"
  shows "\<exists>p2 st2 p3 st3 res p4.
    passes [fetchDataPvcs e crn, ensureAllPVCsHaveNewCapacity e crn, waitTillAllFilesystemsHaveNewCapacity e crn] (p2, st2) = Some (p3, st3) \<and>
    waitTillStatefulSetAndAllPodsAreReady e crn (p3, st3) = Some (res, p4, st') \<and>
    action_status (crn_DcRackName crn) st' \<noteq> action_status (crn_DcRackName crn) st3 \<and> st_cc st2 = st_cc st \<and> st_cc st3 = st_cc st \<and>
    st_storedStatefulSet st2 = st_storedStatefulSet st \<and> st_storedStatefulSet st3 = st_storedStatefulSet st"
proof -
  let ?r = "crn_DcRackName crn"
  obtain st1 where st1: "st1 = call (PhaseMetric ClusterPhasePending (cc_Name (st_cc st)))
       (put_rack ?r (rs\<lparr>rs_Phase := state_Name ClusterPhasePending\<rparr>) st)"
    and steps: "run_steps (upsize_steps e crn (requested_capacity e crn st1)) ([], st1) = Some (err, st')"
    using ReconcileStorageUpsize_run [OF run] rs(1) by (metis option.inject)
  from st1 rs rs' have ne: "action_status ?r st' \<noteq> action_status ?r st1" by (simp add: action_status_def)
  have pre: "\<forall>s \<in> set [makeOldStatefulSetSnapshot e ?r, removeStatefulSetOrphan e,
      recreateStatefulSetWithNewCapacity e ?r q]. preparing_step ?r s"
    "\<forall>s \<in> set [fetchDataPvcs e crn, ensureAllPVCsHaveNewCapacity e crn,
      waitTillAllFilesystemsHaveNewCapacity e crn]. preparing_step ?r s" for q
    by (simp_all add: snapshot_step.preparing_step_axioms orphan_step.preparing_step_axioms
        recreate_step.preparing_step_axioms fetch_step.preparing_step_axioms
        resize_step.preparing_step_axioms filesystem_step.preparing_step_axioms)
  from run_steps_passes [OF pre(1) steps [unfolded upsize_steps_split] ne] obtain p2 st2 where
    2: "run_steps ([fetchDataPvcs e crn, ensureAllPVCsHaveNewCapacity e crn, waitTillAllFilesystemsHaveNewCapacity e crn] @
      [waitTillStatefulSetAndAllPodsAreReady e crn]) (p2, st2) = Some (err, st')"
      "upsize_frame ?r st1 st2" "action_status ?r st2 = action_status ?r st1"
    by blast
  from ne 2(3) have ne2: "action_status ?r st' \<noteq> action_status ?r st2" by simp
  from run_steps_passes [OF pre(2) 2(1) ne2] obtain p3 st3 where
    3: "passes [fetchDataPvcs e crn, ensureAllPVCsHaveNewCapacity e crn, waitTillAllFilesystemsHaveNewCapacity e crn]
       (p2, st2) = Some (p3, st3)"
      "run_steps [waitTillStatefulSetAndAllPodsAreReady e crn] (p3, st3) = Some (err, st')"
      "upsize_frame ?r st2 st3" "action_status ?r st3 = action_status ?r st2"
    by blast
  from 3(2) obtain res p4 where 4: "waitTillStatefulSetAndAllPodsAreReady e crn (p3, st3) = Some (res, p4, st')"
    by (auto split: Option.bind_split_asm StepResult.split_asm)
  have same: "st_cc st2 = st_cc st" "st_cc st3 = st_cc st" "st_storedStatefulSet st2 = st_storedStatefulSet st"
    "st_storedStatefulSet st3 = st_storedStatefulSet st"
    using st1 2(2) 3(3) by (simp_all add: upsize_frame_def)
  from ne2 3(4) have ne3: "action_status ?r st' \<noteq> action_status ?r st3" by simp
  show ?thesis using 3(1) 4 ne3 same by blast
qed

text \<open>
  C3 (upsize_done_when_resized): the action ends only when the living statefulset has the capacity of the cluster and is
  ready, the number of data claims is its number of replicas, each of them asks for the capacity requested for the DC
  and its filesystem has it, and as many pods are listed, all ready.  When the DC has no other capacity than the cluster,
  the statefulset has the requested capacity too; see upsize\_ends\_at\_old\_capacity for a DC that has.
\<close>

theorem upsize_done_when_resized:
  assumes run: "ReconcileStorageUpsize e crn st = Some (err, st')"
    and rs: "st_racks st (crn_DcRackName crn) = Some rs" "la_Status (rs_CassandraLastAction rs) \<noteq> StatusDone"
    and rs': "st_racks st' (crn_DcRackName crn) = Some rs'" "la_Status (rs_CassandraLastAction rs') = StatusDone"
  shows "\<exists>living ps pods tr tr'. st_storedStatefulSet st = Some living \<and>
    doesStatefulSetHaveNewCapacity e (st_cc st) living \<and> IsStatefulSetReady living = Some True \<and>
    env_listPvc e tr (cc_Namespace (st_cc st)) (rack_selector crn st) = Inr ps \<and>
    sts_Replicas living = Some (int (length (data_claims living ps))) \<and>
    list_all (resized (requested_capacity e crn st)) (data_claims living ps) \<and>
    env_listPods e tr' (cc_Namespace (st_cc st)) (rack_selector crn st) = Inr pods \<and>
    sts_Replicas living = Some (int (length pods)) \<and> list_all IsReady pods \<and>
    (GetDataCapacityFromDCName (st_cc st) (crn_DcName crn) = spec_DataCapacity (cc_Spec (st_cc st)) \<longrightarrow>
       quantity_equal (requested_capacity e crn st) (snd (findDataCapacity (sts_VolumeClaimTemplates living))))"
proof -
  obtain p2 st2 p3 st3 res p4 where
    3: "passes [fetchDataPvcs e crn, ensureAllPVCsHaveNewCapacity e crn, waitTillAllFilesystemsHaveNewCapacity e crn]
       (p2, st2) = Some (p3, st3)"
    and 4: "waitTillStatefulSetAndAllPodsAreReady e crn (p3, st3) = Some (res, p4, st')"
    and ne3: "action_status (crn_DcRackName crn) st' \<noteq> action_status (crn_DcRackName crn) st3"
    and same: "st_cc st2 = st_cc st" "st_cc st3 = st_cc st" "st_storedStatefulSet st2 = st_storedStatefulSet st"
      "st_storedStatefulSet st3 = st_storedStatefulSet st"
    using upsize_last_steps [OF run rs rs'] by blast
  note here = same rack_selector_cong [OF same(1)] rack_selector_cong [OF same(2)]
    requested_capacity_cong [OF same(1)]
  from claims_pass [OF 3, unfolded here] obtain living ps where
    5: "st_storedStatefulSet st = Some living"
      "env_listPvc e (st_trace st2) (cc_Namespace (st_cc st)) (rack_selector crn st) = Inr ps"
      "sts_Replicas living = Some (int (length (data_claims living ps)))"
      "list_all (resized (requested_capacity e crn st)) (data_claims living ps)" by (elim exE conjE)
  from finish_done [OF 4 ne3, unfolded here] 5(1) obtain pods where
    6: "doesStatefulSetHaveNewCapacity e (st_cc st) living" "IsStatefulSetReady living = Some True"
      "env_listPods e (st_trace st3) (cc_Namespace (st_cc st)) (rack_selector crn st) = Inr pods"
      "sts_Replicas living = Some (int (length pods))" "list_all IsReady pods" by auto
  have 7: "GetDataCapacityFromDCName (st_cc st) (crn_DcName crn) = spec_DataCapacity (cc_Spec (st_cc st)) \<longrightarrow>
      quantity_equal (requested_capacity e crn st) (snd (findDataCapacity (sts_VolumeClaimTemplates living)))"
    using 6(1) by (simp add: doesStatefulSetHaveNewCapacity_def requested_capacity_def)
  show ?thesis
    by (rule exI [of _ living], rule exI [of _ ps], rule exI [of _ pods], rule exI [of _ "st_trace st2"],
        rule exI [of _ "st_trace st3"], intro conjI; fact 5 6 7)
qed

theorem upsize_done_when_resized_witness:
  "IsStatefulSetReady (upsize_sts twenty) = Some True \<and>
   (\<exists>ps tr. env_listPvc upsize_env tr ''ns'' (rack_selector demo_rack (upsize_state upsize_cluster (Some (upsize_sts twenty)))) = Inr ps \<and>
     list_all (resized (requested_capacity upsize_env demo_rack (upsize_state upsize_cluster (Some (upsize_sts twenty)))))
       (data_claims (upsize_sts twenty) ps))"
proof -
  let ?st = "upsize_state upsize_cluster (Some (upsize_sts twenty))"
  have "map_option (\<lambda>(err, st'). map_option (la_Status \<circ> rs_CassandraLastAction) (st_racks st' (crn_DcRackName demo_rack)))
      (ReconcileStorageUpsize upsize_env demo_rack ?st) = Some (Some StatusDone)" by code_simp
  then obtain err st' rs' where 1: "ReconcileStorageUpsize upsize_env demo_rack ?st = Some (err, st')"
    and 2: "st_racks st' (crn_DcRackName demo_rack) = Some rs'" "la_Status (rs_CassandraLastAction rs') = StatusDone" by auto
  have 3: "la_Status (rs_CassandraLastAction upsize_rack) \<noteq> StatusDone"
    by (simp add: upsize_rack_def example_rack_def statuses)
  have "st_storedStatefulSet ?st = Some (upsize_sts twenty)" "cc_Namespace (st_cc ?st) = ''ns''"
    by (simp add: upsize_state_def, code_simp)
  with upsize_done_when_resized [OF 1 upsize_state_racks 3 2] show ?thesis by auto
qed

text \<open>
  The check of the living statefulset uses the capacity of the cluster instead of that of the DC.  With 10 for the cluster
  and 20 for the DC, the action ends for a statefulset that still has 10.
\<close>

lemma upsize_ends_at_old_capacity:
  "map_option (\<lambda>(err, st'). action_status ''dc1-rack1'' st')
     (ReconcileStorageUpsize upsize_env demo_rack
        (upsize_state own_capacity_cluster (Some (upsize_sts \<lparr>q_value = 10 * 10 ^ 9, q_format = ''10''\<rparr>)))) = Some (Some StatusDone)"
  by code_simp

lemma upsize_deletes:
  assumes "st_racks st (crn_DcRackName crn) = Some rs" and "rs_StatefulSetSnapshotBeforeStorageResize rs \<noteq> ''''"
    and "st_storedStatefulSet st = Some living" and "\<not> doesStatefulSetHaveNewCapacity e (st_cc st) living"
  shows "\<exists>err st'. ReconcileStorageUpsize e crn st = Some (err, st') \<and>
    requests st st' = [PhaseMetric ClusterPhasePending (cc_Name (st_cc st)),
      DeleteStsReq (cc_Namespace (st_cc st)) (meta_Name (sts_Meta living)) True]"
  using assms
  by (simp add: ReconcileStorageUpsize_def upd_rack_def upsize_steps_def makeOldStatefulSetSnapshot_def removeStatefulSetOrphan_def
      DeleteStatefulSetWithOrphanOption_def requests_def Let_def split: option.split)

text \<open>
  C26 (upsize_own_capacity_never_done): for a DC whose own capacity differs from that of the cluster, a pass that finds no
  statefulset, or one without the capacity of the cluster, leaves the status of the action as it is.  Any statefulset it
  creates is again without that capacity, and every later pass that finds it, for the same cluster and with the snapshot
  still in the status, does nothing but delete it.
\<close>

theorem upsize_own_capacity_never_done:
  assumes run: "ReconcileStorageUpsize e crn st = Some (err, st')"
    and own: "\<not> quantity_equal (silentParseResourceQuantity e (spec_DataCapacity (cc_Spec (st_cc st))))
      (requested_capacity e crn st)"
    and living: "\<forall>living. st_storedStatefulSet st = Some living \<longrightarrow> \<not> doesStatefulSetHaveNewCapacity e (st_cc st) living"
  shows "action_status (crn_DcRackName crn) st' = action_status (crn_DcRackName crn) st \<and>
    (\<forall>ss. CreateStsReq ss \<in> set (requests st st') \<longrightarrow> \<not> doesStatefulSetHaveNewCapacity e (st_cc st) ss \<and>
       (\<forall>st2 rs2. st_cc st2 = st_cc st \<longrightarrow> st_storedStatefulSet st2 = Some ss \<longrightarrow> st_racks st2 (crn_DcRackName crn) = Some rs2 \<longrightarrow>
          rs_StatefulSetSnapshotBeforeStorageResize rs2 \<noteq> '''' \<longrightarrow>
          (\<exists>err2 st3. ReconcileStorageUpsize e crn st2 = Some (err2, st3) \<and>
             requests st2 st3 = [PhaseMetric ClusterPhasePending (cc_Name (st_cc st)),
               DeleteStsReq (cc_Namespace (st_cc st)) (meta_Name (sts_Meta ss)) True])))"
proof -
  let ?r = "crn_DcRackName crn"
  obtain rs st1 where rs: "st_racks st ?r = Some rs"
    and st1: "st1 = call (PhaseMetric ClusterPhasePending (cc_Name (st_cc st)))
       (put_rack ?r (rs\<lparr>rs_Phase := state_Name ClusterPhasePending\<rparr>) st)"
    and steps: "run_steps (upsize_steps e crn (requested_capacity e crn st1)) ([], st1) = Some (err, st')"
    using ReconcileStorageUpsize_run [OF run] by metis
  have cap: "requested_capacity e crn st1 = requested_capacity e crn st"
    by (rule requested_capacity_cong) (simp add: st1)
  from living have "\<forall>l. st_storedStatefulSet st1 = Some l \<longrightarrow> \<not> doesStatefulSetHaveNewCapacity e (st_cc st1) l"
    by (simp add: st1)
  note stuck = upsize_stuck [OF steps this, unfolded cap]
  have "action_status ?r st' = action_status ?r st" using stuck rs by (simp add: st1 action_status_def)
  moreover have "\<not> doesStatefulSetHaveNewCapacity e (st_cc st) ss" if "CreateStsReq ss \<in> set (requests st st')" for ss
    using stuck that own by (auto simp: st1 requests_def doesStatefulSetHaveNewCapacity_def)
  moreover have "\<exists>err2 st3. ReconcileStorageUpsize e crn st2 = Some (err2, st3) \<and>
      requests st2 st3 = [PhaseMetric ClusterPhasePending (cc_Name (st_cc st)),
        DeleteStsReq (cc_Namespace (st_cc st)) (meta_Name (sts_Meta ss)) True]"
    if "\<not> doesStatefulSetHaveNewCapacity e (st_cc st) ss" "st_cc st2 = st_cc st" "st_storedStatefulSet st2 = Some ss"
      "st_racks st2 ?r = Some rs2" "rs_StatefulSetSnapshotBeforeStorageResize rs2 \<noteq> ''''" for ss st2 rs2
    using upsize_deletes [OF that(4,5,3), of e] that(1,2) by simp
  ultimately show ?thesis by blast
qed

theorem upsize_own_capacity_never_done_witness:
  "\<exists>err st'. ReconcileStorageUpsize example_env demo_rack
      (upsize_state own_capacity_cluster (Some (upsize_sts twenty))) = Some (err, st') \<and>
    action_status ''dc1-rack1'' st' = Some StatusOngoing"
proof -
  let ?st = "upsize_state own_capacity_cluster (Some (upsize_sts twenty))"
  have "ReconcileStorageUpsize example_env demo_rack ?st \<noteq> None" by code_simp
  then obtain err st' where 1: "ReconcileStorageUpsize example_env demo_rack ?st = Some (err, st')" by auto
  have 2: "\<not> quantity_equal (silentParseResourceQuantity example_env (spec_DataCapacity (cc_Spec (st_cc ?st))))
      (requested_capacity example_env demo_rack ?st)" by code_simp
  have "\<not> doesStatefulSetHaveNewCapacity example_env (st_cc ?st) (upsize_sts twenty)" by code_simp
  then have 3: "\<forall>living. st_storedStatefulSet ?st = Some living \<longrightarrow>
      \<not> doesStatefulSetHaveNewCapacity example_env (st_cc ?st) living" by (simp add: upsize_state_def)
  have "action_status (crn_DcRackName demo_rack) ?st = Some StatusOngoing" by code_simp
  with upsize_own_capacity_never_done [OF 1 2 3] 1 show ?thesis by (auto simp: demo_rack_def)
qed

text \<open>
  Outside of the upsize action the generated statefulset keeps the data capacity of the
  living one, and nothing else of it changes.
\<close>

lemma upsize_postponed:
  assumes "\<not> IsStarted rs"
    and "RevertAnyStorageUpsizeBeyondUpsizeAction rs (Some living) newSts = Some ss"
  shows "quantity_equal (snd (findDataCapacity (sts_VolumeClaimTemplates ss)))
      (snd (findDataCapacity (sts_VolumeClaimTemplates living))) \<and>
    ss\<lparr>sts_VolumeClaimTemplates := sts_VolumeClaimTemplates newSts\<rparr> = newSts \<and>
    length (sts_VolumeClaimTemplates ss) = length (sts_VolumeClaimTemplates newSts) \<and>
    (\<forall>i < length (sts_VolumeClaimTemplates newSts).
       meta_Name (pvc_Meta (sts_VolumeClaimTemplates newSts ! i)) \<noteq> DataPVCName \<longrightarrow>
       sts_VolumeClaimTemplates ss ! i = sts_VolumeClaimTemplates newSts ! i)"
  using findDataCapacity_from_cases [of "sts_VolumeClaimTemplates newSts" 0]
proof (elim disjE exE conjE)
  assume "findDataCapacity_from 0 (sts_VolumeClaimTemplates newSts) = (- 1, zero_quantity)"
  with assms show ?thesis
    by (auto simp: RevertAnyStorageUpsizeBeyondUpsizeAction_def findDataCapacity_def index_def Let_def
        quantity_equal_def split: if_split_asm)
next
  fix as p bs
  assume ps: "sts_VolumeClaimTemplates newSts = as @ p # bs"
    and as: "\<forall>a \<in> set as. meta_Name (pvc_Meta a) \<noteq> DataPVCName" and p: "meta_Name (pvc_Meta p) = DataPVCName"
  let ?c = "snd (findDataCapacity (sts_VolumeClaimTemplates living))"
  have "findDataCapacity (as @ set_request ?c p # bs) = (int (length as), ?c)"
    unfolding findDataCapacity_def by (subst findDataCapacity_from_found) (use as p in simp_all)
  moreover from assms findDataCapacity_from_found [OF as p, of 0 bs]
  have "ss = newSts \<and> quantity_equal (snd (findDataCapacity (as @ p # bs))) ?c \<or>
      ss = newSts\<lparr>sts_VolumeClaimTemplates := as @ set_request ?c p # bs\<rparr>"
    by (auto simp: RevertAnyStorageUpsizeBeyondUpsizeAction_def findDataCapacity_def [of "as @ p # bs"] index_def ps
        Let_def nth_append split: if_split_asm)
  ultimately show ?thesis
    using p ps by (elim disjE conjE) (auto simp: quantity_equal_def nth_append nth_Cons')
qed

end
