(* ===== verification/Rack_Status.thy ===== *)
theory Rack_Status
  imports Storage_Upsize
begin

text \<open>
  src/controllers/cassandracluster/cassandra_status.go: the state machine of a rack.  One function
  per detector of a change (UpdateStatusIf...), the detection of the end of an action, the phase of a
  rack, and getNextCassandraClusterStatus, which runs them in order and stops at the first change.
  A detector works on the working status for the rack r and returns whether it found a change.
\<close>

section \<open>Detectors of a change\<close>

definition setDecommissionStatus :: "env \<Rightarrow> string \<Rightarrow> rstate \<Rightarrow> rstate option" where
  "setDecommissionStatus e r st =
     upd_rack r (\<lambda>rs. rs\<lparr>
       rs_Phase := state_Name ClusterPhasePending,
       rs_CassandraLastAction := (rs_CassandraLastAction rs)\<lparr>
         la_StartTime := Some (now e st), la_Status := StatusToDo, la_Name := state_Name ActionScaleDown\<rparr>,
       rs_PodLastOperation := (rs_PodLastOperation rs)\<lparr>
         po_Status := StatusToDo, po_Name := OperationDecommission, po_StartTime := Some (now e st),
         po_EndTime := None, po_Pods := Some [], po_PodsOK := Some [], po_PodsKO := Some []\<rparr>\<rparr>) st"

definition needToWaitDelayBeforeCheck :: "env \<Rightarrow> string \<Rightarrow> rstate \<Rightarrow> bool option" where
  "needToWaitDelayBeforeCheck e r st =
     do { rs \<leftarrow> st_racks st r;
          Some (case la_StartTime (rs_CassandraLastAction rs) of
                  None \<Rightarrow> False
                | Some t \<Rightarrow> t + DefaultDelayWait * second > now e st) }"

text \<open>The assignments shared by the detectors: the action is to do and has no times.\<close>

definition plan_action :: "string \<Rightarrow> string \<Rightarrow> CassandraLastAction \<Rightarrow> CassandraLastAction" where
  "plan_action status name la =
     la\<lparr>la_Status := status, la_Name := name, la_StartTime := None, la_EndTime := None\<rparr>"

definition cassandraConfigMapName :: string where
  "cassandraConfigMapName = ''cassandra-config''"

definition configMapHasChanged :: "CassandraCluster \<Rightarrow> stateful_set \<Rightarrow> bool" where
  "configMapHasChanged cc ss =
     (let configMapName = spec_ConfigMapName (cc_Spec cc) in
      case pt_Volumes (sts_Template ss) of
        None \<Rightarrow> configMapName \<noteq> ''''
      | Some volumes \<Rightarrow>
          (case find (\<lambda>v. v_Name v = cassandraConfigMapName) volumes of
             Some v \<Rightarrow> (case v_ConfigMap v of Some n \<Rightarrow> n \<noteq> configMapName | None \<Rightarrow> False)
           | None \<Rightarrow> configMapName \<noteq> ''''))"

definition UpdateStatusIfconfigMapHasChanged ::
  "string \<Rightarrow> stateful_set \<Rightarrow> rstate \<Rightarrow> (bool \<times> rstate) option" where
  "UpdateStatusIfconfigMapHasChanged r ss st =
     (if configMapHasChanged (st_cc st) ss
      then do { st \<leftarrow> upd_action r (plan_action StatusToDo (state_Name ActionUpdateConfigMap)) st;
                Some (True, call (ActionMetric ActionUpdateConfigMap (cc_Name (st_cc st))) st) }
      else Some (False, st))"

definition UpdateStatusIfDockerImageHasChanged ::
  "string \<Rightarrow> stateful_set \<Rightarrow> rstate \<Rightarrow> (bool \<times> rstate) option" where
  "UpdateStatusIfDockerImageHasChanged r ss st =
     (if list_ex (\<lambda>c. c_Name c = CassandraContainerName \<and>
                     spec_CassandraImage (cc_Spec (st_cc st)) \<noteq> c_Image c) (pt_Containers (sts_Template ss))
      then do { st \<leftarrow> upd_action r (plan_action StatusToDo (state_Name ActionUpdateDockerImage)) st;
                Some (True, call (ActionMetric ActionUpdateDockerImage (cc_Name (st_cc st))) st) }
      else Some (False, st))"

text \<open>Clearing the flag RollingRestart of a rack of the spec.\<close>

definition clear_restart :: "nat \<Rightarrow> nat \<Rightarrow> CassandraCluster \<Rightarrow> CassandraCluster" where
  "clear_restart dc rack cc =
     set_topology \<lparr>top_DC = (cc_DCs cc)[dc := (cc_DCs cc ! dc)\<lparr>dc_Rack :=
       (dc_Rack (cc_DCs cc ! dc))[rack := (dc_Rack (cc_DCs cc ! dc) ! rack)\<lparr>rack_RollingRestart := False\<rparr>]\<rparr>]\<rparr> cc"

definition UpdateStatusIfRollingRestart ::
  "nat \<Rightarrow> nat \<Rightarrow> string \<Rightarrow> rstate \<Rightarrow> (bool \<times> rstate) option" where
  "UpdateStatusIfRollingRestart dc rack r st =
     do { d \<leftarrow> index (cc_DCs (st_cc st)) (int dc);
          k \<leftarrow> index (dc_Rack d) (int rack);
          if rack_RollingRestart k
          then do { st \<leftarrow> upd_action r (plan_action StatusToDo (state_Name ActionRollingRestart)) st;
                    let st = call (ActionMetric ActionRollingRestart (cc_Name (st_cc st))) st in
                    Some (True, st\<lparr>st_cc := clear_restart dc rack (st_cc st)\<rparr>) }
          else Some (False, st) }"

definition getBootstrapContainerFromStatefulset :: "stateful_set \<Rightarrow> container option" where
  "getBootstrapContainerFromStatefulset ss =
     find (\<lambda>c. c_Name c = ''bootstrap'') (pt_InitContainers (sts_Template ss))"

definition getStoredSeedList :: "stateful_set \<Rightarrow> string list" where
  "getStoredSeedList ss =
     (case getBootstrapContainerFromStatefulset ss of
        None \<Rightarrow> []
      | Some c \<Rightarrow>
          (case find (\<lambda>v. env_Name v = ''CASSANDRA_SEEDS'') (c_Env c) of
             None \<Rightarrow> []
           | Some v \<Rightarrow> split_on CHR '','' (env_Value v)))"

definition set_seeds :: "string slice \<Rightarrow> rstate \<Rightarrow> rstate" where
  "set_seeds seeds st = st\<lparr>st_status := (st_status st)\<lparr>cs_SeedList := seeds\<rparr>\<rparr>"

definition UpdateStatusIfSeedListHasChanged ::
  "env \<Rightarrow> string \<Rightarrow> stateful_set \<Rightarrow> rstate \<Rightarrow> (bool \<times> rstate) option" where
  "UpdateStatusIfSeedListHasChanged e r ss st =
     (let storedSeedList = getStoredSeedList ss;
          st = (if spec_AutoUpdateSeedList (cc_Spec (st_cc st))
                then let seedList = items (InitSeedList (st_cc st)) in
                     if env_seedListsDiffer e storedSeedList seedList
                     then set_seeds (MergeSlice storedSeedList seedList) st else st
                else st)
      in if cs_SeedList (st_status st) \<noteq> Some storedSeedList
         then do { st \<leftarrow> upd_action r (plan_action StatusConfiguring (state_Name ActionUpdateSeedList)) st;
                   Some (True, call (ActionMetric ActionUpdateSeedList (cc_Name (st_cc st))) st) }
         else Some (False, st))"

definition UpdateStatusIfScaling ::
  "env \<Rightarrow> string \<Rightarrow> stateful_set \<Rightarrow> rstate \<Rightarrow> (bool \<times> rstate) option" where
  "UpdateStatusIfScaling e r ss st =
     do { replicas \<leftarrow> sts_Replicas ss;
          let nodesPerRacks = GetNodesPerRacks (st_cc st) r; n = cc_Name (st_cc st) in
          if nodesPerRacks \<noteq> replicas
          then do { st \<leftarrow> upd_action r (\<lambda>la. la\<lparr>la_Status := StatusToDo\<rparr>) st;
                    st \<leftarrow> (if nodesPerRacks > replicas
                          then do { st \<leftarrow> upd_action r (\<lambda>la. la\<lparr>la_Name := state_Name ActionScaleUp\<rparr>) st;
                                    Some (call (ActionMetric ActionScaleUp n) st) }
                          else do { st \<leftarrow> setDecommissionStatus e r (call (ActionMetric ActionScaleDown n) st);
                                    Some (call (PhaseMetric ClusterPhasePending n) st) });
                    st \<leftarrow> upd_action r (\<lambda>la. la\<lparr>la_StartTime := None, la_EndTime := None\<rparr>) st;
                    Some (True, st) }
          else Some (False, st) }"

definition UpdateStatusIfStatefulSetChanged ::
  "env \<Rightarrow> string \<Rightarrow> stateful_set \<Rightarrow> rstate \<Rightarrow> (bool \<times> rstate) option" where
  "UpdateStatusIfStatefulSetChanged e r ss st =
     do { rs \<leftarrow> st_racks st r;
          if ss_CurrentRevision (sts_Status ss) \<noteq> ss_UpdateRevision (sts_Status ss)
          then do { st \<leftarrow> upd_action r (\<lambda>la. la\<lparr>la_Name := state_Name ActionUpdateStatefulSet,
                        la_Status := StatusOngoing, la_StartTime := Some (now e st), la_EndTime := None\<rparr>) st;
                    Some (True, st) }
          else Some (False, st) }"

section \<open>End of an action\<close>

text \<open>The end of the action of rack r: it is done at time t.\<close>

definition end_action :: "time \<Rightarrow> string \<Rightarrow> rstate \<Rightarrow> rstate option" where
  "end_action t r st =
     upd_action r (\<lambda>la. la\<lparr>la_Status := StatusDone, la_EndTime := Some t\<rparr>) st"

definition cleanup_labels :: "CassandraCluster \<Rightarrow> labels" where
  "cleanup_labels cc = [''operation-name'' \<mapsto> OperationCleanup,
     ''operation-status'' \<mapsto> (if spec_AutoPilot (cc_Spec cc) then StatusToDo else StatusManual)]"

definition scale_up_ended ::
  "env \<Rightarrow> time \<Rightarrow> CompleteRackName \<Rightarrow> rstate \<Rightarrow> (bool \<times> rstate) option" where
  "scale_up_ended e t crn st =
     (let nodesPerRacks = GetNodesPerRacks (st_cc st) (crn_DcRackName crn);
          (r, st) = ListPodsOrderByNameAscending e (cc_Namespace (st_cc st))
             (LabelsForCassandraDCRack (st_cc st) (crn_DcName crn) (crn_RackName crn)) st
      in case r of
           Inl err \<Rightarrow> Some (False, st)
         | Inr podsList \<Rightarrow>
             if length podsList < 1 \<or> int (length podsList) < nodesPerRacks then Some (False, st)
             else do { p \<leftarrow> index podsList (nodesPerRacks - 1);
                       if IsReady p
                       then let (r, st) = hasJoiningNodes e st in
                            case r of
                              Inl err \<Rightarrow> Some (False, st)
                            | Inr True \<Rightarrow> Some (False, st)
                            | Inr False \<Rightarrow>
                                do { st \<leftarrow> end_action t (crn_DcRackName crn) st;
                                     Some (True, addPodOperationLabels e (crn_DcName crn) (crn_RackName crn)
                                                   (cleanup_labels (st_cc st)) st) }
                       else Some (False, st) })"

definition scale_down_ended :: "time \<Rightarrow> string \<Rightarrow> rstate \<Rightarrow> (bool \<times> rstate) option" where
  "scale_down_ended t r st =
     do { old \<leftarrow> cc_RackStatus (st_cc st) r;
          if po_Name (rs_PodLastOperation old) = OperationDecommission \<and>
             po_Status (rs_PodLastOperation old) = StatusDone
          then do { st \<leftarrow> end_action t r st; Some (True, st) }
          else Some (False, st) }"

definition UpdateStatusIfActionEnded ::
  "env \<Rightarrow> CompleteRackName \<Rightarrow> stateful_set \<Rightarrow> rstate \<Rightarrow> (bool \<times> rstate) option" where
  "UpdateStatusIfActionEnded e crn ss st =
     (let r = crn_DcRackName crn in
      do { rs \<leftarrow> st_racks st r;
           let la = rs_CassandraLastAction rs; nodesPerRacks = GetNodesPerRacks (st_cc st) r in
           if la_Status la = StatusOngoing \<or> la_Status la = StatusContinue
           then if la_Name la = state_Name ActionScaleUp
                then (if nodesPerRacks = ss_Replicas (sts_Status ss) then scale_up_ended e (now e st) crn st
                      else Some (False, st))
                else if la_Name la = state_Name ActionScaleDown
                then (if nodesPerRacks = ss_Replicas (sts_Status ss) then scale_down_ended (now e st) r st
                      else Some (False, st))
                else if la_Name la = state_Name ClusterPhaseInitial
                then Some (False, call (PhaseMetric ClusterPhaseInitial (cc_Name (st_cc st))) st)
                else if la_Name la = state_Name ActionStorageUpsize
                then Some (False, st)
                else if ss_CurrentRevision (sts_Status ss) = ss_UpdateRevision (sts_Status ss)
                then do { st \<leftarrow> end_action (now e st) r st; Some (True, st) }
                else Some (False, st)
           else Some (False, st) })"

section \<open>Phase of a rack\<close>

text \<open>The last part of UpdateCassandraRackStatusPhase, for a rack that is not initialising.\<close>

definition phase_from_replicas :: "string \<Rightarrow> stateful_set \<Rightarrow> rstate \<Rightarrow> rstate option" where
  "phase_from_replicas r ss st =
     do { notReady \<leftarrow> IsStatefulSetNotReady ss;
          rs \<leftarrow> st_racks st r;
          if notReady
          then do { st \<leftarrow> upd_phase r (state_Name ClusterPhasePending) st;
                    Some (call (PhaseMetric ClusterPhasePending (cc_Name (st_cc st))) st) }
          else if rs_Phase rs \<noteq> state_Name ClusterPhaseRunning
          then do { st \<leftarrow> upd_phase r (state_Name ClusterPhaseRunning) st;
                    Some (call (PhaseMetric ClusterPhaseRunning (cc_Name (st_cc st))) st) }
          else Some st }"

definition UpdateCassandraRackStatusPhase ::
  "env \<Rightarrow> CompleteRackName \<Rightarrow> stateful_set \<Rightarrow> rstate \<Rightarrow> rstate option" where
  "UpdateCassandraRackStatusPhase e crn ss st =
     (let r = crn_DcRackName crn; n = cc_Name (st_cc st) in
      do { rs \<leftarrow> st_racks st r;
           notReady \<leftarrow> IsStatefulSetNotReady ss;
           if rs_Phase rs = state_Name ClusterPhaseInitial
           then let nodesPerRacks = GetNodesPerRacks (st_cc st) r in
                if nodesPerRacks \<le> 0
                then do { st \<leftarrow> setDecommissionStatus e r st;
                          Some (call (PhaseMetric ClusterPhasePending n) st) }
                else
                  let st = call (PhaseMetric ClusterPhaseInitial n) st in
                  if notReady then Some st
                  else
                    let (res, st) = ListPodsOrderByNameAscending e (cc_Namespace (st_cc st))
                           (LabelsForCassandraDCRack (st_cc st) (crn_DcName crn) (crn_RackName crn)) st
                    in case res of
                         Inl err \<Rightarrow> Some st
                       | Inr podsList \<Rightarrow>
                           if length podsList < 1 then Some st
                           else do { p \<leftarrow> index podsList (nodesPerRacks - 1);
                                     st \<leftarrow> (if IsReady p
                                           then do { st \<leftarrow> upd_phase r (state_Name ClusterPhaseRunning) st;
                                                     let st = call (PhaseMetric ClusterPhaseRunning n) st in
                                                     end_action (now e st) r st }
                                           else Some st);
                                     phase_from_replicas r ss st }
           else phase_from_replicas r ss st })"

section \<open>Next action of a rack\<close>

text \<open>Running detectors until one of them finds a change.\<close>

fun first_change :: "(rstate \<Rightarrow> (bool \<times> rstate) option) list \<Rightarrow> rstate \<Rightarrow> (bool \<times> rstate) option" where
  "first_change [] st = Some (False, st)"
| "first_change (d # ds) st =
     do { (found, st) \<leftarrow> d st; if found then Some (True, st) else first_change ds st }"

definition detectors ::
  "env \<Rightarrow> nat \<Rightarrow> nat \<Rightarrow> CompleteRackName \<Rightarrow> stateful_set \<Rightarrow> (rstate \<Rightarrow> (bool \<times> rstate) option) list" where
  "detectors e dc rack crn ss =
     (let r = crn_DcRackName crn in
      [UpdateStatusIfconfigMapHasChanged r ss,
       UpdateStatusIfDockerImageHasChanged r ss,
       \<lambda>st. UpdateStatusIfStorageUpsize e crn (st\<lparr>st_storedStatefulSet := Some ss\<rparr>),
       UpdateStatusIfScaling e r ss,
       UpdateStatusIfSeedListHasChanged e r ss,
       UpdateStatusIfRollingRestart dc rack r,
       UpdateStatusIfStatefulSetChanged e r ss])"

definition action_in_progress :: "CassandraLastAction \<Rightarrow> bool" where
  "action_in_progress la \<longleftrightarrow>
     la_Status la = StatusOngoing \<or> la_Status la = StatusToDo \<or> la_Status la = StatusFinalizing"

text \<open>The last statement: an update of resources that was to do is ongoing.\<close>

definition start_resources :: "env \<Rightarrow> string \<Rightarrow> rstate \<Rightarrow> rstate option" where
  "start_resources e r st =
     do { rs \<leftarrow> st_racks st r;
          if la_Status (rs_CassandraLastAction rs) = StatusToDo \<and>
             la_Name (rs_CassandraLastAction rs) = state_Name ActionUpdateResources
          then upd_action r (\<lambda>la. la\<lparr>la_StartTime := Some (now e st), la_Status := StatusOngoing\<rparr>) st
          else Some st }"

definition look_for_action ::
  "env \<Rightarrow> nat \<Rightarrow> nat \<Rightarrow> CompleteRackName \<Rightarrow> stateful_set \<Rightarrow> bool \<Rightarrow> rstate \<Rightarrow> rstate option" where
  "look_for_action e dc rack crn ss unlock st =
     do { rs \<leftarrow> st_racks st (crn_DcRackName crn);
          (found, st) \<leftarrow>
            (if unlock \<or> hasNoPodDisruption st \<and> \<not> action_in_progress (rs_CassandraLastAction rs)
             then first_change (detectors e dc rack crn ss) st
             else Some (False, st));
          if found then Some st else start_resources e (crn_DcRackName crn) st }"

definition getNextCassandraClusterStatus ::
  "env \<Rightarrow> nat \<Rightarrow> nat \<Rightarrow> CompleteRackName \<Rightarrow> stateful_set \<Rightarrow> rstate \<Rightarrow> rstate option" where
  "getNextCassandraClusterStatus e dc rack crn ss st =
     (let r = crn_DcRackName crn; n = cc_Name (st_cc st) in
      do { wait \<leftarrow> needToWaitDelayBeforeCheck e r st;
           if wait then Some st
           else
             do { (ended, st) \<leftarrow> UpdateStatusIfActionEnded e crn ss st;
                  if ended then Some st
                  else
                    let (unlock, st) =
                          (if spec_UnlockNextOperation (cc_Spec (st_cc st))
                           then hasUnschedulablePod e (crn_DcName crn) (crn_RackName crn) st
                           else (False, st)) in
                    do { rs \<leftarrow> st_racks st r;
                         if rs_Phase rs = state_Name ClusterPhaseInitial \<and> \<not> unlock
                         then Some (call (PhaseMetric ClusterPhaseInitial n) st)
                         else
                           do { st \<leftarrow> (if rs_Phase rs = state_Name ClusterPhaseInitial
                                      then do { st \<leftarrow> upd_phase r (state_Name ClusterPhasePending) st;
                                                Some (call (PhaseMetric ClusterPhasePending n) st) }
                                      else Some st);
                                look_for_action e dc rack crn ss unlock st } } } })"

section \<open>The contract of the detectors\<close>

text \<open>
  A detector for the rack r changes the status of no other rack, changes no rack at all when it
  reports no change, and neither writes a statefulset nor deletes a volume claim.
\<close>

locale rack_step =
  fixes r :: string and f :: "rstate \<Rightarrow> (bool \<times> rstate) option"
  assumes step: "f st = Some (b, st') \<Longrightarrow>
    only_rack r st st' \<and> quiet st st' \<and> (b \<or> st_racks st' = st_racks st)"
begin

lemma step_frame: "f st = Some (b, st') \<Longrightarrow> only_rack r st st'"
  using step by blast

lemma step_quiet: "f st = Some (b, st') \<Longrightarrow> quiet st st'"
  using step by blast

lemma step_idle: "f st = Some (False, st') \<Longrightarrow> st_racks st' = st_racks st"
  using step by blast

end

sublocale rack_step \<subseteq> quiet_step r f
  by unfold_locales (use step in blast)

lemmas detector_defs = UpdateStatusIfconfigMapHasChanged_def UpdateStatusIfDockerImageHasChanged_def
  UpdateStatusIfRollingRestart_def UpdateStatusIfSeedListHasChanged_def UpdateStatusIfScaling_def
  UpdateStatusIfStatefulSetChanged_def UpdateStatusIfStorageUpsize_def setDecommissionStatus_def
  startUpsizeAction_def ShouldBeStarted_def set_seeds_def

interpretation configMap: rack_step r "UpdateStatusIfconfigMapHasChanged r ss" for r ss
proof
  show "only_rack r st st' \<and> quiet st st' \<and> (b \<or> st_racks st' = st_racks st)"
    if "UpdateStatusIfconfigMapHasChanged r ss st = Some (b, st')" for st b st'
    using that by (cases "st_racks st r") (auto simp: detector_defs quiet_call split: if_splits)
qed

interpretation dockerImage: rack_step r "UpdateStatusIfDockerImageHasChanged r ss" for r ss
proof
  show "only_rack r st st' \<and> quiet st st' \<and> (b \<or> st_racks st' = st_racks st)"
    if "UpdateStatusIfDockerImageHasChanged r ss st = Some (b, st')" for st b st'
    using that by (cases "st_racks st r") (auto simp: detector_defs quiet_call split: if_splits)
qed

interpretation rollingRestart: rack_step r "UpdateStatusIfRollingRestart dc rack r" for dc rack r
proof
  show "only_rack r st st' \<and> quiet st st' \<and> (b \<or> st_racks st' = st_racks st)"
    if "UpdateStatusIfRollingRestart dc rack r st = Some (b, st')" for st b st'
    using that by (cases "st_racks st r")
      (auto simp: detector_defs Let_def only_rack_def bind_eq_Some_conv quiet_call split: if_splits)
qed

interpretation seedList: rack_step r "UpdateStatusIfSeedListHasChanged e r ss" for e r ss
proof
  show "only_rack r st st' \<and> quiet st st' \<and> (b \<or> st_racks st' = st_racks st)"
    if "UpdateStatusIfSeedListHasChanged e r ss st = Some (b, st')" for st b st'
    using that by (cases "st_racks st r")
      (auto simp: detector_defs Let_def only_rack_def quiet_call split: if_splits)
qed

interpretation scaling: rack_step r "UpdateStatusIfScaling e r ss" for e r ss
proof
  show "only_rack r st st' \<and> quiet st st' \<and> (b \<or> st_racks st' = st_racks st)"
    if "UpdateStatusIfScaling e r ss st = Some (b, st')" for st b st'
    using that by (cases "st_racks st r"; cases "sts_Replicas ss")
      (auto simp: detector_defs Let_def only_rack_def quiet_call split: if_splits)
qed

interpretation stsChanged: rack_step r "UpdateStatusIfStatefulSetChanged e r ss" for e r ss
proof
  show "only_rack r st st' \<and> quiet st st' \<and> (b \<or> st_racks st' = st_racks st)"
    if "UpdateStatusIfStatefulSetChanged e r ss st = Some (b, st')" for st b st'
    using that by (cases "st_racks st r") (auto simp: detector_defs split: if_splits)
qed

interpretation storageUpsize: rack_step "crn_DcRackName crn"
    "\<lambda>st. UpdateStatusIfStorageUpsize e crn (st\<lparr>st_storedStatefulSet := Some ss\<rparr>)" for e crn ss
proof
  show "only_rack (crn_DcRackName crn) st st' \<and> quiet st st' \<and> (b \<or> st_racks st' = st_racks st)"
    if "UpdateStatusIfStorageUpsize e crn (st\<lparr>st_storedStatefulSet := Some ss\<rparr>) = Some (b, st')" for st b st'
    using that by (cases "st_racks st (crn_DcRackName crn)")
      (auto simp: detector_defs Let_def only_rack_def quiet_call split: if_splits)
qed

lemma first_change_rack_step:
  "\<forall>d \<in> set ds. rack_step r d \<Longrightarrow> rack_step r (first_change ds)"
proof (induction ds)
  case (Cons d ds)
  then have d: "rack_step r d" and ds: "rack_step r (first_change ds)" by auto
  show ?case
  proof
    fix st b st'
    assume "first_change (d # ds) st = Some (b, st')"
    then obtain c st1 where 1: "d st = Some (c, st1)"
      and 2: "(if c then Some (True, st1) else first_change ds st1) = Some (b, st')"
      by (auto simp: bind_eq_Some_conv)
    show "only_rack r st st' \<and> quiet st st' \<and> (b \<or> st_racks st' = st_racks st)"
    proof (cases c)
      case True
      with 1 2 d show ?thesis using rack_step.step [OF d 1] by simp
    next
      case False
      with 2 have 3: "first_change ds st1 = Some (b, st')" by simp
      show ?thesis using rack_step.step [OF d 1] rack_step.step [OF ds 3] False
        by (auto intro: only_rack_trans quiet_trans)
    qed
  qed
qed (unfold_locales, simp)

lemma detectors_rack_step:
  "rack_step (crn_DcRackName crn) (first_change (detectors e dc rack crn ss))"
  by (rule first_change_rack_step)
    (simp add: detectors_def Let_def configMap.rack_step_axioms dockerImage.rack_step_axioms
      storageUpsize.rack_step_axioms scaling.rack_step_axioms seedList.rack_step_axioms
      rollingRestart.rack_step_axioms stsChanged.rack_step_axioms)

section \<open>What the end of an action changes\<close>

lemma end_action_Some:
  "st_racks st r = Some rs \<Longrightarrow> end_action t r st =
     Some (put_rack r (rs\<lparr>rs_CassandraLastAction := (rs_CassandraLastAction rs)
       \<lparr>la_Status := StatusDone, la_EndTime := Some t\<rparr>\<rparr>) st)"
  by (simp add: end_action_def)

lemma UpdatePod_quiet: "quiet st st' \<Longrightarrow> quiet st (snd (UpdatePod e p st'))"
  by (simp add: UpdatePod_def quiet_call)

lemma UpdatePod_state [simp]:
  "st_cc (snd (UpdatePod e p st)) = st_cc st" "st_status (snd (UpdatePod e p st)) = st_status st"
  "st_storedPdb (snd (UpdatePod e p st)) = st_storedPdb st"
  by (simp_all add: UpdatePod_def)

lemma addPodOperationLabels_state:
  "st_cc (addPodOperationLabels e d k l st) = st_cc st \<and>
   st_status (addPodOperationLabels e d k l st) = st_status st \<and>
   st_storedPdb (addPodOperationLabels e d k l st) = st_storedPdb st \<and>
   quiet st (addPodOperationLabels e d k l st)"
proof -
  have *: "st_cc (foldl (\<lambda>st p. if \<not> pod_active p then st else snd (UpdatePod e (g p) st)) st1 ps) = st_cc st1 \<and>
    st_status (foldl (\<lambda>st p. if \<not> pod_active p then st else snd (UpdatePod e (g p) st)) st1 ps) = st_status st1 \<and>
    st_storedPdb (foldl (\<lambda>st p. if \<not> pod_active p then st else snd (UpdatePod e (g p) st)) st1 ps) = st_storedPdb st1 \<and>
    (quiet st st1 \<longrightarrow> quiet st (foldl (\<lambda>st p. if \<not> pod_active p then st else snd (UpdatePod e (g p) st)) st1 ps))"
    for st1 ps g
    by (induction ps arbitrary: st1) (auto intro: UpdatePod_quiet)
  show ?thesis
    unfolding addPodOperationLabels_def ListPods_def using * by (simp add: Let_def quiet_call split: sum.split)
qed

lemma addPodOperationLabels_quiet:
  "quiet st st' \<Longrightarrow> quiet st (addPodOperationLabels e d k l st')"
  using addPodOperationLabels_state quiet_trans by blast

definition ended_by :: "time \<Rightarrow> CassandraRackStatus \<Rightarrow> CassandraRackStatus" where
  "ended_by t rs = rs\<lparr>rs_CassandraLastAction := (rs_CassandraLastAction rs)
       \<lparr>la_Status := StatusDone, la_EndTime := Some t\<rparr>\<rparr>"

lemma hasJoiningNodes_state:
  "hasJoiningNodes e st1 = (res, st2) \<Longrightarrow>
   st_cc st2 = st_cc st1 \<and> st_status st2 = st_status st1 \<and> st_storedPdb st2 = st_storedPdb st1 \<and> quiet st1 st2"
  using hasJoiningNodes_queries [of st1 e] only_queries_state only_queries_quiet by (metis snd_conv)

lemma scale_up_ended_result:
  assumes "scale_up_ended e t crn st = Some (b, st')" and "st_racks st (crn_DcRackName crn) = Some rs"
  shows "st_cc st' = st_cc st \<and> st_storedPdb st' = st_storedPdb st \<and> quiet st st' \<and>
    st_racks st' = (if b then (st_racks st)(crn_DcRackName crn \<mapsto> ended_by t rs) else st_racks st)"
  using assms
  by (auto simp: scale_up_ended_def ListPodsOrderByNameAscending_def ListPods_def Let_def bind_eq_Some_conv
      end_action_Some ended_by_def addPodOperationLabels_state quiet_call
      intro!: addPodOperationLabels_quiet elim: quiet_from_call
      dest!: hasJoiningNodes_state split: sum.splits if_splits prod.splits bool.splits)
    (erule quiet_from_call; simp)

lemma scale_down_ended_result:
  assumes "scale_down_ended t r st = Some (b, st')" and "st_racks st r = Some rs"
  shows "st_cc st' = st_cc st \<and> st_storedPdb st' = st_storedPdb st \<and> quiet st st' \<and>
    st_racks st' = (if b then (st_racks st)(r \<mapsto> ended_by t rs) else st_racks st)"
  using assms
  by (auto simp: scale_down_ended_def bind_eq_Some_conv end_action_Some ended_by_def split: if_splits)

lemma UpdateStatusIfActionEnded_result:
  assumes "UpdateStatusIfActionEnded e crn ss st = Some (b, st')"
    and "st_racks st (crn_DcRackName crn) = Some rs"
  shows "st_cc st' = st_cc st \<and> st_storedPdb st' = st_storedPdb st \<and> quiet st st' \<and>
    st_racks st' = (if b then (st_racks st)(crn_DcRackName crn \<mapsto> ended_by (now e st) rs) else st_racks st)"
  using assms(1) assms(2)
  by (auto simp: UpdateStatusIfActionEnded_def Let_def end_action_Some ended_by_def quiet_call
      dest: scale_up_ended_result scale_down_ended_result split: if_splits)

lemma UpdateStatusIfActionEnded_guard:
  assumes "UpdateStatusIfActionEnded e crn ss st = Some (True, st')"
    and "st_racks st (crn_DcRackName crn) = Some rs"
  shows "la_Status (rs_CassandraLastAction rs) \<in> {StatusOngoing, StatusContinue}"
  using assms by (auto simp: UpdateStatusIfActionEnded_def Let_def split: if_splits)

interpretation actionEnded: rack_step "crn_DcRackName crn" "UpdateStatusIfActionEnded e crn ss" for e crn ss
proof
  show "only_rack (crn_DcRackName crn) st st' \<and> quiet st st' \<and> (b \<or> st_racks st' = st_racks st)"
    if "UpdateStatusIfActionEnded e crn ss st = Some (b, st')" for st b st'
  proof (cases "st_racks st (crn_DcRackName crn)")
    case None
    with that show ?thesis by (simp add: UpdateStatusIfActionEnded_def)
  next
    case (Some rs)
    from UpdateStatusIfActionEnded_result [OF that Some] show ?thesis
      by (auto simp: only_rack_def split: if_splits)
  qed
qed

section \<open>What one call of getNextCassandraClusterStatus does\<close>

lemma start_resources_result:
  assumes "start_resources e r st = Some st'"
  shows "\<exists>rs. st_racks st r = Some rs \<and> quiet st st' \<and> only_rack r st st' \<and> st_cc st' = st_cc st \<and>
    (st' = st \<or>
     la_Status (rs_CassandraLastAction rs) = StatusToDo \<and>
     la_Name (rs_CassandraLastAction rs) = state_Name ActionUpdateResources \<and>
     st_racks st' r = Some (rs\<lparr>rs_CassandraLastAction := (rs_CassandraLastAction rs)
        \<lparr>la_StartTime := Some (now e st), la_Status := StatusOngoing\<rparr>\<rparr>))"
  using assms by (cases "st_racks st r") (auto simp: start_resources_def split: if_splits)

lemma hasUnschedulablePod_queries: "only_queries st (snd (hasUnschedulablePod e d k st))"
  by (simp add: hasUnschedulablePod_def ListPods_def)

lemma look_for_action_step:
  assumes "look_for_action e dc rack crn ss unlock st = Some st'"
  shows "quiet st st' \<and> only_rack (crn_DcRackName crn) st st'"
proof -
  let ?r = "crn_DcRackName crn"
  from assms obtain found st1 where
    1: "first_change (detectors e dc rack crn ss) st = Some (found, st1) \<or> \<not> found \<and> st1 = st"
    and 2: "(if found then Some st1 else start_resources e ?r st1) = Some st'"
  proof -
    from assms obtain rs :: CassandraRackStatus and found st1 where
      "(if unlock \<or> hasNoPodDisruption st \<and> \<not> action_in_progress (rs_CassandraLastAction rs)
        then first_change (detectors e dc rack crn ss) st else Some (False, st)) = Some (found, st1)"
      "(if found then Some st1 else start_resources e ?r st1) = Some st'"
      by (simp add: look_for_action_def bind_eq_Some_conv split: prod.splits) blast
    then show thesis by (intro that [of found st1]) (auto split: if_splits)
  qed
  from 1 have "quiet st st1 \<and> only_rack ?r st st1"
    using rack_step.step [OF detectors_rack_step] by fastforce
  moreover from 2 have "quiet st1 st' \<and> only_rack ?r st1 st'"
    by (auto split: if_splits dest: start_resources_result)
  ultimately show ?thesis by (blast intro: quiet_trans only_rack_trans)
qed

text \<open>
  A call waits, or ends the action, or goes on with the working status after some queries: it stops at
  an initialising rack, or marks it pending and looks for an action.
\<close>

lemma getNext_cases:
  assumes "getNextCassandraClusterStatus e dc rack crn ss st = Some st'"
    and "st_racks st (crn_DcRackName crn) = Some rs"
  obtains (wait) "needToWaitDelayBeforeCheck e (crn_DcRackName crn) st = Some True" "st' = st"
  | (ended) "needToWaitDelayBeforeCheck e (crn_DcRackName crn) st = Some False"
      "UpdateStatusIfActionEnded e crn ss st = Some (True, st')"
  | (idle) st1 unlock st2 st3 where
      "needToWaitDelayBeforeCheck e (crn_DcRackName crn) st = Some False"
      "UpdateStatusIfActionEnded e crn ss st = Some (False, st1)"
      "only_queries st1 st2" "unlock \<Longrightarrow> spec_UnlockNextOperation (cc_Spec (st_cc st))"
      "st' = call (PhaseMetric ClusterPhaseInitial (cc_Name (st_cc st))) st2 \<or>
       (st3 = st2 \<or>
        st3 = call (PhaseMetric ClusterPhasePending (cc_Name (st_cc st)))
          (put_rack (crn_DcRackName crn) (rs\<lparr>rs_Phase := state_Name ClusterPhasePending\<rparr>) st2)) \<and>
       look_for_action e dc rack crn ss unlock st3 = Some st'"
proof -
  let ?r = "crn_DcRackName crn"
  from assms(1) obtain w where w: "needToWaitDelayBeforeCheck e ?r st = Some w"
    by (auto simp: getNextCassandraClusterStatus_def Let_def bind_eq_Some_conv)
  show thesis
  proof (cases w)
    case True
    with w assms(1) show thesis by (intro wait) (auto simp: getNextCassandraClusterStatus_def Let_def)
  next
    case False
    with w have w: "needToWaitDelayBeforeCheck e ?r st = Some False" by simp
    from assms(1) w obtain b st1 where 1: "UpdateStatusIfActionEnded e crn ss st = Some (b, st1)"
      by (auto simp: getNextCassandraClusterStatus_def Let_def bind_eq_Some_conv)
    show thesis
    proof (cases b)
      case True
      with w 1 assms(1) show thesis by (intro ended) (auto simp: getNextCassandraClusterStatus_def Let_def)
    next
      case False
      obtain unlock st2 where 2: "(if spec_UnlockNextOperation (cc_Spec (st_cc st1))
           then hasUnschedulablePod e (crn_DcName crn) (crn_RackName crn) st1 else (False, st1)) = (unlock, st2)"
        by fastforce
      from 1 False assms(2) have st1: "st_cc st1 = st_cc st" "st_racks st1 = st_racks st"
        using UpdateStatusIfActionEnded_result by fastforce+
      from 2 have q: "only_queries st1 st2"
        by (metis hasUnschedulablePod_queries only_queries_refl snd_conv)
      from q assms(2) st1 have r2: "st_racks st2 ?r = Some rs" by (auto dest: only_queries_state)
      from assms(1) w 1 2 False r2 have
        "st' = call (PhaseMetric ClusterPhaseInitial (cc_Name (st_cc st))) st2 \<or>
         (\<exists>st3. (st3 = st2 \<or> st3 = call (PhaseMetric ClusterPhasePending (cc_Name (st_cc st)))
            (put_rack ?r (rs\<lparr>rs_Phase := state_Name ClusterPhasePending\<rparr>) st2)) \<and>
          look_for_action e dc rack crn ss unlock st3 = Some st')"
        by (auto simp: getNextCassandraClusterStatus_def Let_def split: if_splits)
      then obtain st3 where st3: "st' = call (PhaseMetric ClusterPhaseInitial (cc_Name (st_cc st))) st2 \<or>
         (st3 = st2 \<or> st3 = call (PhaseMetric ClusterPhasePending (cc_Name (st_cc st)))
            (put_rack ?r (rs\<lparr>rs_Phase := state_Name ClusterPhasePending\<rparr>) st2)) \<and>
          look_for_action e dc rack crn ss unlock st3 = Some st'" by blast
      show thesis
        by (rule idle [OF w _ q _ st3]) (use 1 2 st1 False in \<open>auto split: if_splits\<close>)
    qed
  qed
qed

lemma getNext_delay:
  assumes "st_racks st (crn_DcRackName crn) = Some rs"
    and "la_StartTime (rs_CassandraLastAction rs) = Some t" and "now e st < t + 20 * second"
  shows "getNextCassandraClusterStatus e dc rack crn ss st = Some st"
  using assms by (simp add: getNextCassandraClusterStatus_def needToWaitDelayBeforeCheck_def DefaultDelayWait_def
      DefaultResyncPeriod_def)

lemma getNext_frame:
  assumes "getNextCassandraClusterStatus e dc rack crn ss st = Some st'"
  shows "only_rack (crn_DcRackName crn) st st' \<and> quiet st st'"
proof -
  let ?r = "crn_DcRackName crn"
  from assms obtain rs where rs: "st_racks st ?r = Some rs"
    by (auto simp: getNextCassandraClusterStatus_def needToWaitDelayBeforeCheck_def Let_def bind_eq_Some_conv)
  from assms rs show ?thesis
  proof (cases rule: getNext_cases)
    case ended
    then show ?thesis using actionEnded.step by blast
  next
    case (idle st1 unlock st2 st3)
    from idle(2) have "only_rack ?r st st1 \<and> quiet st st1" using actionEnded.step by blast
    moreover from idle(3) have "only_rack ?r st1 st2 \<and> quiet st1 st2"
      by (simp add: only_queries_only_rack only_queries_quiet)
    moreover from idle(5) have "only_rack ?r st2 st' \<and> quiet st2 st'"
      by (auto dest!: look_for_action_step simp: quiet_call only_rack_def dest: quiet_from_call)
    ultimately show ?thesis by (blast intro: quiet_trans only_rack_trans)
  qed simp
qed

lemma phase_from_replicas_frame:
  "phase_from_replicas r ss st = Some st' \<Longrightarrow> only_rack r st st' \<and> quiet st st'"
  by (auto simp: phase_from_replicas_def upd_rack_def quiet_call split: Option.bind_split_asm if_split_asm)

lemma UpdateCassandraRackStatusPhase_frame:
  assumes "UpdateCassandraRackStatusPhase e crn ss st = Some st'"
  shows "only_rack (crn_DcRackName crn) st st' \<and> quiet st st'"
proof -
  let ?r = "crn_DcRackName crn"
  have frame: "only_rack ?r st st' \<and> quiet st st'" if "phase_from_replicas ?r ss st1 = Some st'"
    "only_rack ?r st st1" "quiet st st1" for st1
    using phase_from_replicas_frame [OF that(1)] that(2,3) by (blast intro: only_rack_trans quiet_trans)
  from assms show ?thesis
    by (auto simp: UpdateCassandraRackStatusPhase_def ListPodsOrderByNameAscending_def ListPods_def
        setDecommissionStatus_def end_action_def upd_rack_def Let_def quiet_call intro: frame [THEN conjunct1] frame [THEN conjunct2]
        split: Option.bind_split_asm if_split_asm sum.split_asm)
qed

section \<open>Properties\<close>

text \<open>
  A call of getNextCassandraClusterStatus for a rack changes the working status of no
  other rack, and neither writes a statefulset nor deletes a volume claim: deciding the next action and
  acting on the cluster are separate steps.
\<close>

lemma getNext_one_rack:
  assumes "getNextCassandraClusterStatus e dc rack crn ss st = Some st'"
  shows "only_rack (crn_DcRackName crn) st st' \<and>
    (\<forall>q. q \<in> set (requests st st') \<longrightarrow> \<not> touches_sts q \<and> \<not> deletes_pvc q)"
  using getNext_frame [OF assms] quiet_no_sts by blast

text \<open>
  C21 (action_in_progress_is_kept): while an action of a rack is ongoing, to do or finalizing, and
  unlockNextOperation is off, a call of getNextCassandraClusterStatus starts no other action for it: the name
  is kept, and the status stays, or goes from ongoing to done, or, for an update of resources, from
  to do to ongoing.  The check of a changed configuration, made earlier in the pass, does overwrite it
  when the resources have changed (new\_resources\_overwrite\_actions in Change\_Control).
\<close>

theorem action_in_progress_is_kept:
  assumes "getNextCassandraClusterStatus e dc rack crn ss st = Some st'"
    and rs: "st_racks st (crn_DcRackName crn) = Some rs"
    and busy: "action_in_progress (rs_CassandraLastAction rs)"
    and locked: "\<not> spec_UnlockNextOperation (cc_Spec (st_cc st))"
  shows "\<exists>rs'. st_racks st' (crn_DcRackName crn) = Some rs' \<and>
    la_Name (rs_CassandraLastAction rs') = la_Name (rs_CassandraLastAction rs) \<and>
    (let old = la_Status (rs_CassandraLastAction rs); new = la_Status (rs_CassandraLastAction rs')
     in new = old \<or> old = StatusOngoing \<and> new = StatusDone \<or>
        old = StatusToDo \<and> new = StatusOngoing \<and>
          la_Name (rs_CassandraLastAction rs) = state_Name ActionUpdateResources)"
  using assms(1) rs
proof (cases rule: getNext_cases)
  case wait
  with rs show ?thesis by simp
next
  case ended
  with rs busy UpdateStatusIfActionEnded_result [of e crn ss st True st' rs]
    UpdateStatusIfActionEnded_guard [of e crn ss st st' rs]
  show ?thesis by (auto simp: ended_by_def action_in_progress_def statuses)
next
  case (idle st1 unlock st2 st3)
  from idle(2) rs have "st_racks st1 = st_racks st" using UpdateStatusIfActionEnded_result by fastforce
  with idle(3) rs have 2: "st_racks st2 (crn_DcRackName crn) = Some rs" by (auto dest: only_queries_state)
  from idle(4) locked have "\<not> unlock" by blast
  from idle(5) 2 consider "st_racks st' (crn_DcRackName crn) = Some rs"
    | rs3 where "st_racks st3 (crn_DcRackName crn) = Some rs3"
        "rs_CassandraLastAction rs3 = rs_CassandraLastAction rs"
        "look_for_action e dc rack crn ss unlock st3 = Some st'"
    by force
  then show ?thesis
  proof cases
    case 1
    then show ?thesis by simp
  next
    case (2 rs3)
    with busy \<open>\<not> unlock\<close> have "start_resources e (crn_DcRackName crn) st3 = Some st'"
      by (simp add: look_for_action_def)
    with 2 show ?thesis by (auto dest!: start_resources_result)
  qed
qed

theorem action_in_progress_is_kept_witness:
  "\<exists>st' rs'. getNextCassandraClusterStatus example_env 0 0 demo_rack ((demo_sts 2)\<lparr>sts_Replicas := Some 3\<rparr>)
      (example_state demo_cluster [''dc1-rack1'' \<mapsto>
        example_rack (state_Name ClusterPhaseRunning) (state_Name ActionScaleUp) StatusOngoing]) = Some st' \<and>
    st_racks st' ''dc1-rack1'' = Some rs' \<and>
    la_Name (rs_CassandraLastAction rs') = state_Name ActionScaleUp"
proof -
  let ?rs = "example_rack (state_Name ClusterPhaseRunning) (state_Name ActionScaleUp) StatusOngoing"
  let ?st = "example_state demo_cluster [''dc1-rack1'' \<mapsto> ?rs]"
  let ?ss = "(demo_sts 2)\<lparr>sts_Replicas := Some 3\<rparr>"
  have "getNextCassandraClusterStatus example_env 0 0 demo_rack ?ss ?st \<noteq> None" by code_simp
  then obtain st' where 1: "getNextCassandraClusterStatus example_env 0 0 demo_rack ?ss ?st = Some st'"
    by blast
  have 2: "st_racks ?st (crn_DcRackName demo_rack) = Some ?rs"
    by (simp add: example_state_def demo_rack_def)
  have 3: "action_in_progress (rs_CassandraLastAction ?rs)"
    by (simp add: action_in_progress_def example_rack_def)
  have 4: "\<not> spec_UnlockNextOperation (cc_Spec (st_cc ?st))"
    by (simp add: example_state_def demo_cluster_def example_defs)
  have 5: "la_Name (rs_CassandraLastAction ?rs) = state_Name ActionScaleUp" by (simp add: example_rack_def)
  from action_in_progress_is_kept [OF 1 2 3 4] obtain rs' where
    "st_racks st' (crn_DcRackName demo_rack) = Some rs'"
    "la_Name (rs_CassandraLastAction rs') = la_Name (rs_CassandraLastAction ?rs)" by blast
  with 1 5 show ?thesis by (auto simp: demo_rack_def)
qed

text \<open>
  C22 (scale_up_ends_when_joined): a scale up is declared done only when the statefulset reports the requested
  number of replicas, the pod of the last ordinal is ready, and no node of the cluster is joining.
\<close>

theorem scale_up_ends_when_joined:
  assumes "UpdateStatusIfActionEnded e crn ss st = Some (True, st')"
    and "st_racks st (crn_DcRackName crn) = Some rs"
    and "la_Name (rs_CassandraLastAction rs) = state_Name ActionScaleUp"
  shows "\<exists>pods p st1. ListPodsOrderByNameAscending e (cc_Namespace (st_cc st))
        (LabelsForCassandraDCRack (st_cc st) (crn_DcName crn) (crn_RackName crn)) st = (Inr pods, st1) \<and>
      GetNodesPerRacks (st_cc st) (crn_DcRackName crn) = ss_Replicas (sts_Status ss) \<and>
      int (length pods) \<ge> ss_Replicas (sts_Status ss) \<and>
      index pods (ss_Replicas (sts_Status ss) - 1) = Some p \<and> IsReady p \<and>
      fst (hasJoiningNodes e st1) = Inr False"
  using assms
  by (auto simp: UpdateStatusIfActionEnded_def scale_up_ended_def Let_def bind_eq_Some_conv state_infos
      split: if_splits sum.splits prod.splits bool.splits)

theorem scale_up_ends_when_joined_witness:
  "\<exists>pods st1. ListPodsOrderByNameAscending demo_env ''ns''
      (LabelsForCassandraDCRack demo_cluster ''dc1'' ''rack1'')
      (example_state demo_cluster [''dc1-rack1'' \<mapsto>
        example_rack (state_Name ClusterPhaseRunning) (state_Name ActionScaleUp) StatusOngoing]) = (Inr pods, st1) \<and>
     int (length pods) \<ge> 3 \<and> fst (hasJoiningNodes demo_env st1) = Inr False"
proof -
  let ?rs = "example_rack (state_Name ClusterPhaseRunning) (state_Name ActionScaleUp) StatusOngoing"
  let ?st = "example_state demo_cluster [''dc1-rack1'' \<mapsto> ?rs]"
  have "map_option fst (UpdateStatusIfActionEnded demo_env demo_rack (demo_sts 3) ?st) = Some True" by code_simp
  then obtain st' where 1: "UpdateStatusIfActionEnded demo_env demo_rack (demo_sts 3) ?st = Some (True, st')"
    by auto
  have 2: "st_racks ?st (crn_DcRackName demo_rack) = Some ?rs"
    by (simp add: example_state_def demo_rack_def)
  have 3: "la_Name (rs_CassandraLastAction ?rs) = state_Name ActionScaleUp" by (simp add: example_rack_def)
  have "ss_Replicas (sts_Status (demo_sts 3)) = 3" "crn_DcName demo_rack = ''dc1''"
    "crn_RackName demo_rack = ''rack1''" "cc_Namespace (st_cc ?st) = ''ns''" by code_simp+
  moreover have "LabelsForCassandraDCRack (st_cc ?st) ''dc1'' ''rack1'' =
      LabelsForCassandraDCRack demo_cluster ''dc1'' ''rack1''"
    by (simp add: example_state_def LabelsForCassandraDCRack_def LabelsForCassandraDC_def LabelsForCassandra_def)
  ultimately show ?thesis
    using scale_up_ends_when_joined [OF 1 2 3] by fastforce
qed

text \<open>
  The scaling detector compares the requested nodes of the rack with the replicas of
  the statefulset: equal, nothing changes; more nodes plan a scale up that leaves the pod operation
  alone; fewer nodes plan a scale down with a decommission to do and no pod chosen yet.
\<close>

lemma scaling_direction:
  assumes "st_racks st r = Some rs" and "sts_Replicas ss = Some replicas"
  shows "\<exists>st' rs'. UpdateStatusIfScaling e r ss st = Some (GetNodesPerRacks (st_cc st) r \<noteq> replicas, st') \<and>
    st_racks st' r = Some rs' \<and>
    (GetNodesPerRacks (st_cc st) r = replicas \<longrightarrow> st' = st) \<and>
    (GetNodesPerRacks (st_cc st) r > replicas \<longrightarrow>
       la_Name (rs_CassandraLastAction rs') = state_Name ActionScaleUp \<and> \<not> weAreScalingDown rs' \<and>
       la_Status (rs_CassandraLastAction rs') = StatusToDo \<and>
       rs_PodLastOperation rs' = rs_PodLastOperation rs \<and> rs_Phase rs' = rs_Phase rs) \<and>
    (GetNodesPerRacks (st_cc st) r < replicas \<longrightarrow>
       weAreScalingDown rs' \<and> rs_Phase rs' = state_Name ClusterPhasePending \<and>
       po_Name (rs_PodLastOperation rs') = OperationDecommission \<and>
       po_Status (rs_PodLastOperation rs') = StatusToDo \<and>
       po_Pods (rs_PodLastOperation rs') = Some [])"
  using assms
  by (auto simp: UpdateStatusIfScaling_def setDecommissionStatus_def weAreScalingDown_def Let_def state_infos)

text \<open>
  With autoUpdateSeedList on, and given that the difference library reports lists
  with different elements as different, the seed list of the status has exactly the seeds planned by
  InitSeedList once the seed-list detector has run.
\<close>

lemma seed_list_covers_plan:
  assumes diff: "\<And>xs ys. set xs \<noteq> set ys \<Longrightarrow> env_seedListsDiffer e xs ys"
    and auto_on: "spec_AutoUpdateSeedList (cc_Spec (st_cc st))"
    and synced: "cs_SeedList (st_status st) = Some (getStoredSeedList ss)"
    and run: "UpdateStatusIfSeedListHasChanged e r ss st = Some (b, st')"
  shows "set (items (cs_SeedList (st_status st'))) = set (items (InitSeedList (st_cc st)))"
proof -
  let ?old = "getStoredSeedList ss" and ?new = "items (InitSeedList (st_cc st))"
  from run auto_on have "cs_SeedList (st_status st') =
      (if env_seedListsDiffer e ?old ?new then MergeSlice ?old ?new else cs_SeedList (st_status st))"
    by (cases "st_racks st r") (auto simp: UpdateStatusIfSeedListHasChanged_def set_seeds_def Let_def split: if_splits)
  with diff [of ?old ?new] synced show ?thesis by (auto simp: items_MergeSlice)
qed

text \<open>
  The phase of a rack that is not initialising is Running when all replicas
  are ready and Pending otherwise, and nothing else of the rack or of another rack changes.
\<close>

lemma rack_phase_follows_readiness:
  assumes "st_racks st (crn_DcRackName crn) = Some rs" and "sts_Replicas ss = Some n"
    and "rs_Phase rs \<noteq> state_Name ClusterPhaseInitial"
  shows "\<exists>st'. UpdateCassandraRackStatusPhase e crn ss st = Some st' \<and>
    st_racks st' (crn_DcRackName crn) = Some (rs\<lparr>rs_Phase :=
      (if ss_ReadyReplicas (sts_Status ss) = n then state_Name ClusterPhaseRunning
       else state_Name ClusterPhasePending)\<rparr>) \<and>
    only_rack (crn_DcRackName crn) st st'"
  using assms
  by (auto simp: UpdateCassandraRackStatusPhase_def phase_from_replicas_def IsStatefulSetNotReady_def
      IsStatefulSetReady_def Let_def)

text \<open>
  An initialising rack whose statefulset is ready with fewer pods listed than the
  requested nodes makes UpdateCassandraRackStatusPhase index the list of pods out of range, a panic.
\<close>

lemma rack_phase_panics:
  assumes "st_racks st (crn_DcRackName crn) = Some rs" and "sts_Replicas ss = Some n"
    and "rs_Phase rs = state_Name ClusterPhaseInitial" and "ss_ReadyReplicas (sts_Status ss) = n"
    and "\<And>tr ns sel. env_listPods e tr ns sel = Inr pods" and "pods \<noteq> []"
    and "int (length pods) < GetNodesPerRacks (st_cc st) (crn_DcRackName crn)"
  shows "UpdateCassandraRackStatusPhase e crn ss st = None"
  using assms
  by (auto simp: UpdateCassandraRackStatusPhase_def IsStatefulSetNotReady_def IsStatefulSetReady_def Let_def
      ListPodsOrderByNameAscending_def ListPods_def index_def sorted_pods.length_srt)

end
