(* ===== verification/Decommission.thy ===== *)
theory Decommission
  imports Rack_Status
begin

text \<open>
  The decommission of the last pod of a rack (ensureDecommission and its helpers of
  src/controllers/cassandracluster/pod_operation.go), which holds back the update of the statefulset
  while a scale down is under way.  A handler returns whether the resync loop is to be broken off and
  an error; a goroutine is an entry of the trace where it is started.
\<close>

section \<open>Decommission\<close>

definition NORMAL :: string where "NORMAL = ''NORMAL''"
definition LEAVING :: string where "LEAVING = ''LEAVING''"
definition DECOMMISSIONED :: string where "DECOMMISSIONED = ''DECOMMISSIONED''"
definition UNKNOWN :: string where "UNKNOWN = ''UNKNOWN''"

lemmas modes = NORMAL_def LEAVING_def DECOMMISSIONED_def UNKNOWN_def

abbreviation (input) breakResyncLoop :: bool where "breakResyncLoop \<equiv> True"
abbreviation (input) continueResyncLoop :: bool where "continueResyncLoop \<equiv> False"

type_synonym resync = "((bool \<times> error option) \<times> rstate) option"

text \<open>The comparison of Go strings.\<close>

fun str_le :: "string \<Rightarrow> string \<Rightarrow> bool" where
  "str_le [] t = True"
| "str_le (c # s) [] = False"
| "str_le (c # s) (d # t) = ((of_char c :: nat) < of_char d \<or> c = d \<and> str_le s t)"

definition SetStatusForMoreDecommissions :: "bool \<Rightarrow> PodLastOperation \<Rightarrow> PodLastOperation" where
  "SetStatusForMoreDecommissions moreDecommissions po =
     po\<lparr>po_Status := (if moreDecommissions then StatusContinue else StatusDone)\<rparr>"

definition deletePodPVC :: "env \<Rightarrow> string \<Rightarrow> string \<Rightarrow> pod \<Rightarrow> bool \<Rightarrow> rstate \<Rightarrow> resync" where
  "deletePodPVC e dcName rackName lastPod statefulsetIsReady st =
     (let r = GetDCRackName dcName rackName in
      do { rs \<leftarrow> st_racks st r;
           name \<leftarrow> index (items (po_Pods (rs_PodLastOperation rs))) 0;
           let (res, st) = GetPVC e (cc_Namespace (st_cc st)) (''data-'' @ name) st in
           let (retry, st) =
             (case res of
                Inr pvc \<Rightarrow> (False, snd (deletePVC e pvc st))
              | Inl err \<Rightarrow> (err \<noteq> NotFound, st)) in
           if retry then Some ((breakResyncLoop, None), st)
           else do { st \<leftarrow> upd_podop r (\<lambda>po.
                       (SetStatusForMoreDecommissions (\<not> statefulsetIsReady) po)\<lparr>
                         po_PodsOK := Some [pod_Name lastPod], po_EndTime := Some (now e st),
                         po_Pods := Some []\<rparr>) st;
                     Some ((breakResyncLoop, None), st) } })"

text \<open>
  A pending pod that cannot be scheduled.  The first condition is read without a test that there is
  one.
\<close>

definition pending_unschedulable :: "pod \<Rightarrow> bool option" where
  "pending_unschedulable p =
     (case pod_Conditions p of
        None \<Rightarrow> Some False
      | Some conds \<Rightarrow>
          if pod_Phase p = PodPending
          then do { c \<leftarrow> index conds 0; Some (cond_Reason c = ''Unschedulable'') }
          else Some False)"

text \<open>The mode of the node of a pod, with the host of the client that was asked.\<close>

definition pod_operation_mode :: "env \<Rightarrow> pod \<Rightarrow> rstate \<Rightarrow> (error + string \<times> string) \<times> rstate" where
  "pod_operation_mode e p st =
     (let (r, st) = NewJolokiaClient e (PodHostname p)
                      (spec_ImageJolokiaSecret (cc_Spec (st_cc st))) (cc_Namespace (st_cc st)) st in
      case r of
        Inl err \<Rightarrow> (Inl err, st)
      | Inr host \<Rightarrow> let (m, st) = NodeOperationMode e host st in (map_sum id (Pair host) m, st))"

text \<open>The end of ensureDecommissionToDo, for a last pod that runs.\<close>

definition start_decommission :: "env \<Rightarrow> string \<Rightarrow> pod \<Rightarrow> rstate \<Rightarrow> resync" where
  "start_decommission e r lastPod st =
     (let (m, st) = pod_operation_mode e lastPod st in
      case m of
        Inl err \<Rightarrow> Some ((breakResyncLoop, Some err), st)
      | Inr (host, mode) \<Rightarrow>
          if mode = DECOMMISSIONED \<or> mode = UNKNOWN \<or> mode = LEAVING
          then Some ((breakResyncLoop, None), st)
          else
            let st = snd (UpdatePodLabel e lastPod
                  [''operation-status'' \<mapsto> StatusOngoing,
                   ''operation-start'' \<mapsto> LabelTime (env_wall e (st_trace st)),
                   ''operation-name'' \<mapsto> OperationDecommission] st) in
            do { st \<leftarrow> upd_podop r (\<lambda>po. po\<lparr>po_Status := StatusOngoing,
                       po_Pods := Some [pod_Name lastPod], po_PodsOK := Some [],
                       po_PodsKO := Some []\<rparr>) st;
                 Some ((breakResyncLoop, None),
                   call (Spawn (RunDecommission host
                     (str_le ''4.0'' (spec_ServerVersion (cc_Spec (st_cc st)))))) st) })"

definition ensureDecommissionToDo :: "env \<Rightarrow> string \<Rightarrow> string \<Rightarrow> rstate \<Rightarrow> resync" where
  "ensureDecommissionToDo e dcName rackName st =
     (let r = GetDCRackName dcName rackName in
      do { rs \<leftarrow> st_racks st r;
           let (res, st) = GetLastPod e (cc_Namespace (st_cc st))
                             (LabelsForCassandraDCRack (st_cc st) dcName rackName) st in
           case res of
             Inl err \<Rightarrow> Some ((breakResyncLoop, Some (Errorf ''failed to get last cassandra's pods'')), st)
           | Inr lastPod \<Rightarrow>
               do { bypass \<leftarrow> pending_unschedulable lastPod;
                    if bypass
                    then do { st \<leftarrow> upd_podop r (\<lambda>po. po\<lparr>po_Status := StatusFinalizing, po_PodsOK := Some [],
                                  po_Pods := Some [pod_Name lastPod], po_PodsKO := Some []\<rparr>) st;
                              st \<leftarrow> upd_action r (\<lambda>la. la\<lparr>la_Status := StatusContinue\<rparr>) st;
                              Some ((continueResyncLoop, None), st) }
                    else if \<not> pod_active lastPod
                    then Some ((breakResyncLoop, Some (Errorf ''pod is not running'')), st)
                    else start_decommission e r lastPod st } })"

text \<open>
  An ongoing decommission: the node is asked for its mode.  A node that is still normal two minutes
  after the label operation-start gets its decommission again; a node that left the ring lets the
  statefulset be scaled down.
\<close>

definition decommission_ongoing :: "env \<Rightarrow> string \<Rightarrow> string \<Rightarrow> rstate \<Rightarrow> resync" where
  "decommission_ongoing e r name st =
     (let (res, st) = GetPod e (cc_Namespace (st_cc st)) name st in
      case res of
        Inl err \<Rightarrow> Some ((breakResyncLoop, Some (Errorf ''failed to get last pod'')), st)
      | Inr lastPod \<Rightarrow>
          let (m, st) = pod_operation_mode e lastPod st in
          case m of
            Inl err \<Rightarrow> Some ((breakResyncLoop, Some err), st)
          | Inr (host, mode) \<Rightarrow>
              if mode = NORMAL
              then
                let t = fst (LabelTime2Time (case pod_Labels lastPod ''operation-start'' of
                               None \<Rightarrow> '''' | Some l \<Rightarrow> l));
                    nw = fst (LabelTime2Time (LabelTime (env_wall e (st_trace st)))) in
                if t + DefaultDelayWaitForDecommission * second > nw
                then Some ((breakResyncLoop, None), st)
                else do { st \<leftarrow> upd_podop r (\<lambda>po. po\<lparr>po_Status := StatusToDo\<rparr>) st;
                          Some ((breakResyncLoop, None), st) }
              else if mode = DECOMMISSIONED \<or> mode = UNKNOWN
              then do { st \<leftarrow> upd_podop r (\<lambda>po. po\<lparr>po_Status := StatusFinalizing\<rparr>) st;
                        let (err, st) = updateCassandraStatus e st in
                        Some ((continueResyncLoop, err), st) }
              else Some ((breakResyncLoop, None), st))"

definition ensureDecommission :: "env \<Rightarrow> string \<Rightarrow> string \<Rightarrow> bool \<Rightarrow> rstate \<Rightarrow> resync" where
  "ensureDecommission e dcName rackName statefulsetIsReady st =
     (let r = GetDCRackName dcName rackName in
      do { rs \<leftarrow> st_racks st r;
           let po = rs_PodLastOperation rs in
           if po_Name po \<noteq> OperationDecommission then Some ((continueResyncLoop, None), st)
           else if po_Status po = StatusToDo \<or> po_Status po = StatusContinue
           then ensureDecommissionToDo e dcName rackName st
           else if po_Status po = StatusFinalizing
           then do { name \<leftarrow> index (items (po_Pods po)) 0;
                     let (res, st) = GetPod e (cc_Namespace (st_cc st)) name st in
                     case res of
                       Inl err \<Rightarrow>
                         if err = NotFound
                         then deletePodPVC e dcName rackName (bare_pod (cc_Namespace (st_cc st)) name)
                                statefulsetIsReady st
                         else Some ((breakResyncLoop, Some (Errorf ''failed to get pod'')), st)
                     | Inr lastPod \<Rightarrow> Some ((breakResyncLoop, None), st) }
           else if po_Status po = StatusOngoing
           then (case po_Pods po of
                   None \<Rightarrow> Some ((breakResyncLoop, Some (Errorf ''status is Ongoing, we should have a PodLastOperation Pods item'')), st)
                 | Some pods \<Rightarrow>
                     do { name \<leftarrow> index pods 0;
                          if name = ''''
                          then Some ((breakResyncLoop, Some (Errorf ''status is Ongoing, we should have a PodLastOperation Pods item'')), st)
                          else decommission_ongoing e r name st })
           else if po_Status po = StatusDone
           then (case po_PodsOK po of
                   None \<Rightarrow> Some ((breakResyncLoop, Some (Errorf ''for Status Done we should have a PodLastOperation.PodsOK item'')), st)
                 | Some pods \<Rightarrow>
                     do { name \<leftarrow> index pods 0;
                          if name = ''''
                          then Some ((breakResyncLoop, Some (Errorf ''for Status Done we should have a PodLastOperation.PodsOK item'')), st)
                          else do { st \<leftarrow> upd_action r (\<lambda>la. la\<lparr>la_Status := StatusContinue\<rparr>) st;
                                    Some ((breakResyncLoop, None), st) } })
           else Some ((continueResyncLoop, None), st) })"

section \<open>Frames\<close>

lemma updateCassandraStatus_frame:
  "st_status (snd (updateCassandraStatus e st)) = st_status st"
  "st_chanRunningOp (snd (updateCassandraStatus e st)) = st_chanRunningOp st"
  "quiet st (snd (updateCassandraStatus e st))"
  by (auto simp: updateCassandraStatus_def updateCassandraStatus_obj_def Let_def quiet_call split: sum.split)

lemma UpdatePodLabel_frame:
  "st_status (snd (UpdatePodLabel e p l st)) = st_status st"
  "st_cc (snd (UpdatePodLabel e p l st)) = st_cc st"
  "st_chanRunningOp (snd (UpdatePodLabel e p l st)) = st_chanRunningOp st"
  "quiet st (snd (UpdatePodLabel e p l st))"
  by (auto simp: UpdatePodLabel_def GetPod_def UpdatePod_def Let_def quiet_call split: sum.split)

lemma pod_operation_mode_queries:
  "only_queries st (snd (pod_operation_mode e p st))"
proof -
  obtain r st1 where 1: "NewJolokiaClient e (PodHostname p) (spec_ImageJolokiaSecret (cc_Spec (st_cc st)))
      (cc_Namespace (st_cc st)) st = (r, st1)" by fastforce
  then have q1: "only_queries st st1" by (metis execute_queries(3) snd_conv)
  have q2: "only_queries st1 (snd (NodeOperationMode e h st1))" for h by simp
  have "only_queries st st2" if "NodeOperationMode e h st1 = (m, st2)" for h m st2
    using only_queries_trans [OF q1 q2 [of h]] that by simp
  then show ?thesis
    using q1 by (auto simp: pod_operation_mode_def 1 split: sum.split prod.split)
qed

lemma pod_operation_mode_frame:
  assumes "pod_operation_mode e p st = (m, st')"
  shows "only_queries st st'" "st_status st' = st_status st" "st_cc st' = st_cc st" "quiet st st'"
    "st_chanRunningOp st' = st_chanRunningOp st"
proof -
  show q: "only_queries st st'" using pod_operation_mode_queries assms by (metis snd_conv)
  from only_queries_state [OF q] only_queries_quiet [OF q]
  show "st_status st' = st_status st" "st_cc st' = st_cc st" "quiet st st'"
    "st_chanRunningOp st' = st_chanRunningOp st" by auto
qed

lemma GetLastPod_frame:
  assumes "GetLastPod e ns sel st = (res, st')"
  shows "st' = call (ListPodsReq ns sel) st"
  using assms by (auto simp: GetLastPod_def ListPods_def)

section \<open>The protocol of a decommission\<close>

text \<open>
  The steps of the status of a decommission: it starts, or is skipped for a pod that was never
  scheduled; it is retried or the node has left; the claim is gone, and there are more nodes to
  decommission or none.  The steps are those of the code.  The comment of ensureDecommission describes others: from
  Ongoing to Done when the pod is gone, and the deletion of the claim in Done.
\<close>

inductive decommission_step :: "string \<Rightarrow> string \<Rightarrow> bool" where
  start: "s \<in> {StatusToDo, StatusContinue} \<Longrightarrow> decommission_step s StatusOngoing"
| skip: "s \<in> {StatusToDo, StatusContinue} \<Longrightarrow> decommission_step s StatusFinalizing"
| again: "decommission_step StatusOngoing StatusToDo"
| left: "decommission_step StatusOngoing StatusFinalizing"
| more: "decommission_step StatusFinalizing StatusContinue"
| finish: "decommission_step StatusFinalizing StatusDone"

declare decommission_step.intros [intro]

inductive_simps decommission_step_Done: "decommission_step s StatusDone"
inductive_simps decommission_step_from: "decommission_step StatusDone t"

definition pod_op :: "string \<Rightarrow> rstate \<Rightarrow> PodLastOperation option" where
  "pod_op r st = map_option rs_PodLastOperation (st_racks st r)"

text \<open>
  What a pass may do to the operation of its rack: nothing, or a step of the protocol that keeps the
  name; the statefulset is let go (the flag is False) only into Finalizing.
\<close>

definition follows_protocol :: "string \<Rightarrow> rstate \<Rightarrow> bool \<Rightarrow> rstate \<Rightarrow> bool" where
  "follows_protocol r st b st' \<longleftrightarrow>
     (\<forall>po. pod_op r st = Some po \<longrightarrow>
        (\<exists>po'. pod_op r st' = Some po' \<and> po_Name po' = po_Name po \<and>
           (po_Status po' = po_Status po \<and> b \<or>
            decommission_step (po_Status po) (po_Status po') \<and> (b \<or> po_Status po' = StatusFinalizing))))"

lemma follows_protocol_stay: "pod_op r st' = pod_op r st \<Longrightarrow> follows_protocol r st True st'"
  by (auto simp: follows_protocol_def)

lemma start_decommission_result:
  assumes "start_decommission e r p st = Some ((b, err), st')"
    and "st_racks st r = Some rs" and "po_Status (rs_PodLastOperation rs) \<in> {StatusToDo, StatusContinue}"
  shows "b \<and> quiet st st' \<and> only_rack r st st' \<and> follows_protocol r st b st'"
proof -
  obtain m st1 where 1: "pod_operation_mode e p st = (m, st1)" by fastforce
  note f1 = pod_operation_mode_frame [OF 1]
  show ?thesis
  proof (cases "isl m \<or> snd (projr m) \<in> {DECOMMISSIONED, UNKNOWN, LEAVING}")
    case True
    with assms 1 have "b \<and> st' = st1" by (cases m) (auto simp: start_decommission_def)
    with f1 show ?thesis by (auto simp: only_rack_def pod_op_def intro!: follows_protocol_stay)
  next
    case False
    define lb where "lb = [''operation-status'' \<mapsto> StatusOngoing,
       ''operation-start'' \<mapsto> LabelTime (env_wall e (st_trace st1)), ''operation-name'' \<mapsto> OperationDecommission]"
    note f2 = UpdatePodLabel_frame [where e = e and p = p and l = lb and st = st1]
    from assms 1 f1 f2 False obtain g n where "b"
      "st' = call (Spawn g) (put_rack r (rs\<lparr>rs_PodLastOperation := (rs_PodLastOperation rs)\<lparr>po_Status := StatusOngoing,
         po_Pods := Some [n], po_PodsOK := Some [], po_PodsKO := Some []\<rparr>\<rparr>) (snd (UpdatePodLabel e p lb st1)))"
      by (cases m) (auto simp: start_decommission_def lb_def Let_def)
    moreover from f1 f2 have "quiet st (snd (UpdatePodLabel e p lb st1))" by (blast intro: quiet_trans)
    ultimately show ?thesis using f1 f2 assms(2,3)
      by (auto simp: quiet_call only_rack_def follows_protocol_def pod_op_def)
  qed
qed

lemma ensureDecommissionToDo_result:
  assumes "ensureDecommissionToDo e dcName rackName st = Some ((b, err), st')"
    and "st_racks st (GetDCRackName dcName rackName) = Some rs"
    and "po_Status (rs_PodLastOperation rs) \<in> {StatusToDo, StatusContinue}"
  shows "quiet st st' \<and> only_rack (GetDCRackName dcName rackName) st st' \<and>
    follows_protocol (GetDCRackName dcName rackName) st b st' \<and>
    (\<not> b \<longrightarrow> (\<exists>pods p. env_listPods e (st_trace st) (cc_Namespace (st_cc st))
        (LabelsForCassandraDCRack (st_cc st) dcName rackName) = Inr pods \<and>
      GetLastOrFirstPodItem pods True = Inr p \<and> pending_unschedulable p = Some True))"
proof -
  let ?r = "GetDCRackName dcName rackName" and ?sel = "LabelsForCassandraDCRack (st_cc st) dcName rackName"
  obtain res st1 where 1: "GetLastPod e (cc_Namespace (st_cc st)) ?sel st = (res, st1)" by fastforce
  note st1 = GetLastPod_frame [OF 1]
  have q: "quiet st st1" "only_rack ?r st st1" "pod_op ?r st1 = pod_op ?r st" "st_racks st1 ?r = Some rs"
    using assms(2) by (simp_all add: st1 quiet_call pod_op_def)
  show ?thesis
  proof (cases res)
    case (Inl x)
    with assms 1 have "b \<and> st' = st1" by (auto simp: ensureDecommissionToDo_def)
    with q show ?thesis by (auto intro: follows_protocol_stay)
  next
    case (Inr p)
    from 1 Inr obtain pods where pods: "env_listPods e (st_trace st) (cc_Namespace (st_cc st)) ?sel = Inr pods"
      "GetLastOrFirstPodItem pods True = Inr p"
      by (auto simp: GetLastPod_def ListPods_def split: sum.split_asm)
    from assms(1,2) 1 Inr obtain u where u: "pending_unschedulable p = Some u"
      by (cases "pending_unschedulable p") (auto simp: ensureDecommissionToDo_def Let_def)
    consider (skip) "u" | (idle) "\<not> u" "\<not> pod_active p" | (run) "\<not> u" "pod_active p" by blast
    then show ?thesis
    proof cases
      case skip
      with assms 1 Inr u q pods show ?thesis
        by (auto simp: ensureDecommissionToDo_def follows_protocol_def pod_op_def)
    next
      case idle
      with assms 1 Inr u have "b \<and> st' = st1" by (auto simp: ensureDecommissionToDo_def)
      with q show ?thesis by (auto intro: follows_protocol_stay)
    next
      case run
      with assms 1 Inr u have s: "start_decommission e ?r p st1 = Some ((b, err), st')"
        by (simp add: ensureDecommissionToDo_def)
      from start_decommission_result [OF s q(4) assms(3)] q show ?thesis
        by (auto intro: quiet_trans only_rack_trans simp: follows_protocol_def)
    qed
  qed
qed

lemma decommission_ongoing_result:
  assumes "decommission_ongoing e r name st = Some ((b, err), st')"
    and "st_racks st r = Some rs" and "po_Status (rs_PodLastOperation rs) = StatusOngoing"
  shows "quiet st st' \<and> only_rack r st st' \<and> follows_protocol r st b st' \<and>
    (\<not> b \<longrightarrow> (\<exists>p host mode st1 st2. env_getPod e (st_trace st) (cc_Namespace (st_cc st)) name = Inr p \<and>
       pod_operation_mode e p st1 = (Inr (host, mode), st2) \<and> mode \<in> {DECOMMISSIONED, UNKNOWN}))"
proof -
  let ?st1 = "call (GetReq KPod (cc_Namespace (st_cc st)) name) st"
  show ?thesis
  proof (cases "env_getPod e (st_trace st) (cc_Namespace (st_cc st)) name")
    case (Inl x)
    with assms have "b \<and> st' = ?st1" by (auto simp: decommission_ongoing_def GetPod_def)
    then show ?thesis by (auto simp: quiet_call pod_op_def intro!: follows_protocol_stay)
  next
    case (Inr p)
    obtain m st2 where 2: "pod_operation_mode e p ?st1 = (m, st2)" by fastforce
    note f2 = pod_operation_mode_frame [OF 2]
    have q: "quiet st st2" using f2(4) by (rule quiet_from_call) simp_all
    from f2 assms(2) have r: "st_racks st2 r = Some rs" by simp
    consider (stay) "b" "st' = st2" | (again) "b" "st' = put_rack r (rs\<lparr>rs_PodLastOperation := (rs_PodLastOperation rs)\<lparr>po_Status := StatusToDo\<rparr>\<rparr>) st2"
      | (left) host mode where "\<not> b" "m = Inr (host, mode)" "mode \<in> {DECOMMISSIONED, UNKNOWN}"
          "st' = snd (updateCassandraStatus e (put_rack r (rs\<lparr>rs_PodLastOperation := (rs_PodLastOperation rs)\<lparr>po_Status := StatusFinalizing\<rparr>\<rparr>) st2))"
      using assms(1) 2 Inr r
      by (cases m) (auto simp: decommission_ongoing_def GetPod_def Let_def split: if_split_asm prod.split_asm)
    then show ?thesis
    proof cases
      case stay
      with q f2 show ?thesis by (auto simp: only_rack_def pod_op_def intro!: follows_protocol_stay)
    next
      case again
      with q f2 assms(2,3) show ?thesis by (auto simp: only_rack_def pod_op_def follows_protocol_def)
    next
      case left
      let ?st3 = "put_rack r (rs\<lparr>rs_PodLastOperation := (rs_PodLastOperation rs)\<lparr>po_Status := StatusFinalizing\<rparr>\<rparr>) st2"
      note f3 = updateCassandraStatus_frame [where e = e and st = ?st3]
      from q f3(3) have "quiet st st'" unfolding left(4) by (auto intro: quiet_trans)
      with left f2 f3 assms(2,3) 2 Inr show ?thesis
        by (auto simp: only_rack_def pod_op_def follows_protocol_def) 
    qed
  qed
qed

definition decommission_status :: "string \<Rightarrow> bool" where
  "decommission_status s \<longleftrightarrow> s \<in> {StatusToDo, StatusContinue, StatusOngoing, StatusFinalizing, StatusDone}"

lemma deletePodPVC_result:
  assumes "deletePodPVC e dcName rackName p ready st = Some ((b, err), st')"
    and "st_racks st (GetDCRackName dcName rackName) = Some rs"
    and "po_Status (rs_PodLastOperation rs) = StatusFinalizing"
  shows "b \<and> only_rack (GetDCRackName dcName rackName) st st' \<and>
    follows_protocol (GetDCRackName dcName rackName) st b st' \<and>
    (\<exists>name. index (items (po_Pods (rs_PodLastOperation rs))) 0 = Some name \<and>
      (quiet st st' \<or>
       (\<exists>pvc. env_getPvc e (st_trace st) (cc_Namespace (st_cc st)) (''data-'' @ name) = Inr pvc \<and>
          st_trace st' = st_trace st @ [GetReq KPvc (cc_Namespace (st_cc st)) (''data-'' @ name),
            DeletePvcReq (meta_Namespace (pvc_Meta pvc)) (meta_Name (pvc_Meta pvc))])))"
  using assms
  by (cases "index (items (po_Pods (rs_PodLastOperation rs))) 0";
      cases "env_getPvc e (st_trace st) (cc_Namespace (st_cc st))
        (''data-'' @ the (index (items (po_Pods (rs_PodLastOperation rs))) 0))")
    (auto simp: deletePodPVC_def GetPVC_def deletePVC_def SetStatusForMoreDecommissions_def Let_def quiet_call
      follows_protocol_def pod_op_def split: if_split_asm)

lemma ensureDecommission_ongoing:
  assumes "ensureDecommission e dcName rackName ready st = Some ((b, err), st')"
    and "st_racks st (GetDCRackName dcName rackName) = Some rs"
    and "po_Name (rs_PodLastOperation rs) = OperationDecommission"
    and "po_Status (rs_PodLastOperation rs) = StatusOngoing"
  shows "b \<and> st' = st \<or> (\<exists>name. index (items (po_Pods (rs_PodLastOperation rs))) 0 = Some name \<and>
    decommission_ongoing e (GetDCRackName dcName rackName) name st = Some ((b, err), st'))"
proof (cases "po_Pods (rs_PodLastOperation rs)")
  case None
  with assms show ?thesis by (auto simp: ensureDecommission_def statuses)
next
  case (Some pods)
  with assms obtain name where n: "index pods 0 = Some name"
    by (cases "index pods 0") (auto simp: ensureDecommission_def statuses Let_def)
  with Some assms show ?thesis by (cases "name = []") (auto simp: ensureDecommission_def statuses items_def)
qed

lemma ensureDecommission_finalizing:
  assumes "ensureDecommission e dcName rackName ready st = Some ((b, err), st')"
    and "st_racks st (GetDCRackName dcName rackName) = Some rs"
    and "po_Name (rs_PodLastOperation rs) = OperationDecommission"
    and "po_Status (rs_PodLastOperation rs) = StatusFinalizing"
  obtains name where "index (items (po_Pods (rs_PodLastOperation rs))) 0 = Some name"
    "if env_getPod e (st_trace st) (cc_Namespace (st_cc st)) name = Inl NotFound
     then deletePodPVC e dcName rackName (bare_pod (cc_Namespace (st_cc st)) name) ready
            (call (GetReq KPod (cc_Namespace (st_cc st)) name) st) = Some ((b, err), st')
     else b \<and> st' = call (GetReq KPod (cc_Namespace (st_cc st)) name) st"
proof -
  from assms obtain name where n: "index (items (po_Pods (rs_PodLastOperation rs))) 0 = Some name"
    by (cases "index (items (po_Pods (rs_PodLastOperation rs))) 0") (auto simp: ensureDecommission_def statuses Let_def)
  with assms show thesis
    by (intro that [of name]; cases "env_getPod e (st_trace st) (cc_Namespace (st_cc st)) name")
      (auto simp: ensureDecommission_def statuses GetPod_def Let_def)
qed

text \<open>The four kinds of passes.\<close>

lemma ensureDecommission_cases:
  assumes "ensureDecommission e dcName rackName ready st = Some ((b, err), st')"
    and "st_racks st (GetDCRackName dcName rackName) = Some rs"
    and "po_Name (rs_PodLastOperation rs) = OperationDecommission"
    and "decommission_status (po_Status (rs_PodLastOperation rs))"
  obtains (todo) "po_Status (rs_PodLastOperation rs) \<in> {StatusToDo, StatusContinue}"
      "ensureDecommissionToDo e dcName rackName st = Some ((b, err), st')"
  | (ongoing) name where "po_Status (rs_PodLastOperation rs) = StatusOngoing"
      "index (items (po_Pods (rs_PodLastOperation rs))) 0 = Some name"
      "decommission_ongoing e (GetDCRackName dcName rackName) name st = Some ((b, err), st')"
  | (gone) name st1 where "po_Status (rs_PodLastOperation rs) = StatusFinalizing"
      "index (items (po_Pods (rs_PodLastOperation rs))) 0 = Some name"
      "env_getPod e (st_trace st) (cc_Namespace (st_cc st)) name = Inl NotFound"
      "st1 = call (GetReq KPod (cc_Namespace (st_cc st)) name) st"
      "deletePodPVC e dcName rackName (bare_pod (cc_Namespace (st_cc st)) name) ready st1 = Some ((b, err), st')"
  | (wait) "b" "quiet st st'" "only_rack (GetDCRackName dcName rackName) st st'"
      "pod_op (GetDCRackName dcName rackName) st' = pod_op (GetDCRackName dcName rackName) st"
proof -
  let ?r = "GetDCRackName dcName rackName" and ?po = "rs_PodLastOperation rs"
  consider (1) "po_Status ?po \<in> {StatusToDo, StatusContinue}" | (2) "po_Status ?po = StatusOngoing"
    | (3) "po_Status ?po = StatusFinalizing" | (4) "po_Status ?po = StatusDone"
    using assms(4) by (auto simp: decommission_status_def)
  then show thesis
  proof cases
    case 1
    with assms show thesis by (intro todo) (auto simp: ensureDecommission_def)
  next
    case 2
    with ensureDecommission_ongoing [OF assms(1-3)] show thesis using ongoing wait by auto
  next
    case 3
    obtain name where n: "index (items (po_Pods ?po)) 0 = Some name"
      and r: "if env_getPod e (st_trace st) (cc_Namespace (st_cc st)) name = Inl NotFound
        then deletePodPVC e dcName rackName (bare_pod (cc_Namespace (st_cc st)) name) ready
               (call (GetReq KPod (cc_Namespace (st_cc st)) name) st) = Some ((b, err), st')
        else b \<and> st' = call (GetReq KPod (cc_Namespace (st_cc st)) name) st"
      by (rule ensureDecommission_finalizing [OF assms(1-3) 3])
    show thesis
    proof (cases "env_getPod e (st_trace st) (cc_Namespace (st_cc st)) name = Inl NotFound")
      case True
      with r show thesis by (intro gone [OF 3 n True refl]) simp
    next
      case False
      with r show thesis by (intro wait) (auto simp: quiet_call pod_op_def)
    qed
  next
    case 4
    show thesis
    proof (cases "po_PodsOK ?po")
      case None
      with assms 4 have "b \<and> st' = st" by (auto simp: ensureDecommission_def statuses)
      then show thesis by (intro wait) auto
    next
      case (Some pods)
      with assms 4 show thesis
        by (intro wait; cases "index pods 0") (auto simp: ensureDecommission_def statuses pod_op_def Let_def split: if_split_asm)
    qed
  qed
qed

section \<open>Examples\<close>

text \<open>A scale down of the demo rack whose decommission has a given status and a given list of pods.\<close>

definition scaling_rack :: "string \<Rightarrow> string list \<Rightarrow> CassandraRackStatus" where
  "scaling_rack status pods = (example_rack (state_Name ClusterPhasePending) (state_Name ActionScaleDown) StatusToDo)
     \<lparr>rs_PodLastOperation := no_operation\<lparr>po_Name := OperationDecommission, po_Status := status,
        po_Pods := Some pods, po_PodsOK := Some [], po_PodsKO := Some []\<rparr>\<rparr>"

definition scaling_state :: "string \<Rightarrow> string list \<Rightarrow> rstate" where
  "scaling_state status pods = example_state demo_cluster [''dc1-rack1'' \<mapsto> scaling_rack status pods]"

text \<open>A claim is left for every pod, and every node says it is decommissioned.\<close>

definition scaling_env :: "jval \<Rightarrow> env" where
  "scaling_env mode = example_env\<lparr>
     env_getPvc := \<lambda>_ _ n. Inr (data_claim n twenty),
     env_jolokia := \<lambda>_ _. Inr \<lparr>jr_Error = '''', jr_Value = mode\<rparr>\<rparr>"

lemma demo_rack_name: "GetDCRackName ''dc1'' ''rack1'' = ''dc1-rack1''"
  by code_simp

lemma scaling_state_simps [simp]:
  "st_racks (scaling_state s ps) ''dc1-rack1'' = Some (scaling_rack s ps)"
  "st_trace (scaling_state s ps) = []" "cc_Namespace (st_cc (scaling_state s ps)) = ''ns''"
  "po_Name (rs_PodLastOperation (scaling_rack s ps)) = OperationDecommission"
  "po_Status (rs_PodLastOperation (scaling_rack s ps)) = s"
  "items (po_Pods (rs_PodLastOperation (scaling_rack s ps))) = ps"
  "po_Pods (rs_PodLastOperation (scaling_rack s ps)) = Some ps"
  by (simp_all add: scaling_state_def scaling_rack_def example_state_def demo_cluster_def example_defs items_def)

text \<open>The pod is gone: its claim is deleted and the decommission done.\<close>

lemma scaling_finalizing:
  "\<exists>st'. ensureDecommission (scaling_env JNull) ''dc1'' ''rack1'' True
      (scaling_state StatusFinalizing [''demo-dc1-rack1-2'']) = Some ((True, None), st') \<and>
    DeletePvcReq ''ns'' ''data-demo-dc1-rack1-2'' \<in>
      set (requests (scaling_state StatusFinalizing [''demo-dc1-rack1-2'']) st')"
  by (simp add: ensureDecommission_def demo_rack_name statuses GetPod_def scaling_env_def example_env_def Let_def
      index_def deletePodPVC_def GetPVC_def deletePVC_def requests_def data_claim_def named_meta_def empty_meta_def)

text \<open>The node has left: the statefulset is let go.\<close>

lemma scaling_left:
  "\<exists>err st'. ensureDecommission ((scaling_env (JString ''DECOMMISSIONED''))\<lparr>env_getPod := \<lambda>_ _ n. Inr (example_pod n)\<rparr>)
      ''dc1'' ''rack1'' True (scaling_state StatusOngoing [''demo-dc1-rack1-2'']) = Some ((False, err), st')"
proof -
  let ?e = "(scaling_env (JString ''DECOMMISSIONED''))\<lparr>env_getPod := \<lambda>_ _ n. Inr (example_pod n)\<rparr>"
  let ?st1 = "call (GetReq KPod ''ns'' ''demo-dc1-rack1-2'') (scaling_state StatusOngoing [''demo-dc1-rack1-2''])"
  obtain host st2 where 2: "pod_operation_mode ?e (example_pod ''demo-dc1-rack1-2'') ?st1 = (Inr (host, ''DECOMMISSIONED''), st2)"
    by (simp add: pod_operation_mode_def NewJolokiaClient_def scaling_state_def example_state_def demo_cluster_def
        example_defs NodeOperationMode_def executeReadRequest_def scaling_env_def checkJolokiaErrors_def)
  from pod_operation_mode_frame(2) [OF 2] have "st_racks st2 ''dc1-rack1'' = Some (scaling_rack StatusOngoing [''demo-dc1-rack1-2''])"
    by simp
  with 2 show ?thesis
    by (simp add: ensureDecommission_def demo_rack_name statuses index_def decommission_ongoing_def GetPod_def
        modes Let_def split: prod.split)
qed

section \<open>Properties\<close>

text \<open>
  C2 (decommission_protocol): a pass of ensureDecommission implements the abstract protocol of a decommission: the
  status of the operation stays or makes one step of it, the name stays, the statefulset may be
  updated only when the status becomes Finalizing, no other rack changes and no statefulset is
  written.  In particular a decommission that is Ongoing becomes Finalizing and never Done, where the comment of the
  function says Done.
\<close>

theorem decommission_protocol:
  assumes "ensureDecommission e dcName rackName ready st = Some ((b, err), st')"
    and "st_racks st (GetDCRackName dcName rackName) = Some rs"
    and "po_Name (rs_PodLastOperation rs) = OperationDecommission"
    and "decommission_status (po_Status (rs_PodLastOperation rs))"
  shows "follows_protocol (GetDCRackName dcName rackName) st b st' \<and>
    only_rack (GetDCRackName dcName rackName) st st' \<and>
    (\<forall>q. q \<in> set (requests st st') \<longrightarrow> \<not> touches_sts q)"
  using assms
proof (cases rule: ensureDecommission_cases)
  case todo
  then show ?thesis using ensureDecommissionToDo_result [OF todo(2) assms(2)] quiet_no_sts by blast
next
  case (ongoing name)
  then show ?thesis using decommission_ongoing_result [OF ongoing(3) assms(2)] quiet_no_sts by blast
next
  case (gone name st1)
  have "st_racks st1 (GetDCRackName dcName rackName) = Some rs" using gone(4) assms(2) by simp
  from deletePodPVC_result [OF gone(5) this gone(1)] gone(4) show ?thesis
    by (auto simp: follows_protocol_def pod_op_def requests_def quiet_def only_rack_def)
next
  case wait
  from wait(1) have "b = True" by simp
  with wait show ?thesis using quiet_no_sts follows_protocol_stay by blast
qed

theorem decommission_protocol_witness:
  "\<exists>b err st' po'. ensureDecommission (scaling_env JNull) ''dc1'' ''rack1'' True
      (scaling_state StatusFinalizing [''demo-dc1-rack1-2'']) = Some ((b, err), st') \<and>
    pod_op ''dc1-rack1'' st' = Some po' \<and>
    (po_Status po' = StatusFinalizing \<or> decommission_step StatusFinalizing (po_Status po'))"
proof -
  let ?st = "scaling_state StatusFinalizing [''demo-dc1-rack1-2'']"
  obtain st' where 1: "ensureDecommission (scaling_env JNull) ''dc1'' ''rack1'' True ?st = Some ((True, None), st')"
    using scaling_finalizing by blast
  have 2: "st_racks ?st (GetDCRackName ''dc1'' ''rack1'') = Some (scaling_rack StatusFinalizing [''demo-dc1-rack1-2''])"
    by (simp add: demo_rack_name)
  have "follows_protocol (GetDCRackName ''dc1'' ''rack1'') ?st True st'"
    using decommission_protocol [OF 1 2] by (simp add: decommission_status_def)
  with 1 show ?thesis by (auto simp: follows_protocol_def pod_op_def demo_rack_name)
qed

text \<open>
  C14 (scale_down_waits): during a decommission the statefulset may be scaled down only when the last pod was
  pending and could not be scheduled, or when the node being decommissioned says that it is
  DECOMMISSIONED or UNKNOWN, i.e. has left the ring.
\<close>

theorem scale_down_waits:
  assumes "ensureDecommission e dcName rackName ready st = Some ((False, err), st')"
    and "st_racks st (GetDCRackName dcName rackName) = Some rs"
    and "po_Name (rs_PodLastOperation rs) = OperationDecommission"
    and "decommission_status (po_Status (rs_PodLastOperation rs))"
  shows "(\<exists>pods p. env_listPods e (st_trace st) (cc_Namespace (st_cc st))
        (LabelsForCassandraDCRack (st_cc st) dcName rackName) = Inr pods \<and>
      GetLastOrFirstPodItem pods True = Inr p \<and> pending_unschedulable p = Some True) \<or>
    (\<exists>name p host mode st1 st2. index (items (po_Pods (rs_PodLastOperation rs))) 0 = Some name \<and>
       env_getPod e (st_trace st) (cc_Namespace (st_cc st)) name = Inr p \<and>
       pod_operation_mode e p st1 = (Inr (host, mode), st2) \<and> mode \<in> {DECOMMISSIONED, UNKNOWN})"
  using assms
proof (cases rule: ensureDecommission_cases)
  case todo
  then show ?thesis using ensureDecommissionToDo_result [OF todo(2) assms(2)] by blast
next
  case (ongoing name)
  then show ?thesis using decommission_ongoing_result [OF ongoing(3) assms(2)] by blast
next
  case (gone name st1)
  have "st_racks st1 (GetDCRackName dcName rackName) = Some rs" using gone(4) assms(2) by simp
  from deletePodPVC_result [OF gone(5) this gone(1)] show ?thesis by simp
qed simp

theorem scale_down_waits_witness:
  "\<exists>name p host mode st1 st2. index [''demo-dc1-rack1-2''] 0 = Some name \<and>
     pod_operation_mode ((scaling_env (JString ''DECOMMISSIONED''))\<lparr>env_getPod := \<lambda>_ _ n. Inr (example_pod n)\<rparr>) p st1 =
       (Inr (host, mode), st2) \<and> mode \<in> {DECOMMISSIONED, UNKNOWN}"
proof -
  let ?e = "(scaling_env (JString ''DECOMMISSIONED''))\<lparr>env_getPod := \<lambda>_ _ n. Inr (example_pod n)\<rparr>"
  let ?st = "scaling_state StatusOngoing [''demo-dc1-rack1-2'']"
  obtain err st' where 1: "ensureDecommission ?e ''dc1'' ''rack1'' True ?st = Some ((False, err), st')"
    using scaling_left by blast
  have 2: "st_racks ?st (GetDCRackName ''dc1'' ''rack1'') = Some (scaling_rack StatusOngoing [''demo-dc1-rack1-2''])"
    by (simp add: demo_rack_name)
  have "\<not> (\<exists>pods p. env_listPods ?e tr ns sel = Inr pods \<and> GetLastOrFirstPodItem pods True = Inr p)" for tr ns sel
    by (simp add: scaling_env_def example_env_def GetLastOrFirstPodItem_def Let_def)
  with scale_down_waits [OF 1 2] show ?thesis by (simp add: decommission_status_def) blast
qed

text \<open>
  C15 (claim_deleted_after_pod): a decommission deletes a volume claim only in the status Finalizing, after the
  API server said that the decommissioned pod is gone, and the claim is the data claim of that pod.  The comment of
  ensureDecommission puts the deletion into the status Done.
\<close>

theorem claim_deleted_after_pod:
  assumes "ensureDecommission e dcName rackName ready st = Some ((b, err), st')"
    and "st_racks st (GetDCRackName dcName rackName) = Some rs"
    and "po_Name (rs_PodLastOperation rs) = OperationDecommission"
    and "decommission_status (po_Status (rs_PodLastOperation rs))"
    and "DeletePvcReq ns n \<in> set (requests st st')"
  shows "po_Status (rs_PodLastOperation rs) = StatusFinalizing \<and>
    (\<exists>name pvc tr. index (items (po_Pods (rs_PodLastOperation rs))) 0 = Some name \<and>
       env_getPod e (st_trace st) (cc_Namespace (st_cc st)) name = Inl NotFound \<and>
       env_getPvc e tr (cc_Namespace (st_cc st)) (''data-'' @ name) = Inr pvc \<and>
       ns = meta_Namespace (pvc_Meta pvc) \<and> n = meta_Name (pvc_Meta pvc))"
proof -
  have no: False if "quiet st st'"
    using quiet_no_sts [OF that assms(5)] by simp
  from assms(1-4) show ?thesis
  proof (cases rule: ensureDecommission_cases)
    case todo
    then show ?thesis using ensureDecommissionToDo_result [OF todo(2) assms(2)] no by blast
  next
    case (ongoing name)
    then show ?thesis using decommission_ongoing_result [OF ongoing(3) assms(2)] no by blast
  next
    case (gone name st1)
    have r: "st_racks st1 (GetDCRackName dcName rackName) = Some rs" using gone(4) assms(2) by simp
    have "\<not> quiet st1 st'" using no gone(4) by (auto dest: quiet_from_call)
    with deletePodPVC_result [OF gone(5) r gone(1)] gone obtain pvc where
      "env_getPvc e (st_trace st1) (cc_Namespace (st_cc st)) (''data-'' @ name) = Inr pvc"
      "st_trace st' = st_trace st1 @ [GetReq KPvc (cc_Namespace (st_cc st)) (''data-'' @ name),
            DeletePvcReq (meta_Namespace (pvc_Meta pvc)) (meta_Name (pvc_Meta pvc))]" by auto
    with assms(5) gone show ?thesis by (auto simp: requests_def)
  next
    case wait
    then show ?thesis using no by blast
  qed
qed

theorem claim_deleted_after_pod_witness:
  "\<exists>b err st' pvc tr. ensureDecommission (scaling_env JNull) ''dc1'' ''rack1'' True
      (scaling_state StatusFinalizing [''demo-dc1-rack1-2'']) = Some ((b, err), st') \<and>
    env_getPvc (scaling_env JNull) tr ''ns'' ''data-demo-dc1-rack1-2'' = Inr pvc \<and>
    meta_Name (pvc_Meta pvc) = ''data-demo-dc1-rack1-2''"
proof -
  let ?st = "scaling_state StatusFinalizing [''demo-dc1-rack1-2'']"
  obtain st' where 1: "ensureDecommission (scaling_env JNull) ''dc1'' ''rack1'' True ?st = Some ((True, None), st')"
    and 2: "DeletePvcReq ''ns'' ''data-demo-dc1-rack1-2'' \<in> set (requests ?st st')"
    using scaling_finalizing by blast
  have 3: "st_racks ?st (GetDCRackName ''dc1'' ''rack1'') = Some (scaling_rack StatusFinalizing [''demo-dc1-rack1-2''])"
    by (simp add: demo_rack_name)
  from claim_deleted_after_pod [OF 1 3 _ _ 2] have "\<exists>pvc tr. env_getPvc (scaling_env JNull) tr ''ns'' ''data-demo-dc1-rack1-2'' = Inr pvc \<and>
      meta_Name (pvc_Meta pvc) = ''data-demo-dc1-rack1-2''"
    by (auto simp: decommission_status_def index_def)
  with 1 show ?thesis by auto
qed

end
