(* ===== verification/Pod_Operations.thy ===== *)
theory Pod_Operations
  imports Decommission
begin

text \<open>
  The rest of src/controllers/cassandracluster/pod_operation.go: the operations (cleanup, rebuild,
  upgradesstables, remove) that run on labelled pods.

  \<^item> A goroutine is an entry of the trace where it is started and a function of its own here
    (runOperation, monitorOperation).
  \<^item> The operation that handlePodOperation picks at random is an argument.
  \<^item> The result None is a panic.  The two loops that may go on forever (finalizeOperation, monitorOperation) have a result of
    two levels: None is a loop that never returns, Some None a panic, and Some (Some st) the state in which they return.
\<close>

section \<open>Operations on labelled pods\<close>

definition initOperation ::
  "env \<Rightarrow> string \<Rightarrow> string \<Rightarrow> string \<Rightarrow> rstate \<Rightarrow> (pod list \<times> rstate) option" where
  "initOperation e dcName rackName operationName st =
     (let r = GetDCRackName dcName rackName;
          (res, st) = ListPods e (cc_Namespace (st_cc st))
             (MergeLabels [LabelsForCassandraDCRack (st_cc st) dcName rackName,
                [''operation-name'' \<mapsto> operationName, ''operation-status'' \<mapsto> StatusToDo]]) st;
          t = now e st;
          podsList = (case res of Inl _ \<Rightarrow> [] | Inr ps \<Rightarrow> ps)
      in do { rs \<leftarrow> st_racks st r;
              let po = rs_PodLastOperation rs in
              if length podsList < 1
              then if po_Name po = operationName \<and> po_Status po = StatusOngoing \<and> length (items (po_Pods po)) < 1
                   then do { st \<leftarrow> upd_podop r (\<lambda>po. po\<lparr>po_Status := StatusDone, po_EndTime := Some t\<rparr>) st;
                             Some ([], snd (updateCassandraStatus e st)) }
                   else Some ([], st)
              else do { st \<leftarrow> (if po_Status po \<noteq> StatusOngoing
                              then do { st \<leftarrow> upd_podop r (\<lambda>po. po\<lparr>po_Name := operationName,
                                            po_Status := StatusOngoing, po_StartTime := Some t,
                                            po_EndTime := None, po_PodsOK := Some [], po_PodsKO := Some [],
                                            po_Pods := Some []\<rparr>) st;
                                        Some (snd (updateCassandraStatus e st)) }
                              else Some st);
                        Some (filter pod_active podsList, st) } })"

text \<open>The lists of pods when an operation starts on a pod and when it ends.\<close>

definition start_on :: "string \<Rightarrow> PodLastOperation \<Rightarrow> PodLastOperation" where
  "start_on podName po = po\<lparr>
     po_Pods := append_slice (po_Pods po) podName,
     po_PodsOK := map_option (\<lambda>s. RemoveString s podName) (po_PodsOK po),
     po_PodsKO := map_option (\<lambda>s. RemoveString s podName) (po_PodsKO po)\<rparr>"

definition end_on :: "string \<Rightarrow> error option \<Rightarrow> PodLastOperation \<Rightarrow> PodLastOperation" where
  "end_on podName err po =
     (case err of
        Some _ \<Rightarrow> po\<lparr>po_PodsKO := append_slice (po_PodsKO po) podName\<rparr>
      | None \<Rightarrow> po\<lparr>po_PodsOK := append_slice (po_PodsOK po) podName\<rparr>)
     \<lparr>po_Pods := map_option (\<lambda>s. RemoveString s podName) (po_Pods po)\<rparr>"

definition startOperation ::
  "env \<Rightarrow> pod \<Rightarrow> string \<Rightarrow> rstate \<Rightarrow> (error option \<times> rstate) option" where
  "startOperation e p r st =
     (let (err, st) = UpdatePodLabel e p
            [''operation-status'' \<mapsto> StatusOngoing,
             ''operation-start'' \<mapsto> LabelTime (env_wall e (st_trace st)),
             ''operation-end'' \<mapsto> ''''] st in
      case err of
        Some x \<Rightarrow> Some (Some x, st)
      | None \<Rightarrow>
          do { st \<leftarrow> upd_podop r (start_on (pod_Name p)) st;
               Some (None, snd (updateCassandraStatus e st)) })"

text \<open>The pods of a list of names that run.\<close>

fun running_pods :: "env \<Rightarrow> string list \<Rightarrow> rstate \<Rightarrow> pod list \<times> rstate" where
  "running_pods e [] st = ([], st)"
| "running_pods e (n # ns) st =
     (let (res, st) = GetPod e (cc_Namespace (st_cc st)) n st;
          (ps, st) = running_pods e ns st
      in (case res of Inl _ \<Rightarrow> ps | Inr p \<Rightarrow> if pod_active p then p # ps else ps, st))"

text \<open>
  podsSlice gets the last operation by value: the new name of the operator is set in the copy.
\<close>

definition podsSlice ::
  "env \<Rightarrow> PodLastOperation \<Rightarrow> string \<Rightarrow> string \<Rightarrow> string \<Rightarrow> rstate \<Rightarrow> ((pod list \<times> bool) \<times> rstate) option" where
  "podsSlice e po r operationName operatorName st =
     (if po_Name po = operationName \<and> po_Status po = StatusOngoing \<and>
         po_OperatorName po \<noteq> '''' \<and> po_OperatorName po \<noteq> operatorName
      then let (ps, st) = running_pods e (items (po_Pods po)) st in Some ((ps, True), st)
      else do { (dcName, rackName) \<leftarrow> GetDCNameAndRackNameFromDCRackName r;
                (ps, st) \<leftarrow> initOperation e dcName rackName operationName st;
                Some ((ps, False), st) })"

definition getPodsToWorkOn ::
  "env \<Rightarrow> string \<Rightarrow> string \<Rightarrow> string \<Rightarrow> rstate \<Rightarrow> ((pod list \<times> bool) \<times> rstate) option" where
  "getPodsToWorkOn e dcName rackName operationName st =
     (let r = GetDCRackName dcName rackName; operatorName = env_POD_NAME e in
      if length operatorName = 0 then Some (([], False), st)
      else do { rs \<leftarrow> st_racks st r;
                ((ps, checkOnly), st) \<leftarrow> podsSlice e (rs_PodLastOperation rs) r operationName operatorName st;
                if checkOnly
                then do { st \<leftarrow> (if length ps = 0
                                then upd_podop r (\<lambda>po. po\<lparr>po_Status := StatusDone, po_EndTime := Some (now e st)\<rparr>) st
                                else Some st);
                          Some ((ps, checkOnly), snd (updateCassandraStatus e st)) }
                else Some ((ps, checkOnly), st) })"

fun operate_on :: "env \<Rightarrow> string \<Rightarrow> string \<Rightarrow> bool \<Rightarrow> pod list \<Rightarrow> rstate \<Rightarrow> rstate option" where
  "operate_on e r operationName checkOnly [] st = Some st"
| "operate_on e r operationName checkOnly (p # ps) st =
     (if checkOnly
      then operate_on e r operationName checkOnly ps
             (call (Spawn (MonitorOperation (PodHostname p) r p operationName)) st)
      else do { st \<leftarrow> upd_podop r (\<lambda>po. po\<lparr>po_OperatorName := env_POD_NAME e\<rparr>) st;
                (err, st) \<leftarrow> startOperation e p r st;
                operate_on e r operationName checkOnly ps
                  (case err of
                     Some _ \<Rightarrow> st
                   | None \<Rightarrow> call (Spawn (RunOperation (PodHostname p) r p operationName)) st) })"

definition ensureOperation :: "env \<Rightarrow> string \<Rightarrow> string \<Rightarrow> string \<Rightarrow> rstate \<Rightarrow> rstate option" where
  "ensureOperation e dcName rackName operationName st =
     do { ((ps, checkOnly), st) \<leftarrow> getPodsToWorkOn e dcName rackName operationName st;
          operate_on e (GetDCRackName dcName rackName) operationName checkOnly ps st }"

section \<open>End of an operation\<close>

text \<open>
  The status here is that of the cluster object (&rcc.cc.Status), not the working copy.
\<close>

definition upd_cc_podop ::
  "string \<Rightarrow> (PodLastOperation \<Rightarrow> PodLastOperation) \<Rightarrow> rstate \<Rightarrow> rstate option" where
  "upd_cc_podop r f st =
     do { rs \<leftarrow> cc_RackStatus (st_cc st) r;
          Some (st\<lparr>st_cc := (st_cc st)\<lparr>cc_Status := (cc_Status (st_cc st))\<lparr>cs_CassandraRackStatus :=
            (cc_RackStatus (st_cc st))(r \<mapsto> rs\<lparr>rs_PodLastOperation := f (rs_PodLastOperation rs)\<rparr>)\<rparr>\<rparr>\<rparr>) }"

definition updatePodLastOperation :: "string \<Rightarrow> string \<Rightarrow> error option \<Rightarrow> rstate \<Rightarrow> rstate option" where
  "updatePodLastOperation r podName err st =
     upd_cc_podop r (end_on podName err) st"

text \<open>
  The loop of finalizeOperation ends only when the labels of the pod and the status of the cluster
  object are both written; nothing in it can panic.
\<close>

partial_function (option) finalize_loop ::
  "env \<Rightarrow> pod \<Rightarrow> labels \<Rightarrow> CassandraCluster \<Rightarrow> rstate \<Rightarrow> rstate option option" where
  "finalize_loop e p labels ccRefreshed st =
     (let (err, st) = UpdatePodLabel e p labels st in
      if err \<noteq> None then finalize_loop e p labels ccRefreshed st
      else
        let (err, ccRefreshed, st) = updateCassandraStatus_obj e ccRefreshed (cc_Status (st_cc st)) st in
        if err = None then Some (Some st)
        else
          let ns = cc_Namespace (st_cc st); n = cc_Name (st_cc st);
              got = env_getCC e (st_trace st) ns n;
              st = call (GetReq KCassandraCluster ns n) st
          in finalize_loop e p labels (case got of Inl _ \<Rightarrow> ccRefreshed | Inr cc \<Rightarrow> cc) st)"

definition finalizeOperation :: "env \<Rightarrow> finalizedOp \<Rightarrow> rstate \<Rightarrow> rstate option option" where
  "finalizeOperation e f st =
     (let labels = [''operation-status'' \<mapsto> (if fo_err f = None then StatusDone else StatusError),
                    ''operation-end'' \<mapsto> LabelTime (env_wall e (st_trace st))];
          ccRefreshed = st_cc st in
      case updatePodLastOperation (fo_dcRackName f) (pod_Name (fo_pod f)) (fo_err f) st of
        None \<Rightarrow> Some None
      | Some st \<Rightarrow> finalize_loop e (fo_pod f) labels ccRefreshed st)"

text \<open>
  The bound of the loop is the length of the channel, which the loop itself shortens.  From here on None is a panic or a loop
  that never returns.
\<close>

fun finalize_from :: "env \<Rightarrow> nat \<Rightarrow> finalizedOp list \<Rightarrow> rstate \<Rightarrow> rstate option" where
  "finalize_from e i [] st = Some st"
| "finalize_from e i (f # fs) st =
     (if i < length (f # fs)
      then do { done \<leftarrow> finalizeOperation e f (st\<lparr>st_chanRunningOp := fs\<rparr>); st \<leftarrow> done; finalize_from e (Suc i) fs st }
      else Some st)"

definition finalizeOperations :: "env \<Rightarrow> rstate \<Rightarrow> rstate option" where
  "finalizeOperations e st = finalize_from e 0 (st_chanRunningOp st) st"

section \<open>The whole handler\<close>

definition handlePodOperation ::
  "env \<Rightarrow> string \<Rightarrow> string \<Rightarrow> string \<Rightarrow> bool \<Rightarrow> rstate \<Rightarrow> resync" where
  "handlePodOperation e operation dcName rackName statefulsetIsReady st =
     do { rs \<leftarrow> st_racks st (GetDCRackName dcName rackName);
          if weAreScalingDown rs then ensureDecommission e dcName rackName statefulsetIsReady st
          else
            let (res, st) = hasJoiningNodes e st in
            case res of
              Inl err \<Rightarrow> Some ((breakResyncLoop, Some err), st)
            | Inr True \<Rightarrow> Some ((True, None), st)
            | Inr False \<Rightarrow>
                if cs_LastClusterActionStatus (st_status st) = StatusDone
                then do { st \<leftarrow> finalizeOperations e st;
                          st \<leftarrow> ensureOperation e dcName rackName operation st;
                          Some ((continueResyncLoop, None), st) }
                else Some ((continueResyncLoop, None), st) }"

section \<open>IP addresses\<close>

text \<open>The texts that net.ParseIP accepts: dotted IPv4 without leading zeros, and IPv6 without a zone.\<close>

definition valid_ipv4 :: "string \<Rightarrow> bool" where
  "valid_ipv4 s \<longleftrightarrow>
     (let fields = split_on CHR ''.'' s in
      length fields = 4 \<and>
      list_all (\<lambda>f. f \<noteq> [] \<and> list_all is_digit f \<and> digits_val f \<le> 255 \<and>
                    (length f > 1 \<longrightarrow> hd f \<noteq> CHR ''0'')) fields)"

definition is_hex :: "char \<Rightarrow> bool" where
  "is_hex c \<longleftrightarrow> is_digit c \<or> (let n = (of_char c :: nat) in 97 \<le> n \<and> n \<le> 102 \<or> 65 \<le> n \<and> n \<le> 70)"

definition hex_group :: "string \<Rightarrow> bool" where
  "hex_group g \<longleftrightarrow> g \<noteq> [] \<and> length g \<le> 4 \<and> list_all is_hex g"

text \<open>The number of 16-bit groups of a colon-separated part; the last one may be an IPv4 address.\<close>

definition group_count :: "bool \<Rightarrow> string \<Rightarrow> nat option" where
  "group_count tail s =
     (if s = [] then Some 0
      else let gs = split_on CHR '':'' s in
           if list_all hex_group gs then Some (length gs)
           else if tail \<and> list_all hex_group (butlast gs) \<and> valid_ipv4 (last gs) then Some (length gs + 1)
           else None)"

fun split_ellipsis :: "string \<Rightarrow> (string \<times> string) option" where
  "split_ellipsis (a # b # s) =
     (if a = CHR '':'' \<and> b = CHR '':'' then Some ([], s)
      else map_option (map_prod ((#) a) id) (split_ellipsis (b # s)))"
| "split_ellipsis _ = None"

definition valid_ipv6 :: "string \<Rightarrow> bool" where
  "valid_ipv6 s \<longleftrightarrow> CHR '':'' \<in> set s \<and>
     (case split_ellipsis s of
        None \<Rightarrow> group_count True s = Some 8
      | Some (l, r) \<Rightarrow>
          (case (group_count False l, group_count True r) of
             (Some m, Some n) \<Rightarrow> m + n \<le> 7
           | _ \<Rightarrow> False))"

definition ParseIP_ok :: "string \<Rightarrow> bool" where
  "ParseIP_ok s \<longleftrightarrow> valid_ipv4 s \<or> valid_ipv6 s"

section \<open>The goroutines of the operations\<close>

definition op_client :: "env \<Rightarrow> string \<Rightarrow> rstate \<Rightarrow> (error + string) \<times> rstate" where
  "op_client e hostName st =
     NewJolokiaClient e hostName (spec_ImageJolokiaSecret (cc_Spec (st_cc st))) (cc_Namespace (st_cc st)) st"

definition runUpgradeSSTables :: "env \<Rightarrow> string \<Rightarrow> pod \<Rightarrow> rstate \<Rightarrow> (error option \<times> rstate) option" where
  "runUpgradeSSTables e hostName p st =
     (let (r, st) = op_client e hostName st in
      Some (case r of Inl err \<Rightarrow> (Some err, st) | Inr host \<Rightarrow> NodeUpgradeSSTables e host 0 st))"

definition runCleanup :: "env \<Rightarrow> string \<Rightarrow> pod \<Rightarrow> rstate \<Rightarrow> (error option \<times> rstate) option" where
  "runCleanup e hostName p st =
     (let (r, st) = op_client e hostName st in
      Some (case r of Inl err \<Rightarrow> (Some err, st)
            | Inr host \<Rightarrow> NodeCleanup e host (spec_KeyspaceCleanupThreads (cc_Spec (st_cc st))) st))"

text \<open>runRebuild drops the error of NewJolokiaClient, whose client is nil then: its use panics.\<close>

definition runRebuild :: "env \<Rightarrow> string \<Rightarrow> pod \<Rightarrow> rstate \<Rightarrow> (error option \<times> rstate) option" where
  "runRebuild e hostName p st =
     (let (client, st) = op_client e hostName st in
      case pod_Labels p ''operation-argument'' of
        None \<Rightarrow> Some (Some (Errorf ''operation-argument is needed to get the datacenter name to rebuild from''), st)
      | Some rebuildFrom \<Rightarrow>
          (case client of
             Inl _ \<Rightarrow> panic
           | Inr host \<Rightarrow>
               do { (r, st) \<leftarrow> NonLocalKeyspacesInDC e host rebuildFrom st;
                    case r of
                      Inl err \<Rightarrow> Some (Some err, st)
                    | Inr ks \<Rightarrow>
                        if length ks = 0 then Some (Some (Errorf ''  has no keyspace to replicate data from''), st)
                        else Some (NodeRebuild e host rebuildFrom st) }))"

text \<open>The address to remove: the one of the label, or else that of the pod it names.\<close>

definition address_to_remove :: "env \<Rightarrow> string \<Rightarrow> string \<Rightarrow> rstate \<Rightarrow> (error + string) \<times> rstate" where
  "address_to_remove e podToRemove podIP st =
     (if podToRemove = '''' then (Inr podIP, st)
      else let (r, st) = GetPod e (cc_Namespace (st_cc st)) podToRemove st in
           (case r of
              Inl err \<Rightarrow>
                if err \<noteq> NotFound then Inl (Errorf ''failed to get pod'')
                else if podIP = '''' then Inl (Errorf '' not found. You need to provide its old IP to remove it from the cluster'')
                else Inr podIP
            | Inr lostPod \<Rightarrow>
                if podIP \<noteq> '''' then Inr podIP
                else if pod_PodIP lostPod = '''' then Inl (Errorf ''can't find an IP assigned to pod '')
                else Inr (pod_PodIP lostPod), st))"

definition runRemove :: "env \<Rightarrow> string \<Rightarrow> pod \<Rightarrow> rstate \<Rightarrow> (error option \<times> rstate) option" where
  "runRemove e hostName p st =
     (case pod_Labels p ''operation-argument'' of
        None \<Rightarrow> Some (Some (Errorf ''operation-argument is needed to get the pod name to remove from the cluster''), st)
      | Some label \<Rightarrow>
          let val = split_on CHR ''_'' label;
              podToRemove = hd val;
              podIP = (if length val = 2 then val ! 1 else '''') in
          if podToRemove = '''' \<and> podIP = '''' then Some (Some (Errorf '' with at least one value but none was found''), st)
          else if podIP \<noteq> '''' \<and> \<not> ParseIP_ok podIP then Some (Some (Errorf '' is not an IP address''), st)
          else
            let (a, st) = address_to_remove e podToRemove podIP st in
            case a of
              Inl err \<Rightarrow> Some (Some err, st)
            | Inr ip \<Rightarrow>
                let (c, st) = op_client e hostName st in
                case c of
                  Inl err \<Rightarrow> Some (Some err, st)
                | Inr host \<Rightarrow>
                    let (m, st) = hostIDMap e host st in
                    case m of
                      Inl err \<Rightarrow> Some (Some err, st)
                    | Inr hostIDs \<Rightarrow>
                        (case hostIDs ip of
                           None \<Rightarrow> Some (Some (Errorf '' not found in hostIdMap''), st)
                         | Some hostID \<Rightarrow> Some (NodeRemove e host hostID st)))"

text \<open>waitUntilPvcIsDeleted asks for the claim every second for at most 30 seconds.\<close>

fun poll_pvc :: "env \<Rightarrow> nat \<Rightarrow> string \<Rightarrow> rstate \<Rightarrow> rstate" where
  "poll_pvc e 0 name st = st"
| "poll_pvc e (Suc n) name st =
     (let (r, st) = GetPVC e (cc_Namespace (st_cc st)) name st in
      if r = Inl NotFound then st else poll_pvc e n name st)"

definition waitUntilPvcIsDeleted :: "env \<Rightarrow> string \<Rightarrow> rstate \<Rightarrow> rstate" where
  "waitUntilPvcIsDeleted e name st = poll_pvc e 30 name st"

definition postRunRemove :: "env \<Rightarrow> pod \<Rightarrow> rstate \<Rightarrow> error option \<times> rstate" where
  "postRunRemove e p st =
     (case pod_Labels p ''operation-argument'' of
        None \<Rightarrow> (Some (Errorf ''operation-argument is needed to get the pod name to remove from the cluster''), st)
      | Some label \<Rightarrow>
          let podToRemove = hd (split_on CHR ''_'' label) in
          if podToRemove = '''' then (None, st)
          else
            let pvcName = ''data-'' @ podToRemove;
                (r, st) = GetPVC e (cc_Namespace (st_cc st)) pvcName st;
                (failed, st) =
                  (case r of
                     Inl _ \<Rightarrow> (None, st)
                   | Inr pvc \<Rightarrow>
                       let (err, st) = deletePVC e pvc st in
                       if err \<noteq> None \<and> err \<noteq> Some NotFound then (err, st)
                       else (None, waitUntilPvcIsDeleted e pvcName st))
            in case failed of
                 Some err \<Rightarrow> (Some err, st)
               | None \<Rightarrow>
                   let ns = cc_Namespace (st_cc st); (r, st) = GetPod e ns podToRemove st in
                   case r of
                     Inr lostPod \<Rightarrow> DeletePod e True lostPod st
                   | Inl err \<Rightarrow>
                       if err = NotFound then DeletePod e True (bare_pod ns podToRemove) st
                       else (Some (Errorf ''failed to get pod''), st))"

text \<open>podOperationMap: the action, the monitor and the action afterwards of an operation.\<close>

definition run_action :: "env \<Rightarrow> string \<Rightarrow> string \<Rightarrow> pod \<Rightarrow> rstate \<Rightarrow> (error option \<times> rstate) option" where
  "run_action e operation hostName p st =
     (if operation = OperationCleanup then runCleanup e hostName p st
      else if operation = OperationRebuild then runRebuild e hostName p st
      else if operation = OperationUpgradeSSTables then runUpgradeSSTables e hostName p st
      else if operation = OperationRemove then runRemove e hostName p st
      else panic)"

definition run_monitor :: "env \<Rightarrow> string \<Rightarrow> string \<Rightarrow> rstate \<Rightarrow> ((error + bool) \<times> rstate) option" where
  "run_monitor e operation host st =
     (if operation = OperationCleanup then hasCleanupCompactions e host st
      else if operation = OperationRebuild then Some (hasStreamingSessions e host st)
      else if operation = OperationUpgradeSSTables then hasUpgradeSSTablesCompactions e host st
      else if operation = OperationRemove then Some (hasLeavingNodes e host st)
      else panic)"

definition post_action :: "env \<Rightarrow> string \<Rightarrow> pod \<Rightarrow> rstate \<Rightarrow> error option \<times> rstate" where
  "post_action e operation p st =
     (if operation = OperationRemove then postRunRemove e p st else (None, st))"

definition send_finalized :: "error option \<Rightarrow> string \<Rightarrow> pod \<Rightarrow> string \<Rightarrow> rstate \<Rightarrow> rstate" where
  "send_finalized err r p operation st =
     st\<lparr>st_chanRunningOp := st_chanRunningOp st @
       [\<lparr>fo_err = err, fo_dcRackName = r, fo_pod = p, fo_operationName = operation\<rparr>]\<rparr>"

definition runOperation :: "env \<Rightarrow> string \<Rightarrow> string \<Rightarrow> string \<Rightarrow> pod \<Rightarrow> rstate \<Rightarrow> rstate option" where
  "runOperation e operation hostName r p st =
     do { (err, st) \<leftarrow> run_action e operation hostName p st;
          let (err, st) = (if err \<noteq> None then (err, st) else post_action e operation p st) in
          Some (send_finalized err r p operation st) }"

partial_function (option) monitor_loop :: "env \<Rightarrow> string \<Rightarrow> string \<Rightarrow> rstate \<Rightarrow> rstate option option" where
  "monitor_loop e operation hostName st =
     (let (c, st) = op_client e hostName st in
      if isl c then monitor_loop e operation hostName st
      else case run_monitor e operation (projr c) st of
             None \<Rightarrow> Some None
           | Some (r, st) \<Rightarrow> if r = Inr False then Some (Some st) else monitor_loop e operation hostName st)"

definition monitorOperation :: "env \<Rightarrow> string \<Rightarrow> string \<Rightarrow> string \<Rightarrow> pod \<Rightarrow> rstate \<Rightarrow> rstate option option" where
  "monitorOperation e operation hostName r p st =
     map_option (map_option (\<lambda>st. let (err, st) = post_action e operation p st in send_finalized err r p operation st))
       (monitor_loop e operation hostName st)"

section \<open>Pods under operation\<close>

text \<open>A pod is in at most one of the lists of running, finished and failed pods, and only once.\<close>

definition lists_ok :: "PodLastOperation \<Rightarrow> bool" where
  "lists_ok po \<longleftrightarrow> distinct (items (po_Pods po) @ items (po_PodsOK po) @ items (po_PodsKO po))"

lemma items_RemoveString [simp]: "items (map_option (\<lambda>s. RemoveString s x) l) = remove1 x (items l)"
proof -
  have "RemoveString s x = remove1 x s" for s by (induction s) auto
  then show ?thesis by (cases l) (auto simp: items_def)
qed

lemma start_on_lists:
  assumes "lists_ok po"
  shows "lists_ok (start_on p po) \<longleftrightarrow> p \<notin> set (items (po_Pods po))"
    and "set (items (po_Pods (start_on p po))) = insert p (set (items (po_Pods po)))"
  using assms by (auto simp: lists_ok_def start_on_def set_remove1_eq distinct_remove1 dest: notin_set_remove1)

lemma end_on_lists:
  assumes "lists_ok po"
  shows "lists_ok (end_on p err po) \<longleftrightarrow> p \<notin> set (items (po_PodsOK po)) \<and> p \<notin> set (items (po_PodsKO po))"
    and "set (items (po_Pods (end_on p err po))) = set (items (po_Pods po)) - {p}"
    and "p \<in> set (items (if err = None then po_PodsOK (end_on p err po) else po_PodsKO (end_on p err po)))"
  using assms by (cases err; auto simp: lists_ok_def end_on_def set_remove1_eq distinct_remove1)+

lemma startOperation_podop:
  assumes "startOperation e p r st = Some (None, st')"
  shows "pod_op r st' = map_option (start_on (pod_Name p)) (pod_op r st)"
proof -
  define lb where "lb = [''operation-status'' \<mapsto> StatusOngoing,
     ''operation-start'' \<mapsto> LabelTime (env_wall e (st_trace st)), ''operation-end'' \<mapsto> '''']"
  obtain err st1 where 1: "UpdatePodLabel e p lb st = (err, st1)" by fastforce
  then have same: "st_status st1 = st_status st" using UpdatePodLabel_frame(1) by (metis snd_conv)
  show ?thesis
    using assms 1 same
    by (cases "st_racks st r") (auto simp: startOperation_def lb_def pod_op_def updateCassandraStatus_frame
        split: option.split_asm)
qed

lemma updatePodLastOperation_lists:
  assumes "updatePodLastOperation r p err st = Some st'"
  shows "map_option rs_PodLastOperation (cc_RackStatus (st_cc st') r) =
    map_option (end_on p err) (map_option rs_PodLastOperation (cc_RackStatus (st_cc st) r))"
  using assms by (cases "cc_RackStatus (st_cc st) r") (auto simp: updatePodLastOperation_def upd_cc_podop_def)

section \<open>The channel of finished operations\<close>

lemma updateCassandraStatus_obj_chan:
  "updateCassandraStatus_obj e cc s st = (err, cc', st') \<Longrightarrow>
     st_chanRunningOp st' = st_chanRunningOp st \<and> st_cc st' = st_cc st"
  by (auto simp: updateCassandraStatus_obj_def Let_def split: if_split_asm sum.split_asm)

lemmas finalize_loop_induct = finalize_loop.raw_induct [rotated 1, consumes 1, case_names step]

lemma finalize_loop_chan:
  "finalize_loop e p l cc st = Some res \<Longrightarrow> \<exists>st'. res = Some st' \<and> st_chanRunningOp st' = st_chanRunningOp st"
proof (induction rule: finalize_loop_induct)
  case (step loop e p l cc st res)
  obtain err st1 where 2: "UpdatePodLabel e p l st = (err, st1)" by fastforce
  then have same: "st_chanRunningOp st1 = st_chanRunningOp st" using UpdatePodLabel_frame(3) by (metis snd_conv)
  obtain err' cc' st2 where 3: "updateCassandraStatus_obj e cc (cc_Status (st_cc st1)) st1 = (err', cc', st2)"
    by (metis prod_cases3)
  note same2 = updateCassandraStatus_obj_chan [OF 3]
  show ?case
  proof (cases "err = None \<and> err' = None")
    case True
    with step(2) 2 3 same same2 show ?thesis by auto
  next
    case False
    with step(2) 2 3 obtain cc'' st3 where "loop e p l cc'' st3 = Some res"
      "st3 = st1 \<or> st_chanRunningOp st3 = st_chanRunningOp st2" by (auto simp: Let_def split: if_split_asm)
    with step(1) same same2 show ?thesis by fastforce
  qed
qed

lemma finalizeOperation_chan:
  "finalizeOperation e f st = Some (Some st') \<Longrightarrow> st_chanRunningOp st' = st_chanRunningOp st"
  by (auto simp: finalizeOperation_def updatePodLastOperation_def upd_cc_podop_def
      dest!: finalize_loop_chan split: option.split_asm Option.bind_split_asm)

lemma finalize_from_length:
  "finalize_from e i fs st = Some st' \<Longrightarrow> st_chanRunningOp st = fs \<Longrightarrow>
     length (st_chanRunningOp st') = length fs - (length fs - i + 1) div 2"
proof (induction fs arbitrary: i st)
  case (Cons f fs)
  show ?case
  proof (cases "i < length (f # fs)")
    case True
    with Cons.prems obtain st1 where 1: "finalizeOperation e f (st\<lparr>st_chanRunningOp := fs\<rparr>) = Some (Some st1)"
      "finalize_from e (Suc i) fs st1 = Some st'" by (auto simp: bind_eq_Some_conv split: if_split_asm)
    from finalizeOperation_chan [OF 1(1)] have "st_chanRunningOp st1 = fs" by simp
    note IH = Cons.IH [OF 1(2) this]
    from True obtain d where "length fs = i + d" by (auto simp: less_Suc_eq_le le_iff_add)
    with IH show ?thesis by (cases d) simp_all
  next
    case False
    with Cons.prems show ?thesis by simp
  qed
qed simp

lemma running_pods_all:
  assumes "\<And>n tr. n \<in> set ns \<Longrightarrow> \<exists>p. env_getPod e tr (cc_Namespace (st_cc st)) n = Inr p \<and> pod_active p"
  shows "\<exists>ps. running_pods e ns st = (ps, st\<lparr>st_trace := st_trace st @ map (GetReq KPod (cc_Namespace (st_cc st))) ns\<rparr>) \<and>
    length ps = length ns"
  using assms
proof (induction ns arbitrary: st)
  case (Cons n ns)
  let ?st = "call (GetReq KPod (cc_Namespace (st_cc st)) n) st"
  obtain p where p: "env_getPod e (st_trace st) (cc_Namespace (st_cc st)) n = Inr p" "pod_active p"
    using Cons.prems [of n] by auto
  from Cons.IH [of ?st] Cons.prems obtain ps where
    "running_pods e ns ?st = (ps, ?st\<lparr>st_trace := st_trace ?st @ map (GetReq KPod (cc_Namespace (st_cc ?st))) ns\<rparr>)"
    "length ps = length ns" by auto
  with p show ?case by (simp add: GetPod_def call_def)
qed simp

definition is_monitor :: "request \<Rightarrow> bool" where
  "is_monitor q = (case q of Spawn (MonitorOperation _ _ _ _) \<Rightarrow> True | _ \<Rightarrow> False)"

lemma operate_on_check:
  "operate_on e r opn True ps st =
     Some (st\<lparr>st_trace := st_trace st @ map (\<lambda>p. Spawn (MonitorOperation (PodHostname p) r p opn)) ps\<rparr>)"
  by (induction ps arbitrary: st) (auto simp: call_def)

lemma updateCassandraStatus_requests:
  "\<exists>qs. st_trace (snd (updateCassandraStatus e st)) = st_trace st @ qs \<and> filter is_monitor qs = []"
  by (auto simp: updateCassandraStatus_def updateCassandraStatus_obj_def is_monitor_def Let_def split: sum.split)

lemma finalizeOperation_total:
  assumes "cc_RackStatus (st_cc st) (fo_dcRackName f) = Some rs"
    and "\<And>tr. \<exists>p. env_getPod e tr (pod_Namespace (fo_pod f)) (pod_Name (fo_pod f)) = Inr p"
    and "\<And>tr p. env_write e tr (UpdatePodReq p) = None"
    and "\<And>tr cc. \<exists>v. env_updateCCStatus e tr cc = Inr v"
  shows "\<exists>st'. finalizeOperation e f st = Some (Some st') \<and>
    cc_RackStatus (st_cc st') (fo_dcRackName f) =
      Some (rs\<lparr>rs_PodLastOperation := end_on (pod_Name (fo_pod f)) (fo_err f) (rs_PodLastOperation rs)\<rparr>)"
proof -
  have loop: "\<exists>st2. finalize_loop e (fo_pod f) l cc st1 = Some (Some st2) \<and> st_cc st2 = st_cc st1" for l cc st1
  proof -
    from assms(2) obtain p where p: "env_getPod e (st_trace st1) (pod_Namespace (fo_pod f)) (pod_Name (fo_pod f)) = Inr p" by blast
    obtain st2 where 2: "UpdatePodLabel e (fo_pod f) l st1 = (None, st2)" "st_cc st2 = st_cc st1"
      using p assms(3) by (auto simp: UpdatePodLabel_def GetPod_def UpdatePod_def)
    have "env_updateCCStatus e tr c \<noteq> Inl x" for tr c x using assms(4) [of tr c] by auto
    then have "fst (updateCassandraStatus_obj e cc (cc_Status (st_cc st2)) st2) = None"
      by (auto simp: updateCassandraStatus_obj_def Let_def split: sum.split)
    then obtain cc' st3 where 3: "updateCassandraStatus_obj e cc (cc_Status (st_cc st2)) st2 = (None, cc', st3)"
      by (metis prod.collapse)
    show ?thesis
      using 2 3 updateCassandraStatus_obj_chan [OF 3] by (subst finalize_loop.simps) simp
  qed
  obtain st1 where "updatePodLastOperation (fo_dcRackName f) (pod_Name (fo_pod f)) (fo_err f) st = Some st1"
    "cc_RackStatus (st_cc st1) (fo_dcRackName f) =
      Some (rs\<lparr>rs_PodLastOperation := end_on (pod_Name (fo_pod f)) (fo_err f) (rs_PodLastOperation rs)\<rparr>)"
    using assms(1) by (auto simp: updatePodLastOperation_def upd_cc_podop_def)
  with loop show ?thesis by (fastforce simp: finalizeOperation_def Let_def)
qed

text \<open>An environment that has every pod, and one finished operation.\<close>

definition found_env :: env where
  "found_env = example_env\<lparr>env_getPod := \<lambda>_ _ n. Inr (example_pod n)\<rparr>"

definition finished :: finalizedOp where
  "finished = \<lparr>fo_err = None, fo_dcRackName = ''dc1-rack1'', fo_pod = example_pod ''demo-dc1-rack1-2'',
     fo_operationName = OperationCleanup\<rparr>"

lemma scaling_state_cc [simp]:
  "cc_RackStatus (st_cc (scaling_state s ps)) ''dc1-rack1'' = Some (scaling_rack s ps)"
  by (simp add: scaling_state_def example_state_def)

lemma found_env_answers:
  "\<exists>p. env_getPod found_env tr ns n = Inr p" "env_write found_env tr (UpdatePodReq p) = None"
  "\<exists>v. env_updateCCStatus found_env tr cc = Inr v"
  by (simp_all add: found_env_def example_env_def)

lemma found_env_finalizes:
  "cc_RackStatus (st_cc st) (fo_dcRackName f) = Some rs \<Longrightarrow>
     \<exists>st' rs'. finalizeOperation found_env f st = Some (Some st') \<and> cc_RackStatus (st_cc st') (fo_dcRackName f) = Some rs'"
  using finalizeOperation_total [OF _ found_env_answers] by blast

section \<open>Properties\<close>

text \<open>
  C5 (operation_lists_invariant): let no pod be in two of the lists of running, finished and failed pods, and none twice.  Starting an
  operation on a pod puts it into the running list, and keeps this exactly when the pod was not in that list.  Ending the operation of a
  pod takes it from the running list into the finished or failed one, and keeps this exactly when the pod was in neither of
  these two, as is the case for every running pod: a second end of the same operation, which the monitors started again by
  each pass may report, puts the pod into a list twice or into both.
\<close>

theorem operation_lists_invariant:
  "(\<forall>st st' po. startOperation e p r st = Some (None, st') \<longrightarrow> pod_op r st = Some po \<longrightarrow> lists_ok po \<longrightarrow>
      (\<exists>po'. pod_op r st' = Some po' \<and> (lists_ok po' \<longleftrightarrow> pod_Name p \<notin> set (items (po_Pods po))) \<and>
         set (items (po_Pods po')) = insert (pod_Name p) (set (items (po_Pods po))))) \<and>
   (\<forall>st st' rs. updatePodLastOperation r (pod_Name p) err st = Some st' \<longrightarrow> cc_RackStatus (st_cc st) r = Some rs \<longrightarrow>
      lists_ok (rs_PodLastOperation rs) \<longrightarrow>
      (\<exists>rs'. cc_RackStatus (st_cc st') r = Some rs' \<and>
         (lists_ok (rs_PodLastOperation rs') \<longleftrightarrow> pod_Name p \<notin> set (items (po_PodsOK (rs_PodLastOperation rs))) \<and>
            pod_Name p \<notin> set (items (po_PodsKO (rs_PodLastOperation rs)))) \<and>
         (pod_Name p \<in> set (items (po_Pods (rs_PodLastOperation rs))) \<longrightarrow> lists_ok (rs_PodLastOperation rs')) \<and>
         set (items (po_Pods (rs_PodLastOperation rs'))) = set (items (po_Pods (rs_PodLastOperation rs))) - {pod_Name p} \<and>
         pod_Name p \<in> set (items (if err = None then po_PodsOK (rs_PodLastOperation rs')
                                  else po_PodsKO (rs_PodLastOperation rs')))))"
proof (intro conjI allI impI)
  fix st st' po
  assume "startOperation e p r st = Some (None, st')" "pod_op r st = Some po" "lists_ok po"
  then show "\<exists>po'. pod_op r st' = Some po' \<and> (lists_ok po' \<longleftrightarrow> pod_Name p \<notin> set (items (po_Pods po))) \<and>
         set (items (po_Pods po')) = insert (pod_Name p) (set (items (po_Pods po)))"
    using startOperation_podop start_on_lists by simp
next
  fix st st' rs
  assume 1: "updatePodLastOperation r (pod_Name p) err st = Some st'" "cc_RackStatus (st_cc st) r = Some rs"
    and ok: "lists_ok (rs_PodLastOperation rs)"
  obtain rs' where rs': "cc_RackStatus (st_cc st') r = Some rs'" "rs_PodLastOperation rs' = end_on (pod_Name p) err (rs_PodLastOperation rs)"
    using updatePodLastOperation_lists [OF 1(1)] 1(2) by auto
  moreover have "pod_Name p \<notin> set (items (po_PodsOK (rs_PodLastOperation rs))) \<and> pod_Name p \<notin> set (items (po_PodsKO (rs_PodLastOperation rs)))"
    if "pod_Name p \<in> set (items (po_Pods (rs_PodLastOperation rs)))"
    using ok that by (auto simp: lists_ok_def)
  ultimately show "\<exists>rs'. cc_RackStatus (st_cc st') r = Some rs' \<and>
         (lists_ok (rs_PodLastOperation rs') \<longleftrightarrow> pod_Name p \<notin> set (items (po_PodsOK (rs_PodLastOperation rs))) \<and>
            pod_Name p \<notin> set (items (po_PodsKO (rs_PodLastOperation rs)))) \<and>
         (pod_Name p \<in> set (items (po_Pods (rs_PodLastOperation rs))) \<longrightarrow> lists_ok (rs_PodLastOperation rs')) \<and>
         set (items (po_Pods (rs_PodLastOperation rs'))) = set (items (po_Pods (rs_PodLastOperation rs))) - {pod_Name p} \<and>
         pod_Name p \<in> set (items (if err = None then po_PodsOK (rs_PodLastOperation rs')
                                  else po_PodsKO (rs_PodLastOperation rs')))"
    using end_on_lists [OF ok, of "pod_Name p" err] by (cases err) simp_all
qed

theorem operation_lists_invariant_witness:
  "(\<exists>st' po'. startOperation found_env (example_pod ''demo-dc1-rack1-1'') ''dc1-rack1''
       (scaling_state StatusOngoing [''demo-dc1-rack1-2'']) = Some (None, st') \<and>
     pod_op ''dc1-rack1'' st' = Some po' \<and> lists_ok po') \<and>
   (\<exists>st' rs'. updatePodLastOperation ''dc1-rack1'' ''demo-dc1-rack1-2'' None
       (scaling_state StatusOngoing [''demo-dc1-rack1-2'']) = Some st' \<and>
     cc_RackStatus (st_cc st') ''dc1-rack1'' = Some rs' \<and> lists_ok (rs_PodLastOperation rs'))"
proof -
  let ?st = "scaling_state StatusOngoing [''demo-dc1-rack1-2'']"
  let ?po = "rs_PodLastOperation (scaling_rack StatusOngoing [''demo-dc1-rack1-2''])"
  have names: "pod_Name (example_pod n) = n" for n
    by (simp add: example_pod_def bare_pod_def named_meta_def)
  have lists: "lists_ok ?po" by (simp add: lists_ok_def scaling_rack_def items_def)
  have 1: "pod_op ''dc1-rack1'' ?st = Some ?po" by (simp add: pod_op_def)
  obtain st1 where 2: "startOperation found_env (example_pod ''demo-dc1-rack1-1'') ''dc1-rack1'' ?st = Some (None, st1)"
    by (simp add: startOperation_def UpdatePodLabel_def GetPod_def found_env_def example_env_def UpdatePod_def)
  obtain st2 where 3: "updatePodLastOperation ''dc1-rack1'' ''demo-dc1-rack1-2'' None ?st = Some st2"
    by (simp add: updatePodLastOperation_def upd_cc_podop_def)
  from operation_lists_invariant [of found_env "example_pod ''demo-dc1-rack1-1''" "''dc1-rack1''" None] 1 2 lists
  have "\<exists>po'. pod_op ''dc1-rack1'' st1 = Some po' \<and> lists_ok po'" by (fastforce simp: names)
  moreover from operation_lists_invariant [of found_env "example_pod ''demo-dc1-rack1-2''" "''dc1-rack1''" None] 3 lists
  have "\<exists>rs'. cc_RackStatus (st_cc st2) ''dc1-rack1'' = Some rs' \<and> lists_ok (rs_PodLastOperation rs')"
    by (fastforce simp: names)
  ultimately show ?thesis using 2 3 by blast
qed

text \<open>
  FinalizeOperations takes only half of the finished operations from the channel,
  rounded up: its counter grows while the length it is compared with shrinks.
\<close>

lemma finalizeOperations_half:
  assumes "finalizeOperations e st = Some st'"
  shows "length (st_chanRunningOp st') = length (st_chanRunningOp st) div 2"
  using finalize_from_length [of e 0 "st_chanRunningOp st" st st'] assms
  by (simp add: finalizeOperations_def)

lemma finalize_retry:
  assumes "\<forall>tr. env_getPod e tr (pod_Namespace p) (pod_Name p) = Inl NotFound"
  shows "finalize_loop e p l cc st = finalize_loop e p l cc (call (GetReq KPod (pod_Namespace p) (pod_Name p)) st)"
  using assms by (subst finalize_loop.simps) (simp add: UpdatePodLabel_def GetPod_def)

lemma finalize_retries:
  assumes "\<forall>tr. env_getPod e tr (pod_Namespace p) (pod_Name p) = Inl NotFound"
  shows "finalize_loop e p l cc st =
    finalize_loop e p l cc (st\<lparr>st_trace := st_trace st @ replicate n (GetReq KPod (pod_Namespace p) (pod_Name p))\<rparr>)"
proof (induction n)
  case (Suc n)
  also note finalize_retry [OF assms]
  finally show ?case by (simp add: call_def replicate_append_same)
qed simp

lemma finalize_diverges:
  "finalize_loop e p l cc st = Some res \<Longrightarrow> \<not> (\<forall>tr. env_getPod e tr (pod_Namespace p) (pod_Name p) = Inl NotFound)"
proof (induction rule: finalize_loop_induct)
  case (step loop e p l cc st res)
  show ?case
  proof
    assume all: "\<forall>tr. env_getPod e tr (pod_Namespace p) (pod_Name p) = Inl NotFound"
    then have "UpdatePodLabel e p l st = (Some NotFound, call (GetReq KPod (pod_Namespace p) (pod_Name p)) st)"
      by (simp add: UpdatePodLabel_def GetPod_def)
    with step(2) have "loop e p l cc (call (GetReq KPod (pod_Namespace p) (pod_Name p)) st) = Some res" by simp
    with step(1) all show False by blast
  qed
qed



text \<open>
  When the pod is found and the writes succeed, finalizeOperation returns and the
  status of the cluster object has the pod among the finished or failed ones.
\<close>

lemma finalizeOperation_returns:
  assumes "cc_RackStatus (st_cc st) (fo_dcRackName f) = Some rs"
    and "\<And>tr. \<exists>p. env_getPod e tr (pod_Namespace (fo_pod f)) (pod_Name (fo_pod f)) = Inr p"
    and "\<And>tr p. env_write e tr (UpdatePodReq p) = None"
    and "\<And>tr cc. \<exists>v. env_updateCCStatus e tr cc = Inr v"
  shows "\<exists>st'. finalizeOperation e f st = Some (Some st') \<and>
    cc_RackStatus (st_cc st') (fo_dcRackName f) =
      Some (rs\<lparr>rs_PodLastOperation := end_on (pod_Name (fo_pod f)) (fo_err f) (rs_PodLastOperation rs)\<rparr>)"
  using assms by (rule finalizeOperation_total)

text \<open>
  When another operator instance started an operation, ensureOperation starts a
  monitor for each of its pods and leaves the status as it was, the name of the operator included, so
  the next pass starts the same monitors again.
\<close>

lemma monitors_restart_every_pass:
  assumes "env_POD_NAME e \<noteq> ''''"
    and po: "pod_op (GetDCRackName dcName rackName) st = Some po"
    and "po_Name po = operation" "po_Status po = StatusOngoing"
    and "po_OperatorName po \<noteq> ''''" "po_OperatorName po \<noteq> env_POD_NAME e"
    and "items (po_Pods po) \<noteq> []"
    and run: "\<And>n tr. n \<in> set (items (po_Pods po)) \<Longrightarrow>
      \<exists>p. env_getPod e tr (cc_Namespace (st_cc st)) n = Inr p \<and> pod_active p"
  shows "\<exists>st'. ensureOperation e dcName rackName operation st = Some st' \<and> st_status st' = st_status st \<and>
    length (filter is_monitor (requests st st')) = length (items (po_Pods po))"
proof -
  let ?r = "GetDCRackName dcName rackName"
  define st1 where "st1 = st\<lparr>st_trace := st_trace st @ map (GetReq KPod (cc_Namespace (st_cc st))) (items (po_Pods po))\<rparr>"
  from po obtain rs where rs: "st_racks st ?r = Some rs" "rs_PodLastOperation rs = po" by (auto simp: pod_op_def)
  from running_pods_all [of "items (po_Pods po)" e st] run obtain ps where
    ps: "running_pods e (items (po_Pods po)) st = (ps, st1)" "length ps = length (items (po_Pods po))"
    by (auto simp: st1_def)
  let ?st2 = "snd (updateCassandraStatus e st1)"
  obtain qs where qs: "st_trace ?st2 = st_trace st1 @ qs" "filter is_monitor qs = []"
    using updateCassandraStatus_requests by blast
  have "getPodsToWorkOn e dcName rackName operation st = Some ((ps, True), ?st2)"
    using assms rs ps by (auto simp: getPodsToWorkOn_def podsSlice_def)
  then have 1: "ensureOperation e dcName rackName operation st =
    Some (?st2\<lparr>st_trace := st_trace ?st2 @ map (\<lambda>p. Spawn (MonitorOperation (PodHostname p) ?r p operation)) ps\<rparr>)"
    by (simp add: ensureOperation_def operate_on_check)
  have "filter is_monitor (map (GetReq KPod ns) ns') = []" for ns ns' by (induction ns') (auto simp: is_monitor_def)
  moreover have "filter is_monitor (map (\<lambda>p. Spawn (MonitorOperation (PodHostname p) ?r p operation)) ps) =
      map (\<lambda>p. Spawn (MonitorOperation (PodHostname p) ?r p operation)) ps"
    by (rule filter_True) (auto simp: is_monitor_def)
  ultimately show ?thesis
    using 1 qs ps by (auto simp: requests_def st1_def updateCassandraStatus_frame)
qed

text \<open>
  A rebuild whose Jolokia secret cannot be read panics in its goroutine, since the error
  of NewJolokiaClient is dropped and the nil client is used.
\<close>

lemma runRebuild_panics:
  assumes "spec_ImageJolokiaSecret (cc_Spec (st_cc st)) \<noteq> ''''"
    and "env_getSecret e (st_trace st) (cc_Namespace (st_cc st)) (spec_ImageJolokiaSecret (cc_Spec (st_cc st))) = Some err"
    and "pod_Labels p ''operation-argument'' = Some dc"
  shows "runOperation e OperationRebuild host r p st = None"
  using assms by (simp add: runOperation_def run_action_def operations runRebuild_def op_client_def NewJolokiaClient_def)

end
