(* ===== verification/Generator.thy ===== *)
theory Generator
  imports Rack_Status "HOL-Library.AList"
begin

text \<open>
  The objects the operator wants (src/controllers/cassandracluster/generator.go): the services, the
  pod disruption budget and the statefulset of a rack, built from the custom resource.  A definition
  has the name of the function it models; a nil pointer that is followed is a panic.  The JSON tree of
  the node configuration is built by the operations of gabs that the environment provides.
\<close>

section \<open>Services and budget\<close>

definition cassandraPort :: int where "cassandraPort = 9042"
definition cassandraPortName :: string where "cassandraPortName = ''cql''"
definition cassandraIntraNodePort :: int where "cassandraIntraNodePort = 7000"
definition cassandraIntraNodeName :: string where "cassandraIntraNodeName = ''intra-node''"
definition cassandraIntraNodeTLSPort :: int where "cassandraIntraNodeTLSPort = 7001"
definition cassandraIntraNodeTLSName :: string where "cassandraIntraNodeTLSName = ''intra-node-tls''"
definition cassandraJMX :: int where "cassandraJMX = 7199"
definition cassandraJMXName :: string where "cassandraJMXName = ''jmx-port''"
definition JolokiaPort :: int where "JolokiaPort = 8778"
definition JolokiaPortName :: string where "JolokiaPortName = ''jolokia''"
definition exporterCassandraJmxPort :: int where "exporterCassandraJmxPort = 9500"
definition exporterCassandraJmxPortName :: string where "exporterCassandraJmxPortName = ''promjmx''"

definition generateCassandraService :: "CassandraCluster \<Rightarrow> labels \<Rightarrow> owner_reference list \<Rightarrow> service" where
  "generateCassandraService cc labels ownerRefs =
     \<lparr>svc_Meta = (named_meta (cc_Namespace cc) (cc_Name cc))\<lparr>
        meta_Labels := labels,
        meta_Annotations := (case spec_Service (cc_Spec cc) of None \<Rightarrow> Map.empty | Some s \<Rightarrow> sp_Annotations s),
        meta_OwnerReferences := ownerRefs\<rparr>,
      svc_Type = ''ClusterIP'', svc_ClusterIP = ''None'',
      svc_Ports = [\<lparr>sp_Port = cassandraPort, sp_Protocol = ''TCP'', sp_Name = cassandraPortName\<rparr>],
      svc_Selector = labels, svc_PublishNotReadyAddresses = True\<rparr>"

definition generateCassandraExporterService ::
  "CassandraCluster \<Rightarrow> labels \<Rightarrow> owner_reference list \<Rightarrow> service" where
  "generateCassandraExporterService cc labels ownerRefs =
     \<lparr>svc_Meta = (named_meta (cc_Namespace cc) (cc_Name cc @ ''-exporter-jmx''))\<lparr>
        meta_Labels := MergeLabels [labels, [''k8s-app'' \<mapsto> ''exporter-cassandra-jmx'']],
        meta_OwnerReferences := ownerRefs\<rparr>,
      svc_Type = ''ClusterIP'', svc_ClusterIP = ''None'',
      svc_Ports = [\<lparr>sp_Port = exporterCassandraJmxPort, sp_Protocol = ''TCP'',
                     sp_Name = exporterCassandraJmxPortName\<rparr>],
      svc_Selector = labels, svc_PublishNotReadyAddresses = False\<rparr>"

definition generatePodDisruptionBudget ::
  "string \<Rightarrow> string \<Rightarrow> labels \<Rightarrow> owner_reference \<Rightarrow> int \<Rightarrow> pdb" where
  "generatePodDisruptionBudget name namespace labels ownerRefs maxUnavailable =
     \<lparr>pdb_Meta = (named_meta namespace name)\<lparr>meta_Labels := labels, meta_OwnerReferences := [ownerRefs]\<rparr>,
      pdb_MaxUnavailable = Some maxUnavailable, pdb_DisruptionsAllowed = 0, pdb_ExpectedPods = 0,
      pdb_MatchLabels = labels\<rparr>"

section \<open>Volumes\<close>

definition emptyDir :: "string \<Rightarrow> volume" where
  "emptyDir name = \<lparr>v_Name = name, v_ConfigMap = None, v_DefaultMode = None, v_EmptyDir = True\<rparr>"

definition generateCassandraVolumes :: "CassandraCluster \<Rightarrow> volume list" where
  "generateCassandraVolumes cc =
     [emptyDir ''bootstrap'', emptyDir ''extra-lib'', emptyDir ''tools'', emptyDir ''log'', emptyDir ''tmp''] @
     (if spec_ConfigMapName (cc_Spec cc) \<noteq> ''''
      then [\<lparr>v_Name = cassandraConfigMapName, v_ConfigMap = Some (spec_ConfigMapName (cc_Spec cc)),
              v_DefaultMode = Some 493, v_EmptyDir = False\<rparr>]
      else [])"

datatype containerType = initContainer | bootstrapContainer | cassandraContainer | backrestContainer

definition mount :: "string \<Rightarrow> string \<Rightarrow> volume_mount" where
  "mount name path = \<lparr>vm_Name = name, vm_MountPath = path\<rparr>"

definition generateContainerVolumeMount :: "CassandraCluster \<Rightarrow> containerType \<Rightarrow> volume_mount list" where
  "generateContainerVolumeMount cc ct =
     (if ct = initContainer then [mount ''bootstrap'' ''/bootstrap'']
      else
        let vm = [mount ''bootstrap'' ''/etc/cassandra'', mount ''extra-lib'' ''/extra-lib''] @
                 (if ct \<noteq> backrestContainer then [mount ''tools'' ''/opt/bin''] else []) in
        if ct = bootstrapContainer
        then vm @ (if spec_ConfigMapName (cc_Spec cc) \<noteq> '''' then [mount ''cassandra-config'' ''/configmap''] else [])
        else
          let vm = vm @ (if spec_DataCapacity (cc_Spec cc) \<noteq> '''' then [mount ''data'' ''/var/lib/cassandra''] else [])
                      @ [mount ''tmp'' ''/tmp''] in
          if ct = backrestContainer then vm else vm @ [mount ''log'' ''/var/log/cassandra''])"

definition generateStorageConfigVolumesMount :: "CassandraCluster \<Rightarrow> volume_mount list" where
  "generateStorageConfigVolumesMount cc =
     map (\<lambda>storage. mount (sc_Name storage) (sc_MountPath storage)) (spec_StorageConfigs (cc_Spec cc))"

definition claim_template :: "string \<Rightarrow> labels \<Rightarrow> pvc_spec \<Rightarrow> pvc" where
  "claim_template name labels spec =
     \<lparr>pvc_TypeMeta = ('''', ''''), pvc_Meta = (named_meta '''' name)\<lparr>meta_Labels := labels\<rparr>,
      pvc_Spec = spec, pvc_StatusCapacity = Map.empty\<rparr>"

fun storage_claims :: "labels \<Rightarrow> StorageConfig list \<Rightarrow> error + pvc list" where
  "storage_claims labels [] = Inr []"
| "storage_claims labels (storage # rest) =
     (case sc_PVCSpec storage of
        None \<Rightarrow> Inl (Errorf ''the PvcSpec is not specified'')
      | Some spec \<Rightarrow> map_sum id (Cons (claim_template (sc_Name storage) labels spec)) (storage_claims labels rest))"

definition generateStorageConfigVolumeClaimTemplates :: "CassandraCluster \<Rightarrow> labels \<Rightarrow> error + pvc list" where
  "generateStorageConfigVolumeClaimTemplates cc labels = storage_claims labels (spec_StorageConfigs (cc_Spec cc))"

text \<open>A quantity that does not parse is the zero quantity.\<close>

definition generateResourceQuantity :: "env \<Rightarrow> string \<Rightarrow> quantity" where
  "generateResourceQuantity e qs = (case env_parseQuantity e qs of None \<Rightarrow> zero_quantity | Some q \<Rightarrow> q)"

definition generateVolumeClaimTemplate ::
  "env \<Rightarrow> CassandraCluster \<Rightarrow> labels \<Rightarrow> string \<Rightarrow> error + pvc list" where
  "generateVolumeClaimTemplate e cc labels dcName =
     (let dataCapacity = GetDataCapacityFromDCName cc dcName;
          dataStorageClass = GetDataStorageClassFromDCName cc dcName in
      if dataCapacity = '''' then Inr []
      else
        let data = claim_template DataPVCName labels
              \<lparr>pvcs_AccessModes = [''ReadWriteOnce''],
               pvcs_StorageClassName = (if dataStorageClass \<noteq> '''' then Some dataStorageClass else None),
               pvcs_VolumeMode = None,
               pvcs_Requests = Some [''storage'' \<mapsto> generateResourceQuantity e dataCapacity]\<rparr>
        in map_sum id (Cons data) (generateStorageConfigVolumeClaimTemplates cc labels))"

section \<open>Duplicate volumes\<close>

text \<open>The claims that the cassandra container mounts: claim name to mount path, the last mount winning.\<close>

definition volumeClaimMapNameMountPath :: "container list \<Rightarrow> pvc list \<Rightarrow> (string \<times> string) list" where
  "volumeClaimMapNameMountPath containers volumeClaimTemplate =
     (let mounts = (case filter (\<lambda>c. c_Name c = CassandraContainerName) containers of
                      [] \<Rightarrow> [] | cs \<Rightarrow> c_VolumeMounts (last cs)) in
      foldl (\<lambda>m volumeClaim.
          foldl (\<lambda>m volumeMount.
              if meta_Name (pvc_Meta volumeClaim) = vm_Name volumeMount
              then AList.update (meta_Name (pvc_Meta volumeClaim)) (vm_MountPath volumeMount) m
              else m) m mounts)
        [] volumeClaimTemplate)"

definition mounted_at :: "env \<Rightarrow> (string \<times> string) list \<Rightarrow> string \<Rightarrow> string option" where
  "mounted_at e claims path =
     find (\<lambda>key. map_of claims key = Some path) (env_mapOrder e (map fst claims))"

fun dedup_mounts ::
  "env \<Rightarrow> (string \<times> string) list \<Rightarrow> string \<Rightarrow> volume_mount list \<Rightarrow> volume_mount list \<times> string list" where
  "dedup_mounts e claims containerName [] = ([], [])"
| "dedup_mounts e claims containerName (vm # rest) =
     (let (vms, toRemove) = dedup_mounts e claims containerName rest in
      if map_of claims (vm_Name vm) \<noteq> None then (vm # vms, toRemove)
      else case mounted_at e claims (vm_MountPath vm) of
             Some key \<Rightarrow>
               (if containerName \<noteq> CassandraContainerName then vm\<lparr>vm_Name := key\<rparr> # vms else vms,
                vm_Name vm # toRemove)
           | None \<Rightarrow> (vm # vms, toRemove))"

definition dedup_container :: "env \<Rightarrow> (string \<times> string) list \<Rightarrow> container \<Rightarrow> container" where
  "dedup_container e claims c =
     (let newVolumesMounts = fst (dedup_mounts e claims (c_Name c) (c_VolumeMounts c)) in
      if length newVolumesMounts \<noteq> length (c_VolumeMounts c) then c\<lparr>c_VolumeMounts := newVolumesMounts\<rparr> else c)"

definition removeDuplicateVolumeMountsFromContainers ::
  "env \<Rightarrow> container list \<Rightarrow> (string \<times> string) list \<Rightarrow> container list \<times> string list" where
  "removeDuplicateVolumeMountsFromContainers e containers claims =
     (map (dedup_container e claims) containers,
      concat (map (\<lambda>c. snd (dedup_mounts e claims (c_Name c) (c_VolumeMounts c))) containers))"

definition volumesWoDupes :: "volume list \<Rightarrow> string list \<Rightarrow> volume slice" where
  "volumesWoDupes volumes volumeToRemove =
     (let newVolumes = foldl append_slice None (filter (\<lambda>vol. v_Name vol \<notin> set volumeToRemove) volumes)
      in if length (items newVolumes) \<noteq> length volumes then newVolumes else Some volumes)"

definition RemoveDuplicateVolumesAndVolumeMounts ::
  "env \<Rightarrow> container list \<Rightarrow> pvc list \<Rightarrow> volume list \<Rightarrow> container list \<times> volume slice" where
  "RemoveDuplicateVolumesAndVolumeMounts e containers volumeClaimTemplate volumes =
     (let claims = volumeClaimMapNameMountPath containers volumeClaimTemplate;
          (containers, volumeToRemove) = removeDuplicateVolumeMountsFromContainers e containers claims
      in (containers, volumesWoDupes volumes volumeToRemove))"

section \<open>Resources\<close>

definition quantity_Value :: "quantity \<Rightarrow> int" where
  "quantity_Value q = - ((- q_value q) div 10 ^ 9)"

text \<open>
  The heap of the JVM.  The division is done on float64 numbers; it is exact, and the conversion to
  int truncates, for memory limits below 2 to the power 53 bytes.
\<close>

record JvmMemory =
  maxHeapSize :: string
  initialHeapSize :: string

definition truncate_div :: "int \<Rightarrow> int \<Rightarrow> int" where
  "truncate_div a b = sgn a * (\<bar>a\<bar> div b)"

definition defineJvmMemory :: "resource_requirements \<Rightarrow> JvmMemory" where
  "defineJvmMemory resources =
     (let memory = lookup_quantity (res_Limits resources) ''memory'' in
      if q_value memory \<noteq> 0
      then let mhsInMB = truncate_div (quantity_Value memory) (4 * 1024 * 1024);
               ihs = truncate_div mhsInMB 4
           in \<lparr>maxHeapSize = itoa mhsInMB @ ''M'', initialHeapSize = itoa ihs @ ''M''\<rparr>
      else \<lparr>maxHeapSize = ''2048M'', initialHeapSize = ''512M''\<rparr>)"

text \<open>MustParse panics on a text that is not a quantity.\<close>

definition initContainerResources :: "env \<Rightarrow> resource_requirements option" where
  "initContainerResources e =
     do { cpu \<leftarrow> env_parseQuantity e ''0.5'';
          memory \<leftarrow> env_parseQuantity e ''0.5Gi'';
          Some \<lparr>res_Limits = Some [''cpu'' \<mapsto> cpu, ''memory'' \<mapsto> memory],
                 res_Requests = Some [''cpu'' \<mapsto> cpu, ''memory'' \<mapsto> memory]\<rparr> }"

definition generateResourceList :: "env \<Rightarrow> string \<Rightarrow> string \<Rightarrow> resource_list" where
  "generateResourceList e cpu memory =
     (let resources = Map.empty;
          resources = (if cpu \<noteq> '''' then resources(''cpu'' \<mapsto> generateResourceQuantity e cpu) else resources)
      in if memory \<noteq> '''' then resources(''memory'' \<mapsto> generateResourceQuantity e memory) else resources)"

section \<open>Affinities\<close>

text \<open>The keys of a map are collected in the order of the runtime and sorted.\<close>

definition createNodeAffinity :: "labels \<Rightarrow> node_affinity" where
  "createNodeAffinity labels =
     (if dom labels = {} then \<lparr>na_Required = None\<rparr>
      else \<lparr>na_Required = Some [map (\<lambda>key. \<lparr>nr_Key = key, nr_Operator = ''In'', nr_Values = [the (labels key)]\<rparr>)
              (sorted_list_of_set (dom labels))]\<rparr>)"

definition createPodAntiAffinity :: "bool \<Rightarrow> labels \<Rightarrow> pod_anti_affinity" where
  "createPodAntiAffinity hard labels =
     (let podAffinityTerm = \<lparr>pat_TopologyKey = ''kubernetes.io/hostname'', pat_MatchLabels = labels\<rparr> in
      if hard then \<lparr>paa_Required = [podAffinityTerm], paa_Preferred = []\<rparr>
      else \<lparr>paa_Required = [], paa_Preferred = [(100, podAffinityTerm)]\<rparr>)"

section \<open>Environment variables\<close>

definition plain_env :: "string \<Rightarrow> string \<Rightarrow> env_var" where
  "plain_env name v = \<lparr>env_Name = name, env_Value = v, env_ValueFrom = None\<rparr>"

definition field_env :: "string \<Rightarrow> string \<Rightarrow> env_var" where
  "field_env name path = \<lparr>env_Name = name, env_Value = '''', env_ValueFrom = Some (FieldRef ''v1'' path)\<rparr>"

definition secret_env :: "string \<Rightarrow> string \<Rightarrow> string \<Rightarrow> env_var" where
  "secret_env name secret key = \<lparr>env_Name = name, env_Value = '''', env_ValueFrom = Some (SecretKeyRef secret key)\<rparr>"

definition commonBootstrapCassandraEnvVar :: "CassandraCluster \<Rightarrow> env_var list" where
  "commonBootstrapCassandraEnvVar cc =
     [field_env ''POD_IP'' ''status.podIP'', plain_env ''CASSANDRA_LOG_DIR'' ''/var/log/cassandra''] @
     (let secret = spec_ImageJolokiaSecret (cc_Spec cc) in
      if secret \<noteq> ''''
      then [secret_env ''JOLOKIA_USER'' secret ''username'', secret_env ''JOLOKIA_PASSWORD'' secret ''password'',
            plain_env ''CASSANDRA_AUTH_JOLOKIA'' ''true'']
      else [])"

definition bootstrapContainerEnvVar :: "CassandraCluster \<Rightarrow> CassandraClusterStatus \<Rightarrow> env_var list" where
  "bootstrapContainerEnvVar cc status =
     [plain_env ''CASSANDRA_CLUSTER_NAME'' (cc_Name cc),
      plain_env ''CASSANDRA_SEEDS'' (SeedList (cs_SeedList status)),
      field_env ''CASSANDRA_DC'' ''metadata.labels['cassandraclusters.db.orange.com.dc']'',
      field_env ''CASSANDRA_RACK'' ''metadata.labels['cassandraclusters.db.orange.com.rack']''] @
     commonBootstrapCassandraEnvVar cc"

definition has_prefix :: "string \<Rightarrow> string \<Rightarrow> bool" where
  "has_prefix s p = (take (length p) s = p)"

fun contains_text :: "string \<Rightarrow> string \<Rightarrow> bool" where
  "contains_text [] p = (p = [])"
| "contains_text (c # s) p = (has_prefix (c # s) p \<or> contains_text s p)"

definition server_version :: "CassandraClusterSpec \<Rightarrow> string" where
  "server_version spec =
     (if spec_ServerVersion spec \<noteq> '''' then spec_ServerVersion spec
      else let image = split_on CHR '':'' (spec_CassandraImage spec) in
           if length image \<ge> 2
           then let version = split_on CHR ''-'' (last image) in
                if length version \<noteq> 1 then hd version @ ''.0'' else hd version
           else '''')"

definition server_type :: "CassandraClusterSpec \<Rightarrow> string" where
  "server_type spec =
     (if spec_ServerType spec \<noteq> '''' then spec_ServerType spec
      else if contains_text (hd (split_on CHR '':'' (spec_CassandraImage spec))) ''dse'' then ''dse''
      else ''cassandra'')"

definition jvmOptionName :: "CassandraCluster \<Rightarrow> string" where
  "jvmOptionName cc = (if has_prefix (spec_ServerVersion (cc_Spec cc)) ''4'' then ''jvm-server-options'' else ''jvm-options'')"

definition gabs_Data :: "gabs \<Rightarrow> jval" where
  "gabs_Data g = (case g of None \<Rightarrow> JNull | Some v \<Rightarrow> v)"

definition mergeConfig :: "env \<Rightarrow> raw_message \<Rightarrow> gabs \<Rightarrow> string \<Rightarrow> gabs" where
  "mergeConfig e config currentParsedConfig serverVersion =
     (case config of
        None \<Rightarrow> currentParsedConfig
      | Some text \<Rightarrow>
          let parsedConfig = env_ParseJSON e text;
              parsedConfig =
                (if has_prefix serverVersion ''4'' \<and> env_Path e parsedConfig ''jvm-options'' \<noteq> None
                 then env_DeleteP e (env_SetP e parsedConfig (gabs_Data (env_Path e parsedConfig ''jvm-options''))
                        ''jvm-server-options'') ''jvm-options''
                 else parsedConfig)
          in env_MergeFn e currentParsedConfig parsedConfig (\<lambda>dest source. source))"

definition parseConfig :: "env \<Rightarrow> jval \<Rightarrow> gabs" where
  "parseConfig e config = env_ParseJSON e (env_marshalConfig e config)"

text \<open>The default configuration, section by section; a value is set unless the configuration has one.\<close>

definition default_config :: "CassandraCluster \<Rightarrow> resource_requirements \<Rightarrow> (string \<times> (string \<times> jval) list) list" where
  "default_config cc resources =
     [(''cassandra-yaml'',
         [(''read_request_timeout_in_ms'', JInt 5000), (''write_request_timeout_in_ms'', JInt 5000),
          (''counter_write_request_timeout_in_ms'', JInt 5000)]),
      (''logback-xml'', [(''debuglog-enabled'', JBool False)]),
      (jvmOptionName cc,
         [(''initial_heap_size'', JString (initialHeapSize (defineJvmMemory resources))),
          (''max_heap_size'', JString (maxHeapSize (defineJvmMemory resources))),
          (''cassandra_ring_delay_ms'', JInt 30000),
          (''jmx-connection-type'', JString ''remote-no-auth'')])]"

definition in_map_order :: "env \<Rightarrow> (string \<times> 'a) list \<Rightarrow> (string \<times> 'a) list" where
  "in_map_order e m = map (\<lambda>key. (key, the (map_of m key))) (env_mapOrder e (map fst m))"

definition set_defaults :: "env \<Rightarrow> (string \<times> (string \<times> jval) list) list \<Rightarrow> gabs \<Rightarrow> gabs" where
  "set_defaults e defaultConfig parsedConfig =
     foldl (\<lambda>g (key, value).
         foldl (\<lambda>g (subkey, subvalue).
             let keyPath = key @ ''.'' @ subkey in
             if gabs_Data (env_Path e g keyPath) = JNull then env_SetP e g subvalue keyPath else g)
           g (in_map_order e value))
       parsedConfig (in_map_order e defaultConfig)"

definition initContainerEnvVar ::
  "env \<Rightarrow> CassandraCluster \<Rightarrow> CassandraClusterStatus \<Rightarrow> resource_requirements \<Rightarrow> string \<Rightarrow> env_var list option" where
  "initContainerEnvVar e cc status resources dcRackName =
     (let serverVersion = server_version (cc_Spec cc) in
      do { dcName \<leftarrow> GetDCNameFromDCRackName dcRackName;
           let config = parseConfig e (JMap
             [(''cluster-info'', JMap [(''name'', JString (cc_Name cc)),
                 (''seeds'', JString (SeedList (cs_SeedList status)))]),
              (''datacenter-info'', JMap [(''name'', JString dcName)])]) in
           do { dcp \<leftarrow> GetDCFromDCRackName cc dcRackName;
                rackp \<leftarrow> GetRackFromDCRackName cc dcRackName;
                dc \<leftarrow> dcp;
                rack \<leftarrow> rackp;
                let config = mergeConfig e (spec_Config (cc_Spec cc)) config serverVersion;
                    config = mergeConfig e (dc_Config dc) config serverVersion;
                    config = mergeConfig e (rack_Config rack) config serverVersion;
                    config = set_defaults e (default_config cc resources) config in
                Some [plain_env ''CONFIG_FILE_DATA'' (env_gabsString e config),
                      plain_env ''CONFIG_OUTPUT_DIRECTORY'' ''/bootstrap'',
                      field_env ''RACK_NAME'' ''metadata.labels['cassandraclusters.db.orange.com.rack']'',
                      plain_env ''PRODUCT_NAME'' (server_type (cc_Spec cc)),
                      plain_env ''PRODUCT_VERSION'' serverVersion,
                      field_env ''POD_IP'' ''status.podIP'', field_env ''HOST_IP'' ''status.hostIP''] } })"

definition format_bool :: "bool \<Rightarrow> string" where
  "format_bool b = (if b then ''true'' else ''false'')"

definition generateJMXConfiguration :: "JMXConfiguration \<Rightarrow> env_var" where
  "generateJMXConfiguration jmxConf =
     (let flag = (\<lambda>prefix b. case b of None \<Rightarrow> '''' | Some b \<Rightarrow> prefix @ format_bool b @ '' '');
          port = (\<lambda>prefix p. if p \<noteq> 0 then prefix @ itoa p @ '' '' else '''') in
      plain_env ''JVM_OPTS''
        (flag ''-Dcom.sun.management.jmxremote='' (jmx_JMXRemote jmxConf) @
         flag ''-Dcom.sun.management.jmxremote.ssl='' (jmx_JXMRemoteSSL jmxConf) @
         flag ''-Dcom.sun.management.jmxremote.authenticate='' (jmx_JMXRemoteAuthenticate jmxConf) @
         port ''-Dcom.sun.management.jmxremote.port='' (jmx_JMXRemotePort jmxConf) @
         port ''-Dcom.sun.management.jmxremote.rmi.port='' (jmx_JMXRemoteRmiPort jmxConf)))"

section \<open>Containers\<close>

definition zero_container :: "string \<Rightarrow> container" where
  "zero_container name = \<lparr>c_Name = name, c_Image = '''', c_ImagePullPolicy = '''', c_Command = [], c_Args = [],
     c_Env = [], c_Resources = no_resources, c_VolumeMounts = [], c_Ports = [], c_SecurityContext = None,
     c_ReadinessProbe = None, c_LivenessProbe = None\<rparr>"

definition bootstrapContainerName :: string where "bootstrapContainerName = ''bootstrap''"

definition createInitConfigContainer ::
  "env \<Rightarrow> CassandraCluster \<Rightarrow> CassandraClusterStatus \<Rightarrow> string \<Rightarrow> container option" where
  "createInitConfigContainer e cc status dcRackName =
     do { vars \<leftarrow> initContainerEnvVar e cc status (spec_Resources (cc_Spec cc)) dcRackName;
          resources \<leftarrow> initContainerResources e;
          Some ((zero_container ''config-builder'')\<lparr>
            c_Image := spec_ConfigBuilderImage (cc_Spec cc), c_ImagePullPolicy := spec_ImagePullPolicy (cc_Spec cc),
            c_Env := vars, c_VolumeMounts := generateContainerVolumeMount cc initContainer,
            c_Resources := resources\<rparr>) }"

definition createBaseConfigBuilderContainer :: "env \<Rightarrow> CassandraCluster \<Rightarrow> container option" where
  "createBaseConfigBuilderContainer e cc =
     do { resources \<leftarrow> initContainerResources e;
          Some ((zero_container ''base-config-builder'')\<lparr>
            c_Image := spec_CassandraImage (cc_Spec cc), c_ImagePullPolicy := spec_ImagePullPolicy (cc_Spec cc),
            c_Command := [''/bin/sh''], c_Args := [''-c'', ''cp -r /etc/cassandra/* /bootstrap/''],
            c_VolumeMounts := generateContainerVolumeMount cc initContainer, c_Resources := resources\<rparr>) }"

definition createCassandraBootstrapContainer ::
  "env \<Rightarrow> CassandraCluster \<Rightarrow> CassandraClusterStatus \<Rightarrow> container option" where
  "createCassandraBootstrapContainer e cc status =
     do { resources \<leftarrow> initContainerResources e;
          Some ((zero_container bootstrapContainerName)\<lparr>
            c_Image := spec_BootstrapImage (cc_Spec cc), c_ImagePullPolicy := spec_ImagePullPolicy (cc_Spec cc),
            c_Env := bootstrapContainerEnvVar cc status,
            c_VolumeMounts := generateContainerVolumeMount cc bootstrapContainer, c_Resources := resources\<rparr>) }"

definition getPos :: "volume_mount list \<Rightarrow> string \<Rightarrow> int" where
  "getPos s v = (case find (\<lambda>i. vm_Name (s ! i) = v) [0..<length s] of None \<Rightarrow> -1 | Some i \<Rightarrow> int i)"

text \<open>The probes of the cassandra container; a threshold that is not given is 0.\<close>

definition exec_probe ::
  "int option \<Rightarrow> int option \<Rightarrow> int option \<Rightarrow> int option \<Rightarrow> int option \<Rightarrow> string \<Rightarrow> probe option" where
  "exec_probe initialDelay timeout period failureThreshold successThreshold script =
     do { initialDelay \<leftarrow> initialDelay; timeout \<leftarrow> timeout; period \<leftarrow> period;
          Some \<lparr>pr_InitialDelaySeconds = initialDelay, pr_TimeoutSeconds = timeout, pr_PeriodSeconds = period,
                 pr_SuccessThreshold = (case successThreshold of None \<Rightarrow> 0 | Some n \<Rightarrow> n),
                 pr_FailureThreshold = (case failureThreshold of None \<Rightarrow> 0 | Some n \<Rightarrow> n),
                 pr_Handler = ExecAction [''/bin/bash'', ''-c'', script]\<rparr> }"

definition tcp_port :: "string \<Rightarrow> int \<Rightarrow> container_port" where
  "tcp_port name p = \<lparr>cp_Name = name, cp_ContainerPort = p, cp_Protocol = ''TCP''\<rparr>"

definition cassandra_env :: "CassandraCluster \<Rightarrow> env_var list" where
  "cassandra_env cc =
     commonBootstrapCassandraEnvVar cc @ [plain_env ''JAVA_TOOL_OPTIONS'' ''-Dcom.sun.jndi.rmiURLParsing=legacy''] @
     (case spec_JMXConfiguration (cc_Spec cc) of
        None \<Rightarrow> []
      | Some jmx \<Rightarrow> let v = generateJMXConfiguration jmx in if env_Value v \<noteq> '''' then [v] else [])"

definition cassandra_container :: "CassandraCluster \<Rightarrow> DC \<Rightarrow> probe \<Rightarrow> probe \<Rightarrow> container" where
  "cassandra_container cc dc readiness liveness =
     (let spec = cc_Spec cc in
      \<lparr>c_Name = CassandraContainerName, c_Image = spec_CassandraImage spec,
       c_ImagePullPolicy = spec_ImagePullPolicy spec,
       c_Command = (if spec_Debug spec then [''sh'', ''-c'', ''tail -f /dev/null''] else [''cassandra'', ''-f'']),
       c_Args = [], c_Env = cassandra_env cc,
       c_Resources = (if res_Limits (dc_Resources dc) = None \<and> res_Requests (dc_Resources dc) = None
                      then spec_Resources spec else dc_Resources dc),
       c_VolumeMounts = generateContainerVolumeMount cc cassandraContainer @ generateStorageConfigVolumesMount cc,
       c_Ports = [tcp_port cassandraIntraNodeName cassandraIntraNodePort,
                  tcp_port cassandraIntraNodeTLSName cassandraIntraNodeTLSPort,
                  tcp_port cassandraJMXName cassandraJMX, tcp_port cassandraPortName cassandraPort,
                  tcp_port exporterCassandraJmxPortName exporterCassandraJmxPort,
                  tcp_port JolokiaPortName JolokiaPort],
       c_SecurityContext = Some \<lparr>sec_Add = [''IPC_LOCK''], sec_ProcMount = Some ''Default'',
          sec_ReadOnlyRootFilesystem = spec_ReadOnlyRootFilesystem spec\<rparr>,
       c_ReadinessProbe = Some readiness, c_LivenessProbe = Some liveness\<rparr>)"

definition createCassandraContainer :: "CassandraCluster \<Rightarrow> string \<Rightarrow> container option" where
  "createCassandraContainer cc dcRackName =
     (let spec = cc_Spec cc in
      do { dcp \<leftarrow> GetDCFromDCRackName cc dcRackName;
           dc \<leftarrow> dcp;
           readiness \<leftarrow> exec_probe (spec_ReadinessInitialDelaySeconds spec) (spec_ReadinessHealthCheckTimeout spec)
             (spec_ReadinessHealthCheckPeriod spec) (spec_ReadinessFailureThreshold spec)
             (spec_ReadinessSuccessThreshold spec) ''/etc/cassandra/readiness-probe.sh'';
           liveness \<leftarrow> exec_probe (spec_LivenessInitialDelaySeconds spec) (spec_LivenessHealthCheckTimeout spec)
             (spec_LivenessHealthCheckPeriod spec) (spec_LivenessFailureThreshold spec)
             (spec_LivenessSuccessThreshold spec) ''/etc/cassandra/liveness-probe.sh'';
           Some (cassandra_container cc dc readiness liveness) })"

definition defaultBackRestPort :: int where "defaultBackRestPort = 4567"

text \<open>
  The copy of the readiness probe that becomes livenessProbe in the code is never stored in the
  container, which has no liveness probe.
\<close>

definition backrestSidecarContainer :: "env \<Rightarrow> CassandraCluster \<Rightarrow> container option" where
  "backrestSidecarContainer e cc =
     do { sidecar \<leftarrow> spec_BackRestSidecar (cc_Spec cc);
          let resources = generateResourceList e ''0.5'' ''1Gi'';
              readinessProbe = \<lparr>pr_InitialDelaySeconds = 10, pr_TimeoutSeconds = 5, pr_PeriodSeconds = 10,
                pr_SuccessThreshold = 0, pr_FailureThreshold = 10,
                pr_Handler = HTTPGetAction defaultBackRestPort ''/status''\<rparr> in
          Some \<lparr>c_Name = ''backrest-sidecar'', c_Image = br_Image sidecar, c_ImagePullPolicy = br_ImagePullPolicy sidecar,
            c_Command = [], c_Args = [], c_Env = [],
            c_Resources = (case br_Resources sidecar of
               None \<Rightarrow> \<lparr>res_Limits = Some resources, res_Requests = Some resources\<rparr> | Some r \<Rightarrow> r),
            c_VolumeMounts = br_VolumeMounts sidecar @ generateContainerVolumeMount cc backrestContainer,
            c_Ports = [\<lparr>cp_Name = ''http'', cp_ContainerPort = defaultBackRestPort, cp_Protocol = ''''\<rparr>],
            c_SecurityContext = None, c_ReadinessProbe = Some readinessProbe, c_LivenessProbe = None\<rparr> }"

definition generateContainers :: "env \<Rightarrow> CassandraCluster \<Rightarrow> string \<Rightarrow> container list option" where
  "generateContainers e cc dcRackName =
     do { c \<leftarrow> createCassandraContainer cc dcRackName;
          sidecar \<leftarrow> spec_BackRestSidecar (cc_Spec cc);
          if br_Enabled sidecar = None \<or> br_Enabled sidecar = Some True
          then do { b \<leftarrow> backrestSidecarContainer e cc; Some (spec_SidecarConfigs (cc_Spec cc) @ [c, b]) }
          else Some (spec_SidecarConfigs (cc_Spec cc) @ [c]) }"

section \<open>The statefulset\<close>

definition addBootstrapContainerEnvVarsToSidecars :: "env_var list \<Rightarrow> container list \<Rightarrow> container list" where
  "addBootstrapContainerEnvVarsToSidecars bootstrapEnv containers =
     map (\<lambda>c. if c_Name c \<noteq> CassandraContainerName then c\<lparr>c_Env := c_Env c @ bootstrapEnv\<rparr> else c) containers"

definition SetLastAppliedAnnotation :: "env \<Rightarrow> stateful_set \<Rightarrow> stateful_set" where
  "SetLastAppliedAnnotation e ss =
     (case env_modifiedSts e ss of
        Inl _ \<Rightarrow> ss
      | Inr text \<Rightarrow> ss\<lparr>sts_Meta := (sts_Meta ss)\<lparr>meta_Annotations :=
          (meta_Annotations (sts_Meta ss))(LastAppliedConfig \<mapsto> text)\<rparr>\<rparr>)"

definition cassandra_template ::
  "CassandraCluster \<Rightarrow> labels \<Rightarrow> labels \<Rightarrow> container list \<Rightarrow> container list \<Rightarrow> volume slice \<Rightarrow> pod_template" where
  "cassandra_template cc labels nodeSelector initContainers containers volumes =
     (let spec = cc_Spec cc in
      \<lparr>pt_Labels = labels,
       pt_Annotations = (case spec_Pod spec of None \<Rightarrow> Map.empty | Some p \<Rightarrow> pp_Annotations p),
       pt_InitContainers = initContainers, pt_Containers = containers, pt_Volumes = volumes,
       pt_SchedulerName = '''', pt_DNSPolicy = '''',
       pt_NodeAffinity = Some (createNodeAffinity nodeSelector),
       pt_PodAntiAffinity = Some (createPodAntiAffinity (spec_HardAntiAffinity spec) (LabelsForCassandra cc)),
       pt_Tolerations = (case spec_Pod spec of None \<Rightarrow> [] | Some p \<Rightarrow> pp_Tolerations p),
       pt_SecurityContext = Some \<lparr>psec_RunAsUser = Some (spec_RunAsUser spec), psec_RunAsNonRoot = Some True,
          psec_FSGroup = Some (spec_FSGroup spec)\<rparr>,
       pt_RestartPolicy = ''Always'',
       pt_TerminationGracePeriodSeconds = Some DefaultTerminationGracePeriodSeconds,
       pt_ShareProcessNamespace = spec_ShareProcessNamespace spec,
       pt_ServiceAccountName = spec_ServiceAccountName spec,
       pt_ImagePullSecrets = (if spec_ImagePullSecret spec \<noteq> '''' then [spec_ImagePullSecret spec] else [])\<rparr>)"

text \<open>
  The owner references that the code adds to the claim templates are added to the copies of a loop
  variable; the templates keep none.
\<close>

definition generateCassandraStatefulSet ::
  "env \<Rightarrow> CassandraCluster \<Rightarrow> CassandraClusterStatus \<Rightarrow> string \<Rightarrow> string \<Rightarrow> labels \<Rightarrow> labels \<Rightarrow>
     owner_reference list \<Rightarrow> (error + stateful_set) option" where
  "generateCassandraStatefulSet e cc status dcName dcRackName labels nodeSelector ownerRefs =
     (case generateVolumeClaimTemplate e cc labels dcName of
        Inl err \<Rightarrow> Some (Inl err)
      | Inr volumeClaimTemplate \<Rightarrow>
          do { containers \<leftarrow> generateContainers e cc dcRackName;
               let (containers, volumes) = RemoveDuplicateVolumesAndVolumeMounts e containers volumeClaimTemplate
                     (generateCassandraVolumes cc) in
               do { baseConfig \<leftarrow> createBaseConfigBuilderContainer e cc;
                    initConfig \<leftarrow> createInitConfigContainer e cc status dcRackName;
                    bootstrap \<leftarrow> createCassandraBootstrapContainer e cc status;
                    let containers = addBootstrapContainerEnvVarsToSidecars (c_Env bootstrap) containers in
                    Some (Inr (SetLastAppliedAnnotation e
                      \<lparr>sts_Meta = (named_meta (cc_Namespace cc) (cc_Name cc @ ''-'' @ dcRackName))\<lparr>
                          meta_Labels := labels, meta_OwnerReferences := ownerRefs\<rparr>,
                       sts_Replicas = Some (GetNodesPerRacks cc dcRackName),
                       sts_ServiceName = cc_Name cc, sts_UpdateStrategy = ''RollingUpdate'',
                       sts_Partition = Some (GetRollingPartitionPerRacks cc dcRackName),
                       sts_MatchLabels = labels,
                       sts_Template = cassandra_template cc labels nodeSelector
                         [baseConfig, initConfig, bootstrap] containers volumes,
                       sts_VolumeClaimTemplates = volumeClaimTemplate, sts_Status = zero_sts_status\<rparr>)) } })"

end
