(* ===== verification/Statefulset.thy ===== *)
theory Statefulset
  imports Generator
begin

text \<open>
  Applying the wanted objects: src/controllers/cassandracluster/statefulset.go,
  poddisruptionbudget.go and deploy_cassandra.go.  CreateOrUpdateStatefulSet works on the statefulset
  the generator built; what it changes there before the update is threaded through the definition.
\<close>

section \<open>Pod disruption budget\<close>

definition GetPodDisruptionBudget :: "env \<Rightarrow> string \<Rightarrow> string \<Rightarrow> rstate \<Rightarrow> (error + pdb) \<times> rstate" where
  "GetPodDisruptionBudget e ns name st =
     (env_getPdb e (st_trace st) ns name, call (GetReq KPdb ns name) st)"

definition CreatePodDisruptionBudget :: "env \<Rightarrow> pdb \<Rightarrow> rstate \<Rightarrow> error option \<times> rstate" where
  "CreatePodDisruptionBudget e p st =
     (map_option (\<lambda>err. if err \<noteq> AlreadyExists then Errorf ''PodDisruptionBudget already exists''
                        else Errorf ''failed to create cassandra PodDisruptionBudget'')
        (env_write e (st_trace st) (CreatePdbReq p)),
      call (CreatePdbReq p) st)"

definition DeletePodDisruptionBudget :: "env \<Rightarrow> pdb \<Rightarrow> rstate \<Rightarrow> error option \<times> rstate" where
  "DeletePodDisruptionBudget e p st =
     (map_option (\<lambda>err. Errorf ''failed to delete cassandra PodDisruptionBudget'')
        (env_write e (st_trace st) (DeletePdbReq p)),
      call (DeletePdbReq p) st)"

definition UpdatePodDisruptionBudget :: "env \<Rightarrow> pdb \<Rightarrow> rstate \<Rightarrow> error option \<times> rstate" where
  "UpdatePodDisruptionBudget e p st =
     (map_option (\<lambda>err. if err \<noteq> AlreadyExists then Errorf ''PodDisruptionBudget already exists''
                        else Errorf ''failed to update cassandra PodDisruptionBudget'')
        (env_write e (st_trace st) (UpdatePdbReq p)),
      call (UpdatePdbReq p) st)"

text \<open>A failed Get leaves an object that holds its name only.\<close>

definition CreateOrUpdatePodDisruptionBudget :: "env \<Rightarrow> pdb \<Rightarrow> rstate \<Rightarrow> (error option \<times> rstate) option" where
  "CreateOrUpdatePodDisruptionBudget e p st =
     (let ns = meta_Namespace (pdb_Meta p); name = meta_Name (pdb_Meta p);
          (r, st) = GetPodDisruptionBudget e ns name st;
          st = st\<lparr>st_storedPdb := (case r of Inl _ \<Rightarrow> bare_pdb ns name | Inr stored \<Rightarrow> stored)\<rparr> in
      case r of
        Inl err \<Rightarrow> Some (if err = NotFound then CreatePodDisruptionBudget e p st else (Some err, st))
      | Inr stored \<Rightarrow>
          do { old \<leftarrow> pdb_MaxUnavailable stored;
               new \<leftarrow> pdb_MaxUnavailable p;
               Some (if old \<noteq> new
                     then CreatePodDisruptionBudget e p (snd (DeletePodDisruptionBudget e p st))
                     else (None, st)) })"

definition podDisruptionBudgetEnvelope :: "CassandraCluster \<Rightarrow> pdb" where
  "podDisruptionBudgetEnvelope cc =
     generatePodDisruptionBudget (cc_Name cc) (cc_Namespace cc) (LabelsForCassandra cc) (AsOwner cc)
       (spec_MaxPodUnavailable (cc_Spec cc))"

definition ensureCassandraPodDisruptionBudget :: "env \<Rightarrow> rstate \<Rightarrow> (error option \<times> rstate) option" where
  "ensureCassandraPodDisruptionBudget e st =
     CreateOrUpdatePodDisruptionBudget e (podDisruptionBudgetEnvelope (st_cc st)) st"

section \<open>Services\<close>

definition create_service :: "env \<Rightarrow> string \<Rightarrow> service \<Rightarrow> rstate \<Rightarrow> error option \<times> rstate" where
  "create_service e msg svc st =
     (case env_write e (st_trace st) (CreateSvcReq svc) of
        None \<Rightarrow> None
      | Some err \<Rightarrow> if err = AlreadyExists then None else Some (Errorf msg),
      call (CreateSvcReq svc) st)"

definition owned_service :: "CassandraCluster \<Rightarrow> service \<Rightarrow> service" where
  "owned_service cc svc = svc\<lparr>svc_Meta := AddOwnerRefToObject (svc_Meta svc) (AsOwner cc)\<rparr>"

definition ensureCassandraService :: "env \<Rightarrow> rstate \<Rightarrow> error option \<times> rstate" where
  "ensureCassandraService e st =
     create_service e ''failed to create cassandra service''
       (owned_service (st_cc st) (generateCassandraService (st_cc st) (LabelsForCassandra (st_cc st)) [])) st"

definition ensureCassandraServiceMonitoring :: "env \<Rightarrow> rstate \<Rightarrow> error option \<times> rstate" where
  "ensureCassandraServiceMonitoring e st =
     create_service e ''failed to create cassandra service Monitoring''
       (owned_service (st_cc st) (generateCassandraExporterService (st_cc st) (LabelsForCassandra (st_cc st)) [])) st"

section \<open>Comparing statefulsets\<close>

definition sortPVCs :: "pvc list \<Rightarrow> pvc list" where
  "sortPVCs = sort_key (\<lambda>p. meta_Name (pvc_Meta p))"

definition sortContainers :: "container list \<Rightarrow> container list" where
  "sortContainers = sort_key c_Name"

text \<open>
  Both arguments are copies.  The scheduler and the DNS policy of the first come from the second, and
  the claim templates of the second get the type, the status and, where they have none, the volume
  mode of the first, before the patch between the two is computed.
\<close>

definition align_claim :: "pvc \<Rightarrow> pvc \<Rightarrow> pvc" where
  "align_claim p1 p2 = p2\<lparr>pvc_TypeMeta := pvc_TypeMeta p1, pvc_StatusCapacity := pvc_StatusCapacity p1,
     pvc_Spec := (if pvcs_VolumeMode (pvc_Spec p2) = None
                  then (pvc_Spec p2)\<lparr>pvcs_VolumeMode := pvcs_VolumeMode (pvc_Spec p1)\<rparr> else pvc_Spec p2)\<rparr>"

definition statefulSetsAreEqual :: "env \<Rightarrow> stateful_set \<Rightarrow> stateful_set \<Rightarrow> bool" where
  "statefulSetsAreEqual e sts1 sts2 =
     (let t1 = (sts_Template sts1)\<lparr>pt_SchedulerName := pt_SchedulerName (sts_Template sts2),
                                    pt_DNSPolicy := pt_DNSPolicy (sts_Template sts2)\<rparr>;
          t2 = sts_Template sts2 in
      if length (pt_Containers t1) \<noteq> length (pt_Containers t2) then False
      else if length (sts_VolumeClaimTemplates sts1) \<noteq> length (sts_VolumeClaimTemplates sts2) then False
      else
        let pvcs1 = sortPVCs (sts_VolumeClaimTemplates sts1);
            pvcs2 = map2 align_claim pvcs1 (sortPVCs (sts_VolumeClaimTemplates sts2)) in
        env_patchIsEmpty e
          (sts1\<lparr>sts_Template := t1\<lparr>pt_Containers := sortContainers (pt_Containers t1)\<rparr>,
                sts_VolumeClaimTemplates := pvcs1\<rparr>)
          (sts2\<lparr>sts_Template := t2\<lparr>pt_Containers := sortContainers (pt_Containers t2)\<rparr>,
                sts_VolumeClaimTemplates := pvcs2,
                sts_Status := (sts_Status sts2)\<lparr>ss_Replicas := ss_Replicas (sts_Status sts1)\<rparr>\<rparr>))"

section \<open>Updating\<close>

text \<open>
  After the update the new revision is awaited: the statefulset is read once per second for 5 seconds,
  until its resource version is another one than before.  A read that fails ends the wait, and a
  statefulset that is not found has the empty version.  The outcome of the wait is only logged.
\<close>

fun poll_revision :: "env \<Rightarrow> nat \<Rightarrow> string \<Rightarrow> string \<Rightarrow> string \<Rightarrow> rstate \<Rightarrow> rstate" where
  "poll_revision e 0 ns name revision st = st"
| "poll_revision e (Suc n) ns name revision st =
     (let (r, st) = GetStatefulSet e ns name st in
      case r of
        Inl err \<Rightarrow> if err \<noteq> NotFound \<or> revision \<noteq> '''' then st else poll_revision e n ns name revision st
      | Inr newSts \<Rightarrow> if revision \<noteq> meta_ResourceVersion (sts_Meta newSts) then st
                        else poll_revision e n ns name revision st)"

definition UpdateStatefulSet :: "env \<Rightarrow> stateful_set \<Rightarrow> rstate \<Rightarrow> error option \<times> rstate" where
  "UpdateStatefulSet e ss st =
     (let err = env_write e (st_trace st) (UpdateStsReq ss);
          st = call (UpdateStsReq ss) st;
          m = sts_Meta ss in
      case err of
        Some err \<Rightarrow> (Some (if err \<noteq> AlreadyExists then Errorf ''statefulset already exists''
                            else Errorf ''failed to update cassandra statefulset''), st)
      | None \<Rightarrow> (None, poll_revision e 5 (meta_Namespace m) (meta_Name m) (meta_ResourceVersion m) st))"

text \<open>
  The seed list of the stored statefulset is put back into the bootstrap container of the new one.
  The container is a copy whose environment slice is shared with the statefulset, so the assignment
  reaches it.
\<close>

definition old_seed_value :: "env_var list \<Rightarrow> env_var \<Rightarrow> string" where
  "old_seed_value oldEnv v =
     foldl (\<lambda>new old. if env_Name old = ''CASSANDRA_SEEDS'' \<and> env_Value v \<noteq> env_Value old
                      then env_Value old else new) (env_Value v) oldEnv"

fun keep_seeds :: "env_var list option \<Rightarrow> env_var list \<Rightarrow> env_var list option" where
  "keep_seeds oldEnv [] = Some []"
| "keep_seeds oldEnv (v # vs) =
     (if env_Name v = ''CASSANDRA_SEEDS''
      then do { old \<leftarrow> oldEnv; rest \<leftarrow> keep_seeds oldEnv vs;
                Some (v\<lparr>env_Value := old_seed_value old v\<rparr> # rest) }
      else do { rest \<leftarrow> keep_seeds oldEnv vs; Some (v # rest) })"

fun set_bootstrap_env :: "env_var list \<Rightarrow> container list \<Rightarrow> container list" where
  "set_bootstrap_env vars [] = []"
| "set_bootstrap_env vars (c # cs) =
     (if c_Name c = ''bootstrap'' then c\<lparr>c_Env := vars\<rparr> # cs else c # set_bootstrap_env vars cs)"

definition restore_seeds :: "stateful_set \<Rightarrow> stateful_set \<Rightarrow> stateful_set option" where
  "restore_seeds stored ss =
     do { c \<leftarrow> getBootstrapContainerFromStatefulset ss;
          vars \<leftarrow> keep_seeds (map_option c_Env (getBootstrapContainerFromStatefulset stored)) (c_Env c);
          Some (ss\<lparr>sts_Template := (sts_Template ss)\<lparr>pt_InitContainers :=
            set_bootstrap_env vars (pt_InitContainers (sts_Template ss))\<rparr>\<rparr>) }"

text \<open>Scaling by one node at a time; the difference is one of 32 bit integers.\<close>

definition one_node_at_a_time :: "stateful_set \<Rightarrow> stateful_set \<Rightarrow> stateful_set option" where
  "one_node_at_a_time stored ss =
     do { wanted \<leftarrow> sts_Replicas ss;
          current \<leftarrow> sts_Replicas stored;
          let diff = int32 (wanted - current) in
          Some (if \<bar>diff\<bar> > 1
                then ss\<lparr>sts_Replicas := Some (int32 (current + (if diff < 0 then -1 else 1)))\<rparr>
                else ss) }"

definition begin_action :: "time \<Rightarrow> CassandraLastAction \<Rightarrow> CassandraLastAction" where
  "begin_action t la = la\<lparr>la_Status := StatusOngoing, la_StartTime := Some t\<rparr>"

text \<open>The part of CreateOrUpdateStatefulSet that prepares the new statefulset.\<close>

definition from_stored :: "stateful_set \<Rightarrow> stateful_set \<Rightarrow> stateful_set" where
  "from_stored stored ss =
     ss\<lparr>sts_Meta := (sts_Meta ss)\<lparr>meta_ResourceVersion := meta_ResourceVersion (sts_Meta stored)\<rparr>,
        sts_Template := (sts_Template ss)\<lparr>pt_Labels := pt_Labels (sts_Template stored)\<rparr>,
        sts_Status := sts_Status stored\<rparr>"

definition seed_update_due :: "CassandraRackStatus \<Rightarrow> bool" where
  "seed_update_due rs =
     (la_Name (rs_CassandraLastAction rs) = state_Name ActionUpdateSeedList \<and>
      (la_Status (rs_CassandraLastAction rs) = StatusToDo \<or>
       la_Status (rs_CassandraLastAction rs) = StatusConfiguring))"

definition update_seeds ::
  "time \<Rightarrow> string \<Rightarrow> stateful_set \<Rightarrow> stateful_set \<Rightarrow> rstate \<Rightarrow> (stateful_set \<times> rstate) option" where
  "update_seeds t r stored ss st =
     do { rs \<leftarrow> st_racks st r;
          if seed_update_due rs
          then do { st \<leftarrow> upd_action r (begin_action t) st; Some (ss, st) }
          else do { ss \<leftarrow> restore_seeds stored ss; Some (ss, st) } }"

definition mark_restart ::
  "env \<Rightarrow> time \<Rightarrow> string \<Rightarrow> stateful_set \<Rightarrow> stateful_set \<Rightarrow> rstate \<Rightarrow> (stateful_set \<times> rstate) option" where
  "mark_restart e t r stored ss st =
     do { rs \<leftarrow> st_racks st r;
          ss \<leftarrow> RevertAnyStorageUpsizeBeyondUpsizeAction rs (Some stored) ss;
          if la_Name (rs_CassandraLastAction rs) = state_Name ActionRollingRestart \<and>
             la_Status (rs_CassandraLastAction rs) = StatusToDo
          then do { st \<leftarrow> upd_action r (begin_action t) st;
                    Some (ss\<lparr>sts_Template := (sts_Template ss)\<lparr>pt_Labels := MergeLabels
                            [pt_Labels (sts_Template ss),
                             [''rolling-restart'' \<mapsto> LabelTime (env_wall e (st_trace st))]]\<rparr>\<rparr>, st) }
          else Some (ss, st) }"

definition prepare_update ::
  "env \<Rightarrow> time \<Rightarrow> string \<Rightarrow> stateful_set \<Rightarrow> stateful_set \<Rightarrow> rstate \<Rightarrow> (stateful_set \<times> rstate) option" where
  "prepare_update e t r stored ss st =
     do { (ss, st) \<leftarrow> update_seeds t r stored (from_stored stored ss) st;
          ss \<leftarrow> one_node_at_a_time stored ss;
          mark_restart e t r stored ss st }"

text \<open>The part that sends the update, unless nothing changed.\<close>

definition apply_update ::
  "env \<Rightarrow> time \<Rightarrow> string \<Rightarrow> stateful_set \<Rightarrow> stateful_set \<Rightarrow> rstate \<Rightarrow> ((bool \<times> error option) \<times> rstate) option" where
  "apply_update e t r stored ss st =
     (let check = \<not> spec_NoCheckStsAreEqual (cc_Spec (st_cc st)) in
      if check \<and> statefulSetsAreEqual e stored ss then Some ((ContinueResyncLoop, None), st)
      else do {
        rs \<leftarrow> st_racks st r;
        st \<leftarrow> (if la_Status (rs_CassandraLastAction rs) = StatusToDo
               then upd_action r (\<lambda>la. (begin_action t la)\<lparr>la_EndTime := None\<rparr>) st else Some st);
        rs \<leftarrow> st_racks st r;
        st \<leftarrow> (if check \<and> la_Status (rs_CassandraLastAction rs) = StatusDone
               then upd_action r (\<lambda>la. (begin_action t la)\<lparr>la_Name := state_Name ActionUpdateStatefulSet,
                                                              la_EndTime := None\<rparr>) st else Some st);
        let (err, st) = UpdateStatefulSet e ss st in Some ((BreakResyncLoop, err), st) })"

definition CreateOrUpdateStatefulSet ::
  "env \<Rightarrow> stateful_set \<Rightarrow> string \<Rightarrow> rstate \<Rightarrow> ((bool \<times> error option) \<times> rstate) option" where
  "CreateOrUpdateStatefulSet e ss r st =
     (if \<not> hasNoPodDisruption st \<and> \<not> spec_UnlockNextOperation (cc_Spec (st_cc st))
      then Some ((ContinueResyncLoop, None), st)
      else
        let t = now e st;
            ns = meta_Namespace (sts_Meta ss); name = meta_Name (sts_Meta ss);
            (res, st) = GetStatefulSet e ns name st;
            st = st\<lparr>st_storedStatefulSet := Some (case res of Inl _ \<Rightarrow> bare_sts ns name | Inr stored \<Rightarrow> stored)\<rparr> in
        case res of
          Inl err \<Rightarrow>
            if err = NotFound
            then let (err, st) = CreateStatefulSet e ss st in Some ((BreakResyncLoop, err), st)
            else Some ((ContinueResyncLoop, Some err), st)
        | Inr stored \<Rightarrow>
            do { (ss, st) \<leftarrow> prepare_update e t r stored ss st;
                 apply_update e t r stored ss st })"

definition ensureCassandraStatefulSet ::
  "env \<Rightarrow> CompleteRackName \<Rightarrow> nat \<Rightarrow> nat \<Rightarrow> rstate \<Rightarrow> ((bool \<times> error option) \<times> rstate) option" where
  "ensureCassandraStatefulSet e crn dc rack st =
     (let (labels, nodeSelector) = DCRackLabelsAndNodeSelectorForStatefulSet (st_cc st) dc rack in
      do { g \<leftarrow> generateCassandraStatefulSet e (st_cc st) (st_status st) (crn_DcName crn) (crn_DcRackName crn)
             labels nodeSelector [];
           case g of
             Inl err \<Rightarrow> Some ((True, Some err), st)
           | Inr ss \<Rightarrow>
               do { ((brk, err), st) \<leftarrow> CreateOrUpdateStatefulSet e
                      (ss\<lparr>sts_Meta := AddOwnerRefToObject (sts_Meta ss) (AsOwner (st_cc st))\<rparr>)
                      (crn_DcRackName crn) st;
                    Some ((brk, if err \<noteq> None \<and> err \<noteq> Some AlreadyExists
                                then Some (Errorf ''failed to create cassandra statefulset'') else None), st) } })"

section \<open>What an update contains\<close>

lemma Revert_frame:
  "RevertAnyStorageUpsizeBeyondUpsizeAction rs living ss = Some ss' \<Longrightarrow>
     sts_Replicas ss' = sts_Replicas ss \<and> sts_Template ss' = sts_Template ss \<and> sts_Meta ss' = sts_Meta ss"
  by (auto simp: RevertAnyStorageUpsizeBeyondUpsizeAction_def Let_def
      split: if_split_asm Option.bind_split_asm prod.split_asm)

lemma prepare_update_cases:
  assumes "prepare_update e t r stored ss st = Some (ss', st')"
  obtains rs ss1 ss2 where "st_racks st r = Some rs"
    "(if seed_update_due rs then Some (from_stored stored ss) else restore_seeds stored (from_stored stored ss)) = Some ss1"
    "one_node_at_a_time stored ss1 = Some ss2"
    "sts_Replicas ss' = sts_Replicas ss2" "sts_Meta ss' = sts_Meta ss2"
    "pt_InitContainers (sts_Template ss') = pt_InitContainers (sts_Template ss2)"
    "pt_Containers (sts_Template ss') = pt_Containers (sts_Template ss2)"
proof -
  from assms obtain rs ss1 st1 ss2 where rs: "st_racks st r = Some rs"
    and 1: "(if seed_update_due rs then Some (from_stored stored ss) else restore_seeds stored (from_stored stored ss)) = Some ss1"
    and 2: "one_node_at_a_time stored ss1 = Some ss2" "mark_restart e t r stored ss2 st1 = Some (ss', st')"
    by (auto simp: prepare_update_def update_seeds_def split: if_split_asm Option.bind_split_asm)
  from 2(2) have "sts_Replicas ss' = sts_Replicas ss2 \<and> sts_Meta ss' = sts_Meta ss2 \<and>
      pt_InitContainers (sts_Template ss') = pt_InitContainers (sts_Template ss2) \<and>
      pt_Containers (sts_Template ss') = pt_Containers (sts_Template ss2)"
    by (auto simp: mark_restart_def dest!: Revert_frame split: if_split_asm Option.bind_split_asm)
  then show thesis by (intro that [OF rs 1 2(1)]) auto
qed

text \<open>The statefulset of an update is the prepared one.\<close>

lemma poll_revision_trace:
  "\<exists>qs. st_trace (poll_revision e n ns name v st) = st_trace st @ qs \<and> set qs \<subseteq> {GetReq KStatefulSet ns name}"
proof (induction n arbitrary: st)
  case (Suc n)
  let ?st = "call (GetReq KStatefulSet ns name) st"
  have "poll_revision e (Suc n) ns name v st = ?st \<or>
      poll_revision e (Suc n) ns name v st = poll_revision e n ns name v ?st"
    by (auto simp: GetStatefulSet_def split: sum.split)
  then show ?case using Suc [of ?st] by (elim disjE) (auto simp del: poll_revision.simps)
qed simp

lemma UpdateStatefulSet_requests:
  assumes "UpdateStatefulSet e ss st = (err, st')"
  shows "\<exists>qs. st_trace st' = st_trace st @ UpdateStsReq ss # qs \<and>
    set qs \<subseteq> {GetReq KStatefulSet (meta_Namespace (sts_Meta ss)) (meta_Name (sts_Meta ss))}"
proof (cases "env_write e (st_trace st) (UpdateStsReq ss)")
  case None
  with assms have "st' = poll_revision e 5 (meta_Namespace (sts_Meta ss)) (meta_Name (sts_Meta ss))
      (meta_ResourceVersion (sts_Meta ss)) (call (UpdateStsReq ss) st)"
    by (auto simp: UpdateStatefulSet_def Let_def)
  then show ?thesis using poll_revision_trace [where st = "call (UpdateStsReq ss) st"] by fastforce
next
  case (Some x)
  with assms show ?thesis by (auto simp: UpdateStatefulSet_def Let_def)
qed

lemma prepare_update_same_trace: "prepare_update e t r stored ss st = Some (ss', st') \<Longrightarrow> st_trace st' = st_trace st"
  by (auto simp: prepare_update_def update_seeds_def mark_restart_def upd_rack_def
      split: Option.bind_split_asm if_split_asm)

lemma apply_update_requests:
  "apply_update e t r stored ss st = Some (x, st') \<Longrightarrow> st' = st \<or>
     (\<exists>qs ns n. st_trace st' = st_trace st @ UpdateStsReq ss # qs \<and> set qs \<subseteq> {GetReq KStatefulSet ns n})"
  by (auto simp: apply_update_def Let_def upd_rack_def dest!: UpdateStatefulSet_requests
      split: if_split_asm Option.bind_split_asm prod.split_asm)

lemma CreateOrUpdate_update:
  assumes "CreateOrUpdateStatefulSet e ss r st = Some (x, st')" and "UpdateStsReq ss' \<in> set (requests st st')"
  obtains stored t st1 st2 where
    "env_getSts e (st_trace st) (meta_Namespace (sts_Meta ss)) (meta_Name (sts_Meta ss)) = Inr stored"
    "st_racks st1 = st_racks st" "prepare_update e t r stored ss st1 = Some (ss', st2)"
proof -
  let ?ns = "meta_Namespace (sts_Meta ss)" and ?n = "meta_Name (sts_Meta ss)"
  have go: "\<not> (\<not> hasNoPodDisruption st \<and> \<not> spec_UnlockNextOperation (cc_Spec (st_cc st)))"
    using assms by (intro notI) (simp add: CreateOrUpdateStatefulSet_def)
  show thesis
  proof (cases "env_getSts e (st_trace st) ?ns ?n")
    case (Inl err)
    with assms go have "False"
      by (auto simp: CreateOrUpdateStatefulSet_def GetStatefulSet_def CreateStatefulSet_def Let_def requests_def
          split: if_split_asm)
    then show thesis ..
  next
    case (Inr stored)
    define st1 where "st1 = (call (GetReq KStatefulSet ?ns ?n) st)\<lparr>st_storedStatefulSet := Some stored\<rparr>"
    from Inr assms(1) go obtain ss1 st2 where 2: "prepare_update e (now e st) r stored ss st1 = Some (ss1, st2)"
      "apply_update e (now e st) r stored ss1 st2 = Some (x, st')"
      unfolding CreateOrUpdateStatefulSet_def st1_def
      by (auto simp: GetStatefulSet_def Let_def split: if_split_asm Option.bind_split_asm)
    have t2: "st_trace st2 = st_trace st @ [GetReq KStatefulSet ?ns ?n]"
      using prepare_update_same_trace [OF 2(1)] by (simp add: st1_def)
    from apply_update_requests [OF 2(2)] t2 assms(2) have "ss' = ss1" by (auto simp: requests_def)
    with 2(1) Inr show thesis by (intro that [of stored st1]) (auto simp: st1_def)
  qed
qed

section \<open>Replicas\<close>

lemma one_node_at_a_time_result:
  assumes "one_node_at_a_time stored ss = Some ss'" and "sts_Replicas ss = Some wanted"
    and "sts_Replicas stored = Some current" and "0 \<le> wanted" "wanted < 2 ^ 31" "0 \<le> current" "current < 2 ^ 31"
  shows "sts_Replicas ss' = Some (current + sgn (wanted - current))"
proof -
  have d: "int32 (wanted - current) = wanted - current" using assms(4-7) by (intro int32_id) (auto simp: is_int32_def)
  have "int32 (current + 1) = current + 1" if "wanted - current > 1"
    using that assms(4-7) by (intro int32_id) (auto simp: is_int32_def)
  moreover have "int32 (current - 1) = current - 1" if "wanted - current < -1"
    using that assms(4-7) by (intro int32_id) (auto simp: is_int32_def)
  ultimately show ?thesis
    using assms(1-3) d by (auto simp: one_node_at_a_time_def Let_def sgn_if split: if_split_asm)
qed

lemma restore_seeds_frame:
  "restore_seeds stored ss = Some ss' \<Longrightarrow> sts_Replicas ss' = sts_Replicas ss \<and> sts_Meta ss' = sts_Meta ss \<and>
     pt_Containers (sts_Template ss') = pt_Containers (sts_Template ss)"
  by (auto simp: restore_seeds_def split: Option.bind_split_asm)

text \<open>
  C4 (scale_one_node_at_a_time): the update of a statefulset moves the number of nodes by at most one towards the wanted
  number, so that every node joins or is decommissioned alone.  The bounds are those of the 32 bit integers
  of the replicas.
\<close>

theorem scale_one_node_at_a_time:
  assumes "CreateOrUpdateStatefulSet e ss r st = Some (x, st')" and "UpdateStsReq ss' \<in> set (requests st st')"
    and "env_getSts e (st_trace st) (meta_Namespace (sts_Meta ss)) (meta_Name (sts_Meta ss)) = Inr stored"
    and "sts_Replicas ss = Some wanted" and "0 \<le> wanted" and "wanted < 2 ^ 31"
    and "sts_Replicas stored = Some current" and "0 \<le> current" and "current < 2 ^ 31"
  shows "sts_Replicas ss' = Some (current + sgn (wanted - current))"
  using assms(1,2)
proof (cases rule: CreateOrUpdate_update)
  case (1 stored' t st1 st2)
  have s: "stored' = stored" using 1(1) assms(3) by simp
  from 1(3) show ?thesis
  proof (cases rule: prepare_update_cases)
    case (1 rs ss1 ss2)
    have "sts_Replicas ss1 = Some wanted"
      using 1(2) assms(4) restore_seeds_frame [of stored' "from_stored stored' ss" ss1]
      by (auto simp: from_stored_def split: if_split_asm)
    with one_node_at_a_time_result [OF 1(3)] 1(4) assms s show ?thesis by simp
  qed
qed

section \<open>The seed list of an update\<close>

lemma old_seed_value_single:
  assumes "\<forall>v \<in> set old. env_Name v = ''CASSANDRA_SEEDS'' \<longrightarrow> env_Value v = seeds"
    and "\<exists>v \<in> set old. env_Name v = ''CASSANDRA_SEEDS''"
  shows "old_seed_value old v = seeds"
proof -
  have "foldl (\<lambda>new x. if env_Name x = ''CASSANDRA_SEEDS'' \<and> env_Value v \<noteq> env_Value x then env_Value x else new) acc old =
      (if env_Value v = seeds then acc else if \<exists>v \<in> set old. env_Name v = ''CASSANDRA_SEEDS'' then seeds else acc)" for acc
    using assms(1) by (induction old arbitrary: acc) auto
  then show ?thesis using assms(2) by (simp add: old_seed_value_def)
qed

lemma keep_seeds_values:
  assumes "keep_seeds (Some old) vars = Some vars'" and "v \<in> set vars'" and "env_Name v = ''CASSANDRA_SEEDS''"
  obtains w where "env_Value v = old_seed_value old w"
  using assms by (induction vars arbitrary: vars') (auto split: if_split_asm Option.bind_split_asm)

lemma bootstrap_env_set:
  "getBootstrapContainerFromStatefulset ss = Some c \<Longrightarrow>
   getBootstrapContainerFromStatefulset (ss\<lparr>sts_Template := (sts_Template ss)\<lparr>pt_InitContainers :=
     set_bootstrap_env vars (pt_InitContainers (sts_Template ss))\<rparr>\<rparr>) = Some (c\<lparr>c_Env := vars\<rparr>)"
proof -
  have "find (\<lambda>c. c_Name c = ''bootstrap'') cs = Some c \<Longrightarrow>
      find (\<lambda>c. c_Name c = ''bootstrap'') (set_bootstrap_env vars cs) = Some (c\<lparr>c_Env := vars\<rparr>)" for cs
    by (induction cs) (auto split: if_split_asm)
  then show "getBootstrapContainerFromStatefulset ss = Some c \<Longrightarrow> ?thesis"
    by (simp add: getBootstrapContainerFromStatefulset_def)
qed

lemma restore_seeds_bootstrap:
  assumes "restore_seeds stored ss = Some ss'" and "getBootstrapContainerFromStatefulset stored = Some old"
    and "\<forall>v \<in> set (c_Env old). env_Name v = ''CASSANDRA_SEEDS'' \<longrightarrow> env_Value v = seeds"
    and "\<exists>v \<in> set (c_Env old). env_Name v = ''CASSANDRA_SEEDS''"
  shows "\<exists>c. getBootstrapContainerFromStatefulset ss' = Some c \<and>
    (\<forall>v. v \<in> set (c_Env c) \<and> env_Name v = ''CASSANDRA_SEEDS'' \<longrightarrow> env_Value v = seeds)"
proof -
  from assms(1,2) obtain c vars where c: "getBootstrapContainerFromStatefulset ss = Some c"
    "keep_seeds (Some (c_Env old)) (c_Env c) = Some vars"
    "ss' = ss\<lparr>sts_Template := (sts_Template ss)\<lparr>pt_InitContainers := set_bootstrap_env vars (pt_InitContainers (sts_Template ss))\<rparr>\<rparr>"
    by (auto simp: restore_seeds_def split: Option.bind_split_asm)
  have "env_Value v = seeds" if "v \<in> set vars" "env_Name v = ''CASSANDRA_SEEDS''" for v
    using keep_seeds_values [OF c(2) that] old_seed_value_single [OF assms(3,4)] by metis
  then show ?thesis using bootstrap_env_set [OF c(1)] c(3) by auto
qed

text \<open>
  C24 (seeds_kept_in_bootstrap): unless an update of the seed list was asked for, the bootstrap container keeps the seeds of
  the stored statefulset.  The other containers are those of the generator, so that the copies of
  CASSANDRA_SEEDS in the sidecars take the new seed list at once.
\<close>

theorem seeds_kept_in_bootstrap:
  assumes "CreateOrUpdateStatefulSet e ss r st = Some (x, st')" and "UpdateStsReq ss' \<in> set (requests st st')"
    and "st_racks st r = Some rs" and "\<not> seed_update_due rs"
    and "env_getSts e (st_trace st) (meta_Namespace (sts_Meta ss)) (meta_Name (sts_Meta ss)) = Inr stored"
    and "getBootstrapContainerFromStatefulset stored = Some old"
    and "\<forall>v \<in> set (c_Env old). env_Name v = ''CASSANDRA_SEEDS'' \<longrightarrow> env_Value v = seeds"
    and "\<exists>v \<in> set (c_Env old). env_Name v = ''CASSANDRA_SEEDS''"
  shows "(\<exists>c. getBootstrapContainerFromStatefulset ss' = Some c \<and>
      (\<forall>v. v \<in> set (c_Env c) \<and> env_Name v = ''CASSANDRA_SEEDS'' \<longrightarrow> env_Value v = seeds)) \<and>
    pt_Containers (sts_Template ss') = pt_Containers (sts_Template ss)"
  using assms(1,2)
proof (cases rule: CreateOrUpdate_update)
  case (1 stored' t st1 st2)
  from 1(3) show ?thesis
  proof (cases rule: prepare_update_cases)
    case (1 rs' ss1 ss2)
    have "restore_seeds stored (from_stored stored ss) = Some ss1"
      using 1(1,2) assms(3-5) \<open>st_racks st1 = st_racks st\<close> \<open>env_getSts e _ _ _ = Inr stored'\<close> by simp
    note restored = restore_seeds_bootstrap [OF this assms(6-8)] restore_seeds_frame [OF this]
    have "sts_Template ss2 = sts_Template ss1"
      using 1(3) by (auto simp: one_node_at_a_time_def Let_def split: if_split_asm Option.bind_split_asm)
    with restored 1(6,7) show ?thesis by (simp add: getBootstrapContainerFromStatefulset_def from_stored_def)
  qed
qed

text \<open>
  A statefulset of n nodes whose bootstrap container and whose sidecar have the seeds s, and an environment
  that stores such a statefulset with the seeds old.
\<close>

definition seeded :: "int \<Rightarrow> string \<Rightarrow> stateful_set" where
  "seeded n s = (let vars = [plain_env ''CASSANDRA_SEEDS'' s] in
     (demo_sts n)\<lparr>sts_Template := (sts_Template (demo_sts n))\<lparr>
       pt_InitContainers := [(zero_container ''bootstrap'')\<lparr>c_Env := vars\<rparr>],
       pt_Containers := [(zero_container ''sidecar'')\<lparr>c_Env := vars\<rparr>]\<rparr>\<rparr>)"

definition seeded_env :: env where
  "seeded_env = example_env\<lparr>env_getSts := \<lambda>_ _ _. Inr (seeded 3 ''old''), env_patchIsEmpty := \<lambda>_ _. False\<rparr>"

definition seeded_state :: rstate where
  "seeded_state = example_state demo_cluster [''dc1-rack1'' \<mapsto> example_rack ''Running'' '''' '''']"

lemma seeded_run:
  obtains x st' ss' where "CreateOrUpdateStatefulSet seeded_env (seeded 6 ''new'') ''dc1-rack1'' seeded_state = Some (x, st')"
    "UpdateStsReq ss' \<in> set (requests seeded_state st')"
proof -
  have "case CreateOrUpdateStatefulSet seeded_env (seeded 6 ''new'') ''dc1-rack1'' seeded_state of
     None \<Rightarrow> False
   | Some (x, st') \<Rightarrow> list_ex (\<lambda>q. case q of UpdateStsReq _ \<Rightarrow> True | _ \<Rightarrow> False) (requests seeded_state st')" by code_simp
  then obtain x st' q where "CreateOrUpdateStatefulSet seeded_env (seeded 6 ''new'') ''dc1-rack1'' seeded_state = Some (x, st')"
    "q \<in> set (requests seeded_state st')" "case q of UpdateStsReq _ \<Rightarrow> True | _ \<Rightarrow> False"
    by (auto simp: list_ex_iff split: option.split_asm)
  then show thesis by (cases q) (auto intro: that)
qed

lemma seeded_simps:
  "env_getSts seeded_env tr ns name = Inr (seeded 3 ''old'')" "sts_Replicas (seeded n s) = Some n"
  "st_racks seeded_state ''dc1-rack1'' = Some (example_rack ''Running'' '''' '''')"
  "getBootstrapContainerFromStatefulset (seeded n s) =
     Some ((zero_container ''bootstrap'')\<lparr>c_Env := [plain_env ''CASSANDRA_SEEDS'' s]\<rparr>)"
  "pt_Containers (sts_Template (seeded n s)) = [(zero_container ''sidecar'')\<lparr>c_Env := [plain_env ''CASSANDRA_SEEDS'' s]\<rparr>]"
  "\<not> seed_update_due (example_rack ''Running'' '''' '''')"
  by (simp_all add: seeded_env_def seeded_def Let_def demo_sts_def seeded_state_def example_state_def zero_container_def
      getBootstrapContainerFromStatefulset_def seed_update_due_def example_rack_def) code_simp

theorem scale_one_node_at_a_time_witness:
  "\<exists>x st' ss'. CreateOrUpdateStatefulSet seeded_env (seeded 6 ''new'') ''dc1-rack1'' seeded_state = Some (x, st') \<and>
     UpdateStsReq ss' \<in> set (requests seeded_state st') \<and> sts_Replicas ss' = Some 4"
proof -
  obtain x st' ss' where run: "CreateOrUpdateStatefulSet seeded_env (seeded 6 ''new'') ''dc1-rack1'' seeded_state = Some (x, st')"
    "UpdateStsReq ss' \<in> set (requests seeded_state st')" by (rule seeded_run)
  from scale_one_node_at_a_time [OF this seeded_simps(1) seeded_simps(2) _ _ seeded_simps(2)] run show ?thesis by auto
qed

theorem seeds_kept_in_bootstrap_witness:
  "\<exists>x st' ss'. CreateOrUpdateStatefulSet seeded_env (seeded 6 ''new'') ''dc1-rack1'' seeded_state = Some (x, st') \<and>
     UpdateStsReq ss' \<in> set (requests seeded_state st') \<and>
     pt_Containers (sts_Template ss') = [(zero_container ''sidecar'')\<lparr>c_Env := [plain_env ''CASSANDRA_SEEDS'' ''new'']\<rparr>] \<and>
     (\<exists>c. getBootstrapContainerFromStatefulset ss' = Some c \<and>
        (\<forall>v. v \<in> set (c_Env c) \<and> env_Name v = ''CASSANDRA_SEEDS'' \<longrightarrow> env_Value v = ''old''))"
proof -
  obtain x st' ss' where run: "CreateOrUpdateStatefulSet seeded_env (seeded 6 ''new'') ''dc1-rack1'' seeded_state = Some (x, st')"
    "UpdateStsReq ss' \<in> set (requests seeded_state st')" by (rule seeded_run)
  from seeds_kept_in_bootstrap [OF this seeded_simps(3,6,1,4), of "''old''"] run show ?thesis
    by (auto simp: seeded_simps plain_env_def)
qed

end
