(* ===== verification/Reconcile.thy ===== *)
theory Reconcile
  imports Pod_Operations Statefulset
begin

text \<open>
  The reconcile loop: src/controllers/cassandracluster/reconcile.go and the Reconcile method of
  cassandracluster_controller.go.  A pass fetches the custom resource, refuses the changes that are
  not allowed, checks the pods, goes through the racks, and writes the status at the end.
\<close>

section \<open>Finalizers and claims\<close>

definition preventClusterDeletion :: "CassandraCluster \<Rightarrow> bool \<Rightarrow> CassandraCluster" where
  "preventClusterDeletion cc v =
     cc\<lparr>cc_Meta := (cc_Meta cc)\<lparr>meta_Finalizers := (if v then [''kubernetes.io/pvc-to-delete''] else [])\<rparr>\<rparr>"

definition updateDeletePvcStrategy :: "CassandraCluster \<Rightarrow> CassandraCluster" where
  "updateDeletePvcStrategy cc =
     (let cc = (if \<not> spec_DeletePVC (cc_Spec cc) \<and> length (meta_Finalizers (cc_Meta cc)) > 0
                then preventClusterDeletion cc False else cc)
      in if spec_DeletePVC (cc_Spec cc) \<and> length (meta_Finalizers (cc_Meta cc)) = 0
         then preventClusterDeletion cc True else cc)"

definition CheckDeletePVC :: "env \<Rightarrow> rstate \<Rightarrow> error option \<times> rstate" where
  "CheckDeletePVC e st =
     (if annotation (st_cc st) = '''' then (None, st)
      else case env_unmarshal e (annotation (st_cc st)) of
             Inl _ \<Rightarrow> (None, st)
           | Inr oldCRD \<Rightarrow>
               if spec_DeletePVC (cc_Spec (st_cc st)) \<noteq> spec_DeletePVC (cc_Spec oldCRD)
               then updateCC e (st\<lparr>st_cc := updateDeletePvcStrategy (st_cc st)\<rparr>)
               else (None, st))"

section \<open>Changes of the topology\<close>

definition generatePaths :: "string \<Rightarrow> string list" where
  "generatePaths s = split_on CHR ''.'' s"

text \<open>
  A path is the name of a list, an index, the name of a field, and so on; a filter is the list of the
  names.  The filters found are the keys of a map; the nil map cannot be written to.
\<close>

definition current_path :: "string list \<Rightarrow> string" where
  "current_path path = join ''.'' (map (\<lambda>i. path ! i) (filter even [0..<length path - 1]))"

fun lookForFilter :: "string list \<Rightarrow> string list list \<Rightarrow> string slice \<Rightarrow> string slice option" where
  "lookForFilter path [] found = Some found"
| "lookForFilter path (f # fs) found =
     (if 2 * length f + 1 = length path \<and> current_path path = join ''.'' f
      then case found of
             None \<Rightarrow> panic
           | Some keys \<Rightarrow> lookForFilter path fs (Some (List.insert (current_path path) keys))
      else lookForFilter path fs found)"

definition excluding :: "string \<Rightarrow> string option" where
  "excluding path = (case path of c # rest \<Rightarrow> if c = CHR ''-'' \<and> CHR ''+'' \<notin> set rest then Some rest else None
                     | [] \<Rightarrow> None)"

definition name_change :: "change_type \<Rightarrow> change \<Rightarrow> bool option" where
  "name_change changeType cl =
     (if ch_Type cl = changeType
      then do { f \<leftarrow> index (ch_Path cl) 2;
                Some (f = ''Name'' \<or> length (ch_Path cl) > 4 \<and> ch_Path cl ! 4 = ''Name'') }
      else Some False)"

fun change_loop ::
  "change_type \<Rightarrow> bool \<Rightarrow> string list list \<Rightarrow> string list list \<Rightarrow> string \<Rightarrow> string slice \<Rightarrow> string slice
     \<Rightarrow> change list \<Rightarrow> bool option" where
  "change_loop ct noPaths incl excl idx inFound exFound [] = Some False"
| "change_loop ct noPaths incl excl idx inFound exFound (cl # cls) =
     do { relevant \<leftarrow> name_change ct cl;
          if \<not> relevant then change_loop ct noPaths incl excl idx inFound exFound cls
          else if noPaths then Some True
          else
            let (idx, inFound, exFound) =
                  (if ch_Path cl ! 1 \<noteq> idx then (ch_Path cl ! 1, Some [], Some []) else (idx, inFound, exFound)) in
            do { inFound \<leftarrow> lookForFilter (ch_Path cl) incl inFound;
                 exFound \<leftarrow> lookForFilter (ch_Path cl) excl exFound;
                 if length (items inFound) = length incl \<and> length (items exFound) = 0 then Some True
                 else change_loop ct noPaths incl excl idx inFound exFound cls } }"

definition hasChange :: "change list \<Rightarrow> change_type \<Rightarrow> string list \<Rightarrow> bool option" where
  "hasChange changelog changeType paths =
     (if changelog = [] then Some False
      else change_loop changeType (paths = [])
             (map generatePaths (filter (\<lambda>p. excluding p = None) paths))
             (map generatePaths (List.map_filter excluding paths)) ''-1'' None None changelog)"

definition set_status :: "(CassandraClusterStatus \<Rightarrow> CassandraClusterStatus) \<Rightarrow> rstate \<Rightarrow> rstate" where
  "set_status f st = st\<lparr>st_status := f (st_status st)\<rparr>"

fun delete_objects :: "env \<Rightarrow> string list \<Rightarrow> rstate \<Rightarrow> rstate option" where
  "delete_objects e [] st = Some st"
| "delete_objects e (r # rs) st =
     (let ns = cc_Namespace (st_cc st); n = cc_Name (st_cc st);
          st = snd (DeleteStatefulSet e ns (n @ ''-'' @ r) st) in
      do { dcName \<leftarrow> GetDCNameFromDCRackName r;
           let st = snd (DeleteService e ns (n @ ''-'' @ dcName) st);
               st = snd (DeleteService e ns (n @ ''-'' @ r) st);
               st = snd (DeleteService e ns (n @ ''-'' @ dcName @ ''-exporter-jmx'') st) in
           delete_objects e rs st })"

text \<open>The racks of the status are visited in the order the runtime gives to the map.\<close>

definition rack_order :: "env \<Rightarrow> rstate \<Rightarrow> string list" where
  "rack_order e st = env_mapOrder e (sorted_list_of_set (dom (cc_RackStatus (st_cc st))))"

definition deleteDCObjects :: "env \<Rightarrow> rstate \<Rightarrow> ((bool \<times> string) \<times> rstate) option" where
  "deleteDCObjects e st =
     (let (toDelete, status) = FixCassandraRackList (st_cc st) (rack_order e st) (st_status st);
          st = st\<lparr>st_status := status\<rparr> in
      if length toDelete > 0
      then do { st \<leftarrow> delete_objects e toDelete st;
                Some ((True, state_Name ActionDeleteDC),
                      call (ActionMetric ActionDeleteDC (cc_Name (st_cc st))) st) }
      else Some ((False, ''''), st))"

definition CheckTopologyChanges ::
  "env \<Rightarrow> CassandraCluster \<Rightarrow> rstate \<Rightarrow> ((bool \<times> string) \<times> rstate) option" where
  "CheckTopologyChanges e oldCRD st =
     (let cc = st_cc st;
          changelog = env_topologyDiff e (spec_Topology (cc_Spec oldCRD)) (spec_Topology (cc_Spec cc)) in
      do { updated \<leftarrow> hasChange changelog UPDATE [];
           deleted \<leftarrow> (if updated then Some True else hasChange changelog DELETE [''DC.Rack'', ''-DC'']);
           created \<leftarrow> (if deleted then Some True else hasChange changelog CREATE [''DC.Rack'', ''-DC'']);
           if created then Some ((True, state_Name ActionCorrectCRDConfig), st)
           else if int (GetDCSize cc) < int (GetDCSize oldCRD) - 1
           then Some ((True, state_Name ActionCorrectCRDConfig), st)
           else if GetDCRackSize cc < GetDCRackSize oldCRD
           then if cs_LastClusterAction (cc_Status cc) = state_Name ActionScaleDown \<and>
                   cs_LastClusterActionStatus (cc_Status cc) \<noteq> StatusDone
                then Some ((True, state_Name ActionCorrectCRDConfig), st)
                else let (found, nbNodes) = GetDCNodesPerRacksFromName oldCRD (GetRemovedDCName cc oldCRD) in
                     if found \<and> nbNodes > 0
                     then Some ((True, state_Name ActionCorrectCRDConfig), st)
                     else deleteDCObjects e st
           else Some ((False, ''''), st) })"

section \<open>Scaling a DC down to 0\<close>

definition restore_topology :: "CassandraCluster \<Rightarrow> rstate \<Rightarrow> rstate" where
  "restore_topology oldCRD st = st\<lparr>st_cc := set_topology (spec_Topology (cc_Spec oldCRD)) (st_cc st)\<rparr>"

definition pod_usable :: "pod \<Rightarrow> bool" where
  "pod_usable p \<longleftrightarrow> pod_Phase p = PodRunning \<and> meta_DeletionTimestamp (pod_Meta p) = None"

definition CheckNonAllowedScaleDown :: "env \<Rightarrow> CassandraCluster \<Rightarrow> rstate \<Rightarrow> (bool \<times> rstate) option" where
  "CheckNonAllowedScaleDown e oldCRD st =
     (let cc = st_cc st; (ok, dcName, dc) = FindDCWithNodesTo0 cc in
      if \<not> ok then Some (False, st)
      else
        let rackName = GetRackName cc dc 0;
            (r, st) = ListPods e (cc_Namespace cc) (LabelsForCassandraDCRack cc dcName rackName) st in
        case r of
          Inl _ \<Rightarrow> Some (True, restore_topology oldCRD st)
        | Inr pods \<Rightarrow>
            (case find pod_usable pods of
               None \<Rightarrow> Some (False, st)
             | Some p \<Rightarrow>
                 let (c, st) = NewJolokiaClient e (PodHostname p) (spec_ImageJolokiaSecret (cc_Spec cc))
                       (cc_Namespace cc) st in
                 (case c of
                    Inl _ \<Rightarrow> Some (True, restore_topology oldCRD st)
                  | Inr host \<Rightarrow>
                      do { (ks, st) \<leftarrow> NonLocalKeyspacesInDC e host dcName st;
                           case ks of
                             Inl _ \<Rightarrow> Some (True, restore_topology oldCRD st)
                           | Inr ks \<Rightarrow> if length ks \<noteq> 0 then Some (True, restore_topology oldCRD st)
                                        else Some (False, st) })))"

section \<open>Changes that are not allowed\<close>

text \<open>
  What the check does for one DC: a smaller data capacity or another storage class is replaced by the
  one of the last applied configuration, at the same index there.
\<close>

definition set_dc :: "nat \<Rightarrow> (DC \<Rightarrow> DC) \<Rightarrow> CassandraCluster \<Rightarrow> CassandraCluster" where
  "set_dc dc f cc = cc\<lparr>cc_Spec := (cc_Spec cc)\<lparr>spec_Topology := \<lparr>top_DC = (cc_DCs cc)[dc := f (cc_DCs cc ! dc)]\<rparr>\<rparr>\<rparr>"

definition restore_capacity :: "CassandraCluster \<Rightarrow> nat \<Rightarrow> rstate \<Rightarrow> rstate option" where
  "restore_capacity oldCRD dc st =
     do { old \<leftarrow> index (cc_DCs oldCRD) (int dc);
          let cc = (st_cc st)\<lparr>cc_Spec := (cc_Spec (st_cc st))\<lparr>spec_DataCapacity := spec_DataCapacity (cc_Spec oldCRD)\<rparr>\<rparr> in
          Some (st\<lparr>st_cc := set_dc dc (\<lambda>d. d\<lparr>dc_DataCapacity := dc_DataCapacity old\<rparr>) cc, st_needUpdate := True\<rparr>) }"

definition restore_storage_class :: "CassandraCluster \<Rightarrow> nat \<Rightarrow> rstate \<Rightarrow> rstate option" where
  "restore_storage_class oldCRD dc st =
     do { old \<leftarrow> index (cc_DCs oldCRD) (int dc);
          let cc = (st_cc st)\<lparr>cc_Spec := (cc_Spec (st_cc st))\<lparr>spec_DataStorageClass := spec_DataStorageClass (cc_Spec oldCRD)\<rparr>\<rparr> in
          Some (st\<lparr>st_cc := set_dc dc (\<lambda>d. d\<lparr>dc_DataStorageClass := dc_DataStorageClass old\<rparr>) cc,
                   st_needUpdate := True\<rparr>) }"

definition check_dc :: "env \<Rightarrow> CassandraCluster \<Rightarrow> nat \<Rightarrow> rstate \<Rightarrow> rstate option" where
  "check_dc e oldCRD dc st =
     (let dcName = GetDCName (st_cc st) dc in
      do { st \<leftarrow> (if AnalyzeDataCapacityChange e (GetDataCapacityFromDCName oldCRD dcName)
                       (GetDataCapacityFromDCName (st_cc st) dcName) = CapacityDownsize
                  then restore_capacity oldCRD dc st else Some st);
           if GetDataStorageClassFromDCName (st_cc st) dcName \<noteq> GetDataStorageClassFromDCName oldCRD dcName
           then restore_storage_class oldCRD dc st else Some st })"

fun check_dcs :: "env \<Rightarrow> CassandraCluster \<Rightarrow> nat list \<Rightarrow> rstate \<Rightarrow> rstate option" where
  "check_dcs e oldCRD [] st = Some st"
| "check_dcs e oldCRD (dc # dcs) st = do { st \<leftarrow> check_dc e oldCRD dc st; check_dcs e oldCRD dcs st }"

definition correct_crd :: "rstate \<Rightarrow> rstate" where
  "correct_crd st =
     call (ActionMetric ActionCorrectCRDConfig (cc_Name (st_cc st)))
       (set_status (\<lambda>s. s\<lparr>cs_LastClusterAction := state_Name ActionCorrectCRDConfig\<rparr>) st)"

fun plan_resources :: "env \<Rightarrow> string list \<Rightarrow> rstate \<Rightarrow> rstate option" where
  "plan_resources e [] st = Some st"
| "plan_resources e (r # rs) st =
     do { st \<leftarrow> upd_action r (\<lambda>la. la\<lparr>la_Name := state_Name ActionUpdateResources, la_Status := StatusToDo\<rparr>) st;
          let st = call (ActionMetric ActionUpdateResources (cc_Name (st_cc st))) st in
          do { st \<leftarrow> upd_action r (\<lambda>la. la\<lparr>la_StartTime := Some (now e st), la_EndTime := None\<rparr>) st;
               plan_resources e rs st } }"

definition rack_names :: "CassandraCluster \<Rightarrow> string list" where
  "rack_names cc = map (\<lambda>(dc, rack). GetDCRackName (GetDCName cc dc) (GetRackName cc dc rack)) (rack_indices cc)"

definition check_topology :: "env \<Rightarrow> CassandraCluster \<Rightarrow> rstate \<Rightarrow> (bool \<times> rstate) option" where
  "check_topology e oldCRD st =
     do { ((refused, updateStatus), st) \<leftarrow> CheckTopologyChanges e oldCRD st;
          let st = st\<lparr>st_needUpdate := refused\<rparr> in
          if refused
          then
            let st = (if updateStatus \<noteq> '''' then set_status (\<lambda>s. s\<lparr>cs_LastClusterAction := updateStatus\<rparr>) st else st) in
            Some (True,
                  if updateStatus = state_Name ActionCorrectCRDConfig
                  then call (ActionMetric ActionCorrectCRDConfig (cc_Name (st_cc st))) (restore_topology oldCRD st)
                  else st)
          else if updateStatus = state_Name ActionDeleteRack
          then Some (True, call (ActionMetric ActionDeleteRack (cc_Name (st_cc st))) st)
          else
            do { (refused, st) \<leftarrow> CheckNonAllowedScaleDown e oldCRD st;
                 let st = st\<lparr>st_needUpdate := refused\<rparr> in
                 if refused then Some (True, correct_crd st)
                 else if spec_Resources (cc_Spec (st_cc st)) \<noteq> spec_Resources (cc_Spec oldCRD)
                 then do { st \<leftarrow> plan_resources e (rack_names (st_cc st)) st; Some (False, st) }
                 else Some (False, st) } }"

definition restore_nodes :: "CassandraCluster \<Rightarrow> rstate \<Rightarrow> rstate" where
  "restore_nodes oldCRD st =
     (if spec_NodesPerRacks (cc_Spec (st_cc st)) = 0
      then st\<lparr>st_cc := (st_cc st)\<lparr>cc_Spec := (cc_Spec (st_cc st))\<lparr>spec_NodesPerRacks :=
                 spec_NodesPerRacks (cc_Spec oldCRD)\<rparr>\<rparr>, st_needUpdate := True\<rparr>
      else st)"

definition CheckNonAllowedChanges :: "env \<Rightarrow> rstate \<Rightarrow> (bool \<times> rstate) option" where
  "CheckNonAllowedChanges e st =
     (if annotation (st_cc st) = '''' then Some (False, st)
      else if marshalled e (st_cc st) = annotation (st_cc st) then Some (False, st)
      else
        case env_unmarshal e (annotation (st_cc st)) of
          Inl _ \<Rightarrow> Some (False, st)
        | Inr oldCRD \<Rightarrow>
            let st = restore_nodes oldCRD st in
            do { st \<leftarrow> check_dcs e oldCRD [0..<GetDCSize (st_cc st)] st;
                 if st_needUpdate st then Some (True, correct_crd st)
                 else check_topology e oldCRD st })"

section \<open>Racks\<close>

text \<open>
  What happens to one rack: the loop goes to the next rack, noting whether the rack is new, or returns.
  The operation that handlePodOperation draws at random for a rack is an argument.
\<close>

datatype rack_outcome = NextRack bool | Return "error option"

definition rack_blocks :: "CassandraRackStatus \<Rightarrow> bool" where
  "rack_blocks rs =
     (rs_Phase rs \<noteq> state_Name ClusterPhaseRunning \<or>
      la_Status (rs_CassandraLastAction rs) = StatusToDo \<or>
      la_Status (rs_CassandraLastAction rs) = StatusOngoing \<or>
      la_Status (rs_CassandraLastAction rs) = StatusContinue)"

text \<open>Phase, next action and pod operation of a rack whose statefulset was found: the outcome if it is decided.\<close>

definition inspect_rack ::
  "env \<Rightarrow> string \<Rightarrow> nat \<Rightarrow> nat \<Rightarrow> CompleteRackName \<Rightarrow> stateful_set \<Rightarrow> rstate \<Rightarrow> (rack_outcome option \<times> rstate) option" where
  "inspect_rack e operation dc rack crn stored st =
     (let r = crn_DcRackName crn in
      do { st \<leftarrow> UpdateCassandraRackStatusPhase e crn stored st;
           st \<leftarrow> getNextCassandraClusterStatus e dc rack crn stored st;
           rs \<leftarrow> st_racks st r;
           if rs_Phase rs = state_Name ClusterPhaseInitial then Some (None, st)
           else do { ready \<leftarrow> IsStatefulSetReady stored;
                     ((brk, _), st) \<leftarrow> handlePodOperation e operation (crn_DcName crn) (crn_RackName crn) ready st;
                     rs \<leftarrow> st_racks st r;
                     Some (if brk then Some (if rack_blocks rs then Return None else NextRack False) else None, st) } })"

text \<open>
  waitForStatefulSetToBeUpdated starts a goroutine that reads the budget again and again, and waits for
  it at most 10 seconds.
\<close>

definition waitForStatefulSetToBeUpdated :: "rstate \<Rightarrow> rstate" where
  "waitForStatefulSetToBeUpdated st =
     (let p = pdb_Meta (podDisruptionBudgetEnvelope (st_cc st)) in
      call (Spawn (MonitorDisruption (meta_Namespace p) (meta_Name p))) st)"

definition apply_rack :: "env \<Rightarrow> nat \<Rightarrow> nat \<Rightarrow> CompleteRackName \<Rightarrow> rstate \<Rightarrow> (rack_outcome \<times> rstate) option" where
  "apply_rack e dc rack crn st =
     do { ((brk, _), st) \<leftarrow> ensureCassandraStatefulSet e crn dc rack st;
          let st = (if spec_UnlockNextOperation (cc_Spec (st_cc st))
                    then st\<lparr>st_cc := (st_cc st)\<lparr>cc_Spec := (cc_Spec (st_cc st))\<lparr>spec_UnlockNextOperation := False\<rparr>\<rparr>,
                            st_needUpdate := True\<rparr>
                    else st) in
          if brk
          then Some (Return None,
                 if cs_LastClusterAction (st_status st) = state_Name ActionUpdateSeedList \<and>
                    cs_LastClusterActionStatus (st_status st) = StatusConfiguring
                 then waitForStatefulSetToBeUpdated st else st)
          else
            do { rs \<leftarrow> st_racks st (crn_DcRackName crn);
                 Some (if rs_Phase rs \<noteq> state_Name ClusterPhaseRunning \<or>
                          la_Status (rs_CassandraLastAction rs) = StatusOngoing \<or>
                          la_Status (rs_CassandraLastAction rs) = StatusFinalizing
                       then Return None else NextRack False, st) } }"

definition upsize_rack_step ::
  "env \<Rightarrow> CompleteRackName \<Rightarrow> (error + stateful_set) \<Rightarrow> rstate \<Rightarrow> (rack_outcome \<times> rstate) option" where
  "upsize_rack_step e crn res st =
     (case res of
        Inl err \<Rightarrow>
          if err \<noteq> NotFound then Some (Return None, st)
          else do { (err, st) \<leftarrow> ReconcileStorageUpsize e crn (st\<lparr>st_storedStatefulSet := None\<rparr>); Some (Return err, st) }
      | Inr stored \<Rightarrow>
          do { (err, st) \<leftarrow> ReconcileStorageUpsize e crn (st\<lparr>st_storedStatefulSet := Some stored\<rparr>); Some (Return err, st) })"

definition ensure_rack ::
  "env \<Rightarrow> nat \<Rightarrow> nat \<Rightarrow> CompleteRackName \<Rightarrow> (error + stateful_set) \<Rightarrow> rstate \<Rightarrow> (rack_outcome \<times> rstate) option" where
  "ensure_rack e dc rack crn res st =
     (let st = snd (ensureCassandraService e st);
          st = snd (ensureCassandraServiceMonitoring e st) in
      do { rs \<leftarrow> st_racks st (crn_DcRackName crn);
           if IsStarted rs then upsize_rack_step e crn res st
           else apply_rack e dc rack crn st })"

text \<open>A rack of the status that is not to be deleted.\<close>

definition reconcile_known_rack ::
  "env \<Rightarrow> string \<Rightarrow> nat \<Rightarrow> nat \<Rightarrow> CompleteRackName \<Rightarrow> rstate \<Rightarrow> (rack_outcome \<times> rstate) option" where
  "reconcile_known_rack e operation dc rack crn st =
     (let name = cc_Name (st_cc st) @ ''-'' @ crn_DcRackName crn;
          (res, st) = GetStatefulSet e (cc_Namespace (st_cc st)) name st in
      case res of
        Inl _ \<Rightarrow> ensure_rack e dc rack crn res st
      | Inr stored \<Rightarrow>
          do { (decided, st) \<leftarrow> inspect_rack e operation dc rack crn stored st;
               case decided of
                 Some out \<Rightarrow> Some (out, st)
               | None \<Rightarrow> ensure_rack e dc rack crn res st })"

definition reconcile_rack ::
  "env \<Rightarrow> string \<Rightarrow> nat \<Rightarrow> nat \<Rightarrow> rstate \<Rightarrow> (rack_outcome \<times> rstate) option" where
  "reconcile_rack e operation dc rack st =
     (let cc = st_cc st; dcName = GetDCName cc dc; rackName = GetRackName cc dc rack;
          r = GetDCRackName dcName rackName in
      if r = '''' then Some (Return (Some bad_names), st)
      else if st_racks st r = None
      then Some (NextRack True,
             set_status (\<lambda>s. InitCassandraRackStatus s dcName rackName)
               (call (PhaseMetric ClusterPhaseInitial (cc_Name cc)) st))
      else if meta_DeletionTimestamp (cc_Meta cc) \<noteq> None \<and> spec_DeletePVC (cc_Spec cc)
      then Some (NextRack False, DeletePVCs e dcName rackName st)
      else reconcile_known_rack e operation dc rack
             \<lparr>crn_DcName = dcName, crn_RackName = rackName, crn_DcRackName = r\<rparr> st)"

fun reconcile_racks ::
  "env \<Rightarrow> (nat \<Rightarrow> nat \<Rightarrow> string) \<Rightarrow> (nat \<times> nat) list \<Rightarrow> bool \<Rightarrow> rstate \<Rightarrow> ((bool + error option) \<times> rstate) option" where
  "reconcile_racks e pick [] newStatus st = Some (Inl newStatus, st)"
| "reconcile_racks e pick ((dc, rack) # rest) newStatus st =
     do { (out, st) \<leftarrow> reconcile_rack e (pick dc rack) dc rack st;
          case out of
            NextRack new \<Rightarrow> reconcile_racks e pick rest (newStatus \<or> new) st
          | Return err \<Rightarrow> Some (Inr err, st) }"

definition ReconcileRack :: "env \<Rightarrow> (nat \<Rightarrow> nat \<Rightarrow> string) \<Rightarrow> rstate \<Rightarrow> (error option \<times> rstate) option" where
  "ReconcileRack e pick st =
     do { (out, st) \<leftarrow> reconcile_racks e pick (rack_indices (st_cc st)) False st;
          case out of
            Inr err \<Rightarrow> Some (err, st)
          | Inl newStatus \<Rightarrow>
              if newStatus then Some (None, st)
              else if meta_DeletionTimestamp (cc_Meta (st_cc st)) \<noteq> None \<and> spec_DeletePVC (cc_Spec (st_cc st))
              then Some (updateCC e (st\<lparr>st_cc := preventClusterDeletion (st_cc st) False\<rparr>))
              else Some (None, st) }"

section \<open>Phase and seed list of the cluster\<close>

text \<open>The result of the loop over the racks: whether it returned, and whether an action is in progress.\<close>

fun phase_loop :: "string list \<Rightarrow> bool \<Rightarrow> rstate \<Rightarrow> bool \<times> bool \<times> rstate" where
  "phase_loop [] acting st = (False, acting, st)"
| "phase_loop (r # rs) acting st =
     (case st_racks st r of
        None \<Rightarrow> phase_loop rs acting st
      | Some s \<Rightarrow>
          let la = rs_CassandraLastAction s;
              (acting, st) =
                (if la_Status la \<noteq> StatusDone
                 then (True, set_status (\<lambda>c. c\<lparr>cs_LastClusterActionStatus := la_Status la,
                                               cs_LastClusterAction := la_Name la\<rparr>) st)
                 else (acting, st)) in
          if rs_Phase s \<noteq> state_Name ClusterPhaseRunning
          then (True, acting, set_status (\<lambda>c. c\<lparr>cs_Phase := rs_Phase s\<rparr>) st)
          else phase_loop rs acting st)"

definition UpdateCassandraClusterStatusPhase :: "rstate \<Rightarrow> rstate" where
  "UpdateCassandraClusterStatusPhase st =
     (let n = cc_Name (st_cc st); (returned, acting, st) = phase_loop (rack_names (st_cc st)) False st in
      if returned then st
      else
        let st = (if \<not> acting \<and> cs_LastClusterActionStatus (st_status st) \<noteq> StatusDone
                  then call (PhaseMetric ClusterPhaseRunning n)
                         (set_status (\<lambda>c. c\<lparr>cs_LastClusterActionStatus := StatusDone,
                                            cs_Phase := state_Name ClusterPhaseRunning\<rparr>) st)
                  else st) in
        if cs_Phase (st_status st) \<noteq> state_Name ClusterPhaseRunning \<and>
           cs_LastClusterActionStatus (st_status st) = StatusDone
        then call (PhaseMetric ClusterPhaseRunning n)
               (set_status (\<lambda>c. c\<lparr>cs_Phase := state_Name ClusterPhaseRunning\<rparr>) st)
        else st)"

text \<open>
  The racks of a DC are checked up to the first that is not configuring the seed list; the break leaves
  the loop over the racks only.
\<close>

definition configuring_seeds :: "CassandraRackStatus \<Rightarrow> bool" where
  "configuring_seeds rs = (la_Name (rs_CassandraLastAction rs) = state_Name ActionUpdateSeedList \<and>
     la_Status (rs_CassandraLastAction rs) = StatusConfiguring)"

fun seeds_ready_dc :: "string list \<Rightarrow> rstate \<Rightarrow> bool option" where
  "seeds_ready_dc [] st = Some True"
| "seeds_ready_dc (r # rs) st =
     do { s \<leftarrow> st_racks st r;
          if configuring_seeds s then seeds_ready_dc rs st
          else Some (la_Name (rs_CassandraLastAction s) = state_Name ClusterPhaseInitial) }"

fun seeds_ready :: "string list list \<Rightarrow> rstate \<Rightarrow> bool option" where
  "seeds_ready [] st = Some True"
| "seeds_ready (dc # dcs) st = do { a \<leftarrow> seeds_ready_dc dc st; b \<leftarrow> seeds_ready dcs st; Some (a \<and> b) }"

fun plan_seeds :: "string list \<Rightarrow> rstate \<Rightarrow> rstate option" where
  "plan_seeds [] st = Some st"
| "plan_seeds (r # rs) st =
     do { s \<leftarrow> st_racks st r;
          if rs_Phase s = state_Name ClusterPhaseInitial then plan_seeds rs st
          else do { st \<leftarrow> upd_action r (\<lambda>la. la\<lparr>la_Name := state_Name ActionUpdateSeedList, la_Status := StatusToDo\<rparr>) st;
                    plan_seeds rs (call (ActionMetric ActionUpdateSeedList (cc_Name (st_cc st))) st) } }"

definition rack_names_of :: "CassandraCluster \<Rightarrow> nat \<Rightarrow> string list" where
  "rack_names_of cc dc = map (\<lambda>rack. GetDCRackName (GetDCName cc dc) (GetRackName cc dc rack)) [0..<GetRackSize cc dc]"

definition EnsureSeedListIsUpdatedWhenRequired :: "rstate \<Rightarrow> rstate option" where
  "EnsureSeedListIsUpdatedWhenRequired st =
     (if cs_LastClusterAction (st_status st) = state_Name ActionUpdateSeedList \<and>
         cs_LastClusterActionStatus (st_status st) = StatusConfiguring
      then do { ready \<leftarrow> seeds_ready (map (rack_names_of (st_cc st)) [0..<GetDCSize (st_cc st)]) st;
                if ready then plan_seeds (rack_names (st_cc st)) st else Some st }
      else Some st)"

section \<open>The pass\<close>

datatype requeue = Forget | Requeue | RequeueAfter int

type_synonym pass = "((requeue \<times> error option) \<times> rstate) option"

text \<open>The part of the pass that ends with the deferred update of the status.\<close>

definition reconcile_status :: "env \<Rightarrow> (nat \<Rightarrow> nat \<Rightarrow> string) \<Rightarrow> rstate \<Rightarrow> pass" where
  "reconcile_status e pick st =
     do { (refused, st) \<leftarrow> CheckNonAllowedChanges e st;
          if refused then Some ((RequeueAfter 30, None), st)
          else
            do { (_, st) \<leftarrow> ensureCassandraPodDisruptionBudget e st;
                 (_, st) \<leftarrow> CheckPodsState e st;
                 (err, st) \<leftarrow> ReconcileRack e pick st;
                 if err \<noteq> None then Some ((RequeueAfter 5, err), st)
                 else do { st \<leftarrow> EnsureSeedListIsUpdatedWhenRequired st;
                           Some ((RequeueAfter 5, None), UpdateCassandraClusterStatusPhase st) } } }"

definition initialize_cluster :: "env \<Rightarrow> rstate \<Rightarrow> (requeue \<times> error option) \<times> rstate" where
  "initialize_cluster e st =
     (let status = cc_Status (st_cc st);
          (err, st) = updateCC e (st\<lparr>st_cc := updateDeletePvcStrategy (st_cc st)\<rparr>) in
      if err \<noteq> None then ((Requeue, err), st)
      else
        let cc = (st_cc st)\<lparr>cc_Status := status\<rparr>;
            upd = env_updateCCStatus e (st_trace st) cc;
            st = call (UpdateCCStatusReq cc) st in
        case upd of
          Inl err \<Rightarrow> ((Requeue, Some err), st\<lparr>st_cc := cc\<rparr>)
        | Inr v \<Rightarrow> ((Requeue, None), st\<lparr>st_cc := set_version v cc\<rparr>))"

definition reconcile_fetched :: "env \<Rightarrow> (nat \<Rightarrow> nat \<Rightarrow> string) \<Rightarrow> rstate \<Rightarrow> pass" where
  "reconcile_fetched e pick st =
     (let st = st\<lparr>st_cc := CheckDefaults (st_cc st)\<rparr>;
          (err, st) = CheckDeletePVC e st in
      if err \<noteq> None then Some ((Forget, err), st)
      else do { (out, st) \<leftarrow> reconcile_status e pick (st\<lparr>st_status := cc_Status (st_cc st)\<rparr>);
                Some (out, snd (updateCassandraStatus e st)) })"

definition Reconcile :: "env \<Rightarrow> (nat \<Rightarrow> nat \<Rightarrow> string) \<Rightarrow> string \<Rightarrow> string \<Rightarrow> rstate \<Rightarrow> pass" where
  "Reconcile e pick namespace name st =
     (let res = env_getCC e (st_trace st) namespace name;
          st = call (GetReq KCassandraCluster namespace name) st in
      case res of
        Inl err \<Rightarrow> Some ((Forget, if err = NotFound then None else Some err), st)
      | Inr cc \<Rightarrow>
          if cs_Phase (cc_Status cc) = ''''
          then let (changed, cc) = SetDefaults cc; st = st\<lparr>st_cc := cc\<rparr> in
               if changed then Some (initialize_cluster e st) else reconcile_fetched e pick st
          else reconcile_fetched e pick (st\<lparr>st_cc := cc\<rparr>))"

end
