(* ===== verification/Rack_Writes.thy ===== *)
theory Rack_Writes
  imports Reconcile
begin

text \<open>
  How many statefulsets a pass over the racks writes.  Each step of the pass is shown to write a
  statefulset at most once, and only when it makes the pass return.
\<close>

section \<open>Counting the writes\<close>

definition writes :: "nat \<Rightarrow> rstate \<Rightarrow> rstate \<Rightarrow> bool" where
  "writes n st st' \<longleftrightarrow> (\<exists>qs. st_trace st' = st_trace st @ qs \<and> length (filter touches_sts qs) \<le> n)"

lemma writes_refl [simp]: "writes n st st"
  by (simp add: writes_def)

lemma writes_trans: "writes n st st' \<Longrightarrow> writes m st' st'' \<Longrightarrow> writes (n + m) st st''"
  unfolding writes_def by (elim exE conjE) (intro exI conjI, auto)

lemma writes_mono: "writes n st st' \<Longrightarrow> n \<le> m \<Longrightarrow> writes m st st'"
  by (auto simp: writes_def)

lemma writes_any: "writes 0 st st' \<Longrightarrow> writes n st st'"
  by (erule writes_mono) simp

lemma writes_then_none: "writes n st st' \<Longrightarrow> writes 0 st' st'' \<Longrightarrow> writes n st st''"
  using writes_trans by fastforce

lemma none_then_writes: "writes 0 st st' \<Longrightarrow> writes n st' st'' \<Longrightarrow> writes n st st''"
  using writes_trans by fastforce

lemma writes_call: "writes n st st' \<Longrightarrow> \<not> touches_sts q \<Longrightarrow> writes n st (call q st')"
  by (auto simp: writes_def)

lemma writes_one_call: "writes 0 st st' \<Longrightarrow> writes (Suc 0) st (call q st')"
  by (auto simp: writes_def)

lemma writes_simps [simp]:
  "writes n st (put_rack r rs st') \<longleftrightarrow> writes n st st'"
  "writes n st (st'\<lparr>st_cc := cc\<rparr>) \<longleftrightarrow> writes n st st'"
  "writes n st (st'\<lparr>st_status := s\<rparr>) \<longleftrightarrow> writes n st st'"
  "writes n st (st'\<lparr>st_needUpdate := b\<rparr>) \<longleftrightarrow> writes n st st'"
  "writes n st (st'\<lparr>st_storedStatefulSet := ss\<rparr>) \<longleftrightarrow> writes n st st'"
  "writes n st (set_status f st') \<longleftrightarrow> writes n st st'"
  "writes n (put_rack r rs st) st' \<longleftrightarrow> writes n st st'"
  "writes n (st\<lparr>st_cc := cc\<rparr>) st' \<longleftrightarrow> writes n st st'"
  "writes n (st\<lparr>st_chanRunningOp := ch\<rparr>) st' \<longleftrightarrow> writes n st st'"
  "writes n (st\<lparr>st_storedStatefulSet := ss\<rparr>) st' \<longleftrightarrow> writes n st st'"
  by (simp_all add: writes_def set_status_def)

lemma quiet_writes: "quiet st st' \<Longrightarrow> writes n st st'"
  by (force simp: quiet_def writes_def filter_empty_conv)

lemma only_queries_writes: "only_queries st st' \<Longrightarrow> writes n st st'"
  by (simp add: only_queries_quiet quiet_writes)

lemma writes_requests: "writes n st st' \<Longrightarrow> length (filter touches_sts (requests st st')) \<le> n"
  by (auto simp: writes_def requests_def)

text \<open>The contract of a step of the pass: a write is followed by a stop.\<close>

locale stopping_step =
  fixes stops :: "'a \<Rightarrow> bool" and f :: "rstate \<Rightarrow> ('a \<times> rstate) option"
  assumes step: "f st = Some (x, st') \<Longrightarrow> writes (if stops x then 1 else 0) st st'"
begin

lemma step_once: "f st = Some (x, st') \<Longrightarrow> writes 1 st st'"
  using step [of st x st'] by (auto intro: writes_mono split: if_split_asm)

lemma step_goes_on: "f st = Some (x, st') \<Longrightarrow> \<not> stops x \<Longrightarrow> writes 0 st st'"
  using step by fastforce

end

section \<open>Pod operations\<close>

lemma updateCassandraStatus_obj_quiet:
  "updateCassandraStatus_obj e cc s st = (err, cc', st') \<Longrightarrow> quiet st st'"
  by (auto simp: updateCassandraStatus_obj_def Let_def quiet_call split: if_split_asm sum.split_asm)

lemma ensureDecommission_writes:
  assumes "ensureDecommission e dcName rackName ready st = Some ((b, err), st')"
  shows "writes 0 st st'"
proof -
  let ?r = "GetDCRackName dcName rackName"
  from assms obtain rs where rs: "st_racks st ?r = Some rs"
    by (cases "st_racks st ?r") (auto simp: ensureDecommission_def Let_def)
  show ?thesis
  proof (cases "po_Name (rs_PodLastOperation rs) = OperationDecommission \<and>
      decommission_status (po_Status (rs_PodLastOperation rs))")
    case False
    with assms rs have "st' = st"
      by (auto simp: ensureDecommission_def decommission_status_def Let_def split: if_split_asm)
    then show ?thesis by simp
  next
    case True
    from assms rs conjunct1 [OF True] conjunct2 [OF True] show ?thesis
    proof (cases rule: ensureDecommission_cases)
      case todo
      with ensureDecommissionToDo_result rs show ?thesis by (blast intro: quiet_writes)
    next
      case (ongoing name)
      with decommission_ongoing_result rs show ?thesis by (blast intro: quiet_writes)
    next
      case (gone name st1)
      have "st_racks st1 ?r = Some rs" using gone(4) rs by simp
      from deletePodPVC_result [OF gone(5) this gone(1)] have "writes 0 st1 st'"
        by (auto intro: quiet_writes) (auto simp: writes_def)
      moreover have "writes 0 st st1" using gone(4) by (simp add: writes_call)
      ultimately show ?thesis by (rule writes_then_none [rotated])
    next
      case wait
      then show ?thesis by (simp add: quiet_writes)
    qed
  qed
qed

lemma updateCassandraStatus_writes:
  "writes n st st1 \<Longrightarrow> writes n st (snd (updateCassandraStatus e st1))"
  by (rule writes_then_none [OF _ quiet_writes [OF updateCassandraStatus_frame(3)]])

lemma UpdatePodLabel_writes:
  "writes n st st1 \<Longrightarrow> UpdatePodLabel e p l st1 = (err, st2) \<Longrightarrow> writes n st st2"
  using writes_then_none [OF _ quiet_writes [OF UpdatePodLabel_frame(4)]] by (metis snd_conv)

lemma initOperation_writes:
  "writes n st st1 \<Longrightarrow> initOperation e dcName rackName opn st1 = Some (ps, st2) \<Longrightarrow> writes n st st2"
  by (auto simp: initOperation_def ListPods_def Let_def upd_rack_def writes_call
      intro!: updateCassandraStatus_writes split: Option.bind_split_asm if_split_asm)

lemma running_pods_writes:
  "writes n st st1 \<Longrightarrow> running_pods e ns st1 = (ps, st2) \<Longrightarrow> writes n st st2"
proof (induction ns arbitrary: st1 ps)
  case (Cons m ns)
  then obtain ps' where "running_pods e ns (call (GetReq KPod (cc_Namespace (st_cc st1)) m) st1) = (ps', st2)"
    by (auto simp: GetPod_def Let_def split: prod.splits)
  then show ?case by (rule Cons.IH [rotated]) (simp add: Cons.prems(1) writes_call)
qed simp

lemma getPodsToWorkOn_writes:
  assumes "writes n st st1" and "getPodsToWorkOn e dcName rackName opn st1 = Some (x, st2)"
  shows "writes n st st2"
proof -
  have slice: "writes n st st3" if "podsSlice e po r opn operator st1 = Some (y, st3)" for po r operator y st3
    using that assms(1) by (auto simp: podsSlice_def Let_def dest: running_pods_writes initOperation_writes
        split: Option.bind_split_asm if_split_asm prod.split_asm)
  from assms show ?thesis
    by (auto simp: getPodsToWorkOn_def Let_def upd_rack_def dest!: slice intro!: updateCassandraStatus_writes
        split: Option.bind_split_asm if_split_asm)
qed

lemma operate_on_writes:
  "writes n st st1 \<Longrightarrow> operate_on e r opn check ps st1 = Some st2 \<Longrightarrow> writes n st st2"
proof (induction ps arbitrary: st1)
  case (Cons p ps)
  show ?case
  proof (cases check)
    case True
    with Cons.prems(2) have "operate_on e r opn check ps
        (call (Spawn (MonitorOperation (PodHostname p) r p opn)) st1) = Some st2" by simp
    then show ?thesis by (rule Cons.IH [rotated]) (simp add: Cons.prems(1) writes_call)
  next
    case False
    with Cons.prems(2) obtain rs err st3 where 3: "st_racks st1 r = Some rs"
      "startOperation e p r (put_rack r (rs\<lparr>rs_PodLastOperation := (rs_PodLastOperation rs)\<lparr>po_OperatorName := env_POD_NAME e\<rparr>\<rparr>) st1) = Some (err, st3)"
      "operate_on e r opn check ps (case err of Some _ \<Rightarrow> st3
         | None \<Rightarrow> call (Spawn (RunOperation (PodHostname p) r p opn)) st3) = Some st2"
      by (auto simp: upd_rack_def split: Option.bind_split_asm)
    from 3(2) Cons.prems(1) have "writes n st st3"
      by (auto simp: startOperation_def Let_def upd_rack_def intro!: updateCassandraStatus_writes
          dest!: UpdatePodLabel_writes [rotated] split: Option.bind_split_asm option.split_asm prod.split_asm)
    then have "writes n st (case err of Some _ \<Rightarrow> st3 | None \<Rightarrow> call (Spawn (RunOperation (PodHostname p) r p opn)) st3)"
      by (simp add: writes_call split: option.split)
    from Cons.IH [OF this 3(3)] show ?thesis .
  qed
qed simp

lemma finalize_loop_writes:
  "finalize_loop e p l cc st = Some res \<Longrightarrow> \<exists>st'. res = Some st' \<and> writes 0 st st'"
proof (induction rule: finalize_loop_induct)
  case (step loop e p l cc st res)
  obtain err st1 where 2: "UpdatePodLabel e p l st = (err, st1)" by fastforce
  then have w1: "writes 0 st st1" using UpdatePodLabel_writes by (metis writes_refl)
  obtain err' cc' st2 where 3: "updateCassandraStatus_obj e cc (cc_Status (st_cc st1)) st1 = (err', cc', st2)"
    by (metis prod_cases3)
  from writes_then_none [OF w1 quiet_writes [OF updateCassandraStatus_obj_quiet [OF 3]]]
  have w2: "writes 0 st st2" .
  show ?case
  proof (cases "err = None \<and> err' = None")
    case True
    with step(2) 2 3 w2 show ?thesis by auto
  next
    case False
    with step(2) 2 3 w1 w2 obtain cc'' st3 where "loop e p l cc'' st3 = Some res" "writes 0 st st3"
      by (auto simp: Let_def writes_call split: if_split_asm)
    with step(1) show ?thesis by (blast intro: writes_then_none)
  qed
qed

lemma finalizeOperation_writes: "finalizeOperation e f st = Some (Some st') \<Longrightarrow> writes 0 st st'"
  by (auto simp: finalizeOperation_def updatePodLastOperation_def upd_cc_podop_def
      dest!: finalize_loop_writes split: option.split_asm Option.bind_split_asm)

lemma finalize_from_writes: "finalize_from e i fs st = Some st' \<Longrightarrow> writes 0 st st'"
proof (induction fs arbitrary: i st)
  case (Cons f fs)
  then show ?case
    by (auto split: if_split_asm Option.bind_split_asm dest!: finalizeOperation_writes intro: writes_then_none)
qed simp

lemma handlePodOperation_writes:
  assumes "handlePodOperation e opn dcName rackName ready st = Some ((b, err), st')"
  shows "writes 0 st st'"
proof -
  obtain res st1 where 1: "hasJoiningNodes e st = (res, st1)" by fastforce
  then have w: "writes 0 st st1" using hasJoiningNodes_queries only_queries_writes by (metis snd_conv)
  have ops: "writes 0 st1 st3" if "finalizeOperations e st1 = Some st2" "ensureOperation e dcName rackName opn st2 = Some st3"
    for st2 st3
  proof -
    from that(1) have "writes 0 st1 st2" by (simp add: finalizeOperations_def finalize_from_writes)
    with that(2) show ?thesis
      by (auto simp: ensureOperation_def split: Option.bind_split_asm dest: getPodsToWorkOn_writes
          intro: operate_on_writes)
  qed
  from assms 1 w show ?thesis
    by (auto simp: handlePodOperation_def dest: ensureDecommission_writes
        split: Option.bind_split_asm if_split_asm sum.split_asm bool.split_asm intro: writes_then_none ops)
qed

section \<open>The statefulset of a rack\<close>

lemma poll_revision_writes: "writes n st st1 \<Longrightarrow> writes n st (poll_revision e k ns name v st1)"
proof (induction k arbitrary: st1)
  case (Suc k)
  then have "writes n st (call (GetReq KStatefulSet ns name) st1)" by (simp add: writes_call)
  from Suc.IH [OF this] this show ?case by (auto simp: GetStatefulSet_def split: sum.split)
qed simp

lemma UpdateStatefulSet_writes: "UpdateStatefulSet e ss st = (err, st') \<Longrightarrow> writes (Suc 0) st st'"
  by (auto simp: UpdateStatefulSet_def Let_def intro!: poll_revision_writes writes_one_call split: option.split_asm)

interpretation apply_step: stopping_step fst "apply_update e t r stored ss" for e t r stored ss
proof
  fix st :: rstate and x st'
  assume "apply_update e t r stored ss st = Some (x, st')"
  then show "writes (if fst x then 1 else 0) st st'"
    by (auto simp: apply_update_def Let_def upd_rack_def dest!: UpdateStatefulSet_writes
        split: Option.bind_split_asm if_split_asm prod.split_asm)
qed

interpretation statefulset_step: stopping_step fst "CreateOrUpdateStatefulSet e ss r" for e ss r
proof
  fix st :: rstate and x :: "bool \<times> error option" and st'
  let ?get = "GetReq KStatefulSet (meta_Namespace (sts_Meta ss)) (meta_Name (sts_Meta ss))"
  assume a: "CreateOrUpdateStatefulSet e ss r st = Some (x, st')"
  define st1 where "st1 = (call ?get st)\<lparr>st_storedStatefulSet := Some (case env_getSts e (st_trace st)
      (meta_Namespace (sts_Meta ss)) (meta_Name (sts_Meta ss)) of
        Inl _ \<Rightarrow> bare_sts (meta_Namespace (sts_Meta ss)) (meta_Name (sts_Meta ss)) | Inr stored \<Rightarrow> stored)\<rparr>"
  have w1: "writes 0 st st1" by (simp add: st1_def writes_call)
  show "writes (if fst x then 1 else 0) st st'"
  proof (cases "\<not> hasNoPodDisruption st \<and> \<not> spec_UnlockNextOperation (cc_Spec (st_cc st))")
    case True
    with a have "st' = st" by (auto simp: CreateOrUpdateStatefulSet_def)
    then show ?thesis by simp
  next
    case go: False
    show ?thesis
    proof (cases "env_getSts e (st_trace st) (meta_Namespace (sts_Meta ss)) (meta_Name (sts_Meta ss))")
      case (Inl err)
      from a go have "fst x \<and> st' = call (CreateStsReq ss) st1 \<or> st' = st1"
        unfolding CreateOrUpdateStatefulSet_def st1_def Inl
        by (auto simp: GetStatefulSet_def CreateStatefulSet_def Let_def Inl split: if_split_asm)
      then show ?thesis using w1 writes_one_call [OF w1] by (auto intro: writes_mono)
    next
      case (Inr stored)
      with a go obtain ss1 st2 where 2: "prepare_update e (now e st) r stored ss st1 = Some (ss1, st2)"
        "apply_update e (now e st) r stored ss1 st2 = Some (x, st')"
        unfolding CreateOrUpdateStatefulSet_def st1_def
        by (auto simp: GetStatefulSet_def Let_def split: if_split_asm Option.bind_split_asm)
      have "writes 0 st st2" using w1 prepare_update_same_trace [OF 2(1)] by (simp add: writes_def)
      then show ?thesis using none_then_writes apply_step.step [OF 2(2)] by blast
    qed
  qed
qed

interpretation ensure_step: stopping_step fst "ensureCassandraStatefulSet e crn dc rack" for e crn dc rack
proof
  fix st :: rstate and x :: "bool \<times> error option" and st'
  assume "ensureCassandraStatefulSet e crn dc rack st = Some (x, st')"
  then consider "st' = st"
    | ss r y where "CreateOrUpdateStatefulSet e ss r st = Some (y, st')" "fst y = fst x"
    by (auto simp: ensureCassandraStatefulSet_def split: Option.bind_split_asm sum.split_asm prod.split_asm)
  then show "writes (if fst x then 1 else 0) st st'"
    by cases (use statefulset_step.step in \<open>fastforce+\<close>)
qed

section \<open>The storage upsize\<close>

definition step_stops :: "StepResult \<times> pvc list \<Rightarrow> bool" where
  "step_stops x = (fst x \<noteq> StepPass)"

definition on_state :: "step \<Rightarrow> pvc list \<Rightarrow> rstate \<Rightarrow> ((StepResult \<times> pvc list) \<times> rstate) option" where
  "on_state s pvcs st = map_option (\<lambda>(res, pvcs', st'). ((res, pvcs'), st')) (s (pvcs, st))"

lemma on_state_iff: "on_state s pvcs st = Some ((res, pvcs'), st') \<longleftrightarrow> s (pvcs, st) = Some (res, pvcs', st')"
  by (auto simp: on_state_def)

abbreviation writing_step :: "step \<Rightarrow> bool" where
  "writing_step s \<equiv> \<forall>pvcs. stopping_step step_stops (on_state s pvcs)"

lemma run_steps_writes:
  "\<forall>s \<in> set ss. writing_step s \<Longrightarrow> run_steps ss (pvcs, st) = Some (err, st') \<Longrightarrow> writes 1 st st'"
proof (induction ss arbitrary: pvcs st)
  case (Cons s ss)
  have s: "stopping_step step_stops (on_state s pvcs)" using Cons.prems(1) by simp
  from Cons.prems(2) show ?case
  proof (cases rule: run_steps_Cons)
    case (stop res pvcs1)
    then have "on_state s pvcs st = Some ((res, pvcs1), st')" by (simp add: on_state_iff)
    then show ?thesis using stopping_step.step_once [OF s] by blast
  next
    case (pass pvcs1 st1)
    then have "on_state s pvcs st = Some ((StepPass, pvcs1), st1)" by (simp add: on_state_iff)
    then have "writes 0 st st1" using stopping_step.step_goes_on [OF s] by (simp add: step_stops_def)
    with pass(2) Cons show ?thesis by (auto intro: none_then_writes)
  qed
qed simp

lemma upsize_steps_write: "\<forall>s \<in> set (upsize_steps e crn q). writing_step s"
proof -
  have quiet_step: "writing_step s" if "\<And>pvcs st res pvcs' st'. s (pvcs, st) = Some (res, pvcs', st') \<Longrightarrow> writes 0 st st'"
    for s
    using writes_any [OF that] by (intro allI stopping_step.intro) (auto simp: on_state_def)
  have "writing_step (makeOldStatefulSetSnapshot e (crn_DcRackName crn))"
    by (rule quiet_step) (auto simp: makeOldStatefulSetSnapshot_def
        split: Option.bind_split_asm if_split_asm option.split_asm sum.split_asm)
  moreover have "writing_step (removeStatefulSetOrphan e)"
    by (intro allI stopping_step.intro) (auto simp: on_state_def removeStatefulSetOrphan_def step_stops_def
        DeleteStatefulSetWithOrphanOption_def writes_one_call split: option.split_asm if_split_asm)
  moreover have "writing_step (recreateStatefulSetWithNewCapacity e (crn_DcRackName crn) q)"
    by (intro allI stopping_step.intro) (auto simp: on_state_def recreateStatefulSetWithNewCapacity_def step_stops_def
        CreateStatefulSet_def writes_one_call split: option.split_asm if_split_asm Option.bind_split_asm sum.split_asm)
  moreover have "writing_step (fetchDataPvcs e crn)"
    by (rule quiet_step) (auto simp: fetchDataPvcs_def getAllDataPvcs_def ListPVC_def writes_call Let_def
       split: Option.bind_split_asm if_split_asm sum.split_asm option.split_asm)
  moreover have "writing_step (ensureAllPVCsHaveNewCapacity e crn)"
  proof (rule quiet_step)
    have loop: "resize_pvcs e k ps (c, m, st1) = (c', m', st2) \<Longrightarrow> writes 0 st st1 \<Longrightarrow> writes 0 st st2"
      for k ps c m c' m' st st1 st2
      by (induction ps arbitrary: c m st1) (auto simp: UpdatePVC_def writes_call touches_sts_def split: if_split_asm)
    show "writes 0 st st'" if "ensureAllPVCsHaveNewCapacity e crn (pvcs, st) = Some (res, pvcs', st')"
      for pvcs st res pvcs' st'
      using that by (auto simp: ensureAllPVCsHaveNewCapacity_def split: prod.split_asm option.split_asm dest: loop [OF _ writes_refl])
  qed
  moreover have "writing_step (waitTillAllFilesystemsHaveNewCapacity e crn)"
    by (rule quiet_step) (auto simp: waitTillAllFilesystemsHaveNewCapacity_def Let_def)
  moreover have "writing_step (waitTillStatefulSetAndAllPodsAreReady e crn)"
    by (rule quiet_step) (auto simp: waitTillStatefulSetAndAllPodsAreReady_def finalizeUpsizeAction_def upd_rack_def
        ListPods_def writes_call split: Option.bind_split_asm if_split_asm sum.split_asm)
  ultimately show ?thesis by (simp add: upsize_steps_def)
qed

lemma ReconcileStorageUpsize_writes:
  assumes "ReconcileStorageUpsize e crn st = Some (err, st')"
  shows "writes 1 st st'"
proof -
  from assms obtain rs :: CassandraRackStatus and st1 where
    1: "st1 = call (PhaseMetric ClusterPhasePending (cc_Name (st_cc st)))
       (put_rack (crn_DcRackName crn) (rs\<lparr>rs_Phase := state_Name ClusterPhasePending\<rparr>) st)"
    and 2: "run_steps (upsize_steps e crn (requested_capacity e crn st1)) ([], st1) = Some (err, st')"
    by (rule ReconcileStorageUpsize_run)
  have "writes 0 st st1" using 1 by (simp add: writes_call)
  then show ?thesis using run_steps_writes [OF upsize_steps_write 2] by (rule none_then_writes)
qed

section \<open>The racks\<close>

definition returns :: "rack_outcome \<Rightarrow> bool" where
  "returns out = (case out of Return _ \<Rightarrow> True | NextRack _ \<Rightarrow> False)"

lemma returns_simps [simp]: "returns (Return err)" "\<not> returns (NextRack b)"
  by (simp_all add: returns_def)

lemma apply_rack_writes:
  assumes "apply_rack e dc rack crn st = Some (out, st')"
  shows "writes (if returns out then 1 else 0) st st'"
proof -
  from assms obtain brk err st1 where 1: "ensureCassandraStatefulSet e crn dc rack st = Some ((brk, err), st1)"
    and 2: "(brk \<longrightarrow> returns out) \<and> (writes (if brk then 1 else 0) st st1 \<longrightarrow> writes (if brk then 1 else 0) st st')"
    by (auto simp: apply_rack_def Let_def waitForStatefulSetToBeUpdated_def writes_call split: Option.bind_split_asm if_split_asm)
  from ensure_step.step [OF 1] 2 show ?thesis by (auto intro: writes_mono split: if_split_asm)
qed

lemma ensure_rack_writes:
  assumes "ensure_rack e dc rack crn res st = Some (out, st')" and "writes 0 st0 st"
  shows "writes (if returns out then 1 else 0) st0 st'"
proof -
  have 1: "writes 0 st0 (snd (ensureCassandraServiceMonitoring e (snd (ensureCassandraService e st))))"
    using assms(2) by (simp add: ensureCassandraService_def ensureCassandraServiceMonitoring_def create_service_def
        writes_call touches_sts_def)
  define st1 where "st1 = snd (ensureCassandraServiceMonitoring e (snd (ensureCassandraService e st)))"
  have up: "writes (if returns out then 1 else 0) st1 st'" if "upsize_rack_step e crn res st1 = Some (out, st')"
    using that by (auto simp: upsize_rack_step_def split: Option.bind_split_asm if_split_asm sum.split_asm
        dest!: ReconcileStorageUpsize_writes)
  from assms(1) have "writes (if returns out then 1 else 0) st1 st'"
    unfolding ensure_rack_def Let_def st1_def [symmetric]
    by (auto dest!: up apply_rack_writes split: Option.bind_split_asm if_split_asm)
  with 1 show ?thesis unfolding st1_def by (rule none_then_writes)
qed

lemma inspect_rack_writes:
  assumes "inspect_rack e opn dc rack crn stored st = Some (decided, st')"
  shows "writes 0 st st'"
proof -
  from assms obtain st1 st2 where 1: "UpdateCassandraRackStatusPhase e crn stored st = Some st1"
    and 2: "getNextCassandraClusterStatus e dc rack crn stored st1 = Some st2"
    unfolding inspect_rack_def Let_def bind_eq_Some_conv by blast
  from assms 1 2 have 3: "st' = st2 \<or> (\<exists>dcName rackName ready x.
        handlePodOperation e opn dcName rackName ready st2 = Some (x, st'))"
    by (fastforce simp: inspect_rack_def Let_def split: Option.bind_split_asm if_split_asm)
  have "writes 0 st st2" using UpdateCassandraRackStatusPhase_frame [OF 1] getNext_frame [OF 2]
    by (blast intro: quiet_writes quiet_trans)
  with 3 show ?thesis by (auto dest: handlePodOperation_writes intro: writes_then_none)
qed

lemma DeletePVCs_writes: "writes 0 st (DeletePVCs e dcName rackName st)"
proof -
  have "writes 0 st (foldl (\<lambda>st p. snd (deletePVC e p st)) st1 ps)" if "writes 0 st st1" for st1 ps
    using that by (induction ps arbitrary: st1) (auto simp: deletePVC_def Let_def writes_call)
  then show ?thesis by (auto simp: DeletePVCs_def ListPVC_def writes_call)
qed

lemma reconcile_known_rack_writes:
  assumes "reconcile_known_rack e opn dc rack crn st = Some (out, st')"
  shows "writes (if returns out then 1 else 0) st st'"
proof -
  define name where "name = cc_Name (st_cc st) @ ''-'' @ crn_DcRackName crn"
  define st1 where "st1 = call (GetReq KStatefulSet (cc_Namespace (st_cc st)) name) st"
  have w1: "writes 0 st st1" by (simp add: st1_def writes_call)
  define res where "res = env_getSts e (st_trace st) (cc_Namespace (st_cc st)) name"
  have eq: "reconcile_known_rack e opn dc rack crn st =
      (case res of Inl _ \<Rightarrow> ensure_rack e dc rack crn res st1
       | Inr stored \<Rightarrow> do { (decided, st) \<leftarrow> inspect_rack e opn dc rack crn stored st1;
           case decided of Some out \<Rightarrow> Some (out, st) | None \<Rightarrow> ensure_rack e dc rack crn res st })"
    unfolding reconcile_known_rack_def GetStatefulSet_def Let_def name_def [symmetric] st1_def res_def
    by simp
  show ?thesis
  proof (cases res)
    case (Inl err)
    with assms eq have "ensure_rack e dc rack crn res st1 = Some (out, st')" by simp
    from ensure_rack_writes [OF this w1] show ?thesis .
  next
    case (Inr stored)
    with assms eq obtain d st2 where 2: "inspect_rack e opn dc rack crn stored st1 = Some (d, st2)"
      and 3: "st' = st2 \<or> ensure_rack e dc rack crn res st2 = Some (out, st')"
      by (cases "inspect_rack e opn dc rack crn stored st1") (auto split: option.split_asm)
    have w2: "writes 0 st st2" using w1 inspect_rack_writes [OF 2] by (rule writes_then_none)
    from 3 show ?thesis
    proof
      assume "st' = st2"
      then show ?thesis using writes_any [OF w2] by simp
    qed (rule ensure_rack_writes [OF _ w2])
  qed
qed

interpretation rack_pass: stopping_step returns "reconcile_rack e opn dc rack" for e opn dc rack
proof
  fix st :: rstate and out st'
  assume "reconcile_rack e opn dc rack st = Some (out, st')"
  then consider "st' = st" | f i n where "st' = set_status f (call (PhaseMetric i n) st)"
    | dcName rackName where "st' = DeletePVCs e dcName rackName st"
    | crn where "reconcile_known_rack e opn dc rack crn st = Some (out, st')"
    unfolding reconcile_rack_def Let_def by (auto split: if_split_asm)
  then show "writes (if returns out then 1 else 0) st st'"
  proof cases
    case 4
    then show ?thesis by (rule reconcile_known_rack_writes)
  qed (simp_all add: writes_call DeletePVCs_writes writes_any)
qed

lemma reconcile_racks_writes:
  "reconcile_racks e pick racks new st = Some (out, st') \<Longrightarrow> writes 1 st st'"
proof (induction racks arbitrary: new st)
  case (Cons k racks)
  obtain dc rack where k: "k = (dc, rack)" by (cases k)
  from Cons.prems k obtain o1 st1 where 1: "reconcile_rack e (pick dc rack) dc rack st = Some (o1, st1)"
    by (cases "reconcile_rack e (pick dc rack) dc rack st") auto
  with Cons.prems k
  have "st' = st1 \<or> \<not> returns o1 \<and> (\<exists>new'. reconcile_racks e pick racks new' st1 = Some (out, st'))"
    by (cases o1) auto
  then show ?case
  proof (elim disjE conjE exE)
    assume "st' = st1"
    then show ?case using rack_pass.step_once [OF 1] by simp
  next
    fix new'
    assume "\<not> returns o1" and "reconcile_racks e pick racks new' st1 = Some (out, st')"
    then show ?case using none_then_writes [OF rack_pass.step_goes_on [OF 1] Cons.IH] by blast
  qed
qed simp

lemma ReconcileRack_writes:
  "ReconcileRack e pick st = Some (err, st') \<Longrightarrow> writes 1 st st'"
  by (auto simp: ReconcileRack_def updateCC_def writes_call dest!: reconcile_racks_writes
      split: Option.bind_split_asm sum.split_asm if_split_asm)

section \<open>Properties\<close>

text \<open>A rack in a storage upsize whose statefulset has just been deleted: the pass creates it again.\<close>

definition recreating_env :: env where
  "recreating_env = upsize_env\<lparr>env_unmarshalSts := \<lambda>_. Inr (upsize_sts twenty)\<rparr>"

lemma recreating_rack:
  "\<exists>err st'. reconcile_rack recreating_env opn 0 0 (upsize_state upsize_cluster None) = Some (Return err, st') \<and>
     length (filter touches_sts (requests (upsize_state upsize_cluster None) st')) = 1"
proof -
  let ?st = "upsize_state upsize_cluster None"
  define st1 where "st1 = snd (ensureCassandraServiceMonitoring recreating_env (snd (ensureCassandraService recreating_env
      (call (GetReq KStatefulSet ''ns'' ''demo-dc1-rack1'') ?st))))"
  have names: "GetDCName (st_cc ?st) 0 = ''dc1''" "GetRackName (st_cc ?st) 0 0 = ''rack1''"
    "cc_Namespace (st_cc ?st) = ''ns''" "cc_Name (st_cc ?st) = ''demo''"
    "GetDCRackName ''dc1'' ''rack1'' = ''dc1-rack1''"
    "meta_DeletionTimestamp (cc_Meta (st_cc ?st)) = None"
    by code_simp+
  have racks: "st_racks ?st ''dc1-rack1'' = Some upsize_rack" "IsStarted upsize_rack" by code_simp+
  have 1: "reconcile_rack recreating_env opn 0 0 ?st =
      do { (err, st) \<leftarrow> ReconcileStorageUpsize recreating_env demo_rack (st1\<lparr>st_storedStatefulSet := None\<rparr>); Some (Return err, st) }"
  proof -
    have get: "env_getSts recreating_env tr ns n = Inl NotFound" for tr ns n
      by (simp add: recreating_env_def upsize_env_def example_env_def)
    have "st_racks st1 ''dc1-rack1'' = Some upsize_rack"
      using racks(1) by (simp add: st1_def ensureCassandraService_def ensureCassandraServiceMonitoring_def create_service_def)
    then have "ensure_rack recreating_env 0 0 demo_rack (Inl NotFound) (call (GetReq KStatefulSet ''ns'' ''demo-dc1-rack1'') ?st) =
        do { (err, st) \<leftarrow> ReconcileStorageUpsize recreating_env demo_rack (st1\<lparr>st_storedStatefulSet := None\<rparr>); Some (Return err, st) }"
      using racks(2) unfolding ensure_rack_def Let_def st1_def [symmetric]
      by (simp add: demo_rack_def upsize_rack_step_def)
    then show ?thesis
      using racks by (simp add: reconcile_rack_def Let_def names reconcile_known_rack_def GetStatefulSet_def get
          demo_rack_def [symmetric]) (simp add: demo_rack_def)
  qed
  have "case ReconcileStorageUpsize recreating_env demo_rack (st1\<lparr>st_storedStatefulSet := None\<rparr>) of
      None \<Rightarrow> False | Some (x, st') \<Rightarrow> length (filter touches_sts (requests ?st st')) = 1"
    unfolding st1_def by code_simp
  then show ?thesis unfolding 1 by (auto split: option.split_asm)
qed

text \<open>
  C1 (one_statefulset_per_pass): a pass over the racks writes at most one statefulset, whatever the cluster answers, in
  whatever state the racks are, storage upsizes and pod operations included: two racks are never
  changed at the same time.
\<close>

theorem one_statefulset_per_pass:
  assumes "ReconcileRack e pick st = Some (err, st')"
  shows "length (filter touches_sts (requests st st')) \<le> 1"
  using ReconcileRack_writes [OF assms] by (rule writes_requests)

theorem one_statefulset_per_pass_witness:
  "\<exists>err st'. ReconcileRack recreating_env (\<lambda>_ _. OperationCleanup) (upsize_state upsize_cluster None) = Some (err, st') \<and>
     filter touches_sts (requests (upsize_state upsize_cluster None) st') \<noteq> [] \<and>
     length (filter touches_sts (requests (upsize_state upsize_cluster None) st')) \<le> 1"
proof -
  let ?st = "upsize_state upsize_cluster None" and ?pick = "\<lambda>_ _. OperationCleanup"
  obtain err st' where 1: "reconcile_rack recreating_env OperationCleanup 0 0 ?st = Some (Return err, st')"
    "length (filter touches_sts (requests ?st st')) = 1" using recreating_rack by blast
  have "rack_indices (st_cc ?st) = [(0, 0), (0, 1)]" by code_simp
  with 1(1) have "ReconcileRack recreating_env ?pick ?st = Some (err, st')"
    by (simp add: ReconcileRack_def)
  with 1(2) one_statefulset_per_pass [OF this] show ?thesis by fastforce
qed

end
