(* ===== verification/Change_Control.thy ===== *)
theory Change_Control
  imports Reconcile
begin

text \<open>
  Facts on the control of changes: src/controllers/cassandracluster/reconcile.go, CheckNonAllowedChanges,
  CheckTopologyChanges, CheckNonAllowedScaleDown and UpdateCassandraClusterStatusPhase.  A DC is deleted only
  when it is empty, the storage classes stay those of the last applied configuration, and the phase of the
  cluster follows those of its racks; the cases that the code misses are stated as well.
\<close>

section \<open>Deleting a DC\<close>

lemma delete_objects_cc: "delete_objects e rs st = Some st' \<Longrightarrow> st_cc st' = st_cc st"
  by (induction rs arbitrary: st) (auto simp: Let_def DeleteStatefulSet_def DeleteService_def split: Option.bind_split_asm)

lemma delete_objects_trace:
  "delete_objects e rs st = Some st' \<Longrightarrow>
     \<exists>qs. st_trace st' = st_trace st @ qs \<and>
       {q \<in> set qs. touches_sts q} =
         (\<lambda>r. DeleteStsReq (cc_Namespace (st_cc st)) (cc_Name (st_cc st) @ ''-'' @ r) False) ` set rs"
proof (induction rs arbitrary: st)
  case (Cons r rs)
  let ?q = "DeleteStsReq (cc_Namespace (st_cc st)) (cc_Name (st_cc st) @ ''-'' @ r) False"
  from Cons.prems obtain st1 s1 s2 s3 where 1: "delete_objects e rs st1 = Some st'" "st_cc st1 = st_cc st"
    "st_trace st1 = st_trace st @ [?q, s1, s2, s3]" "\<not> touches_sts s1" "\<not> touches_sts s2" "\<not> touches_sts s3"
    by (auto simp: Let_def DeleteStatefulSet_def DeleteService_def touches_sts_def split: Option.bind_split_asm)
  from Cons.IH [OF 1(1)] 1(2-) obtain qs where
    "st_trace st' = st_trace st @ ([?q, s1, s2, s3] @ qs)" "{q \<in> set qs. touches_sts q} =
      (\<lambda>r. DeleteStsReq (cc_Namespace (st_cc st)) (cc_Name (st_cc st) @ ''-'' @ r) False) ` set rs" by auto
  moreover have "{q \<in> set ([?q, s1, s2, s3] @ qs). touches_sts q} = insert ?q {q \<in> set qs. touches_sts q}"
    using 1(4-) by (auto simp: touches_sts_def)
  ultimately show ?case by (intro exI [of _ "[?q, s1, s2, s3] @ qs"]) simp
qed auto

lemma deleteDCObjects_trace:
  assumes "deleteDCObjects e st = Some (x, st')"
  shows "{q \<in> set (requests st st'). touches_sts q} =
    (\<lambda>r. DeleteStsReq (cc_Namespace (st_cc st)) (cc_Name (st_cc st) @ ''-'' @ r) False) `
      set (fst (FixCassandraRackList (st_cc st) (rack_order e st) (st_status st))) \<and> st_cc st' = st_cc st"
proof -
  obtain rs s where f: "FixCassandraRackList (st_cc st) (rack_order e st) (st_status st) = (rs, s)" by fastforce
  show ?thesis
  proof (cases "rs = []")
    case True
    with assms f show ?thesis by (auto simp: deleteDCObjects_def requests_def)
  next
    case False
    with assms f obtain st1 where 1: "delete_objects e rs (st\<lparr>st_status := s\<rparr>) = Some st1"
      "st' = call (ActionMetric ActionDeleteDC (cc_Name (st_cc st1))) st1"
      by (auto simp: deleteDCObjects_def Let_def split: Option.bind_split_asm)
    from delete_objects_trace [OF 1(1)] delete_objects_cc [OF 1(1)] show ?thesis
      by (auto simp: 1(2) f requests_def touches_sts_def)
  qed
qed

lemma nodes_of_removed:
  assumes "distinct (map dc_Name (cc_DCs old))" and "k < length (cc_DCs old)"
  shows "GetDCNodesPerRacksFromName old (dc_Name (cc_DCs old ! k)) = (True, getDCNodesPerRacksFromIndex old k)"
proof -
  have "find (\<lambda>dc. dc_Name (cc_DCs old ! k) = GetDCName old dc) [0..<GetDCSize old] = Some k"
    unfolding find_Some_iff using assms
    by (intro exI [of _ k]) (auto simp: GetDCSize_def GetDCName_def distinct_conv_nth)
  moreover have "\<not> GetDCSize old < 1" using assms(2) by (auto simp: GetDCSize_def)
  ultimately show ?thesis by (simp add: GetDCNodesPerRacksFromName_def)
qed

lemma CheckTopologyChanges_delete:
  assumes "CheckTopologyChanges e old st = Some (x, st')" and "st' \<noteq> st"
  obtains "deleteDCObjects e st = Some (x, st')"
    "\<not> (cs_LastClusterAction (cc_Status (st_cc st)) = state_Name ActionScaleDown \<and>
       cs_LastClusterActionStatus (cc_Status (st_cc st)) \<noteq> StatusDone)"
    "fst (GetDCNodesPerRacksFromName old (GetRemovedDCName (st_cc st) old)) \<Longrightarrow>
       snd (GetDCNodesPerRacksFromName old (GetRemovedDCName (st_cc st) old)) \<le> 0"
  using assms by (auto simp: CheckTopologyChanges_def Let_def split: if_split_asm Option.bind_split_asm prod.split_asm)

text \<open>
  C7 (dc_deleted_only_when_empty): when one DC is taken out of the topology, its statefulsets are deleted only when it
  had no nodes in the last applied configuration and no scale down is in progress.  The last DC of the list
  being named dc1 is excluded, see last\_dc1\_deleted\_unchecked.
\<close>

theorem dc_deleted_only_when_empty:
  assumes "CheckTopologyChanges e old st = Some (x, st')" and "\<exists>q \<in> set (requests st st'). touches_sts q"
    and "distinct (map dc_Name (cc_DCs old))" and "k < length (cc_DCs old)"
    and "cc_DCs (st_cc st) = take k (cc_DCs old) @ drop (Suc k) (cc_DCs old)"
    and "Suc k < length (cc_DCs old) \<or> dc_Name (cc_DCs old ! k) \<noteq> DefaultCassandraDC"
  shows "getDCNodesPerRacksFromIndex old k \<le> 0 \<and>
    \<not> (cs_LastClusterAction (cc_Status (st_cc st)) = state_Name ActionScaleDown \<and>
       cs_LastClusterActionStatus (cc_Status (st_cc st)) \<noteq> StatusDone) \<and>
    {q \<in> set (requests st st'). touches_sts q} =
      (\<lambda>r. DeleteStsReq (cc_Namespace (st_cc st)) (cc_Name (st_cc st) @ ''-'' @ r) False) `
        set (fst (FixCassandraRackList (st_cc st) (rack_order e st) (st_status st)))"
proof -
  have "st' \<noteq> st" using assms(2) by (auto simp: requests_def)
  with assms(1) show ?thesis
  proof (cases rule: CheckTopologyChanges_delete)
    case 1
    have "GetRemovedDCName (st_cc st) old = dc_Name (cc_DCs old ! k)"
      using GetRemovedDCName_removed [OF assms(3-5)] assms(6) by auto
    with 1 nodes_of_removed [OF assms(3,4)] deleteDCObjects_trace [OF 1(1)] show ?thesis by simp
  qed
qed

lemma GetDCRackSize_sum: "GetDCRackSize cc = (\<Sum>d \<leftarrow> cc_DCs cc. length (dc_Rack d))"
proof -
  have "foldl (\<lambda>nb dc. nb + f dc) a xs = a + sum_list (map f xs)" for f :: "nat \<Rightarrow> nat" and a xs
    by (induction xs arbitrary: a) auto
  moreover have "map (GetRackSize cc) [0..<GetDCSize cc] = map (\<lambda>d. length (dc_Rack d)) (cc_DCs cc)"
    by (intro nth_equalityI) (auto simp: GetDCSize_def GetRackSize_def)
  ultimately show ?thesis by (simp add: GetDCRackSize_def)
qed

lemma delete_objects_total:
  "\<forall>r \<in> set rs. GetDCNameFromDCRackName r \<noteq> None \<Longrightarrow> \<exists>st'. delete_objects e rs st = Some st'"
  by (induction rs arbitrary: st) (auto simp: Let_def)

lemma deleteDCObjects_total:
  assumes "\<forall>r \<in> set (rack_order e st). GetDCNameFromDCRackName r \<noteq> None"
  shows "\<exists>x st'. deleteDCObjects e st = Some (x, st')"
proof -
  obtain rs s where f: "FixCassandraRackList (st_cc st) (rack_order e st) (st_status st) = (rs, s)" by fastforce
  then have "set rs \<subseteq> set (rack_order e st)"
    unfolding FixCassandraRackList_def Let_def FixCassandraRackList_fold by auto
  with assms have "\<forall>r \<in> set rs. GetDCNameFromDCRackName r \<noteq> None" by blast
  from delete_objects_total [OF this] obtain st' where "delete_objects e rs (st\<lparr>st_status := s\<rparr>) = Some st'" by blast
  with f show ?thesis by (cases "rs = []") (auto simp: deleteDCObjects_def Let_def)
qed

text \<open>
  C28 (last_dc1_deleted_unchecked): when the last DC of the list is named dc1, taking it out is not noticed by
  GetRemovedDCName, which compares it with the default name dc1 beyond the end of the list: the statefulsets
  of its racks are deleted whatever number of nodes it has.  Named hypotheses: the diff reports the removal of
  a whole DC, and a map is visited in some order of its keys.
\<close>

theorem last_dc1_deleted_unchecked:
  fixes cl :: "change list"
  assumes "distinct (map dc_Name (cc_DCs old))" and "cc_DCs old = cc_DCs (st_cc st) @ [d]"
    and "dc_Name d = DefaultCassandraDC" and "dc_Rack d \<noteq> []" and "\<forall>x \<in> set (cc_DCs old). dc_Name x \<noteq> ''''"
    and "env_topologyDiff e (spec_Topology (cc_Spec old)) (spec_Topology (cc_Spec (st_cc st))) = cl"
    and "hasChange cl UPDATE [] = Some False" and "hasChange cl DELETE [''DC.Rack'', ''-DC''] = Some False"
    and "hasChange cl CREATE [''DC.Rack'', ''-DC''] = Some False"
    and "cs_LastClusterAction (cc_Status (st_cc st)) \<noteq> state_Name ActionScaleDown"
    and "set (rack_order e st) = dom (cc_RackStatus (st_cc st))"
    and "\<forall>r \<in> dom (cc_RackStatus (st_cc st)). GetDCNameFromDCRackName r \<noteq> None"
    and "cc_RackStatus (st_cc st) r \<noteq> None" and "cc_RackStatus (snd (InitCassandraRackList (st_cc st))) r = None"
  shows "\<exists>x st'. CheckTopologyChanges e old st = Some (x, st') \<and>
    DeleteStsReq (cc_Namespace (st_cc st)) (cc_Name (st_cc st) @ ''-'' @ r) False \<in> set (requests st st')"
proof -
  let ?n = "length (cc_DCs (st_cc st))"
  have "GetRemovedDCName (st_cc st) old = ''''"
    using GetRemovedDCName_removed [of old ?n "st_cc st"] assms(1-3) by simp
  moreover have "find (\<lambda>dc. '''' = GetDCName old dc) [0..<GetDCSize old] = None"
    using assms(5) by (simp add: find_None_iff GetDCName_def GetDCSize_def) (metis nth_mem)
  moreover have "GetDCSize old = Suc (GetDCSize (st_cc st))" using assms(2) by (simp add: GetDCSize_def)
  moreover have "GetDCRackSize (st_cc st) < GetDCRackSize old"
    using assms(2,4) by (simp add: GetDCRackSize_sum)
  ultimately have c: "CheckTopologyChanges e old st = deleteDCObjects e st"
    using assms(6-10) by (simp add: CheckTopologyChanges_def GetDCNodesPerRacksFromName_def Let_def)
  obtain x st' where d: "deleteDCObjects e st = Some (x, st')"
    using deleteDCObjects_total [of e st] assms(11,12) by auto
  have "r \<in> set (fst (FixCassandraRackList (st_cc st) (rack_order e st) (st_status st)))"
    unfolding FixCassandraRackList_def Let_def FixCassandraRackList_fold using assms(11,13,14) by auto
  with deleteDCObjects_trace [OF d] c d show ?thesis by auto
qed

text \<open>
  The last applied configuration has the DCs dc2 and, at the end, another one with n nodes per rack, which the
  new configuration no longer has.
\<close>

definition dcs_before :: "string \<Rightarrow> int \<Rightarrow> CassandraCluster" where
  "dcs_before d n = example_cluster 3 [zero_dc ''dc2'' [zero_rack ''rack1''],
     (zero_dc d [zero_rack ''rack1''])\<lparr>dc_NodesPerRacks := Some n\<rparr>]"

definition shrunk_state :: "string \<Rightarrow> rstate" where
  "shrunk_state r = example_state (example_cluster 3 [zero_dc ''dc2'' [zero_rack ''rack1'']])
     [''dc2-rack1'' \<mapsto> example_rack ''Running'' '''' '''', r \<mapsto> example_rack ''Running'' '''' '''']"

definition removal :: "change list" where
  "removal = [\<lparr>ch_Type = DELETE, ch_Path = [''DC'', ''1'', ''Name'']\<rparr>,
              \<lparr>ch_Type = DELETE, ch_Path = [''DC'', ''1'', ''Rack'', ''0'', ''Name'']\<rparr>]"

definition removal_env :: env where
  "removal_env = example_env\<lparr>env_topologyDiff := \<lambda>_ _. removal\<rparr>"

lemma removal_changes:
  "hasChange removal UPDATE [] = Some False" "hasChange removal DELETE [''DC.Rack'', ''-DC''] = Some False"
  "hasChange removal CREATE [''DC.Rack'', ''-DC''] = Some False"
  by code_simp+

lemma shrunk_order: "set (rack_order removal_env (shrunk_state r)) = dom (cc_RackStatus (st_cc (shrunk_state r)))"
  by (auto simp: rack_order_def removal_env_def example_env_def shrunk_state_def example_state_def set_insort_key)

lemma shrunk_simps:
  "cs_LastClusterAction (cc_Status (st_cc (shrunk_state r))) \<noteq> state_Name ActionScaleDown"
  "dom (cc_RackStatus (st_cc (shrunk_state r))) = {r, ''dc2-rack1''}"
  "GetDCNameFromDCRackName ''dc2-rack1'' = Some ''dc2''"
  "cc_Namespace (st_cc (shrunk_state r)) = ''ns''" "cc_Name (st_cc (shrunk_state r)) = ''demo''"
  "env_topologyDiff removal_env t t' = removal"
  by (simp_all add: shrunk_state_def example_state_def example_cluster_def zero_status_def named_meta_def removal_env_def) code_simp+

theorem last_dc1_deleted_unchecked_witness:
  "getDCNodesPerRacksFromIndex (dcs_before ''dc1'' 3) 1 = 3 \<and>
   (\<exists>x st'. CheckTopologyChanges removal_env (dcs_before ''dc1'' 3) (shrunk_state ''dc1-rack1'') = Some (x, st') \<and>
     DeleteStsReq ''ns'' ''demo-dc1-rack1'' False \<in> set (requests (shrunk_state ''dc1-rack1'') st'))"
proof -
  let ?st = "shrunk_state ''dc1-rack1''" and ?old = "dcs_before ''dc1'' 3"
  have 1: "distinct (map dc_Name (cc_DCs ?old))" "cc_DCs ?old = cc_DCs (st_cc ?st) @ [cc_DCs ?old ! 1]"
    "dc_Name (cc_DCs ?old ! 1) = DefaultCassandraDC" "dc_Rack (cc_DCs ?old ! 1) \<noteq> []"
    "\<forall>x \<in> set (cc_DCs ?old). dc_Name x \<noteq> ''''"
    by (simp_all add: dcs_before_def shrunk_state_def example_state_def example_cluster_def example_defs DefaultCassandraDC_def)
  have "GetDCNameFromDCRackName ''dc1-rack1'' = Some ''dc1''" by code_simp
  then have 2: "\<forall>r \<in> dom (cc_RackStatus (st_cc ?st)). GetDCNameFromDCRackName r \<noteq> None" by (simp add: shrunk_simps)
  have 3: "cc_RackStatus (st_cc ?st) ''dc1-rack1'' \<noteq> None" by code_simp
  have 4: "cc_RackStatus (snd (InitCassandraRackList (st_cc ?st))) ''dc1-rack1'' = None" by code_simp
  have "getDCNodesPerRacksFromIndex ?old 1 = 3" by code_simp
  with last_dc1_deleted_unchecked [OF 1 shrunk_simps(6) removal_changes shrunk_simps(1) shrunk_order 2 3 4] show ?thesis
    by (simp add: shrunk_simps)
qed

theorem dc_deleted_only_when_empty_witness:
  "\<exists>x st'. CheckTopologyChanges removal_env (dcs_before ''dc3'' 0) (shrunk_state ''dc3-rack1'') = Some (x, st') \<and>
     getDCNodesPerRacksFromIndex (dcs_before ''dc3'' 0) 1 \<le> 0 \<and>
     DeleteStsReq ''ns'' ''demo-dc3-rack1'' False \<in> set (requests (shrunk_state ''dc3-rack1'') st')"
proof -
  let ?st = "shrunk_state ''dc3-rack1''" and ?old = "dcs_before ''dc3'' 0"
  have 1: "distinct (map dc_Name (cc_DCs ?old))" "1 < length (cc_DCs ?old)"
    "cc_DCs (st_cc ?st) = take 1 (cc_DCs ?old) @ drop (Suc 1) (cc_DCs ?old)"
    "dc_Name (cc_DCs ?old ! 1) \<noteq> DefaultCassandraDC"
    by (simp_all add: dcs_before_def shrunk_state_def example_state_def example_cluster_def example_defs DefaultCassandraDC_def)
  have "GetRemovedDCName (st_cc ?st) ?old = ''dc3''" "GetDCNodesPerRacksFromName ?old ''dc3'' = (True, 0)"
    "GetDCSize (st_cc ?st) = 1" "GetDCSize ?old = 2" "GetDCRackSize (st_cc ?st) = 1" "GetDCRackSize ?old = 2"
    by code_simp+
  then have c: "CheckTopologyChanges removal_env ?old ?st = deleteDCObjects removal_env ?st"
    using shrunk_simps(1) [of "''dc3-rack1''"] by (simp add: CheckTopologyChanges_def shrunk_simps(6) removal_changes Let_def)
  have "GetDCNameFromDCRackName ''dc3-rack1'' = Some ''dc3''" by code_simp
  then obtain x st' where d: "deleteDCObjects removal_env ?st = Some (x, st')"
    using deleteDCObjects_total [of removal_env ?st] by (auto simp: shrunk_order shrunk_simps)
  have "cc_RackStatus (snd (InitCassandraRackList (st_cc ?st))) ''dc3-rack1'' = None" by code_simp
  then have "''dc3-rack1'' \<in> set (fst (FixCassandraRackList (st_cc ?st) (rack_order removal_env ?st) (st_status ?st)))"
    unfolding FixCassandraRackList_def Let_def FixCassandraRackList_fold by (simp add: shrunk_order shrunk_simps)
  with deleteDCObjects_trace [OF d] have
    r: "DeleteStsReq ''ns'' ''demo-dc3-rack1'' False \<in> {q \<in> set (requests ?st st'). touches_sts q}"
    by (auto simp: shrunk_simps)
  with dc_deleted_only_when_empty [OF c [unfolded d] _ 1(1-3)] 1(4) c d show ?thesis by fastforce
qed

section \<open>Storage settings\<close>

text \<open>
  Two configurations of the same DCs, in the same order, that both declare a capacity for the DC at an index, or neither: then the
  storage class of this DC is read from the same place in both.
\<close>

definition same_dc :: "nat \<Rightarrow> CassandraCluster \<Rightarrow> CassandraCluster \<Rightarrow> bool" where
  "same_dc k cc old \<longleftrightarrow> map dc_Name (cc_DCs cc) = map dc_Name (cc_DCs old) \<and>
     (dc_DataCapacity (cc_DCs cc ! k) = '''' \<longleftrightarrow> dc_DataCapacity (cc_DCs old ! k) = '''')"

text \<open>The storage class of the DC at an index.\<close>

definition class_at :: "CassandraCluster \<Rightarrow> nat \<Rightarrow> string" where
  "class_at cc i = (if dc_DataCapacity (cc_DCs cc ! i) = '''' then spec_DataStorageClass (cc_Spec cc)
     else dc_DataStorageClass (cc_DCs cc ! i))"

lemma class_at_name:
  assumes "distinct (map dc_Name (cc_DCs cc))" and "i < length (cc_DCs cc)"
  shows "GetDataStorageClassFromDCName cc (dc_Name (cc_DCs cc ! i)) = class_at cc i"
  using GetDataStorageClass_needs_capacity [OF assms] by (simp add: class_at_def)

lemma class_at_same:
  assumes "map dc_Name (cc_DCs cc) = map dc_Name (cc_DCs old)" and "distinct (map dc_Name (cc_DCs old))" and "i < length (cc_DCs old)"
  shows "GetDataStorageClassFromDCName cc (dc_Name (cc_DCs old ! i)) = class_at cc i"
  using class_at_name [of cc i] assms by (metis length_map nth_map)

lemma restore_capacity_class:
  assumes "restore_capacity old i st = Some st'" and "i < length (cc_DCs (st_cc st))"
  shows "map dc_Name (cc_DCs (st_cc st')) = map dc_Name (cc_DCs (st_cc st))"
    and "same_dc k (st_cc st) old \<Longrightarrow> same_dc k (st_cc st') old \<and> class_at (st_cc st') k = class_at (st_cc st) k"
proof -
  have cc: "cc_DCs (st_cc st') = (cc_DCs (st_cc st))[i := (cc_DCs (st_cc st) ! i)\<lparr>dc_DataCapacity := dc_DataCapacity (cc_DCs old ! i)\<rparr>]"
    "spec_DataStorageClass (cc_Spec (st_cc st')) = spec_DataStorageClass (cc_Spec (st_cc st))"
    using assms(1) by (auto simp: restore_capacity_def set_dc_def index_def Let_def split: if_split_asm)
  show names: "map dc_Name (cc_DCs (st_cc st')) = map dc_Name (cc_DCs (st_cc st))"
    using assms(2) by (simp add: cc map_update list_update_same_conv)
  show "same_dc k (st_cc st') old \<and> class_at (st_cc st') k = class_at (st_cc st) k" if "same_dc k (st_cc st) old"
    using that assms(2) names by (cases "k = i") (auto simp: same_dc_def class_at_def cc)
qed

lemma restore_storage_class_class:
  assumes "restore_storage_class old i st = Some st'" and "i < length (cc_DCs (st_cc st))"
  shows "map dc_Name (cc_DCs (st_cc st')) = map dc_Name (cc_DCs (st_cc st))"
    and "dc_DataCapacity (cc_DCs (st_cc st') ! k) = dc_DataCapacity (cc_DCs (st_cc st) ! k)"
    and "dc_DataStorageClass (cc_DCs (st_cc st') ! i) = dc_DataStorageClass (cc_DCs old ! i)"
    and "same_dc k (st_cc st) old \<Longrightarrow> k = i \<or> class_at (st_cc st) k = class_at old k \<Longrightarrow> class_at (st_cc st') k = class_at old k"
proof -
  have cc: "cc_DCs (st_cc st') = (cc_DCs (st_cc st))[i := (cc_DCs (st_cc st) ! i)\<lparr>dc_DataStorageClass := dc_DataStorageClass (cc_DCs old ! i)\<rparr>]"
    "spec_DataStorageClass (cc_Spec (st_cc st')) = spec_DataStorageClass (cc_Spec old)"
    using assms(1) by (auto simp: restore_storage_class_def set_dc_def index_def Let_def split: if_split_asm)
  show "map dc_Name (cc_DCs (st_cc st')) = map dc_Name (cc_DCs (st_cc st))"
    using assms(2) by (simp add: cc map_update list_update_same_conv)
  show "dc_DataCapacity (cc_DCs (st_cc st') ! k) = dc_DataCapacity (cc_DCs (st_cc st) ! k)"
    using assms(2) by (cases "k = i") (auto simp: cc)
  show "dc_DataStorageClass (cc_DCs (st_cc st') ! i) = dc_DataStorageClass (cc_DCs old ! i)"
    using assms(2) by (simp add: cc)
  show "class_at (st_cc st') k = class_at old k"
    if "same_dc k (st_cc st) old" "k = i \<or> class_at (st_cc st) k = class_at old k"
    using that assms(2) by (cases "k = i") (auto simp: same_dc_def class_at_def cc split: if_split_asm)
qed

lemma check_dc_run:
  assumes "check_dc e old i st = Some st'" and "map dc_Name (cc_DCs (st_cc st)) = map dc_Name (cc_DCs old)"
    and "i < length (cc_DCs old)" and "distinct (map dc_Name (cc_DCs old))"
  obtains st1 where
    "if AnalyzeDataCapacityChange e (GetDataCapacityFromDCName old (dc_Name (cc_DCs old ! i)))
       (GetDataCapacityFromDCName (st_cc st) (dc_Name (cc_DCs old ! i))) = CapacityDownsize
     then restore_capacity old i st = Some st1 else st1 = st"
    "map dc_Name (cc_DCs (st_cc st1)) = map dc_Name (cc_DCs old)"
    "if class_at (st_cc st1) i = class_at old i then st' = st1 else restore_storage_class old i st1 = Some st'"
proof -
  have n: "length (cc_DCs (st_cc st)) = length (cc_DCs old)" using assms(2) by (rule map_eq_imp_length_eq)
  then have d: "GetDCName (st_cc st) i = dc_Name (cc_DCs old ! i)"
    using assms(2,3) by (simp add: GetDCName_def GetDCSize_def) (metis nth_map)
  obtain st1 where 1: "if AnalyzeDataCapacityChange e (GetDataCapacityFromDCName old (dc_Name (cc_DCs old ! i)))
       (GetDataCapacityFromDCName (st_cc st) (dc_Name (cc_DCs old ! i))) = CapacityDownsize
     then restore_capacity old i st = Some st1 else st1 = st"
    and 2: "(if GetDataStorageClassFromDCName (st_cc st1) (dc_Name (cc_DCs old ! i)) \<noteq> GetDataStorageClassFromDCName old (dc_Name (cc_DCs old ! i))
      then restore_storage_class old i st1 else Some st1) = Some st'"
    using assms(1) unfolding check_dc_def Let_def bind_eq_Some_conv d by (auto split: if_split_asm)
  have names: "map dc_Name (cc_DCs (st_cc st1)) = map dc_Name (cc_DCs old)"
    using 1 restore_capacity_class(1) [of old i st st1] assms(2,3) n by (auto split: if_split_asm)
  show thesis
    using 2 class_at_same [OF names assms(4,3)] class_at_name [OF assms(4,3)]
    by (intro that [OF 1 names]) (auto split: if_split_asm)
qed

lemma check_dc_class:
  assumes "check_dc e old i st = Some st'" and "same_dc k (st_cc st) old" and "i < length (cc_DCs old)"
    and "distinct (map dc_Name (cc_DCs old))"
  shows "same_dc k (st_cc st') old \<and> (k = i \<or> class_at (st_cc st) k = class_at old k \<longrightarrow> class_at (st_cc st') k = class_at old k)"
proof -
  have names: "map dc_Name (cc_DCs (st_cc st)) = map dc_Name (cc_DCs old)" using assms(2) by (simp add: same_dc_def)
  then have n: "length (cc_DCs (st_cc st)) = length (cc_DCs old)" by (rule map_eq_imp_length_eq)
  from check_dc_run [OF assms(1) names assms(3,4)] obtain st1 where
    1: "if AnalyzeDataCapacityChange e (GetDataCapacityFromDCName old (dc_Name (cc_DCs old ! i)))
       (GetDataCapacityFromDCName (st_cc st) (dc_Name (cc_DCs old ! i))) = CapacityDownsize
     then restore_capacity old i st = Some st1 else st1 = st" and names1: "map dc_Name (cc_DCs (st_cc st1)) = map dc_Name (cc_DCs old)"
    and 2: "if class_at (st_cc st1) i = class_at old i then st' = st1 else restore_storage_class old i st1 = Some st'" .
  have s1: "same_dc k (st_cc st1) old" "class_at (st_cc st1) k = class_at (st_cc st) k"
    using 1 restore_capacity_class(2) [of old i st st1 k] assms(2,3) n by (auto split: if_split_asm)
  have n1: "i < length (cc_DCs (st_cc st1))" using map_eq_imp_length_eq [OF names1] assms(3) by simp
  show ?thesis
  proof (cases "class_at (st_cc st1) i = class_at old i")
    case True
    with 2 s1 show ?thesis by auto
  next
    case False
    with 2 have "restore_storage_class old i st1 = Some st'" by simp
    from restore_storage_class_class [OF this n1] s1 show ?thesis by (auto simp: same_dc_def)
  qed
qed

lemma check_dcs_class:
  assumes "check_dcs e old is st = Some st'" and "same_dc k (st_cc st) old" and "\<forall>i \<in> set is. i < length (cc_DCs old)"
    and "distinct (map dc_Name (cc_DCs old))"
  shows "same_dc k (st_cc st') old \<and> (k \<in> set is \<or> class_at (st_cc st) k = class_at old k \<longrightarrow> class_at (st_cc st') k = class_at old k)"
  using assms
proof (induction "is" arbitrary: st)
  case (Cons i "is")
  then obtain st1 where 1: "check_dc e old i st = Some st1" "check_dcs e old is st1 = Some st'"
    by (auto split: Option.bind_split_asm)
  from check_dc_class [OF 1(1) Cons.prems(2)] Cons.prems(3,4)
  have "same_dc k (st_cc st1) old \<and> (k = i \<or> class_at (st_cc st) k = class_at old k \<longrightarrow> class_at (st_cc st1) k = class_at old k)" by simp
  with Cons.IH [OF 1(2)] Cons.prems(3,4) show ?case by auto
qed simp

text \<open>
  A DC that declares a capacity for the first time is checked against the class of the cluster, but gets the class that its own
  field had in the last applied configuration, where it was not used.
\<close>

lemma new_capacity_loses_class:
  assumes "check_dc e old i st = Some st'" and "map dc_Name (cc_DCs (st_cc st)) = map dc_Name (cc_DCs old)"
    and "i < length (cc_DCs old)" and "distinct (map dc_Name (cc_DCs old))"
    and "dc_DataCapacity (cc_DCs (st_cc st) ! i) \<noteq> ''''" and "class_at (st_cc st) i \<noteq> class_at old i"
    and "AnalyzeDataCapacityChange e (GetDataCapacityFromDCName old (dc_Name (cc_DCs old ! i)))
       (GetDataCapacityFromDCName (st_cc st) (dc_Name (cc_DCs old ! i))) \<noteq> CapacityDownsize"
  shows "GetDataStorageClassFromDCName (st_cc st') (dc_Name (cc_DCs old ! i)) = dc_DataStorageClass (cc_DCs old ! i)"
proof -
  have n: "i < length (cc_DCs (st_cc st))" using map_eq_imp_length_eq [OF assms(2)] assms(3) by simp
  have "restore_storage_class old i st = Some st'"
    by (rule check_dc_run [OF assms(1-4)]) (use assms(6,7) in auto)
  note 1 = restore_storage_class_class [OF this n]
  have "class_at (st_cc st') i = dc_DataStorageClass (cc_DCs old ! i)" using 1(2) [of i] 1(3) assms(5) by (simp add: class_at_def)
  then show ?thesis using class_at_same [of "st_cc st'" old i] 1(1) assms(2-4) by simp
qed

lemma restored_topology_class:
  assumes "same_dc k cc old" and "class_at cc k = class_at old k"
  shows "class_at (set_topology (spec_Topology (cc_Spec old)) cc) k = class_at old k"
  using assms by (auto simp: class_at_def same_dc_def set_topology_def split: if_split_asm)

lemma CheckTopologyChanges_cc: "CheckTopologyChanges e old st = Some (x, st') \<Longrightarrow> st_cc st' = st_cc st"
  by (cases "st' = st") (auto elim!: CheckTopologyChanges_delete dest: deleteDCObjects_trace)

lemma plan_resources_cc: "plan_resources e rs st = Some st' \<Longrightarrow> st_cc st' = st_cc st"
  by (induction rs arbitrary: st) (auto simp: Let_def upd_rack_def split: Option.bind_split_asm)

lemma CheckNonAllowedScaleDown_cases:
  assumes "CheckNonAllowedScaleDown e old st = Some (b, st')"
  obtains st1 where "only_queries st st1" "st' = (if b then restore_topology old st1 else st1)"
proof (cases "FindDCWithNodesTo0 (st_cc st)")
  case (fields ok d dc)
  let ?cc = "st_cc st"
  obtain r st1 where 1: "ListPods e (cc_Namespace ?cc) (LabelsForCassandraDCRack ?cc d (GetRackName ?cc dc 0)) st = (r, st1)"
    by fastforce
  have q1: "only_queries st st1" using ListPods_queries 1 by (metis snd_conv)
  show thesis
  proof (cases "\<exists>pods p. ok \<and> r = Inr pods \<and> find pod_usable pods = Some p")
    case False
    with assms 1 fields q1 that [of st] that [of st1] show thesis
      by (auto simp: CheckNonAllowedScaleDown_def Let_def split: if_split_asm sum.split_asm option.split_asm)
  next
    case True
    then obtain pods p where p: "ok" "r = Inr pods" "find pod_usable pods = Some p" by blast
    obtain c st2 where 2: "NewJolokiaClient e (PodHostname p) (spec_ImageJolokiaSecret (cc_Spec ?cc)) (cc_Namespace ?cc) st1 = (c, st2)"
      by fastforce
    have q2: "only_queries st st2" using only_queries_trans [OF q1] execute_queries(3) 2 by (metis snd_conv)
    show thesis
    proof (cases c)
      case (Inl err)
      with assms 1 2 fields p q2 show thesis by (intro that [of st2]) (auto simp: CheckNonAllowedScaleDown_def Let_def)
    next
      case (Inr host)
      with assms 1 2 fields p obtain ks st3 where 3: "NonLocalKeyspacesInDC e host d st2 = Some (ks, st3)"
        by (auto simp: CheckNonAllowedScaleDown_def Let_def split: Option.bind_split_asm)
      have "only_queries st st3" using only_queries_trans [OF q2 NonLocalKeyspacesInDC_queries [OF 3]] .
      with assms 1 2 3 fields p Inr that [of st3] show thesis
        by (auto simp: CheckNonAllowedScaleDown_def Let_def split: sum.split_asm if_split_asm)
    qed
  qed
qed

lemma check_topology_cc:
  assumes "check_topology e old st = Some (b, st')"
  shows "st_cc st' = st_cc st \<or> st_cc st' = set_topology (spec_Topology (cc_Spec old)) (st_cc st)"
proof -
  from assms obtain refused status st1 where 1: "CheckTopologyChanges e old st = Some ((refused, status), st1)"
    by (auto simp: check_topology_def split: Option.bind_split_asm)
  note cc1 = CheckTopologyChanges_cc [OF 1]
  show ?thesis
  proof (cases "refused \<or> status = state_Name ActionDeleteRack")
    case True
    with assms 1 cc1 show ?thesis
      by (auto simp: check_topology_def restore_topology_def set_status_def Let_def split: if_split_asm)
  next
    case False
    let ?st1 = "st1\<lparr>st_needUpdate := False\<rparr>"
    from False assms 1 obtain r st2 where 2: "CheckNonAllowedScaleDown e old ?st1 = Some (r, st2)"
      by (auto simp: check_topology_def split: Option.bind_split_asm)
    obtain st3 where "only_queries ?st1 st3" "st2 = (if r then restore_topology old st3 else st3)"
      using CheckNonAllowedScaleDown_cases [OF 2] by blast
    then have "st_cc st2 = st_cc st \<or> st_cc st2 = set_topology (spec_Topology (cc_Spec old)) (st_cc st)"
      using only_queries_state cc1 by (fastforce simp: restore_topology_def)
    moreover have "st_cc st' = st_cc st2"
      using False assms 1 2 by (auto simp: check_topology_def correct_crd_def set_status_def Let_def
          split: if_split_asm Option.bind_split_asm dest!: plan_resources_cc)
    ultimately show ?thesis by simp
  qed
qed

text \<open>
  C8 (storage_class_kept): after the check of a changed configuration with the same DCs, in the same order and with different names,
  every DC that declares its own capacity in both configurations, or in neither, has the storage class of the last applied
  configuration, whether the change is refused or not and whatever the other DCs declare.  A DC that declares a capacity for
  the first time is excluded, see new\_capacity\_loses\_class.
\<close>

theorem storage_class_kept:
  assumes "CheckNonAllowedChanges e st = Some (refused, st')"
    and "annotation (st_cc st) \<noteq> ''''" and "marshalled e (st_cc st) \<noteq> annotation (st_cc st)"
    and "env_unmarshal e (annotation (st_cc st)) = Inr old"
    and "map dc_Name (cc_DCs (st_cc st)) = map dc_Name (cc_DCs old)" and "distinct (map dc_Name (cc_DCs old))"
    and "i < length (cc_DCs old)"
    and "dc_DataCapacity (cc_DCs (st_cc st) ! i) = '''' \<longleftrightarrow> dc_DataCapacity (cc_DCs old ! i) = ''''"
  shows "GetDataStorageClassFromDCName (st_cc st') (dc_Name (cc_DCs old ! i)) =
    GetDataStorageClassFromDCName old (dc_Name (cc_DCs old ! i))"
proof -
  define st1 where "st1 = restore_nodes old st"
  have s1: "same_dc i (st_cc st1) old" using assms(5,8) by (simp add: st1_def restore_nodes_def same_dc_def)
  from assms(1-4) obtain st2 where 2: "check_dcs e old [0..<GetDCSize (st_cc st1)] st1 = Some st2"
    "(if st_needUpdate st2 then Some (True, correct_crd st2) else check_topology e old st2) = Some (refused, st')"
    by (auto simp: CheckNonAllowedChanges_def Let_def st1_def split: Option.bind_split_asm)
  have "GetDCSize (st_cc st1) = length (cc_DCs old)"
    using s1 map_eq_imp_length_eq by (auto simp: GetDCSize_def same_dc_def)
  with check_dcs_class [OF 2(1) s1 _ assms(6)] assms(7) have
    s2: "same_dc i (st_cc st2) old" "class_at (st_cc st2) i = class_at old i" by auto
  have cc: "st_cc st' = st_cc st2 \<or> st_cc st' = set_topology (spec_Topology (cc_Spec old)) (st_cc st2)"
    using 2(2) check_topology_cc by (auto simp: correct_crd_def set_status_def split: if_split_asm)
  then have "class_at (st_cc st') i = class_at old i" "map dc_Name (cc_DCs (st_cc st')) = map dc_Name (cc_DCs old)"
    using s2 restored_topology_class [OF s2] by (auto simp: same_dc_def set_topology_def)
  then show ?thesis using class_at_same [OF _ assms(6,7)] class_at_name [OF assms(6,7)] by simp
qed

section \<open>Adding a DC\<close>

lemma check_dcs_append:
  "check_dcs e old (is @ js) st = do { st \<leftarrow> check_dcs e old is st; check_dcs e old js st }"
  by (induction "is" arbitrary: st) (auto split: Option.bind_split)

lemma check_dcs_unchanged:
  assumes "\<forall>i \<in> set is. check_dc e old i st = Some st"
  shows "check_dcs e old is st = Some st"
  using assms by (induction "is") auto

lemma restore_missing:
  assumes "length (cc_DCs old) \<le> i"
  shows "restore_capacity old i st = None" and "restore_storage_class old i st = None"
  using assms by (simp_all add: restore_capacity_def restore_storage_class_def index_def)

lemma find_name_nth:
  assumes "distinct (map dc_Name dcs)" and "i < length dcs"
  shows "find (\<lambda>d. dc_Name d = dc_Name (dcs ! i)) dcs = Some (dcs ! i)"
  unfolding find_Some_iff using assms by (intro exI [of _ i]) (auto simp: distinct_conv_nth)

lemma GetDataCapacity_nth:
  assumes "distinct (map dc_Name (cc_DCs cc))" and "i < length (cc_DCs cc)"
  shows "GetDataCapacityFromDCName cc (dc_Name (cc_DCs cc ! i)) =
    (if dc_DataCapacity (cc_DCs cc ! i) = '''' then spec_DataCapacity (cc_Spec cc) else dc_DataCapacity (cc_DCs cc ! i))"
  using GetDataCapacity_own_or_global [OF assms(1)] find_name_nth [OF assms] by simp

lemma GetDataStorageClass_unknown:
  "d \<notin> dc_Name ` set (cc_DCs cc) \<Longrightarrow> GetDataStorageClassFromDCName cc d = spec_DataStorageClass (cc_Spec cc)"
  by (simp add: GetDataStorageClassFromDCName_def GetDCIndexFromDCName_unknown getDCFromIndex_def)

text \<open>
  C27 (new_dc_own_class_panics): when a DC that declares its own capacity and a storage class other than the one of the
  spec is added at the end of the topology, the check of the changes panics: it restores the storage class
  from the DC at the same index of the last applied configuration, which has no such DC.
\<close>

theorem new_dc_own_class_panics:
  assumes "annotation (st_cc st) \<noteq> ''''" and "marshalled e (st_cc st) \<noteq> annotation (st_cc st)"
    and "env_unmarshal e (annotation (st_cc st)) = Inr old"
    and "cc_DCs (st_cc st) = cc_DCs old @ [new]" and "distinct (map dc_Name (cc_DCs old @ [new]))"
    and "spec_DataCapacity (cc_Spec (st_cc st)) = spec_DataCapacity (cc_Spec old)"
    and "spec_DataStorageClass (cc_Spec (st_cc st)) = spec_DataStorageClass (cc_Spec old)"
    and "dc_DataCapacity new \<noteq> ''''" and "dc_DataStorageClass new \<noteq> spec_DataStorageClass (cc_Spec old)"
  shows "CheckNonAllowedChanges e st = panic"
proof -
  let ?n = "length (cc_DCs old)"
  define st1 where "st1 = restore_nodes old st"
  have cc: "cc_DCs (st_cc st1) = cc_DCs old @ [new]"
    "spec_DataCapacity (cc_Spec (st_cc st1)) = spec_DataCapacity (cc_Spec old)"
    "spec_DataStorageClass (cc_Spec (st_cc st1)) = spec_DataStorageClass (cc_Spec old)"
    using assms(4,6,7) by (simp_all add: st1_def restore_nodes_def)
  have d: "distinct (map dc_Name (cc_DCs (st_cc st1)))" "distinct (map dc_Name (cc_DCs old))" using assms(5) cc by simp_all
  have name: "GetDCName (st_cc st1) i = dc_Name ((cc_DCs old @ [new]) ! i)" if "i \<le> ?n" for i
    using that cc by (simp add: GetDCName_def GetDCSize_def)
  have "check_dc e old i st1 = Some st1" if "i < ?n" for i
  proof -
    have "GetDCName (st_cc st1) i = dc_Name (cc_DCs old ! i)" using name [of i] that by (simp add: nth_append)
    moreover have "cc_DCs (st_cc st1) ! i = cc_DCs old ! i" using that cc by (simp add: nth_append)
    ultimately show ?thesis
      using that GetDataCapacity_nth [OF d(1), of i] GetDataCapacity_nth [OF d(2), of i] cc(2,3)
        GetDataStorageClass_needs_capacity [OF d(1), of i] GetDataStorageClass_needs_capacity [OF d(2), of i]
      by (simp add: check_dc_def cc(1) AnalyzeDataCapacityChange_def)
  qed
  then have below: "check_dcs e old [0..<?n] st1 = Some st1" by (intro check_dcs_unchanged) simp
  have "GetDataStorageClassFromDCName (st_cc st1) (dc_Name new) = dc_DataStorageClass new"
    using GetDataStorageClass_needs_capacity [OF d(1), of ?n] cc assms(8) by simp
  moreover have "GetDataStorageClassFromDCName old (dc_Name new) = spec_DataStorageClass (cc_Spec old)"
    using assms(5) by (intro GetDataStorageClass_unknown) simp
  ultimately have "check_dc e old ?n st1 = None"
    using name [of ?n] assms(9) by (simp add: check_dc_def restore_missing Let_def)
  then have "check_dcs e old [0..<GetDCSize (st_cc st1)] st1 = None"
    using below cc by (simp add: GetDCSize_def check_dcs_append)
  then show ?thesis using assms(1-3) by (simp add: CheckNonAllowedChanges_def st1_def Let_def)
qed

text \<open>
  The last applied configuration is that of one DC; the new one adds a DC, or only asks for another number of
  nodes per rack.
\<close>

definition applied :: CassandraCluster where
  "applied = example_cluster 3 [zero_dc ''dc1'' [zero_rack ''rack1'']]"

definition changed_state :: "int \<Rightarrow> string \<Rightarrow> DC list \<Rightarrow> rstate" where
  "changed_state n class dcs = example_state (set_annotation ''last'' ((example_cluster n (cc_DCs applied @ dcs))\<lparr>cc_Spec :=
     (cc_Spec (example_cluster n (cc_DCs applied @ dcs)))\<lparr>spec_DataStorageClass := class\<rparr>\<rparr>)) Map.empty"

definition applied_env :: env where
  "applied_env = example_env\<lparr>env_unmarshal := \<lambda>_. Inr applied\<rparr>"

definition fast_dc :: DC where
  "fast_dc = (zero_dc ''dc2'' [zero_rack ''rack1''])\<lparr>dc_DataCapacity := ''20'', dc_DataStorageClass := ''fast''\<rparr>"

lemma changed_simps:
  "annotation (st_cc (changed_state n class dcs)) = ''last''"
  "marshalled applied_env (st_cc (changed_state n class dcs)) = ''{}''"
  "env_unmarshal applied_env s = Inr applied"
  "cc_DCs (st_cc (changed_state n class dcs)) = cc_DCs applied @ dcs"
  "spec_DataCapacity (cc_Spec (st_cc (changed_state n class dcs))) = spec_DataCapacity (cc_Spec applied)"
  "spec_DataStorageClass (cc_Spec (st_cc (changed_state n class dcs))) = class"
  by (simp_all add: changed_state_def example_state_def annotation_def set_annotation_def applied_env_def applied_def
      example_cluster_def zero_spec_def marshalled_def ComputeLastAppliedConfiguration_def example_env_def)

theorem new_dc_own_class_panics_witness:
  "CheckNonAllowedChanges applied_env (changed_state 3 '''' [fast_dc]) = None"
  by (rule new_dc_own_class_panics [where old = applied and new = fast_dc])
    (simp_all add: changed_simps, simp_all add: applied_def fast_dc_def example_defs)

theorem storage_class_kept_witness:
  "\<exists>refused st'. CheckNonAllowedChanges applied_env (changed_state 3 ''fast'' []) = Some (refused, st') \<and>
     GetDataStorageClassFromDCName (st_cc st') ''dc1'' = ''''"
proof -
  have "case check_dcs applied_env applied [0..<GetDCSize (st_cc (changed_state 3 ''fast'' []))] (changed_state 3 ''fast'' []) of
      None \<Rightarrow> False | Some st \<Rightarrow> st_needUpdate st" by code_simp
  moreover have "restore_nodes applied (changed_state 3 ''fast'' []) = changed_state 3 ''fast'' []"
    by (simp add: restore_nodes_def changed_state_def example_state_def set_annotation_def example_cluster_def)
  ultimately have "CheckNonAllowedChanges applied_env (changed_state 3 ''fast'' []) \<noteq> None"
    by (auto simp: CheckNonAllowedChanges_def changed_simps split: option.split_asm)
  then obtain refused st' where 1: "CheckNonAllowedChanges applied_env (changed_state 3 ''fast'' []) = Some (refused, st')" by auto
  have "GetDataStorageClassFromDCName applied ''dc1'' = ''''" by code_simp
  with storage_class_kept [OF 1, where old = applied and i = 0] 1 show ?thesis
    by (simp add: changed_simps) (simp add: applied_def example_defs)
qed

section \<open>Scaling a DC to 0\<close>

text \<open>
  C20 (scale_down_only_without_data): when a DC of the topology is at 0 nodes, the change is accepted only when the pods of its
  first rack could be listed and either none of them is usable, or the first usable one was reached and answered, without an
  error, that no keyspace has data in the DC; a failed request refuses the change.  No keyspace of a node that
  answers truthfully, other than the local system ones, has then a token range in this DC.  A refused change gets the old
  topology back.
\<close>

theorem scale_down_only_without_data:
  assumes "CheckNonAllowedScaleDown e old st = Some (refused, st')"
    and "FindDCWithNodesTo0 (st_cc st) = (True, d, dc)"
  shows "if refused then spec_Topology (cc_Spec (st_cc st')) = spec_Topology (cc_Spec old)
   else \<exists>pods. env_listPods e (st_trace st) (cc_Namespace (st_cc st))
       (LabelsForCassandraDCRack (st_cc st) d (GetRackName (st_cc st) dc 0)) = Inr pods \<and>
     (case find pod_usable pods of
        None \<Rightarrow> True
      | Some p \<Rightarrow>
          (\<exists>st1. NewJolokiaClient e (PodHostname p) (spec_ImageJolokiaSecret (cc_Spec (st_cc st))) (cc_Namespace (st_cc st))
               (call (ListPodsReq (cc_Namespace (st_cc st)) (LabelsForCassandraDCRack (st_cc st) d (GetRackName (st_cc st) dc 0))) st)
                 = (Inr (PodHostname p), st1) \<and>
             NonLocalKeyspacesInDC e (PodHostname p) d st1 = Some (Inr [], st')) \<and>
          (\<forall>ks ring k s. CHR ''.'' \<notin> set d \<and> reports e (PodHostname p) ks ring \<and> k \<in> set ks \<and>
             k \<notin> {''system'', ''system_schema''} \<and> s \<in> set (ring k) \<longrightarrow> \<not> sublist (''datacenter:'' @ d) s))"
proof (cases refused)
  case True
  from CheckNonAllowedScaleDown_cases [OF assms(1)] obtain st1 where "st' = restore_topology old st1" using True by metis
  with True show ?thesis by (simp add: restore_topology_def set_topology_def)
next
  case False
  let ?cc = "st_cc st"
  let ?l = "LabelsForCassandraDCRack ?cc d (GetRackName ?cc dc 0)"
  from assms False obtain pods where pods: "env_listPods e (st_trace st) (cc_Namespace ?cc) ?l = Inr pods"
    by (cases "env_listPods e (st_trace st) (cc_Namespace ?cc) ?l") (auto simp: CheckNonAllowedScaleDown_def ListPods_def Let_def)
  show ?thesis
  proof (cases "find pod_usable pods")
    case None
    with False pods show ?thesis by simp
  next
    case (Some p)
    obtain c st1 where c: "NewJolokiaClient e (PodHostname p) (spec_ImageJolokiaSecret (cc_Spec ?cc)) (cc_Namespace ?cc)
        (call (ListPodsReq (cc_Namespace ?cc) ?l) st) = (c, st1)" by fastforce
    have "(case c of Inl _ \<Rightarrow> Some (True, restore_topology old st1)
       | Inr host \<Rightarrow> do { (ks, st) \<leftarrow> NonLocalKeyspacesInDC e host d st1;
           case ks of Inl _ \<Rightarrow> Some (True, restore_topology old st)
           | Inr ks \<Rightarrow> if length ks \<noteq> 0 then Some (True, restore_topology old st) else Some (False, st) }) = Some (False, st')"
      using assms False pods Some c by (simp add: CheckNonAllowedScaleDown_def ListPods_def)
    moreover have "c = Inr (PodHostname p)" if "c = Inr host" for host
      using c that by (auto simp: NewJolokiaClient_def Let_def split: if_split_asm option.split_asm)
    ultimately have host: "c = Inr (PodHostname p)" "NonLocalKeyspacesInDC e (PodHostname p) d st1 = Some (Inr [], st')"
      by (cases c; force split: Option.bind_split_asm sum.split_asm if_split_asm)+
    have "\<not> sublist (''datacenter:'' @ d) s" if "CHR ''.'' \<notin> set d" "reports e (PodHostname p) ks ring" "k \<in> set ks"
      "k \<notin> {''system'', ''system_schema''}" "s \<in> set (ring k)" for ks ring k s
    proof -
      have "filter (\<lambda>k. k \<notin> {''system'', ''system_schema''} \<and> (\<exists>s \<in> set (ring k). sublist (''datacenter:'' @ d) s)) ks = []"
        using NonLocalKeyspacesInDC_reports [OF that(2,1), of st1] unfolding host(2) by (metis (no_types, lifting) option.inject prod.inject sum.inject(2))
      with that(3-5) show ?thesis unfolding filter_empty_conv by blast
    qed
    moreover have "\<exists>st1. NewJolokiaClient e (PodHostname p) (spec_ImageJolokiaSecret (cc_Spec ?cc)) (cc_Namespace ?cc)
        (call (ListPodsReq (cc_Namespace ?cc) ?l) st) = (Inr (PodHostname p), st1) \<and>
        NonLocalKeyspacesInDC e (PodHostname p) d st1 = Some (Inr [], st')" using c host by blast
    ultimately show ?thesis using False pods Some by simp blast
  qed
qed

text \<open>
  C29 (scale_down_masked): while a DC of the topology is at 0 nodes and has no usable pod left, a scale down to 0 of any
  later DC is accepted: only the first DC with 0 nodes is looked at, and no node is asked about its data.
\<close>

theorem scale_down_masked:
  assumes "i < j" and "j < GetDCSize (st_cc st)" and "getDCNodesPerRacksFromIndex (st_cc st) i = 0"
    and "getDCNodesPerRacksFromIndex (st_cc st) j = 0"
    and "\<forall>k < i. getDCNodesPerRacksFromIndex (st_cc st) k \<noteq> 0"
    and "env_listPods e (st_trace st) (cc_Namespace (st_cc st))
      (LabelsForCassandraDCRack (st_cc st) (GetDCName (st_cc st) i) (GetRackName (st_cc st) i 0)) = Inr pods"
    and "find pod_usable pods = None"
  shows "CheckNonAllowedScaleDown e old st = Some (False, call (ListPodsReq (cc_Namespace (st_cc st))
    (LabelsForCassandraDCRack (st_cc st) (GetDCName (st_cc st) i) (GetRackName (st_cc st) i 0))) st)"
proof -
  have "find (\<lambda>dc. getDCNodesPerRacksFromIndex (st_cc st) dc = 0) [0..<GetDCSize (st_cc st)] = Some i"
    unfolding find_Some_iff using assms(1-5) by (intro exI [of _ i]) simp
  then show ?thesis
    using assms(6,7) by (simp add: CheckNonAllowedScaleDown_def FindDCWithNodesTo0_def ListPods_def Let_def)
qed

definition emptied :: "DC list \<Rightarrow> rstate" where
  "emptied dcs = example_state (example_cluster 3 (map (\<lambda>d. d\<lparr>dc_NodesPerRacks := Some 0\<rparr>) dcs)) Map.empty"

theorem scale_down_masked_witness:
  "let st = emptied [zero_dc ''dc1'' [zero_rack ''rack1''], zero_dc ''dc2'' [zero_rack ''rack1'']] in
   \<exists>st'. CheckNonAllowedScaleDown ring_env applied st = Some (False, st') \<and> length (requests st st') = 1"
proof -
  let ?st = "emptied [zero_dc ''dc1'' [zero_rack ''rack1''], zero_dc ''dc2'' [zero_rack ''rack1'']]"
  have "GetDCSize (st_cc ?st) = 2" "getDCNodesPerRacksFromIndex (st_cc ?st) 0 = 0" "getDCNodesPerRacksFromIndex (st_cc ?st) 1 = 0"
    by code_simp+
  moreover have "env_listPods ring_env tr ns l = Inr []" for tr ns l by (simp add: ring_env_def example_env_def)
  ultimately show ?thesis
    using scale_down_masked [of 0 1 ?st ring_env "[]" applied] by (simp add: requests_def)
qed

definition emptying_env :: env where
  "emptying_env = ring_env\<lparr>env_listPods := \<lambda>_ _ _. Inr [example_pod ''demo-dc2-rack1-0'']\<rparr>"

theorem scale_down_only_without_data_witness:
  "let st = emptied [zero_dc ''dc2'' [zero_rack ''rack1'']] in
   \<exists>st'. CheckNonAllowedScaleDown emptying_env applied st = Some (False, st') \<and>
     (\<exists>st1. NonLocalKeyspacesInDC emptying_env (PodHostname (example_pod ''demo-dc2-rack1-0'')) ''dc2'' st1 = Some (Inr [], st')) \<and>
     \<not> sublist ''datacenter:dc2'' ''endpoint, datacenter:dc10, rack''"
proof -
  let ?st = "emptied [zero_dc ''dc2'' [zero_rack ''rack1'']]" and ?p = "example_pod ''demo-dc2-rack1-0''"
  have "map_option fst (CheckNonAllowedScaleDown emptying_env applied ?st) = Some False" by code_simp
  then obtain st' where 1: "CheckNonAllowedScaleDown emptying_env applied ?st = Some (False, st')" by auto
  have 2: "FindDCWithNodesTo0 (st_cc ?st) = (True, ''dc2'', 0)" by code_simp
  have 3: "env_listPods emptying_env tr ns l = Inr [?p]" for tr ns l by (simp add: emptying_env_def)
  have 4: "find pod_usable [?p] = Some ?p" by (simp add: pod_usable_def example_pod_def bare_pod_def named_meta_def empty_meta_def PodRunning_def)
  have 5: "reports emptying_env h (''system'' # [''shop'']) (\<lambda>_. [''endpoint, datacenter:dc10, rack''])" for h
    by (simp add: reports_def emptying_env_def ring_env_def)
  note 6 = scale_down_only_without_data [OF 1 2, unfolded if_False 3 sum.inject simp_thms 4 option.case]
  have 7: "\<exists>st1. NonLocalKeyspacesInDC emptying_env (PodHostname ?p) ''dc2'' st1 = Some (Inr [], st')"
    using 6 [THEN conjunct1] by blast
  have "\<not> sublist (''datacenter:'' @ ''dc2'') ''endpoint, datacenter:dc10, rack''"
    by (rule 6 [THEN conjunct2, rule_format, where ks = "''system'' # [''shop'']" and
          ring = "\<lambda>_. [''endpoint, datacenter:dc10, rack'']" and k = "''shop''"]) (simp add: 5)
  with 1 7 show ?thesis by (simp add: Let_def)
qed

section \<open>A change of the resources\<close>

text \<open>
  An accepted configuration with other resources plans an update of the resources for every rack of the topology, whatever action
  is in progress there.
\<close>

lemma plan_resources_keeps:
  assumes "plan_resources e rs st = Some st'"
    and "\<exists>s. st_racks st r = Some s \<and> la_Name (rs_CassandraLastAction s) = state_Name ActionUpdateResources \<and>
      la_Status (rs_CassandraLastAction s) = StatusToDo"
  shows "\<exists>s. st_racks st' r = Some s \<and> la_Name (rs_CassandraLastAction s) = state_Name ActionUpdateResources \<and>
      la_Status (rs_CassandraLastAction s) = StatusToDo"
  using assms
  by (induction rs arbitrary: st) (fastforce simp: Let_def upd_rack_def split: Option.bind_split_asm)+

lemma plan_resources_overwrites:
  assumes "plan_resources e rs st = Some st'" and "r \<in> set rs"
  shows "\<exists>s. st_racks st' r = Some s \<and> la_Name (rs_CassandraLastAction s) = state_Name ActionUpdateResources \<and>
      la_Status (rs_CassandraLastAction s) = StatusToDo"
  using assms
proof (induction rs arbitrary: st)
  case (Cons x rs)
  show ?case
  proof (cases "r \<in> set rs")
    case True
    with Cons show ?thesis by (auto simp: Let_def split: Option.bind_split_asm)
  next
    case False
    with Cons.prems plan_resources_keeps [of e rs _ st' r] show ?thesis
      by (fastforce simp: Let_def upd_rack_def split: Option.bind_split_asm)
  qed
qed simp

lemma new_resources_overwrite_actions:
  assumes "check_topology e old st = Some (False, st')"
    and "spec_Resources (cc_Spec (st_cc st)) \<noteq> spec_Resources (cc_Spec old)" and "r \<in> set (rack_names (st_cc st))"
  shows "\<exists>s. st_racks st' r = Some s \<and> la_Name (rs_CassandraLastAction s) = state_Name ActionUpdateResources \<and>
      la_Status (rs_CassandraLastAction s) = StatusToDo"
proof -
  from assms(1) obtain x st1 st2 where 1: "CheckTopologyChanges e old st = Some (x, st1)"
    "CheckNonAllowedScaleDown e old (st1\<lparr>st_needUpdate := False\<rparr>) = Some (False, st2)"
    "(if spec_Resources (cc_Spec (st_cc st2)) \<noteq> spec_Resources (cc_Spec old)
      then do { st \<leftarrow> plan_resources e (rack_names (st_cc st2)) (st2\<lparr>st_needUpdate := False\<rparr>); Some (False, st) }
      else Some (False, st2\<lparr>st_needUpdate := False\<rparr>)) = Some (False, st')"
    by (auto simp: check_topology_def Let_def split: Option.bind_split_asm if_split_asm)
  have "st_cc st2 = st_cc st"
    by (rule CheckNonAllowedScaleDown_cases [OF 1(2)]) (auto simp: only_queries_def CheckTopologyChanges_cc [OF 1(1)])
  with 1(3) assms(2,3) plan_resources_overwrites [of e "rack_names (st_cc st)" "st2\<lparr>st_needUpdate := False\<rparr>" st' r] show ?thesis
    by (auto split: Option.bind_split_asm)
qed

section \<open>The phase of the cluster\<close>

text \<open>The racks of the topology that the status knows, in the order of the topology.\<close>

definition known_racks :: "rstate \<Rightarrow> CassandraRackStatus list" where
  "known_racks st = List.map_filter (st_racks st) (rack_names (st_cc st))"

lemma phase_loop_stops:
  assumes "find (\<lambda>s. rs_Phase s \<noteq> state_Name ClusterPhaseRunning) (List.map_filter (st_racks st) rs) = Some s"
  shows "\<exists>acting st'. phase_loop rs a st = (True, acting, st') \<and> cs_Phase (st_status st') = rs_Phase s"
  using assms
proof (induction rs arbitrary: a st)
  case (Cons r rs)
  show ?case
  proof (cases "st_racks st r")
    case None
    with Cons show ?thesis by (simp add: List.map_filter_simps)
  next
    case (Some x)
    let ?la = "rs_CassandraLastAction x"
    define b where "b = (if la_Status ?la \<noteq> StatusDone then True else a)"
    define st1 where "st1 = (if la_Status ?la \<noteq> StatusDone
      then set_status (\<lambda>c. c\<lparr>cs_LastClusterActionStatus := la_Status ?la, cs_LastClusterAction := la_Name ?la\<rparr>) st else st)"
    have loop: "phase_loop (r # rs) a st = (if rs_Phase x \<noteq> state_Name ClusterPhaseRunning
        then (True, b, set_status (\<lambda>c. c\<lparr>cs_Phase := rs_Phase x\<rparr>) st1) else phase_loop rs b st1)"
      using Some by (simp add: Let_def b_def st1_def)
    have "st_racks st1 = st_racks st" by (simp add: st1_def set_status_def)
    with Cons.prems Cons.IH [of st1 b] Some show ?thesis
      unfolding loop by (simp add: List.map_filter_simps set_status_def split: if_split_asm)
  qed
qed (simp add: List.map_filter_simps)

lemma phase_loop_ends:
  assumes "\<forall>s \<in> set (List.map_filter (st_racks st) rs). rs_Phase s = state_Name ClusterPhaseRunning"
    and "\<forall>s \<in> set (List.map_filter (st_racks st) rs). la_Status (rs_CassandraLastAction s) = StatusDone"
  shows "phase_loop rs a st = (False, a, st)"
  using assms
proof (induction rs)
  case (Cons r rs)
  show ?case
  proof (cases "st_racks st r")
    case None
    with Cons.IH Cons.prems show ?thesis by simp
  next
    case (Some x)
    have x: "rs_Phase x = state_Name ClusterPhaseRunning" "la_Status (rs_CassandraLastAction x) = StatusDone"
      using Cons.prems by (simp_all add: Some)
    have "phase_loop rs a st = (False, a, st)"
      using Cons.prems by (intro Cons.IH) (simp_all add: Some)
    then show ?thesis by (simp add: Some x)
  qed
qed simp

lemma phase_loop_frame:
  assumes "phase_loop rs a st = (b, c, st')"
  shows "st_cc st' = st_cc st \<and> st_racks st' = st_racks st"
  using assms by (induction rs arbitrary: a st) (auto simp: Let_def set_status_def split: option.split_asm if_split_asm)

lemma phase_keeps_racks: "known_racks (UpdateCassandraClusterStatusPhase st) = known_racks st"
proof -
  obtain b c st1 where 1: "phase_loop (rack_names (st_cc st)) False st = (b, c, st1)" by (metis prod_cases3)
  from phase_loop_frame [OF 1] show ?thesis
    by (simp add: UpdateCassandraClusterStatusPhase_def 1 known_racks_def set_status_def Let_def)
qed

lemma phase_of_first_blocked:
  assumes "find (\<lambda>s. rs_Phase s \<noteq> state_Name ClusterPhaseRunning) (known_racks st) = Some s"
  shows "cs_Phase (st_status (UpdateCassandraClusterStatusPhase st)) = rs_Phase s"
  using phase_loop_stops [OF assms [unfolded known_racks_def], of False] by (auto simp: UpdateCassandraClusterStatusPhase_def)

lemma phase_when_all_run:
  assumes "list_all (\<lambda>s. rs_Phase s = state_Name ClusterPhaseRunning \<and> la_Status (rs_CassandraLastAction s) = StatusDone) (known_racks st)"
  shows "cs_Phase (st_status (UpdateCassandraClusterStatusPhase st)) = state_Name ClusterPhaseRunning"
    and "cs_LastClusterActionStatus (st_status (UpdateCassandraClusterStatusPhase st)) = StatusDone"
proof -
  have "phase_loop (rack_names (st_cc st)) False st = (False, False, st)"
    using assms by (intro phase_loop_ends) (auto simp: known_racks_def list_all_iff)
  then show "cs_Phase (st_status (UpdateCassandraClusterStatusPhase st)) = state_Name ClusterPhaseRunning"
    and "cs_LastClusterActionStatus (st_status (UpdateCassandraClusterStatusPhase st)) = StatusDone"
    by (simp_all add: UpdateCassandraClusterStatusPhase_def set_status_def Let_def)
qed

text \<open>A pass that ends without an error and with a requeue after 5 seconds has computed the phase and stored the status.\<close>

lemma Reconcile_computes_phase:
  assumes "Reconcile e pick ns name st = Some ((RequeueAfter 5, None), st')"
  obtains st1 where "st' = snd (updateCassandraStatus e (UpdateCassandraClusterStatusPhase st1))"
proof -
  obtain st0 where "reconcile_fetched e pick st0 = Some ((RequeueAfter 5, None), st')"
    using assms by (auto simp: Reconcile_def Let_def initialize_cluster_def split: sum.split_asm if_split_asm prod.split_asm)
  then obtain st1 st2 where 1: "reconcile_status e pick st1 = Some ((RequeueAfter 5, None), st2)" "st' = snd (updateCassandraStatus e st2)"
    by (auto simp: reconcile_fetched_def Let_def split: prod.split_asm if_split_asm Option.bind_split_asm)
  then obtain st3 where "st2 = UpdateCassandraClusterStatusPhase st3"
    by (auto simp: reconcile_status_def split: if_split_asm Option.bind_split_asm)
  with 1(2) that show thesis by blast
qed

lemma rack_names_same:
  assumes "cc_DCs cc = cc_DCs cc'"
  shows "rack_names cc = rack_names cc'"
  unfolding rack_names_def rack_indices_def GetDCName_def GetRackName_def GetRackSize_def GetDCSize_def assms by (rule refl)

lemma updateCassandraStatus_stores:
  "cc_Status (st_cc (snd (updateCassandraStatus e st))) = st_status st"
  "known_racks (snd (updateCassandraStatus e st)) = known_racks st"
proof -
  have "cc_Status (st_cc (snd (updateCassandraStatus e st))) = st_status st \<and>
      cc_DCs (st_cc (snd (updateCassandraStatus e st))) = cc_DCs (st_cc st)"
    by (simp add: updateCassandraStatus_def updateCassandraStatus_obj_def set_annotation_def set_version_def Let_def split: sum.split)
  then show "cc_Status (st_cc (snd (updateCassandraStatus e st))) = st_status st"
    "known_racks (snd (updateCassandraStatus e st)) = known_racks st"
    using rack_names_same [of "st_cc (snd (updateCassandraStatus e st))" "st_cc st"]
    by (simp_all add: known_racks_def updateCassandraStatus_frame)
qed

text \<open>
  C23 (cluster_phase_follows_racks): after a pass of Reconcile that refuses no change and has no error, the status computed is that
  of the cluster object, and the cluster has the phase of the first rack known to the status, in the order of the
  topology, that is not running.  When all known racks run and have finished their last action, the cluster is running and its
  last action is done.
\<close>

theorem cluster_phase_follows_racks:
  assumes "Reconcile e pick ns name st = Some ((RequeueAfter 5, None), st')"
  shows "cc_Status (st_cc st') = st_status st' \<and>
   (\<forall>s. find (\<lambda>s. rs_Phase s \<noteq> state_Name ClusterPhaseRunning) (known_racks st') = Some s \<longrightarrow>
      cs_Phase (st_status st') = rs_Phase s) \<and>
   (list_all (\<lambda>s. rs_Phase s = state_Name ClusterPhaseRunning \<and> la_Status (rs_CassandraLastAction s) = StatusDone)
       (known_racks st') \<longrightarrow>
      cs_Phase (st_status st') = state_Name ClusterPhaseRunning \<and> cs_LastClusterActionStatus (st_status st') = StatusDone)"
proof -
  from Reconcile_computes_phase [OF assms] obtain st1
    where st': "st' = snd (updateCassandraStatus e (UpdateCassandraClusterStatusPhase st1))" .
  have "known_racks st' = known_racks st1" "st_status st' = st_status (UpdateCassandraClusterStatusPhase st1)"
    "cc_Status (st_cc st') = st_status st'"
    by (simp_all add: st' updateCassandraStatus_stores updateCassandraStatus_frame phase_keeps_racks)
  then show ?thesis using phase_of_first_blocked [of st1] phase_when_all_run [of st1] by simp
qed

text \<open>The first pass over a cluster of one rack that the status does not know yet.\<close>

definition new_cluster :: CassandraCluster where
  "new_cluster = (example_cluster 3 [zero_dc ''dc1'' [zero_rack ''rack1'']])\<lparr>cc_Status :=
     (cc_Status demo_cluster)\<lparr>cs_Phase := state_Name ClusterPhaseRunning, cs_CassandraRackStatus := Map.empty\<rparr>\<rparr>"

definition first_pass_env :: env where
  "first_pass_env = example_env\<lparr>env_getCC := \<lambda>_ _ _. Inr new_cluster\<rparr>"

lemma first_pass:
  "\<exists>st1. reconcile_status first_pass_env pick ((example_state new_cluster Map.empty)\<lparr>st_cc := CheckDefaults new_cluster,
       st_trace := tr, st_status := cc_Status new_cluster\<rparr>) =
     Some ((RequeueAfter 5, None), UpdateCassandraClusterStatusPhase st1) \<and> known_racks st1 = [initial_rack_status]"
proof -
  let ?cc = "CheckDefaults new_cluster"
  have cc: "annotation ?cc = ''''" "rack_indices ?cc = [(0, 0)]" "rack_names ?cc = [''dc1-rack1'']"
    "GetDCRackName (GetDCName ?cc 0) (GetRackName ?cc 0 0) = ''dc1-rack1''"
    "cs_LastClusterAction (cc_Status new_cluster) = ''''" by code_simp+
  have "st_racks (st\<lparr>st_status := cc_Status new_cluster\<rparr>) = Map.empty" for st by (simp add: new_cluster_def)
  then show ?thesis
    by (simp add: reconcile_status_def CheckNonAllowedChanges_def cc ensureCassandraPodDisruptionBudget_def
        CreateOrUpdatePodDisruptionBudget_def GetPodDisruptionBudget_def first_pass_env_def example_env_def CreatePodDisruptionBudget_def
        CheckPodsState_def ListCassandraClusterPods_def ListPods_def ReconcileRack_def reconcile_rack_def set_nodes_def
        EnsureSeedListIsUpdatedWhenRequired_def state_infos set_status_def InitCassandraRackStatus_def known_racks_def
        List.map_filter_simps Let_def)
      (intro conjI impI; (rule exI, rule conjI, rule refl, simp add: cc))
qed

theorem cluster_phase_follows_racks_witness:
  "\<exists>st'. Reconcile first_pass_env (\<lambda>_ _. '''') ''ns'' ''demo'' (example_state new_cluster Map.empty) =
       Some ((RequeueAfter 5, None), st') \<and>
     cs_Phase (cc_Status (st_cc st')) = state_Name ClusterPhaseInitial"
proof -
  let ?st = "example_state new_cluster Map.empty"
  obtain st1 where 1: "reconcile_status first_pass_env (\<lambda>_ _. '''') (?st\<lparr>st_cc := CheckDefaults new_cluster,
       st_trace := [GetReq KCassandraCluster ''ns'' ''demo''], st_status := cc_Status new_cluster\<rparr>) =
     Some ((RequeueAfter 5, None), UpdateCassandraClusterStatusPhase st1)" "known_racks st1 = [initial_rack_status]"
    using first_pass [of "\<lambda>_ _. ''''" "[GetReq KCassandraCluster ''ns'' ''demo'']"] by (elim exE conjE)
  have new: "annotation (CheckDefaults new_cluster) = ''''" "cs_Phase (cc_Status new_cluster) \<noteq> ''''"
    "cc_Status (CheckDefaults new_cluster) = cc_Status new_cluster"
    by (code_simp, code_simp, simp add: CheckDefaults_def)
  let ?st' = "snd (updateCassandraStatus first_pass_env (UpdateCassandraClusterStatusPhase st1))"
  have "call r ?st\<lparr>st_cc := c\<rparr> = ?st\<lparr>st_cc := c, st_trace := [r]\<rparr>" for r c by (simp add: call_def example_state_def)
  moreover have "env_getCC first_pass_env = (\<lambda>_ _ _. Inr new_cluster)" by (simp add: first_pass_env_def)
  ultimately have 2: "Reconcile first_pass_env (\<lambda>_ _. '''') ''ns'' ''demo'' ?st = Some ((RequeueAfter 5, None), ?st')"
    using 1(1) new by (simp add: Reconcile_def reconcile_fetched_def CheckDeletePVC_def)
  have "known_racks ?st' = [initial_rack_status]" by (simp add: updateCassandraStatus_stores phase_keeps_racks 1(2))
  moreover have "rs_Phase initial_rack_status = state_Name ClusterPhaseInitial"
    "state_Name ClusterPhaseInitial \<noteq> state_Name ClusterPhaseRunning" by code_simp+
  ultimately show ?thesis using cluster_phase_follows_racks [OF 2] 2 by simp
qed

end
