(* ===== verification/Generator_Props.thy ===== *)
theory Generator_Props
  imports Generator
begin

text \<open>
  Facts on the generator: it returns once the defaults are set, every mount of a generated pod has its volume
  or its claim, and the two places where the code leaves a volume behind.
\<close>

section \<open>The generator returns\<close>

text \<open>The DC and the rack behind the name of a rack of the topology.\<close>

lemma rack_at_decode:
  assumes "wf_topology cc" and "rack < GetRackSize cc dc"
  shows "GetDCNameAndRackNameFromDCRackName (rack_at cc dc rack) = Some (GetDCName cc dc, GetRackName cc dc rack)"
  using decode_rack_name [OF wf_rack_valid [OF assms]] by (simp add: rack_at_def)

lemma dc_found:
  assumes "wf_topology cc" and "rack < GetRackSize cc dc"
  shows "GetDCNameFromDCRackName (rack_at cc dc rack) = Some (GetDCName cc dc)"
    and "GetDCFromDCRackName cc (rack_at cc dc rack) = Some (Some (cc_DCs cc ! dc))"
    and "\<exists>k. GetRackFromDCRackName cc (rack_at cc dc rack) = Some (Some k)"
proof -
  have dc: "dc < GetDCSize cc" using assms(2) by (rule GetRackSize_pos_less)
  show 1: "GetDCNameFromDCRackName (rack_at cc dc rack) = Some (GetDCName cc dc)"
    using rack_at_decode [OF assms] by (simp add: GetDCNameFromDCRackName_def)
  have "GetDCIndexFromDCName cc (GetDCName cc dc) = int dc"
    using GetDCIndexFromDCName_nth [of cc dc] assms dc
    by (simp add: wf_topology_def GetDCSize_def GetDCName_def)
  with 1 dc show 2: "GetDCFromDCRackName cc (rack_at cc dc rack) = Some (Some (cc_DCs cc ! dc))"
    by (simp add: GetDCFromDCRackName_def getDCFromIndex_nth GetDCSize_def)
  have "\<exists>k. find (\<lambda>k. rack_Name k = GetRackName cc dc rack) (dc_Rack (cc_DCs cc ! dc)) = Some k"
  proof -
    have "dc_Rack (cc_DCs cc ! dc) ! rack \<in> set (dc_Rack (cc_DCs cc ! dc))"
      "rack_Name (dc_Rack (cc_DCs cc ! dc) ! rack) = GetRackName cc dc rack"
      using assms(2) dc by (auto simp: GetRackName_def GetRackSize_def)
    then have "find (\<lambda>k. rack_Name k = GetRackName cc dc rack) (dc_Rack (cc_DCs cc ! dc)) \<noteq> None"
      unfolding find_None_iff by blast
    then show ?thesis by simp
  qed
  then obtain k where "find (\<lambda>k. rack_Name k = GetRackName cc dc rack) (dc_Rack (cc_DCs cc ! dc)) = Some k" ..
  with 2 rack_at_decode [OF assms]
  have "GetRackFromDCRackName cc (rack_at cc dc rack) = Some (Some k)"
    by (simp add: GetRackFromDCRackName_def)
  then show "\<exists>k. GetRackFromDCRackName cc (rack_at cc dc rack) = Some (Some k)" ..
qed

text \<open>With the defaults of CheckDefaults every pointer that the generator follows is set.\<close>

lemma CheckDefaults_pointers:
  "spec_BackRestSidecar (cc_Spec (CheckDefaults cc)) \<noteq> None"
  "spec_ReadinessInitialDelaySeconds (cc_Spec (CheckDefaults cc)) \<noteq> None"
  "spec_ReadinessHealthCheckTimeout (cc_Spec (CheckDefaults cc)) \<noteq> None"
  "spec_ReadinessHealthCheckPeriod (cc_Spec (CheckDefaults cc)) \<noteq> None"
  "spec_LivenessInitialDelaySeconds (cc_Spec (CheckDefaults cc)) \<noteq> None"
  "spec_LivenessHealthCheckTimeout (cc_Spec (CheckDefaults cc)) \<noteq> None"
  "spec_LivenessHealthCheckPeriod (cc_Spec (CheckDefaults cc)) \<noteq> None"
  by (simp_all add: CheckDefaults_def default_spec_def default_backrest_def split: option.split)

lemma CheckDefaults_fields [simp]:
  "spec_Topology (cc_Spec (CheckDefaults cc)) = spec_Topology (cc_Spec cc)"
  "spec_StorageConfigs (cc_Spec (CheckDefaults cc)) = spec_StorageConfigs (cc_Spec cc)"
  "spec_SidecarConfigs (cc_Spec (CheckDefaults cc)) = spec_SidecarConfigs (cc_Spec cc)"
  "spec_DataCapacity (cc_Spec (CheckDefaults cc)) = spec_DataCapacity (cc_Spec cc)"
  "spec_NodesPerRacks (cc_Spec (CheckDefaults cc)) = spec_NodesPerRacks (cc_Spec cc)"
  "cc_Meta (CheckDefaults cc) = cc_Meta cc"
  by (simp_all add: CheckDefaults_def default_spec_def)

lemma CheckDefaults_topology [simp]:
  "GetDCSize (CheckDefaults cc) = GetDCSize cc" "GetRackSize (CheckDefaults cc) = GetRackSize cc"
  "GetDCName (CheckDefaults cc) = GetDCName cc" "GetRackName (CheckDefaults cc) = GetRackName cc"
  "wf_topology (CheckDefaults cc) = wf_topology cc"
  unfolding fun_eq_iff GetDCSize_def GetRackSize_def GetDCName_def GetRackName_def wf_topology_def CheckDefaults_fields
  by simp_all

lemma CheckDefaults_rack_at [simp]: "rack_at (CheckDefaults cc) = rack_at cc"
  by (simp add: rack_at_def fun_eq_iff)

lemma exec_probe_total:
  "a \<noteq> None \<Longrightarrow> b \<noteq> None \<Longrightarrow> c \<noteq> None \<Longrightarrow> \<exists>p. exec_probe a b c f s script = Some p"
  by (auto simp: exec_probe_def)

lemma createCassandraContainer_total:
  assumes "wf_topology cc" and "rack < GetRackSize cc dc"
  shows "\<exists>r l. createCassandraContainer (CheckDefaults cc) (rack_at cc dc rack) =
    Some (cassandra_container (CheckDefaults cc) (cc_DCs cc ! dc) r l)"
proof -
  let ?s = "cc_Spec (CheckDefaults cc)"
  note p = CheckDefaults_pointers [of cc]
  obtain r l where
    "exec_probe (spec_ReadinessInitialDelaySeconds ?s) (spec_ReadinessHealthCheckTimeout ?s)
       (spec_ReadinessHealthCheckPeriod ?s) (spec_ReadinessFailureThreshold ?s)
       (spec_ReadinessSuccessThreshold ?s) ''/etc/cassandra/readiness-probe.sh'' = Some r"
    "exec_probe (spec_LivenessInitialDelaySeconds ?s) (spec_LivenessHealthCheckTimeout ?s)
       (spec_LivenessHealthCheckPeriod ?s) (spec_LivenessFailureThreshold ?s)
       (spec_LivenessSuccessThreshold ?s) ''/etc/cassandra/liveness-probe.sh'' = Some l"
    using exec_probe_total [OF p(2-4)] exec_probe_total [OF p(5-7)] by blast
  moreover have "GetDCFromDCRackName (CheckDefaults cc) (rack_at cc dc rack) = Some (Some (cc_DCs cc ! dc))"
    using dc_found(2) [of "CheckDefaults cc" rack dc] assms by simp
  ultimately have "createCassandraContainer (CheckDefaults cc) (rack_at cc dc rack) =
      Some (cassandra_container (CheckDefaults cc) (cc_DCs cc ! dc) r l)"
    by (simp add: createCassandraContainer_def Let_def)
  then show ?thesis by blast
qed

lemma generateContainers_total:
  assumes "wf_topology cc" and "rack < GetRackSize cc dc"
  shows "\<exists>cs. generateContainers e (CheckDefaults cc) (rack_at cc dc rack) = Some cs"
proof -
  obtain c where "createCassandraContainer (CheckDefaults cc) (rack_at cc dc rack) = Some c"
    using createCassandraContainer_total [OF assms] by blast
  moreover obtain b where "spec_BackRestSidecar (cc_Spec (CheckDefaults cc)) = Some b"
    using CheckDefaults_pointers(1) by blast
  ultimately show ?thesis by (simp add: generateContainers_def backrestSidecarContainer_def Let_def)
qed

lemma storage_claims_total:
  "\<forall>s \<in> set scs. sc_PVCSpec s \<noteq> None \<Longrightarrow> \<exists>ps. storage_claims labels scs = Inr ps"
  by (induction scs) auto

lemma SetLastAppliedAnnotation_simps [simp]:
  "sts_Replicas (SetLastAppliedAnnotation e ss) = sts_Replicas ss"
  "sts_Template (SetLastAppliedAnnotation e ss) = sts_Template ss"
  "sts_VolumeClaimTemplates (SetLastAppliedAnnotation e ss) = sts_VolumeClaimTemplates ss"
  "meta_Name (sts_Meta (SetLastAppliedAnnotation e ss)) = meta_Name (sts_Meta ss)"
  "meta_Namespace (sts_Meta (SetLastAppliedAnnotation e ss)) = meta_Namespace (sts_Meta ss)"
  by (simp_all add: SetLastAppliedAnnotation_def split: sum.split)

text \<open>The parts of a generated statefulset.\<close>

lemma generated:
  assumes "generateCassandraStatefulSet e cc status dcName r labels sel owners = Some (Inr ss)"
  obtains claims cs cs' volumes a b c where
    "generateVolumeClaimTemplate e cc labels dcName = Inr claims" "generateContainers e cc r = Some cs"
    "RemoveDuplicateVolumesAndVolumeMounts e cs claims (generateCassandraVolumes cc) = (cs', volumes)"
    "createBaseConfigBuilderContainer e cc = Some a" "createInitConfigContainer e cc status r = Some b"
    "createCassandraBootstrapContainer e cc status = Some c"
    "sts_Replicas ss = Some (GetNodesPerRacks cc r)" "sts_VolumeClaimTemplates ss = claims"
    "meta_Name (sts_Meta ss) = cc_Name cc @ ''-'' @ r" "meta_Namespace (sts_Meta ss) = cc_Namespace cc"
    "pt_InitContainers (sts_Template ss) = [a, b, c]" "pt_Volumes (sts_Template ss) = volumes"
    "pt_Containers (sts_Template ss) = addBootstrapContainerEnvVarsToSidecars (c_Env c) cs'"
proof -
  from assms obtain claims where claims: "generateVolumeClaimTemplate e cc labels dcName = Inr claims"
    by (cases "generateVolumeClaimTemplate e cc labels dcName") (auto simp: generateCassandraStatefulSet_def)
  from assms claims obtain cs where cs: "generateContainers e cc r = Some cs"
    by (cases "generateContainers e cc r") (auto simp: generateCassandraStatefulSet_def)
  obtain cs' volumes where d: "RemoveDuplicateVolumesAndVolumeMounts e cs claims (generateCassandraVolumes cc) = (cs', volumes)"
    by fastforce
  from assms claims cs d obtain a where a: "createBaseConfigBuilderContainer e cc = Some a"
    by (cases "createBaseConfigBuilderContainer e cc") (auto simp: generateCassandraStatefulSet_def)
  from assms claims cs d a obtain b where b: "createInitConfigContainer e cc status r = Some b"
    by (cases "createInitConfigContainer e cc status r") (auto simp: generateCassandraStatefulSet_def)
  from assms claims cs d a b obtain c where c: "createCassandraBootstrapContainer e cc status = Some c"
    by (cases "createCassandraBootstrapContainer e cc status") (auto simp: generateCassandraStatefulSet_def)
  from assms claims cs d a b c show thesis
    by (intro that [OF claims cs d a b c])
      (auto simp: generateCassandraStatefulSet_def cassandra_template_def Let_def named_meta_def)
qed

lemma init_containers:
  "createBaseConfigBuilderContainer e cc = Some a \<Longrightarrow>
     c_Name a = ''base-config-builder'' \<and> c_VolumeMounts a = generateContainerVolumeMount cc initContainer"
  "createInitConfigContainer e cc status r = Some b \<Longrightarrow>
     c_Name b = ''config-builder'' \<and> c_VolumeMounts b = generateContainerVolumeMount cc initContainer"
  "createCassandraBootstrapContainer e cc status = Some c \<Longrightarrow>
     c_Name c = ''bootstrap'' \<and> c_VolumeMounts c = generateContainerVolumeMount cc bootstrapContainer \<and>
     c_Env c = bootstrapContainerEnvVar cc status"
  by (auto simp: createBaseConfigBuilderContainer_def createInitConfigContainer_def
      createCassandraBootstrapContainer_def zero_container_def bootstrapContainerName_def split: Option.bind_split_asm)

lemma initContainerEnvVar_total:
  assumes "wf_topology cc" and "rack < GetRackSize cc dc"
  shows "\<exists>vs. initContainerEnvVar e cc status res (rack_at cc dc rack) = Some vs"
proof -
  obtain k where "GetRackFromDCRackName cc (rack_at cc dc rack) = Some (Some k)" using dc_found(3) [OF assms] by blast
  with dc_found(1,2) [OF assms] show ?thesis by (simp add: initContainerEnvVar_def Let_def)
qed

lemma generate_total:
  assumes "wf_topology cc" and "rack < GetRackSize cc dc"
    and "env_parseQuantity e ''0.5'' = Some cpu" and "env_parseQuantity e ''0.5Gi'' = Some memory"
    and "\<forall>s \<in> set (spec_StorageConfigs (cc_Spec cc)). sc_PVCSpec s \<noteq> None"
  shows "\<exists>ss. generateCassandraStatefulSet e (CheckDefaults cc) status dcName (rack_at cc dc rack) labels sel owners =
    Some (Inr ss)"
proof -
  let ?cc = "CheckDefaults cc" and ?r = "rack_at cc dc rack"
  obtain claims where claims: "generateVolumeClaimTemplate e ?cc labels dcName = Inr claims"
    using storage_claims_total [OF assms(5), of labels]
    by (cases "generateVolumeClaimTemplate e ?cc labels dcName")
      (auto simp: generateVolumeClaimTemplate_def generateStorageConfigVolumeClaimTemplates_def Let_def
        split: if_split_asm)
  obtain cs where cs: "generateContainers e ?cc ?r = Some cs" using generateContainers_total [OF assms(1,2)] by blast
  obtain vs where "initContainerEnvVar e ?cc status (spec_Resources (cc_Spec ?cc)) ?r = Some vs"
    using initContainerEnvVar_total [of ?cc rack dc e status "spec_Resources (cc_Spec ?cc)"] assms(1,2) by auto
  with claims cs assms(3,4) show ?thesis
    by (simp add: generateCassandraStatefulSet_def createBaseConfigBuilderContainer_def createInitConfigContainer_def
        createCassandraBootstrapContainer_def initContainerResources_def split: prod.split)
qed

section \<open>Mounts and volumes\<close>

text \<open>A mount resolves when its name is that of a volume of the pod or of a claim template.\<close>

definition mount_resolves :: "stateful_set \<Rightarrow> volume_mount \<Rightarrow> bool" where
  "mount_resolves ss m \<longleftrightarrow>
     vm_Name m \<in> v_Name ` set (items (pt_Volumes (sts_Template ss))) \<or>
     vm_Name m \<in> (\<lambda>p. meta_Name (pvc_Meta p)) ` set (sts_VolumeClaimTemplates ss)"

definition data_path :: string where
  "data_path = ''/var/lib/cassandra''"

text \<open>A container whose own mounts are harmless: they use the data claim or another built-in volume.\<close>

definition plain_mounts :: "volume_mount list \<Rightarrow> bool" where
  "plain_mounts ms \<longleftrightarrow> (\<forall>m \<in> set ms.
     vm_Name m \<in> {''bootstrap'', ''extra-lib'', ''tools'', ''log'', ''tmp'', ''data''} \<and>
     (vm_MountPath m = data_path \<longrightarrow> vm_Name m = ''data''))"

lemma dedup_mounts_id:
  "\<forall>m \<in> set ms. map_of claims (vm_Name m) \<noteq> None \<or> mounted_at e claims (vm_MountPath m) = None \<Longrightarrow>
     dedup_mounts e claims n ms = (ms, [])"
  by (induction ms) auto

text \<open>A container other than the cassandra container keeps its mounts in any case.\<close>

lemma dedup_mounts_length:
  "n \<noteq> CassandraContainerName \<Longrightarrow> length (fst (dedup_mounts e claims n ms)) = length ms"
  by (induction ms) (auto simp: case_prod_beta Let_def split: option.split)

lemma dedup_container_other: "c_Name c \<noteq> CassandraContainerName \<Longrightarrow> dedup_container e claims c = c"
  by (simp add: dedup_container_def dedup_mounts_length Let_def)

lemma dedup_mounts_removed:
  "m \<in> set ms \<Longrightarrow> map_of claims (vm_Name m) = None \<Longrightarrow> mounted_at e claims (vm_MountPath m) = Some key \<Longrightarrow>
     vm_Name m \<in> set (snd (dedup_mounts e claims n ms))"
  by (induction ms) (auto simp: case_prod_beta Let_def split: option.split)

lemma items_foldl_append: "items (foldl append_slice s xs) = items s @ xs"
  by (induction xs arbitrary: s) (simp_all add: items_append_slice)

lemma items_volumesWoDupes:
  "items (volumesWoDupes vs rm) = filter (\<lambda>v. v_Name v \<notin> set rm) vs"
proof -
  have "filter P vs = vs" if "length (filter P vs) = length vs" for P :: "volume \<Rightarrow> bool"
    using that by (metis filter_True length_filter_less less_irrefl)
  from this [of "\<lambda>v. v_Name v \<notin> set rm"] show ?thesis
    by (cases "length (filter (\<lambda>v. v_Name v \<notin> set rm) vs) = length vs")
      (simp_all add: volumesWoDupes_def items_foldl_append Let_def)
qed

text \<open>A generated statefulset of a cluster with a global data capacity and no storage configurations.\<close>

lemma generateVolumeClaimTemplate_data:
  assumes "generateVolumeClaimTemplate e cc labels dcName = Inr claims"
    and "GetDataCapacityFromDCName cc dcName \<noteq> ''''" and "spec_StorageConfigs (cc_Spec cc) = []"
  shows "\<exists>p. claims = [p] \<and> meta_Name (pvc_Meta p) = ''data''"
  using assms by (auto simp: generateVolumeClaimTemplate_def generateStorageConfigVolumeClaimTemplates_def Let_def
      claim_template_def DataPVCName_def named_meta_def)

lemma generateContainers_cases:
  assumes "generateContainers e cc r = Some cs"
  obtains dc rp lp where "cs = spec_SidecarConfigs (cc_Spec cc) @ [cassandra_container cc dc rp lp]"
  | dc rp lp b s where "cs = spec_SidecarConfigs (cc_Spec cc) @ [cassandra_container cc dc rp lp, b]"
      "c_Name b = ''backrest-sidecar''" "spec_BackRestSidecar (cc_Spec cc) = Some s"
      "c_VolumeMounts b = br_VolumeMounts s @ generateContainerVolumeMount cc backrestContainer"
proof -
  from assms obtain c dc rp lp where c: "createCassandraContainer cc r = Some c" "c = cassandra_container cc dc rp lp"
    by (auto simp: generateContainers_def createCassandraContainer_def Let_def split: Option.bind_split_asm)
  from assms c(1) obtain s where s: "spec_BackRestSidecar (cc_Spec cc) = Some s"
    by (auto simp: generateContainers_def split: Option.bind_split_asm)
  show thesis
  proof (cases "br_Enabled s = None \<or> br_Enabled s = Some True")
    case True
    with assms c s show thesis
      by (intro that(2) [of dc rp lp _ s]) (auto simp: generateContainers_def backrestSidecarContainer_def Let_def)
  next
    case False
    with assms c s show thesis by (intro that(1) [of dc rp lp]) (auto simp: generateContainers_def)
  qed
qed

lemma mounts_generated:
  "plain_mounts (generateContainerVolumeMount cc cassandraContainer)"
  "plain_mounts (generateContainerVolumeMount cc backrestContainer)"
  "plain_mounts (generateContainerVolumeMount cc initContainer)"
  "m \<in> set (generateContainerVolumeMount cc bootstrapContainer) \<Longrightarrow>
     vm_Name m \<in> {''bootstrap'', ''extra-lib'', ''tools''} \<or>
     vm_Name m = ''cassandra-config'' \<and> spec_ConfigMapName (cc_Spec cc) \<noteq> ''''"
  "spec_DataCapacity (cc_Spec cc) = '''' \<Longrightarrow> ct \<noteq> bootstrapContainer \<Longrightarrow>
     m \<in> set (generateContainerVolumeMount cc ct) \<Longrightarrow> vm_Name m \<noteq> ''data''"
  by (auto simp: plain_mounts_def generateContainerVolumeMount_def mount_def data_path_def Let_def
      split: if_split_asm)

lemma claims_of_cassandra:
  assumes "cs = sidecars @ c # rest" and "c_Name c = CassandraContainerName"
    and "\<forall>c \<in> set rest. c_Name c \<noteq> CassandraContainerName"
    and "claims = [p]" and "meta_Name (pvc_Meta p) = ''data''"
  shows "volumeClaimMapNameMountPath cs claims =
    (case filter (\<lambda>m. vm_Name m = ''data'') (c_VolumeMounts c) of [] \<Rightarrow> [] | ms \<Rightarrow> [(''data'', vm_MountPath (last ms))])"
proof -
  have "filter (\<lambda>c. c_Name c = CassandraContainerName) rest = []" using assms(3) by (simp add: filter_empty_conv)
  then have l: "filter (\<lambda>c. c_Name c = CassandraContainerName) cs \<noteq> []"
      "last (filter (\<lambda>c. c_Name c = CassandraContainerName) cs) = c" using assms(1,2) by auto
  have fold: "foldl (\<lambda>m vm. if ''data'' = vm_Name vm then AList.update ''data'' (vm_MountPath vm) m else m) acc ms =
      (case filter (\<lambda>m. vm_Name m = ''data'') ms of [] \<Rightarrow> acc | ms \<Rightarrow> [(''data'', vm_MountPath (last ms))])"
    if "acc = [] \<or> (\<exists>x. acc = [(''data'', x)])" for acc ms
    using that by (induction ms arbitrary: acc) (auto split: list.split)
  show ?thesis
  proof -
    have m: "(case filter (\<lambda>c. c_Name c = CassandraContainerName) cs of [] \<Rightarrow> [] | cs \<Rightarrow> c_VolumeMounts (last cs)) =
        c_VolumeMounts c"
      using l by (auto split: list.split)
    show ?thesis
      unfolding volumeClaimMapNameMountPath_def m Let_def assms(4) foldl_Cons foldl_Nil assms(5)
      by (rule fold) simp
  qed
qed

lemma mounted_at_data:
  "mounted_at e [(''data'', x)] path = None \<longleftrightarrow> \<not> (path = x \<and> ''data'' \<in> set (env_mapOrder e [''data'']))"
  by (auto simp: mounted_at_def find_None_iff)

lemma dedup_plain:
  "plain_mounts ms \<Longrightarrow> dedup_mounts e [(''data'', data_path)] n ms = (ms, [])"
  by (rule dedup_mounts_id) (auto simp: plain_mounts_def mounted_at_data)

lemma plain_mounts_append [simp]: "plain_mounts (ms @ ms') \<longleftrightarrow> plain_mounts ms \<and> plain_mounts ms'"
  by (auto simp: plain_mounts_def)

lemma generated_containers_plain:
  assumes "generateContainers e cc r = Some cs" and "spec_StorageConfigs (cc_Spec cc) = []"
    and "\<forall>c \<in> set (spec_SidecarConfigs (cc_Spec cc)). plain_mounts (c_VolumeMounts c)"
    and "\<forall>s. spec_BackRestSidecar (cc_Spec cc) = Some s \<longrightarrow> plain_mounts (br_VolumeMounts s)"
  shows "\<forall>c \<in> set cs. plain_mounts (c_VolumeMounts c)"
  using assms(1)
proof (cases rule: generateContainers_cases)
  case (1 dc rp lp)
  with assms(2,3) mounts_generated show ?thesis
    by (auto simp: cassandra_container_def Let_def generateStorageConfigVolumesMount_def)
next
  case (2 dc rp lp b s)
  with assms mounts_generated show ?thesis
    by (auto simp: cassandra_container_def Let_def generateStorageConfigVolumesMount_def)
qed

lemma generated_claims:
  assumes "generateContainers e cc r = Some cs" and "spec_StorageConfigs (cc_Spec cc) = []"
    and "claims = [p]" and "meta_Name (pvc_Meta p) = ''data''"
  shows "volumeClaimMapNameMountPath cs claims =
    (if spec_DataCapacity (cc_Spec cc) = '''' then [] else [(''data'', data_path)])"
proof -
  have "\<exists>dc rp lp sidecars rest. cs = sidecars @ cassandra_container cc dc rp lp # rest \<and>
      (\<forall>c \<in> set rest. c_Name c \<noteq> CassandraContainerName)"
    using assms(1)
  proof (cases rule: generateContainers_cases)
    case (1 dc rp lp)
    then show ?thesis by (intro exI [of _ "spec_SidecarConfigs (cc_Spec cc)"] exI conjI) auto
  next
    case (2 dc rp lp b s)
    then show ?thesis by (intro exI [of _ "spec_SidecarConfigs (cc_Spec cc)"] exI conjI) (auto simp: CassandraContainerName_def)
  qed
  then obtain dc rp lp sidecars rest where cs: "cs = sidecars @ cassandra_container cc dc rp lp # rest"
    and rest: "\<forall>c \<in> set rest. c_Name c \<noteq> CassandraContainerName" by blast
  have name: "c_Name (cassandra_container cc dc rp lp) = CassandraContainerName"
    by (simp add: cassandra_container_def Let_def)
  show ?thesis
    using claims_of_cassandra [OF cs name rest assms(3,4)] assms(2)
    by (auto simp: cassandra_container_def Let_def generateContainerVolumeMount_def generateStorageConfigVolumesMount_def
        mount_def data_path_def)
qed

section \<open>Properties\<close>

text \<open>
  C6 (generated_mounts_resolve): in the generated statefulset of a cluster with a global data capacity, without storage
  configurations and with plain mounts of the sidecars and of the backup sidecar, every mount of every container, init
  containers included, names a volume of the pod or a claim template.  For a sidecar with another mount this fails, see
  sidecar\_mount\_dangles.
\<close>

theorem generated_mounts_resolve:
  assumes "generateCassandraStatefulSet e cc status dcName r labels sel owners = Some (Inr ss)"
    and "spec_DataCapacity (cc_Spec cc) \<noteq> ''''" and "spec_StorageConfigs (cc_Spec cc) = []"
    and "\<forall>c \<in> set (spec_SidecarConfigs (cc_Spec cc)). plain_mounts (c_VolumeMounts c)"
    and "\<forall>s. spec_BackRestSidecar (cc_Spec cc) = Some s \<longrightarrow> plain_mounts (br_VolumeMounts s)"
    and "c \<in> set (pt_InitContainers (sts_Template ss) @ pt_Containers (sts_Template ss))"
    and "m \<in> set (c_VolumeMounts c)"
  shows "mount_resolves ss m"
  using assms(1)
proof (cases rule: generated)
  case (1 claims cs cs' volumes a b k)
  have "GetDataCapacityFromDCName cc dcName \<noteq> ''''"
    using assms(2) by (auto simp: GetDataCapacityFromDCName_def Let_def split: option.split)
  then obtain p where p: "claims = [p]" "meta_Name (pvc_Meta p) = ''data''"
    using generateVolumeClaimTemplate_data [OF 1(1)] assms(3) by blast
  have plain: "\<forall>c \<in> set cs. plain_mounts (c_VolumeMounts c)"
    by (rule generated_containers_plain [OF 1(2) assms(3-5)])
  have claimsmap: "volumeClaimMapNameMountPath cs claims = [(''data'', data_path)]"
    using generated_claims [OF 1(2) assms(3) p] assms(2) by simp
  have same: "map (dedup_container e [(''data'', data_path)]) cs = cs"
    by (rule map_idI) (simp add: dedup_container_def dedup_plain plain Let_def)
  have none: "concat (map (\<lambda>c. snd (dedup_mounts e [(''data'', data_path)] (c_Name c) (c_VolumeMounts c))) cs) = []"
    by (simp add: dedup_plain plain)
  from 1(3) have "cs' = cs" "items volumes = generateCassandraVolumes cc"
    by (auto simp: RemoveDuplicateVolumesAndVolumeMounts_def removeDuplicateVolumeMountsFromContainers_def claimsmap
        same none items_volumesWoDupes simp del: concat_eq_Nil_conv)
  then have res: "mount_resolves ss m \<longleftrightarrow> vm_Name m \<in> v_Name ` set (generateCassandraVolumes cc) \<or> vm_Name m = ''data''"
    using 1(8,12) p by (auto simp: mount_resolves_def)
  have builtin: "plain_mounts ms \<Longrightarrow> m \<in> set ms \<Longrightarrow> mount_resolves ss m" for ms
    unfolding res by (auto simp: plain_mounts_def generateCassandraVolumes_def emptyDir_def)
  from assms(6) 1(11,13) \<open>cs' = cs\<close> consider "c = a" | "c = b" | "c = k"
    | c0 where "c0 \<in> set cs" "c_VolumeMounts c = c_VolumeMounts c0"
    by (auto simp: addBootstrapContainerEnvVarsToSidecars_def split: if_split_asm)
  then show ?thesis
  proof cases
    case 3
    with init_containers(3) [OF 1(6)] mounts_generated(4) [of m cc] assms(7) show ?thesis
      unfolding res by (auto simp: generateCassandraVolumes_def emptyDir_def cassandraConfigMapName_def)
  qed (use init_containers(1) [OF 1(4)] init_containers(2) [OF 1(5)] mounts_generated(3) assms(7) plain builtin in auto)
qed

text \<open>A cluster of the example with defaults and a data capacity, in an environment that parses quantities.\<close>

definition parsing_env :: env where
  "parsing_env = example_env\<lparr>env_parseQuantity := \<lambda>_. Some zero_quantity\<rparr>"

definition capacity_cluster :: "string \<Rightarrow> string \<Rightarrow> CassandraCluster" where
  "capacity_cluster global own = demo_cluster\<lparr>cc_Spec := (cc_Spec demo_cluster)\<lparr>spec_DataCapacity := global,
     spec_Topology := \<lparr>top_DC = [(zero_dc ''dc1'' [zero_rack ''rack1''])\<lparr>dc_DataCapacity := own\<rparr>]\<rparr>\<rparr>\<rparr>"

lemma capacity_cluster_wf: "wf_topology (capacity_cluster g w)" "0 < GetRackSize (capacity_cluster g w) 0"
  "rack_at (capacity_cluster g w) 0 0 = ''dc1-rack1''" "GetDCName (capacity_cluster g w) 0 = ''dc1''"
  "spec_StorageConfigs (cc_Spec (capacity_cluster g w)) = []" "spec_SidecarConfigs (cc_Spec (capacity_cluster g w)) = []"
  "spec_DataCapacity (cc_Spec (capacity_cluster g w)) = g" "cc_Name (capacity_cluster g w) = ''demo''"
  "spec_BackRestSidecar (cc_Spec (CheckDefaults (capacity_cluster g w))) =
     Some \<lparr>br_Enabled = Some True, br_Image = DefaultBackRestImage, br_ImagePullPolicy = '''', br_Resources = None, br_VolumeMounts = []\<rparr>"
  "getDCNodesPerRacksFromIndex (capacity_cluster g w) 0 = 3"
  by (simp_all add: capacity_cluster_def demo_cluster_def example_defs wf_topology_def wf_dc_def valid_rack_name_def
      no_dash_def GetRackSize_def GetDCSize_def GetDCName_def GetRackName_def rack_at_def CheckDefaults_def default_spec_def
      default_backrest_def getDCNodesPerRacksFromIndex_def) code_simp+

lemma capacity_generated:
  "\<exists>ss. generateCassandraStatefulSet parsing_env (CheckDefaults (capacity_cluster g w)) zero_status ''dc1'' ''dc1-rack1''
     Map.empty Map.empty [] = Some (Inr ss)"
  using generate_total [OF capacity_cluster_wf(1,2), where e = parsing_env] capacity_cluster_wf(3,5)
  by (simp add: parsing_env_def)

theorem generated_mounts_resolve_witness:
  "\<exists>ss. generateCassandraStatefulSet parsing_env (CheckDefaults (capacity_cluster ''20'' '''')) zero_status ''dc1'' ''dc1-rack1''
     Map.empty Map.empty [] = Some (Inr ss) \<and>
   (\<forall>c \<in> set (pt_Containers (sts_Template ss)). \<forall>m \<in> set (c_VolumeMounts c). mount_resolves ss m)"
proof -
  obtain ss where ss: "generateCassandraStatefulSet parsing_env (CheckDefaults (capacity_cluster ''20'' '''')) zero_status
     ''dc1'' ''dc1-rack1'' Map.empty Map.empty [] = Some (Inr ss)" using capacity_generated by blast
  show ?thesis
    using generated_mounts_resolve [OF ss] by (intro exI [of _ ss]) (auto simp: ss capacity_cluster_wf plain_mounts_def)
qed

text \<open>
  C19 (generator_never_panics): for every rack of a well-formed topology, and once the defaults are set, the generator
  returns a statefulset: no nil pointer is followed.  It has the name of the rack and the number of nodes that
  its DC asks for.  Named hypotheses: the quantities 0.5 and 0.5Gi parse, and every storage configuration
  has its claim.
\<close>

theorem generator_never_panics:
  assumes "wf_topology cc" and "rack < GetRackSize cc dc"
    and "env_parseQuantity e ''0.5'' = Some cpu" and "env_parseQuantity e ''0.5Gi'' = Some memory"
    and "\<forall>s \<in> set (spec_StorageConfigs (cc_Spec cc)). sc_PVCSpec s \<noteq> None"
  shows "\<exists>ss. generateCassandraStatefulSet e (CheckDefaults cc) status (GetDCName cc dc) (rack_at cc dc rack) labels sel owners =
      Some (Inr ss) \<and> meta_Name (sts_Meta ss) = cc_Name cc @ ''-'' @ rack_at cc dc rack \<and>
    sts_Replicas ss = Some (getDCNodesPerRacksFromIndex cc dc)"
proof -
  obtain ss where ss: "generateCassandraStatefulSet e (CheckDefaults cc) status (GetDCName cc dc) (rack_at cc dc rack)
      labels sel owners = Some (Inr ss)" using generate_total [OF assms] by blast
  have "GetNodesPerRacks (CheckDefaults cc) (rack_at cc dc rack) = getDCNodesPerRacksFromIndex (CheckDefaults cc) dc"
    using GetNodesPerRacks_wf [of "CheckDefaults cc" rack dc] assms(1,2) by simp
  also have "\<dots> = getDCNodesPerRacksFromIndex cc dc"
    unfolding getDCNodesPerRacksFromIndex_def CheckDefaults_fields CheckDefaults_topology by simp
  finally show ?thesis using ss by (cases rule: generated [OF ss]) auto
qed

theorem generator_never_panics_witness:
  "\<exists>ss. generateCassandraStatefulSet parsing_env (CheckDefaults (capacity_cluster ''20'' '''')) zero_status ''dc1'' ''dc1-rack1''
     Map.empty Map.empty [] = Some (Inr ss) \<and> meta_Name (sts_Meta ss) = ''demo-dc1-rack1'' \<and> sts_Replicas ss = Some 3"
proof -
  have "env_parseQuantity parsing_env s = Some zero_quantity" for s by (simp add: parsing_env_def)
  from generator_never_panics [OF capacity_cluster_wf(1,2) this this] capacity_cluster_wf show ?thesis by fastforce
qed

text \<open>
  When only the DC gives a data capacity and the cluster does not, the statefulset gets the
  data claim, but its cassandra container does not mount it: the data of the nodes stays on the disk of the
  container.
\<close>

lemma dc_capacity_not_mounted:
  assumes "generateCassandraStatefulSet e cc status dcName r labels sel owners = Some (Inr ss)"
    and "spec_DataCapacity (cc_Spec cc) = ''''" and "GetDataCapacityFromDCName cc dcName \<noteq> ''''"
    and "spec_StorageConfigs (cc_Spec cc) = []"
    and "\<forall>c \<in> set (spec_SidecarConfigs (cc_Spec cc)). c_Name c \<noteq> CassandraContainerName"
  shows "(\<exists>p. p \<in> set (sts_VolumeClaimTemplates ss) \<and> meta_Name (pvc_Meta p) = DataPVCName) \<and>
    (\<forall>c m. c \<in> set (pt_Containers (sts_Template ss)) \<and> c_Name c = CassandraContainerName \<and>
       m \<in> set (c_VolumeMounts c) \<longrightarrow> vm_Name m \<noteq> DataPVCName)"
  using assms(1)
proof (cases rule: generated)
  case (1 claims cs cs' volumes a b k)
  from generateVolumeClaimTemplate_data [OF 1(1) assms(3,4)]
  obtain p where p: "claims = [p]" "meta_Name (pvc_Meta p) = ''data''" by blast
  have "volumeClaimMapNameMountPath cs claims = []"
    using generated_claims [OF 1(2) assms(4) p] assms(2) by simp
  moreover have "mounted_at e [] path = None" for path by (simp add: mounted_at_def find_None_iff)
  then have "dedup_container e [] c = c" for c by (simp add: dedup_container_def dedup_mounts_id)
  ultimately have "cs' = cs"
    using 1(3) by (auto simp: RemoveDuplicateVolumesAndVolumeMounts_def removeDuplicateVolumeMountsFromContainers_def
        intro: map_idI)
  moreover have "vm_Name m \<noteq> ''data''" if "c \<in> set cs" "c_Name c = CassandraContainerName" "m \<in> set (c_VolumeMounts c)" for c m
    using 1(2)
  proof (cases rule: generateContainers_cases)
    case (1 dc rp lp)
    with that assms(2,4,5) mounts_generated(5) [of cc cassandraContainer m] show ?thesis
      by (auto simp: cassandra_container_def Let_def generateStorageConfigVolumesMount_def)
  next
    case (2 dc rp lp b s)
    with that assms(2,4,5) mounts_generated(5) [of cc cassandraContainer m] show ?thesis
      by (auto simp: cassandra_container_def Let_def generateStorageConfigVolumesMount_def CassandraContainerName_def)
  qed
  ultimately show ?thesis
    using 1(8,13) p by (auto simp: addBootstrapContainerEnvVarsToSidecars_def DataPVCName_def split: if_split_asm)
qed

text \<open>
  A container other than the cassandra container that mounts a volume at the path of a claim
  keeps this mount, while the volume is removed from the pod.  A comment in the code says that the mount is
  replaced by the claim.
\<close>

lemma sidecar_mount_dangles:
  assumes "RemoveDuplicateVolumesAndVolumeMounts e containers pvcs volumes = (containers', volumes')"
    and "c \<in> set containers" and "c_Name c \<noteq> CassandraContainerName" and "m \<in> set (c_VolumeMounts c)"
    and "map_of (volumeClaimMapNameMountPath containers pvcs) (vm_Name m) = None"
    and "mounted_at e (volumeClaimMapNameMountPath containers pvcs) (vm_MountPath m) = Some key"
  shows "c \<in> set containers' \<and> (\<forall>v. v \<in> set (items volumes') \<longrightarrow> v_Name v \<noteq> vm_Name m)"
proof -
  let ?cl = "volumeClaimMapNameMountPath containers pvcs"
  have "vm_Name m \<in> set (concat (map (\<lambda>c. snd (dedup_mounts e ?cl (c_Name c) (c_VolumeMounts c))) containers))"
    using dedup_mounts_removed [OF assms(4-6)] assms(2) by auto
  moreover have "c = dedup_container e ?cl c" using dedup_container_other [OF assms(3)] by simp
  then have "c \<in> set (map (dedup_container e ?cl) containers)" using assms(2) by (metis image_eqI image_set)
  ultimately show ?thesis
    using assms(1) by (auto simp: RemoveDuplicateVolumesAndVolumeMounts_def
        removeDuplicateVolumeMountsFromContainers_def items_volumesWoDupes Let_def)
qed

end
