(* ===== verification/Backrest.thy ===== *)
theory Backrest
  imports K8s_Util
begin

text \<open>
  Backups and restores: the types of src/api/v2/cassandrabackup_types.go, cassandrarestore_types.go and
  backrest.go, and the client of the backup sidecar, src/pkg/backrest/backrest.go and
  src/pkg/cassandrabackup.  The API server, the cron library and the sidecar answer through an environment,
  as a function of the requests made so far; text is ASCII.
\<close>

section \<open>Types\<close>

record FailureCause =
  fc_Source :: string
  fc_Message :: string

record BackRestCondition =
  brc_Type :: string
  brc_LastTransitionTime :: string
  brc_FailureCause :: "FailureCause list"

record BackRestStatus =
  brs_TimeCreated :: string
  brs_TimeStarted :: string
  brs_TimeCompleted :: string
  brs_Condition :: "BackRestCondition option"
  brs_CoordinatorMember :: string
  brs_Progress :: string
  brs_ID :: string

definition zero_backrest :: BackRestStatus where
  "zero_backrest = \<lparr>brs_TimeCreated = '''', brs_TimeStarted = '''', brs_TimeCompleted = '''', brs_Condition = None,
     brs_CoordinatorMember = '''', brs_Progress = '''', brs_ID = ''''\<rparr>"

record CassandraBackupSpec =
  bk_CassandraCluster :: string
  bk_Datacenter :: string
  bk_StorageLocation :: string
  bk_Schedule :: string
  bk_SnapshotTag :: string
  bk_Duration :: string
  bk_Bandwidth :: string
  bk_ConcurrentConnections :: int
  bk_Entities :: string
  bk_Secret :: string

record CassandraBackup =
  cb_Meta :: object_meta
  cb_Spec :: CassandraBackupSpec
  cb_Status :: BackRestStatus

record CassandraRestoreSpec =
  rt_CassandraCluster :: string
  rt_Datacenter :: string
  rt_CassandraBackup :: string
  rt_ConcurrentConnection :: "int option"
  rt_CassandraDirectory :: string
  rt_NoDeleteTruncates :: bool
  rt_SchemaVersion :: string
  rt_ExactSchemaVersion :: bool
  rt_Entities :: string
  rt_Rename :: labels
  rt_Secret :: string

record CassandraRestore =
  cr_Meta :: object_meta
  cr_Spec :: CassandraRestoreSpec
  cr_Status :: BackRestStatus

abbreviation cb_Name :: "CassandraBackup \<Rightarrow> string" where "cb_Name b \<equiv> meta_Name (cb_Meta b)"
abbreviation cb_Namespace :: "CassandraBackup \<Rightarrow> string" where "cb_Namespace b \<equiv> meta_Namespace (cb_Meta b)"
abbreviation cr_Namespace :: "CassandraRestore \<Rightarrow> string" where "cr_Namespace r \<equiv> meta_Namespace (cr_Meta r)"

definition BackupRunning :: string where "BackupRunning = ''RUNNING''"
definition BackupCompleted :: string where "BackupCompleted = ''COMPLETED''"
definition BackupFailed :: string where "BackupFailed = ''FAILED''"

definition RestoreRequired :: string where "RestoreRequired = ''REQUIRED''"
definition RestorePending :: string where "RestorePending = ''PENDING''"
definition RestoreRunning :: string where "RestoreRunning = ''RUNNING''"
definition RestoreCompleted :: string where "RestoreCompleted = ''COMPLETED''"
definition RestoreFailed :: string where "RestoreFailed = ''FAILED''"
definition RestoreCanceled :: string where "RestoreCanceled = ''CANCELED''"

lemmas condition_types =
  BackupRunning_def BackupCompleted_def BackupFailed_def RestoreRequired_def RestorePending_def RestoreRunning_def
  RestoreCompleted_def RestoreFailed_def RestoreCanceled_def

definition IsInProgress :: "string \<Rightarrow> bool" where
  "IsInProgress t = (t = RestorePending \<or> t = RestoreRunning)"

definition IsInError :: "string \<Rightarrow> bool" where
  "IsInError t = (t = RestoreFailed \<or> t = RestoreCanceled)"

definition IsRequired :: "string \<Rightarrow> bool" where
  "IsRequired t = (t = RestoreRequired)"

definition IsCompleted :: "string \<Rightarrow> bool" where
  "IsCompleted t = (t = RestoreCompleted)"

definition GetRestoreCondition :: "BackRestStatus \<Rightarrow> string \<Rightarrow> BackRestCondition option" where
  "GetRestoreCondition status conditionType =
     (case brs_Condition status of
        Some c \<Rightarrow> if brc_Type c = conditionType then Some c else None
      | None \<Rightarrow> None)"

definition PreventBackupDeletion :: "bool \<Rightarrow> CassandraBackup \<Rightarrow> CassandraBackup" where
  "PreventBackupDeletion v cb =
     cb\<lparr>cb_Meta := (cb_Meta cb)\<lparr>meta_Finalizers := (if v then [''kubernetes.io/unschedule-needed''] else [])\<rparr>\<rparr>"

definition IsScheduled :: "CassandraBackup \<Rightarrow> bool" where
  "IsScheduled cb = (bk_Schedule (cb_Spec cb) \<noteq> '''')"

definition Ran :: "CassandraBackup \<Rightarrow> bool" where
  "Ran cb = (brs_Condition (cb_Status cb) \<noteq> None)"

definition IsS3Backup :: "CassandraBackup \<Rightarrow> bool" where
  "IsS3Backup b = prefix ''s3://'' (bk_StorageLocation (cb_Spec b))"

definition IsAzureBackup :: "CassandraBackup \<Rightarrow> bool" where
  "IsAzureBackup b = prefix ''azure://'' (bk_StorageLocation (cb_Spec b))"

definition IsGcpBackup :: "CassandraBackup \<Rightarrow> bool" where
  "IsGcpBackup b = prefix ''gcp://'' (bk_StorageLocation (cb_Spec b))"

definition IsFileBackup :: "CassandraBackup \<Rightarrow> bool" where
  "IsFileBackup b = prefix ''file://'' (bk_StorageLocation (cb_Spec b))"

text \<open>What is left of a backup before it is written as JSON; the status and most of the metadata are dropped.
  The creation timestamp, which is kept and never changes, is not among the modelled metadata.\<close>

definition last_applied_backup :: "CassandraBackup \<Rightarrow> CassandraBackup" where
  "last_applied_backup cb = cb\<lparr>cb_Meta := named_meta (cb_Namespace cb) (cb_Name cb), cb_Status := zero_backrest\<rparr>"

section \<open>Requests to the sidecar\<close>

record DataRate =
  dr_Value :: int
  dr_Unit :: string

record RestoreOperationRequest =
  rr_Type :: string
  rr_Dc :: string
  rr_StorageLocation :: string
  rr_SnapshotTag :: string
  rr_NoDeleteTruncates :: bool
  rr_ExactSchemaVersion :: bool
  rr_RestorationPhase :: string
  rr_GlobalRequest :: bool
  rr_Import :: "string \<times> string"
  rr_Entities :: string
  rr_Rename :: labels
  rr_K8sSecretName :: string
  rr_CassandraDirectory :: string
  rr_SchemaVersion :: string
  rr_RestorationStrategyType :: string
  rr_ResolveHostIdFromTopology :: bool
  rr_ConcurrentConnections :: int

record BackupOperationRequest =
  bo_Type :: string
  bo_StorageLocation :: string
  bo_SnapshotTag :: string
  bo_Duration :: string
  bo_Bandwidth :: "DataRate option"
  bo_ConcurrentConnections :: int
  bo_Entities :: string
  bo_K8sSecretName :: string
  bo_Dc :: string
  bo_GlobalRequest :: bool
  bo_K8sNamespace :: string

text \<open>
  The answer of the sidecar.  Its progress is a float that the code multiplies by 100 and truncates; the
  model has the result of this multiplication.
\<close>

record OperationResponse =
  or_Id :: string
  or_State :: string
  or_Progress100 :: int
  or_CreationTime :: string
  or_StartTime :: string
  or_CompletionTime :: string
  or_Errors :: "FailureCause list"

definition ProgressPercentage :: "int \<Rightarrow> string" where
  "ProgressPercentage progress100 = itoa progress100 @ ''%''"

definition ComputeBackupStatus :: "string \<Rightarrow> OperationResponse \<Rightarrow> string \<Rightarrow> BackRestStatus" where
  "ComputeBackupStatus nw r coordinatorMember =
     \<lparr>brs_TimeCreated = or_CreationTime r, brs_TimeStarted = or_StartTime r, brs_TimeCompleted = or_CompletionTime r,
      brs_Condition = Some \<lparr>brc_Type = or_State r, brc_LastTransitionTime = nw, brc_FailureCause = or_Errors r\<rparr>,
      brs_CoordinatorMember = coordinatorMember, brs_Progress = ProgressPercentage (or_Progress100 r), brs_ID = or_Id r\<rparr>"

definition ComputeRestorationStatus :: "string \<Rightarrow> OperationResponse \<Rightarrow> BackRestStatus" where
  "ComputeRestorationStatus nw r =
     \<lparr>brs_TimeCreated = or_CreationTime r, brs_TimeStarted = or_StartTime r, brs_TimeCompleted = or_CompletionTime r,
      brs_Condition = Some \<lparr>brc_Type = or_State r, brc_LastTransitionTime = nw, brc_FailureCause = or_Errors r\<rparr>,
      brs_CoordinatorMember = '''', brs_Progress = ProgressPercentage (or_Progress100 r), brs_ID = or_Id r\<rparr>"

section \<open>Entities and bandwidth\<close>

definition regex_space :: "char \<Rightarrow> bool" where
  "regex_space c = (c \<in> set [CHR '' '', CHR 0x09, CHR 0x0A, CHR 0x0C, CHR 0x0D])"

definition space_or_comma :: "char \<Rightarrow> bool" where
  "space_or_comma c = (regex_space c \<or> c = CHR '','')"

definition trimmed :: "char \<Rightarrow> bool" where
  "trimmed c = (regex_space c \<or> c = CHR 0x0B)"

definition TrimSpace :: "string \<Rightarrow> string" where
  "TrimSpace s = rev (dropWhile trimmed (rev (dropWhile trimmed s)))"

text \<open>The parts of a text between the maximal runs of separators.\<close>

function split_runs :: "(char \<Rightarrow> bool) \<Rightarrow> string \<Rightarrow> string list" where
  "split_runs sep [] = [[]]"
| "split_runs sep (x # xs) =
     (if sep x then [] # split_runs sep (dropWhile sep xs)
      else (x # hd (split_runs sep xs)) # tl (split_runs sep xs))"
  by pat_completeness auto
termination by (relation "measure (\<lambda>(sep, s). length s)") (auto simp: le_imp_less_Suc length_dropWhile_le)

definition filterEmptyStrings :: "string list \<Rightarrow> string list" where
  "filterEmptyStrings input = filter (\<lambda>x. length x > 0) input"

definition formatEntities :: "string \<Rightarrow> string" where
  "formatEntities entities = join '','' (filterEmptyStrings (split_runs space_or_comma (TrimSpace entities)))"

definition to_upper :: "char \<Rightarrow> char" where
  "to_upper c = (if 97 \<le> (of_char c :: nat) \<and> (of_char c :: nat) \<le> 122 then char_of (of_char c - 32 :: nat) else c)"

definition dataRateFromBandwidth :: "string \<Rightarrow> error + DataRate option" where
  "dataRateFromBandwidth value =
     (let bandwidth = map to_upper (filter (\<lambda>c. c \<noteq> CHR '' '') value);
          digits = takeWhile is_digit bandwidth; unit = dropWhile is_digit bandwidth in
      if bandwidth = '''' then Inr None
      else if digits \<noteq> '''' \<and> unit \<in> set ['''', ''K'', ''M'', ''G'']
      then Inr (Some \<lparr>dr_Value = int32 (atoi_sat digits), dr_Unit = unit @ ''BPS''\<rparr>)
      else Inl (Errorf (''Format of '' @ value @ '' not supported'')))"

section \<open>The environment\<close>

text \<open>
  A call of AddFunc is recorded with its answer.  The task of a cron job and the goroutine of a backup are
  recorded with the objects they were started with.
\<close>

datatype brequest =
    BGetBackup string string
  | BListBackups
  | BGetRestore string string
  | BGetSecret string string
  | BGetCluster string string
  | BListPods string labels
  | BUpdateBackup CassandraBackup
  | BPatchBackup CassandraBackup
  | BPatchRestore CassandraRestore
  | BEvent string
  | BCronAdd "error + nat" string CassandraBackup CassandraCluster
  | BCronRemove nat
  | BSpawnBackup pod CassandraBackup
  | BPostBackup string BackupOperationRequest
  | BPostRestore string RestoreOperationRequest
  | BOperation string string

record benv =
  be_now :: "brequest list \<Rightarrow> string"
  be_getBackup :: "brequest list \<Rightarrow> string \<Rightarrow> string \<Rightarrow> error + CassandraBackup"
  be_listBackups :: "brequest list \<Rightarrow> error + CassandraBackup list"
  be_getRestore :: "brequest list \<Rightarrow> string \<Rightarrow> string \<Rightarrow> error + CassandraRestore"
  be_getSecret :: "brequest list \<Rightarrow> string \<Rightarrow> string \<Rightarrow> error + labels"
  be_getCluster :: "brequest list \<Rightarrow> string \<Rightarrow> string \<Rightarrow> error + CassandraCluster"
  be_listPods :: "brequest list \<Rightarrow> string \<Rightarrow> labels \<Rightarrow> error + pod list"
  be_write :: "brequest list \<Rightarrow> brequest \<Rightarrow> error option"
  be_marshal :: "CassandraBackup \<Rightarrow> error + string"
  be_unmarshal :: "string \<Rightarrow> error + CassandraBackup"
  be_ParseStandard :: "string \<Rightarrow> error option"
  be_AddFunc :: "brequest list \<Rightarrow> string \<Rightarrow> error + nat"
  be_postBackup :: "brequest list \<Rightarrow> string \<Rightarrow> BackupOperationRequest \<Rightarrow> error + OperationResponse"
  be_postRestore :: "brequest list \<Rightarrow> string \<Rightarrow> RestoreOperationRequest \<Rightarrow> error + OperationResponse"
  be_operation :: "brequest list \<Rightarrow> string \<Rightarrow> string \<Rightarrow> error + OperationResponse"

text \<open>The state of the controllers: the entries of the scheduler and the requests made so far.\<close>

record entryType =
  et_ID :: nat
  et_Schedule :: string

record bstate =
  bs_entries :: "string \<rightharpoonup> entryType"
  bs_trace :: "brequest list"

definition bcall :: "brequest \<Rightarrow> bstate \<Rightarrow> bstate" where
  "bcall q st = st\<lparr>bs_trace := bs_trace st @ [q]\<rparr>"

definition bwrite :: "benv \<Rightarrow> brequest \<Rightarrow> bstate \<Rightarrow> error option \<times> bstate" where
  "bwrite e q st = (be_write e (bs_trace st) q, bcall q st)"

definition event :: "string \<Rightarrow> bstate \<Rightarrow> bstate" where
  "event reason st = bcall (BEvent reason) st"

definition listPods :: "benv \<Rightarrow> string \<Rightarrow> labels \<Rightarrow> bstate \<Rightarrow> (error + pod list) \<times> bstate" where
  "listPods e ns selector st = (be_listPods e (bs_trace st) ns selector, bcall (BListPods ns selector) st)"

definition ComputeLastAppliedAnnotation :: "benv \<Rightarrow> CassandraBackup \<Rightarrow> string" where
  "ComputeLastAppliedAnnotation e cb =
     (case be_marshal e (last_applied_backup cb) of Inl _ \<Rightarrow> '''' | Inr s \<Rightarrow> s)"

section \<open>The client of the sidecar\<close>

text \<open>
  The client of a pod is known by the address of its sidecar.  The configuration follows the pointer to the pod.  The timeout
  reaches the HTTP client of the library only together with TLS; otherwise the library keeps its default client.
\<close>

record Config =
  cfg_UseSSL :: bool
  cfg_Port :: int
  cfg_Host :: string
  cfg_Timeout :: int

record Configuration =
  ic_Scheme :: string
  ic_BasePath :: string
  ic_HTTPTimeout :: "int option"

definition ClusterConfig :: "pod \<Rightarrow> Config" where
  "ClusterConfig p = \<lparr>cfg_UseSSL = False, cfg_Port = 4567, cfg_Host = PodHostname p, cfg_Timeout = 60 * 10 ^ 9\<rparr>"

definition cassandraBackupSidecarConfig :: "Config \<Rightarrow> Configuration" where
  "cassandraBackupSidecarConfig config =
     (let protocol = (if cfg_UseSSL config then ''https'' else ''http'') in
      \<lparr>ic_Scheme = (if cfg_UseSSL config then ''HTTPS'' else ''''),
       ic_BasePath = protocol @ ''://'' @ cfg_Host config @ '':'' @ itoa (cfg_Port config),
       ic_HTTPTimeout = (if cfg_UseSSL config then Some (cfg_Timeout config) else None)\<rparr>)"

record backrest_client =
  bc_Config :: Configuration
  bc_CoordinatorMember :: string

abbreviation bc_BasePath :: "backrest_client \<Rightarrow> string" where "bc_BasePath c \<equiv> ic_BasePath (bc_Config c)"

definition NewClient :: "pod option \<Rightarrow> backrest_client option" where
  "NewClient p = map_option (\<lambda>p. \<lparr>bc_Config = cassandraBackupSidecarConfig (ClusterConfig p), bc_CoordinatorMember = pod_Name p\<rparr>) p"

text \<open>The address of the sidecar of a pod.\<close>

definition sidecar :: "pod \<Rightarrow> string" where
  "sidecar p = ic_BasePath (cassandraBackupSidecarConfig (ClusterConfig p))"

lemma NewClient_Some [simp]:
  "NewClient (Some p) = Some \<lparr>bc_Config = cassandraBackupSidecarConfig (ClusterConfig p), bc_CoordinatorMember = pod_Name p\<rparr>"
  "NewClient None = None" "ic_BasePath (cassandraBackupSidecarConfig (ClusterConfig p)) = sidecar p"
  by (simp_all add: NewClient_def sidecar_def)

lemma NewClient_None_iff [simp]: "NewClient x = None \<longleftrightarrow> x = None"
  by (cases x) simp_all

lemma sidecar_address: "sidecar p = ''http://'' @ PodHostname p @ '':4567''"
proof -
  have "itoa 4567 = ''4567''" by code_simp
  then show ?thesis by (simp add: sidecar_def cassandraBackupSidecarConfig_def ClusterConfig_def)
qed

lemma sidecar_requests_unbounded: "NewClient (Some p) = Some c \<Longrightarrow> ic_HTTPTimeout (bc_Config c) = None"
  by (auto simp: cassandraBackupSidecarConfig_def ClusterConfig_def)

definition restore_request :: "CassandraRestore \<Rightarrow> CassandraBackup \<Rightarrow> RestoreOperationRequest" where
  "restore_request r b =
     (let rs = cr_Spec r; bs = cb_Spec b in
      \<lparr>rr_Type = ''restore'', rr_Dc = rt_Datacenter rs, rr_StorageLocation = bk_StorageLocation bs,
       rr_SnapshotTag = bk_SnapshotTag bs, rr_NoDeleteTruncates = rt_NoDeleteTruncates rs,
       rr_ExactSchemaVersion = rt_ExactSchemaVersion rs, rr_RestorationPhase = ''INIT'', rr_GlobalRequest = True,
       rr_Import = (''import'', ''/var/lib/cassandra/downloadedsstables''),
       rr_Entities = formatEntities (if length (rt_Entities rs) = 0 then bk_Entities bs else rt_Entities rs),
       rr_Rename = rt_Rename rs,
       rr_K8sSecretName = (if length (rt_Secret rs) = 0 then bk_Secret bs else rt_Secret rs),
       rr_CassandraDirectory = rt_CassandraDirectory rs, rr_SchemaVersion = rt_SchemaVersion rs,
       rr_RestorationStrategyType = ''HARDLINKS'', rr_ResolveHostIdFromTopology = True,
       rr_ConcurrentConnections = (case rt_ConcurrentConnection rs of None \<Rightarrow> 0 | Some n \<Rightarrow> n)\<rparr>)"

definition PerformRestore ::
  "benv \<Rightarrow> backrest_client \<Rightarrow> CassandraRestore \<Rightarrow> CassandraBackup \<Rightarrow> bstate \<Rightarrow> (error + BackRestStatus) \<times> bstate" where
  "PerformRestore e c r b st =
     (let q = restore_request r b; res = be_postRestore e (bs_trace st) (bc_BasePath c) q;
          st = bcall (BPostRestore (bc_BasePath c) q) st in
      (map_sum id (ComputeRestorationStatus (be_now e (bs_trace st))) res, st))"

text \<open>The error of dataRateFromBandwidth is dropped.\<close>

definition backup_request :: "CassandraBackup \<Rightarrow> BackupOperationRequest" where
  "backup_request b =
     (let bs = cb_Spec b in
      \<lparr>bo_Type = ''backup'', bo_StorageLocation = bk_StorageLocation bs, bo_SnapshotTag = bk_SnapshotTag bs,
       bo_Duration = bk_Duration bs,
       bo_Bandwidth = (case dataRateFromBandwidth (filter (\<lambda>c. c \<noteq> CHR '' '') (bk_Bandwidth bs)) of
                         Inl _ \<Rightarrow> None | Inr rate \<Rightarrow> rate),
       bo_ConcurrentConnections = bk_ConcurrentConnections bs, bo_Entities = formatEntities (bk_Entities bs),
       bo_K8sSecretName = bk_Secret bs, bo_Dc = bk_Datacenter bs, bo_GlobalRequest = True,
       bo_K8sNamespace = cb_Namespace b\<rparr>)"

definition PerformBackup ::
  "benv \<Rightarrow> backrest_client \<Rightarrow> CassandraBackup \<Rightarrow> bstate \<Rightarrow> (error + string) \<times> bstate" where
  "PerformBackup e c b st =
     (let q = backup_request b in
      (map_sum id or_Id (be_postBackup e (bs_trace st) (bc_BasePath c) q), bcall (BPostBackup (bc_BasePath c) q) st))"

definition operation_by_id ::
  "benv \<Rightarrow> backrest_client \<Rightarrow> string \<Rightarrow> bstate \<Rightarrow> (error + OperationResponse) \<times> bstate" where
  "operation_by_id e c i st =
     (if i = '''' then (Inl (Errorf ''must get a non empty id''), st)
      else (be_operation e (bs_trace st) (bc_BasePath c) i, bcall (BOperation (bc_BasePath c) i) st))"

definition RestoreStatusByID ::
  "benv \<Rightarrow> backrest_client \<Rightarrow> string \<Rightarrow> bstate \<Rightarrow> (error + BackRestStatus) \<times> bstate" where
  "RestoreStatusByID e c i st =
     (let (res, st) = operation_by_id e c i st in
      (map_sum id (ComputeRestorationStatus (be_now e (bs_trace st))) res, st))"

definition BackupStatusByID ::
  "benv \<Rightarrow> backrest_client \<Rightarrow> string \<Rightarrow> bstate \<Rightarrow> (error + BackRestStatus) \<times> bstate" where
  "BackupStatusByID e c i st =
     (let (res, st) = operation_by_id e c i st in
      (map_sum id (\<lambda>r. ComputeBackupStatus (be_now e (bs_trace st)) r (bc_CoordinatorMember c)) res, st))"

section \<open>Facts\<close>

lemma bcall_simps [simp]:
  "bs_entries (bcall q st) = bs_entries st" "bs_trace (bcall q st) = bs_trace st @ [q]"
  by (simp_all add: bcall_def)

lemma split_runs_not_Nil [simp]: "split_runs sep s \<noteq> []"
  by (cases s) auto

lemma split_runs_free: "p \<in> set (split_runs sep s) \<Longrightarrow> \<forall>c \<in> set p. \<not> sep c"
proof (induction sep s arbitrary: p rule: split_runs.induct)
  case (2 sep x xs)
  show ?case
  proof (cases "sep x")
    case True
    with "2.prems" have "p = [] \<or> p \<in> set (split_runs sep (dropWhile sep xs))" by simp
    moreover have "\<forall>c \<in> set p. \<not> sep c" if "p \<in> set (split_runs sep (dropWhile sep xs))"
      by (rule "2.IH"(1) [OF True that])
    ultimately show ?thesis by auto
  next
    case False
    obtain q qs where q: "split_runs sep xs = q # qs" by (cases "split_runs sep xs") auto
    with "2.prems" False have "p = x # q \<or> p \<in> set qs" by simp
    moreover have "\<forall>c \<in> set q. \<not> sep c" by (rule "2.IH"(2) [OF False]) (simp add: q)
    moreover have "\<forall>c \<in> set p. \<not> sep c" if "p \<in> set qs" by (rule "2.IH"(2) [OF False]) (simp add: q that)
    ultimately show ?thesis using False by auto
  qed
qed simp

lemma split_runs_word:
  "\<forall>c \<in> set w. \<not> sep c \<Longrightarrow> split_runs sep (w @ s) = (w @ hd (split_runs sep s)) # tl (split_runs sep s)"
  by (induction w) auto

lemma split_runs_join:
  assumes "ws \<noteq> []" and "\<forall>w \<in> set ws. w \<noteq> [] \<and> (\<forall>c \<in> set w. \<not> sep c)" and "sep d"
  shows "split_runs sep (join [d] ws) = ws"
  using assms
proof (induction ws rule: induct_list012)
  case (2 w)
  then show ?case using split_runs_word [of w sep "[]"] by simp
next
  case (3 w v ws)
  obtain x xs where v: "v = x # xs" "\<not> sep x" using 3(4) by (cases v) auto
  then obtain ys where "join [d] (v # ws) = x # ys" by (cases ws) auto
  define t where "t = join [d] (v # ws)"
  with v(2) \<open>join [d] (v # ws) = x # ys\<close> have "dropWhile sep t = t" by simp
  then have d: "split_runs sep (d # t) = [] # split_runs sep t" using 3(5) by simp
  have t: "split_runs sep t = v # ws" unfolding t_def using 3(4,5) by (intro 3(2)) simp_all
  have "split_runs sep (w @ d # t) = w # v # ws"
    using split_runs_word [of w sep "d # t"] 3(4) unfolding d t by simp
  then show ?case by (simp add: t_def)
qed simp

lemma TrimSpace_id:
  assumes "s = [] \<or> \<not> trimmed (hd s) \<and> \<not> trimmed (last s)"
  shows "TrimSpace s = s"
proof (cases s)
  case (Cons x xs)
  with assms have "dropWhile trimmed s = s" by simp
  moreover have "dropWhile trimmed (rev s) = rev s"
    using assms Cons by (cases "rev s") (auto simp: hd_rev [symmetric])
  ultimately show ?thesis by (simp add: TrimSpace_def)
qed (simp add: TrimSpace_def)

lemma TrimSpace_subset: "set (TrimSpace s) \<subseteq> set s"
  by (auto simp: TrimSpace_def dest!: set_dropWhileD)

lemma filterEmpty_words:
  assumes "CHR 0x0B \<notin> set s" and "w \<in> set (filterEmptyStrings (split_runs space_or_comma (TrimSpace s)))"
  shows "w \<noteq> [] \<and> (\<forall>c \<in> set w. \<not> space_or_comma c)"
  using assms(2) split_runs_free [of w space_or_comma "TrimSpace s"] by (auto simp: filterEmptyStrings_def)

lemma split_runs_set: "p \<in> set (split_runs sep s) \<Longrightarrow> set p \<subseteq> set s"
proof (induction sep s arbitrary: p rule: split_runs.induct)
  case (2 sep x xs)
  show ?case
  proof (cases "sep x")
    case True
    with "2.prems" have "p = [] \<or> p \<in> set (split_runs sep (dropWhile sep xs))" by simp
    moreover have "set p \<subseteq> set (dropWhile sep xs)" if "p \<in> set (split_runs sep (dropWhile sep xs))"
      by (rule "2.IH"(1) [OF True that])
    ultimately show ?thesis by (auto dest!: set_dropWhileD)
  next
    case False
    obtain q qs where q: "split_runs sep xs = q # qs" by (cases "split_runs sep xs") auto
    with "2.prems" False have "p = x # q \<or> p \<in> set qs" by simp
    moreover have "set q \<subseteq> set xs" by (rule "2.IH"(2) [OF False]) (simp add: q)
    moreover have "set p \<subseteq> set xs" if "p \<in> set qs" by (rule "2.IH"(2) [OF False]) (simp add: q that)
    ultimately show ?thesis by auto
  qed
qed simp

lemma formatEntities_words:
  assumes "ws \<noteq> []" and "\<forall>w \<in> set ws. w \<noteq> [] \<and> (\<forall>c \<in> set w. \<not> space_or_comma c \<and> \<not> trimmed c)"
  shows "formatEntities (join '','' ws) = join '','' ws"
proof -
  have sep: "space_or_comma CHR '',''" by (simp add: space_or_comma_def)
  have ends: "\<not> trimmed (hd (join '','' ws)) \<and> \<not> trimmed (last (join '','' ws)) \<and> join '','' ws \<noteq> []"
    using assms
  proof (induction ws rule: induct_list012)
    case (3 w v ws)
    have IH: "\<not> trimmed (last (join '','' (v # ws))) \<and> join '','' (v # ws) \<noteq> []" using 3(2,4) by simp
    obtain x xs where w: "w = x # xs" "\<not> trimmed x" using 3(4) by (cases w) auto
    have "join '','' (w # v # ws) = w @ '','' @ join '','' (v # ws)" by simp
    then show ?case using IH w by (simp del: join.simps)
  qed simp_all
  then have "TrimSpace (join '','' ws) = join '','' ws" by (intro TrimSpace_id) simp
  moreover have "split_runs space_or_comma (join '','' ws) = ws"
    using split_runs_join [of ws space_or_comma "CHR '',''"] assms sep by simp
  moreover have "filterEmptyStrings ws = ws" using assms(2) by (auto simp: filterEmptyStrings_def filter_id_conv)
  ultimately show ?thesis by (simp add: formatEntities_def)
qed

section \<open>Properties\<close>

text \<open>
  The entities sent to the sidecar are the non-empty words between the separators, joined by
  single commas; formatting them again changes nothing.  A vertical tab, which is trimmed but not a separator,
  is excluded.
\<close>

lemma formatEntities_canonical:
  assumes "CHR 0x0B \<notin> set s"
  shows "\<exists>ws. formatEntities s = join '','' ws \<and> (\<forall>w \<in> set ws. w \<noteq> [] \<and> (\<forall>c \<in> set w. \<not> space_or_comma c)) \<and>
    formatEntities (formatEntities s) = formatEntities s"
proof -
  let ?ws = "filterEmptyStrings (split_runs space_or_comma (TrimSpace s))"
  have ws: "\<forall>w \<in> set ?ws. w \<noteq> [] \<and> (\<forall>c \<in> set w. \<not> space_or_comma c)" using filterEmpty_words [OF assms] by blast
  have "set w \<subseteq> set s" if "w \<in> set ?ws" for w
    using that split_runs_set [of w space_or_comma "TrimSpace s"] TrimSpace_subset [of s] by (auto simp: filterEmptyStrings_def)
  with assms have "\<forall>w \<in> set ?ws. \<forall>c \<in> set w. c \<noteq> CHR 0x0B" by blast
  with ws have "\<forall>w \<in> set ?ws. w \<noteq> [] \<and> (\<forall>c \<in> set w. \<not> space_or_comma c \<and> \<not> trimmed c)"
    by (auto simp: trimmed_def space_or_comma_def)
  then have "formatEntities (formatEntities s) = formatEntities s"
    by (cases "?ws = []") (simp_all add: formatEntities_words formatEntities_def [of s], code_simp)
  with ws show ?thesis by (intro exI [of _ ?ws]) (simp add: formatEntities_def [of s])
qed

lemma upper_digits: "list_all is_digit s \<Longrightarrow> map to_upper (filter (\<lambda>c. c \<noteq> CHR '' '') s) = s"
  by (induction s) (auto simp: is_digit_def to_upper_def)

lemma split_digits:
  assumes "list_all is_digit s" and "t = [] \<or> \<not> is_digit (hd t)"
  shows "takeWhile is_digit (s @ t) = s" and "dropWhile is_digit (s @ t) = t"
  using assms by (induction s; cases t; simp)+

lemma atoi_sat_digits: "atoi_sat (itoa_nat n) = min int64_max (int n)"
proof -
  have "hd (itoa_nat n) \<noteq> CHR ''-''" "hd (itoa_nat n) \<noteq> CHR ''+''"
    using hd_itoa_nat [of n] is_digit_sign by auto
  then show ?thesis by (simp add: atoi_sat_def Let_def)
qed

lemma int32_wraps: "2 ^ 31 \<le> x \<Longrightarrow> x < 2 ^ 32 \<Longrightarrow> int32 x = x - 2 ^ 32"
proof -
  assume "2 ^ 31 \<le> x" "x < 2 ^ 32"
  then have "(x + 2 ^ 31) mod 2 ^ 32 = x + 2 ^ 31 - 2 ^ 32"
    by (subst mod_pos_geq) (auto simp: mod_pos_pos_trivial)
  then show ?thesis by (simp add: int32_def signed_take_bit_eq_take_bit_shift take_bit_eq_mod)
qed

text \<open>
  C40 (bandwidth_wraps): a bandwidth of n bytes, kilobytes and so on is sent as n when n fits in 32 bits; otherwise the value is
  truncated, so that the limit may become negative or zero.
\<close>

theorem bandwidth_wraps:
  assumes "unit \<in> set ['''', ''K'', ''M'', ''G'']"
  shows "dataRateFromBandwidth (itoa_nat n @ unit) =
      Inr (Some \<lparr>dr_Value = int32 (min int64_max (int n)), dr_Unit = unit @ ''BPS''\<rparr>) \<and>
    (n < 2 ^ 31 \<longrightarrow> int32 (min int64_max (int n)) = int n) \<and>
    (2 ^ 31 \<le> n \<and> n < 2 ^ 32 \<longrightarrow> int32 (min int64_max (int n)) < 0)"
proof -
  have up: "map to_upper (filter (\<lambda>c. c \<noteq> CHR '' '') unit) = unit" "unit = [] \<or> \<not> is_digit (hd unit)"
    using assms by (auto simp: to_upper_def is_digit_def)
  have "map to_upper (filter (\<lambda>c. c \<noteq> CHR '' '') (itoa_nat n @ unit)) = itoa_nat n @ unit"
    by (simp add: up upper_digits)
  then have "dataRateFromBandwidth (itoa_nat n @ unit) =
      Inr (Some \<lparr>dr_Value = int32 (min int64_max (int n)), dr_Unit = unit @ ''BPS''\<rparr>)"
    using assms by (simp add: dataRateFromBandwidth_def split_digits up(2) atoi_sat_digits del: list.set)
  moreover have "min int64_max (int n) = int n" if "n < 2 ^ 32" using that by (simp add: int64_max_def)
  ultimately show ?thesis by (auto simp: is_int32_def int32_wraps)
qed

theorem bandwidth_wraps_witness:
  "dataRateFromBandwidth ''10M'' = Inr (Some \<lparr>dr_Value = 10, dr_Unit = ''MBPS''\<rparr>) \<and>
   (\<exists>v. dataRateFromBandwidth ''3000000000'' = Inr (Some \<lparr>dr_Value = v, dr_Unit = ''BPS''\<rparr>) \<and> v < 0)"
proof -
  have "itoa_nat 10 = ''10''" "itoa_nat 3000000000 = ''3000000000''"
    by (simp_all add: itoa_nat.simps digit_char_def char_of_def bit_Suc_0_iff)
  with bandwidth_wraps [of "''M''" 10] bandwidth_wraps [of "''''" 3000000000] show ?thesis by simp
qed

end
