(* ===== verification/Backup.thy ===== *)
theory Backup
  imports Backrest
begin

text \<open>
  The backup controller, src/controllers/cassandrabackup: the scheduler of cron jobs, the checks and the
  reconcile loop of a CassandraBackup, and the goroutine that follows a running backup.  A cron job and a
  goroutine are recorded in the trace with the objects they were given.  A write leaves the object in memory as
  it was sent.  The pod that coordinates a backup
  is drawn at random; the draw is an argument.
\<close>

section \<open>Durations\<close>

text \<open>
  time.ParseDuration as far as the code uses it: which texts are accepted.  The fraction is computed
  exactly; the library rounds it as a float, which can only matter next to the largest duration.
\<close>

definition unitMap :: "string \<rightharpoonup> int" where
  "unitMap = map_of [(''ns'', 1), (''us'', 10 ^ 3), (''ms'', 10 ^ 6), (''s'', 10 ^ 9), (''m'', 60 * 10 ^ 9),
     (''h'', 3600 * 10 ^ 9)]"

definition unit_char :: "char \<Rightarrow> bool" where
  "unit_char c = (c \<noteq> CHR ''.'' \<and> \<not> is_digit c)"

definition leadingFraction :: "string \<Rightarrow> int \<times> int" where
  "leadingFraction digits =
     (\<lambda>(x, scale, _). (x, scale))
       (foldl (\<lambda>(x, scale, overflow) c.
          let y = x * 10 + int (digit_val c) in
          if overflow \<or> x > (2 ^ 63 - 1) div 10 \<or> y > 2 ^ 63 then (x, scale, True) else (y, scale * 10, False))
        (0, 1, False) digits)"

definition duration_value :: "int \<Rightarrow> string \<Rightarrow> int \<Rightarrow> int option" where
  "duration_value v frac u =
     (if v > 2 ^ 63 div u then None
      else let (f, scale) = leadingFraction frac; v = v * u + f * u div scale in
           if v > 2 ^ 63 then None else Some v)"

text \<open>A number with an optional fraction and the rest of the text.\<close>

definition duration_number :: "string \<Rightarrow> (string \<times> string) \<times> string" where
  "duration_number s =
     (let s1 = dropWhile is_digit s in
      if s1 \<noteq> [] \<and> hd s1 = CHR ''.''
      then ((takeWhile is_digit s, takeWhile is_digit (tl s1)), dropWhile is_digit (tl s1))
      else ((takeWhile is_digit s, []), s1))"

lemma duration_number_length: "length (snd (duration_number s)) \<le> length s"
proof -
  have "length (dropWhile is_digit (tl (dropWhile is_digit s))) \<le> length (tl (dropWhile is_digit s))"
    by (rule length_dropWhile_le)
  then have "length (dropWhile is_digit (tl (dropWhile is_digit s))) \<le> length s"
    using length_dropWhile_le [of is_digit s] by simp
  then show ?thesis by (simp add: duration_number_def Let_def length_dropWhile_le)
qed

function duration_loop :: "string \<Rightarrow> int \<Rightarrow> int option" where
  "duration_loop s d =
     (if s = [] then Some d
      else if unit_char (hd s) then None
      else
        let n = duration_number s; u = takeWhile unit_char (snd n) in
        if int (digits_val (fst (fst n))) > 2 ^ 63 \<or> fst (fst n) = [] \<and> snd (fst n) = [] \<or> u = [] then None
        else do { unit \<leftarrow> unitMap u;
                  v \<leftarrow> duration_value (int (digits_val (fst (fst n)))) (snd (fst n)) unit;
                  if d + v > 2 ^ 63 then None else duration_loop (dropWhile unit_char (snd n)) (d + v) })"
  by auto
termination
proof (relation "measure (\<lambda>(s, d). length s)"; clarsimp)
  fix s
  assume "takeWhile unit_char (snd (duration_number s)) \<noteq> []"
  then have "length (dropWhile unit_char (snd (duration_number s))) < length (snd (duration_number s))"
    by (metis dropWhile_eq_drop length_drop length_greater_0_conv length_takeWhile_le diff_less order_less_le_trans)
  then show "length (dropWhile unit_char (snd (duration_number s))) < length s"
    using duration_number_length [of s] by linarith
qed

declare duration_loop.simps [simp del]

definition ParseDuration :: "string \<Rightarrow> int option" where
  "ParseDuration s =
     (let neg = s \<noteq> [] \<and> hd s = CHR ''-'';
          s = (if s \<noteq> [] \<and> (hd s = CHR ''-'' \<or> hd s = CHR ''+'') then tl s else s) in
      if s = ''0'' then Some 0
      else if s = [] then None
      else do { d \<leftarrow> duration_loop s 0;
                if neg then Some (- d) else if d > 2 ^ 63 - 1 then None else Some d })"

section \<open>The scheduler\<close>

definition Contains_entry :: "string \<Rightarrow> bstate \<Rightarrow> bool" where
  "Contains_entry backupName st = (bs_entries st backupName \<noteq> None)"

definition Remove :: "string \<Rightarrow> bstate \<Rightarrow> bstate" where
  "Remove backupName st =
     (case bs_entries st backupName of
        None \<Rightarrow> st
      | Some entry \<Rightarrow> (bcall (BCronRemove (et_ID entry)) st)\<lparr>bs_entries := (bs_entries st)(backupName := None)\<rparr>)"

definition AddOrUpdate ::
  "benv \<Rightarrow> CassandraBackup \<Rightarrow> CassandraCluster \<Rightarrow> bstate \<Rightarrow> (bool \<times> error option) \<times> bstate" where
  "AddOrUpdate e cb cc st =
     (let name = cb_Name cb; schedule = bk_Schedule (cb_Spec cb) in
      if map_option et_Schedule (bs_entries st name) = Some schedule then ((True, None), st)
      else
        let st = Remove name st; res = be_AddFunc e (bs_trace st) schedule;
            st = bcall (BCronAdd res schedule cb cc) st in
        case res of
          Inl err \<Rightarrow> ((False, Some err), st)
        | Inr i \<Rightarrow> ((False, None), event ''BackupTaskscheduled''
                      (st\<lparr>bs_entries := (bs_entries st)(name \<mapsto> \<lparr>et_ID = i, et_Schedule = schedule\<rparr>)\<rparr>)))"

section \<open>Checks\<close>

definition same_snapshot :: "CassandraBackup \<Rightarrow> CassandraBackup \<Rightarrow> bool" where
  "same_snapshot instance existing =
     (\<not> IsScheduled existing \<and> Ran existing \<and>
      bk_SnapshotTag (cb_Spec existing) = bk_SnapshotTag (cb_Spec instance) \<and>
      bk_StorageLocation (cb_Spec existing) = bk_StorageLocation (cb_Spec instance) \<and>
      bk_CassandraCluster (cb_Spec existing) = bk_CassandraCluster (cb_Spec instance) \<and>
      bk_Datacenter (cb_Spec existing) = bk_Datacenter (cb_Spec instance))"

definition existingNotScheduledSnapshot ::
  "benv \<Rightarrow> CassandraBackup \<Rightarrow> bstate \<Rightarrow> (error + bool) \<times> bstate" where
  "existingNotScheduledSnapshot e instance st =
     (map_sum id (list_ex (same_snapshot instance)) (be_listBackups e (bs_trace st)), bcall BListBackups st)"

definition key_missing :: "labels \<Rightarrow> string \<Rightarrow> bool" where
  "key_missing secret k = (case secret k of None \<Rightarrow> True | Some s \<Rightarrow> length s = 0)"

text \<open>The keys of a secret are checked for the provider of the storage location.\<close>

definition validateBackupSecret :: "string \<Rightarrow> labels \<Rightarrow> CassandraBackup \<Rightarrow> error option" where
  "validateBackupSecret name secret b =
     (if IsGcpBackup b \<and> key_missing secret ''gcp'' then Some (Errorf (''gcp key for secret '' @ name @ '' is not set''))
      else if IsAzureBackup b \<and> key_missing secret ''azurestorageaccount''
      then Some (Errorf (''azurestorageaccount key for secret '' @ name @ '' is not set''))
      else if IsAzureBackup b \<and> key_missing secret ''azurestoragekey''
      then Some (Errorf (''azurestoragekey key for secret '' @ name @ '' is not set''))
      else if IsS3Backup b \<and> \<not> key_missing secret ''awssecretaccesskey'' \<and> \<not> key_missing secret ''awsaccesskeyid'' \<and>
              key_missing secret ''awsregion''
      then Some (Errorf (''there is no awsregion property while you have set both awssecretaccesskey and awsaccesskeyid in ''
                  @ name @ '' secret for backups''))
      else if IsS3Backup b \<and> \<not> key_missing secret ''awsendpoint'' \<and> key_missing secret ''awsregion''
      then Some (Errorf (''awsendpoint is specified but awsregion is not set in '' @ name @ '' secret for backups''))
      else None)"

definition setFinalizer :: "bool \<Rightarrow> CassandraBackup \<Rightarrow> CassandraBackup" where
  "setFinalizer v cb = (if (length (meta_Finalizers (cb_Meta cb)) > 0) \<noteq> v then PreventBackupDeletion v cb else cb)"

text \<open>A check stops the reconciliation with an error or without one, or lets it go on with a value.\<close>

datatype 'a verdict = Stop "error option" | Go 'a

definition check_snapshot :: "benv \<Rightarrow> CassandraBackup \<Rightarrow> bstate \<Rightarrow> unit verdict \<times> bstate" where
  "check_snapshot e cb st =
     (let (res, st) = existingNotScheduledSnapshot e cb st in
      case res of
        Inl err \<Rightarrow> (Stop (Some err), st)
      | Inr exists \<Rightarrow> if exists then (Stop None, event ''BackupSkipped'' st) else (Go (), st))"

definition check_secret :: "benv \<Rightarrow> CassandraBackup \<Rightarrow> bstate \<Rightarrow> unit verdict \<times> bstate" where
  "check_secret e cb st =
     (if IsFileBackup cb then (Go (), st)
      else
        let ns = cb_Namespace cb; name = bk_Secret (cb_Spec cb);
            res = be_getSecret e (bs_trace st) ns name; st = bcall (BGetSecret ns name) st in
        case res of
          Inl err \<Rightarrow> if err = NotFound then (Stop None, event ''BackupFailedSecretNotFound'' st) else (Stop (Some err), st)
        | Inr secret \<Rightarrow>
            (case validateBackupSecret name secret cb of
               Some err \<Rightarrow> (Stop (Some err), st)
             | None \<Rightarrow> (Go (), st)))"

definition check_duration :: "CassandraBackup \<Rightarrow> bstate \<Rightarrow> unit verdict \<times> bstate" where
  "check_duration cb st =
     (if bk_Duration (cb_Spec cb) \<noteq> '''' \<and> ParseDuration (bk_Duration (cb_Spec cb)) = None
      then (Stop None, event ''BackupFailedDurationParseError'' st) else (Go (), st))"

definition check_cluster :: "benv \<Rightarrow> CassandraBackup \<Rightarrow> bstate \<Rightarrow> CassandraCluster verdict \<times> bstate" where
  "check_cluster e cb st =
     (let ns = cb_Namespace cb; name = bk_CassandraCluster (cb_Spec cb);
          res = be_getCluster e (bs_trace st) ns name; st = bcall (BGetCluster ns name) st in
      case res of
        Inl err \<Rightarrow> if err = NotFound then (Stop None, event ''CassandraClusterNotFound'' st) else (Stop (Some err), st)
      | Inr cc \<Rightarrow> (Go cc, st))"

section \<open>Running a backup\<close>

definition updateStatus :: "benv \<Rightarrow> BackRestStatus \<Rightarrow> CassandraBackup \<Rightarrow> bstate \<Rightarrow> (bool \<times> CassandraBackup) \<times> bstate" where
  "updateStatus e status cb st =
     (let cb = cb\<lparr>cb_Status := status\<rparr>; (err, st) = bwrite e (BPatchBackup cb) st in ((err = None, cb), st))"

definition backupData ::
  "benv \<Rightarrow> (nat \<Rightarrow> nat) \<Rightarrow> CassandraBackup \<Rightarrow> CassandraCluster \<Rightarrow> bstate \<Rightarrow> (error option \<times> CassandraBackup) \<times> bstate" where
  "backupData e pick cb cc st =
     (let (res, st) = listPods e (cb_Namespace cb) (LabelsForCassandraDC cc (bk_Datacenter (cb_Spec cb))) st in
      case res of
        Inl _ \<Rightarrow> ((Some (Errorf ''unable to list pods''), cb), st)
      | Inr pods \<Rightarrow>
          let ((_, cb), st) = updateStatus e zero_backrest cb st in
          if length pods = 0 then ((None, cb), event ''BackupNotInitiated'' st)
          else
            let p = pods ! (pick (length pods) mod length pods);
                cb = cb\<lparr>cb_Status := zero_backrest\<lparr>brs_CoordinatorMember := pod_Name p\<rparr>\<rparr> in
            ((None, cb), bcall (BSpawnBackup p cb) st))"

text \<open>
  The goroutine of a backup waits for the next tick of a ticker.  Since Go 1.23, the version of the module, no
  tick is received after Stop; the channel is not closed either, so the wait that follows never ends.  The
  status always has a condition here, as BackupStatusByID sets it.
\<close>

partial_function (option) follow_backup ::
  "benv \<Rightarrow> backrest_client \<Rightarrow> string \<Rightarrow> bool \<Rightarrow> CassandraBackup \<Rightarrow> bstate \<Rightarrow> (CassandraBackup \<times> bstate) option" where
  "follow_backup e c i stopped cb st =
     (if stopped then follow_backup e c i stopped cb st
      else
        let (res, st) = BackupStatusByID e c i st in
        case res of
          Inl _ \<Rightarrow> Some (cb, st)
        | Inr status \<Rightarrow>
            let ((ok, cb), st) = updateStatus e status cb st; t = map_option brc_Type (brs_Condition status) in
            if \<not> ok then follow_backup e c i False cb st
            else if t = Some BackupFailed then follow_backup e c i True cb (event ''BackupFailed'' st)
            else if t = Some BackupCompleted then follow_backup e c i True cb (event ''BackupCompleted'' st)
            else follow_backup e c i False cb st)"

definition backup :: "benv \<Rightarrow> backrest_client \<Rightarrow> CassandraBackup \<Rightarrow> bstate \<Rightarrow> (CassandraBackup \<times> bstate) option" where
  "backup e c cb st =
     (let (res, st) = PerformBackup e c cb st in
      case res of
        Inl _ \<Rightarrow> Some (cb, event ''BackupNotInitiated'' st)
      | Inr i \<Rightarrow> follow_backup e c i False cb (event ''BackupInitiated'' st))"

section \<open>The reconcile loop\<close>

definition annotationLastApplied :: string where
  "annotationLastApplied = ''cassandrabackups.db.orange.com/last-applied-configuration''"

definition backup_annotation :: "CassandraBackup \<Rightarrow> string" where
  "backup_annotation cb = (case meta_Annotations (cb_Meta cb) annotationLastApplied of None \<Rightarrow> '''' | Some s \<Rightarrow> s)"

definition annotate :: "string \<Rightarrow> CassandraBackup \<Rightarrow> CassandraBackup" where
  "annotate s cb = cb\<lparr>cb_Meta := (cb_Meta cb)\<lparr>meta_Annotations :=
     (meta_Annotations (cb_Meta cb))(annotationLastApplied \<mapsto> s)\<rparr>\<rparr>"

definition unschedule :: "benv \<Rightarrow> CassandraBackup \<Rightarrow> bstate \<Rightarrow> error option \<times> bstate" where
  "unschedule e cb st = bwrite e (BUpdateBackup (setFinalizer False cb)) (event ''BackupTaskUnscheduled'' (Remove (cb_Name cb) st))"

text \<open>An invalid schedule: the schedule of the last applied configuration is read back.\<close>

definition undo_schedule :: "benv \<Rightarrow> CassandraBackup \<Rightarrow> error option \<times> CassandraBackup" where
  "undo_schedule e cb =
     (case be_unmarshal e (backup_annotation cb) of
        Inl err \<Rightarrow> (Some err, cb)
      | Inr old \<Rightarrow>
          let cb = cb\<lparr>cb_Spec := (cb_Spec cb)\<lparr>bk_Schedule := bk_Schedule (cb_Spec old)\<rparr>\<rparr> in
          (None, annotate (ComputeLastAppliedAnnotation e cb) cb))"

definition schedule_backup ::
  "benv \<Rightarrow> bool \<Rightarrow> CassandraBackup \<Rightarrow> CassandraCluster \<Rightarrow> bstate \<Rightarrow> (error option \<times> CassandraBackup) \<times> bstate" where
  "schedule_backup e changed cb cc st =
     (if be_ParseStandard e (bk_Schedule (cb_Spec cb)) \<noteq> None
      then (if changed then undo_schedule e cb else (None, cb), event ''BackupInvalidSchedule'' st)
      else
        let ((skipped, err), st) = AddOrUpdate e cb cc st in
        if err = None \<and> skipped then ((None, cb), st)
        else ((None, setFinalizer True cb), if err \<noteq> None then event ''BackupScheduleError'' st else st))"

definition start_backup ::
  "benv \<Rightarrow> (nat \<Rightarrow> nat) \<Rightarrow> bool \<Rightarrow> CassandraBackup \<Rightarrow> bstate \<Rightarrow> (error option \<times> CassandraBackup) \<times> bstate" where
  "start_backup e pick changed cb st =
     (case check_snapshot e cb st of
        (Stop err, st) \<Rightarrow> ((err, cb), st)
      | (Go _, st) \<Rightarrow>
     (case check_secret e cb st of
        (Stop err, st) \<Rightarrow> ((err, cb), st)
      | (Go _, st) \<Rightarrow>
     (case check_duration cb st of
        (Stop err, st) \<Rightarrow> ((err, cb), st)
      | (Go _, st) \<Rightarrow>
     (case check_cluster e cb st of
        (Stop err, st) \<Rightarrow> ((err, cb), st)
      | (Go cc, st) \<Rightarrow>
          if IsScheduled cb then schedule_backup e changed cb cc st else backupData e pick cb cc st))))"

definition reconcile_live ::
  "benv \<Rightarrow> (nat \<Rightarrow> nat) \<Rightarrow> bool \<Rightarrow> CassandraBackup \<Rightarrow> bstate \<Rightarrow> (error option \<times> CassandraBackup) \<times> bstate" where
  "reconcile_live e pick changed cb st =
     (if \<not> IsScheduled cb \<and> brs_Condition (cb_Status cb) \<noteq> None then ((None, cb), st)
      else if IsScheduled cb \<and> Contains_entry (cb_Name cb) st \<and> \<not> changed then ((None, cb), st)
      else start_backup e pick changed (cb\<lparr>cb_Status := zero_backrest\<rparr>) st)"

text \<open>The update of a changed object is deferred to the end.\<close>

definition Reconcile_backup :: "benv \<Rightarrow> (nat \<Rightarrow> nat) \<Rightarrow> string \<Rightarrow> string \<Rightarrow> bstate \<Rightarrow> error option \<times> bstate" where
  "Reconcile_backup e pick namespace name st =
     (let res = be_getBackup e (bs_trace st) namespace name; st = bcall (BGetBackup namespace name) st in
      case res of
        Inl err \<Rightarrow> (if err = NotFound then None else Some err, st)
      | Inr cb \<Rightarrow>
          if meta_DeletionTimestamp (cb_Meta cb) \<noteq> None \<and> IsScheduled cb then unschedule e cb st
          else
            let lac = ComputeLastAppliedAnnotation e cb in
            if lac = backup_annotation cb
            then (let ((err, cb), st) = reconcile_live e pick False cb st in (err, st))
            else (let ((err, cb), st) = reconcile_live e pick True (annotate lac cb) st in
                  (err, snd (bwrite e (BUpdateBackup cb) st))))"

section \<open>Events\<close>

text \<open>
  The filter of update events compares the type of the object with the type of a CassandraBackup value, and
  then asserts that the object is a pointer to one.  None is the panic of a failed assertion.
\<close>

datatype go_type = Pointer go_type | CassandraBackup_type | Other_type

definition UpdateFunc :: "go_type \<Rightarrow> CassandraBackup \<Rightarrow> bool option" where
  "UpdateFunc t cb =
     (if t \<noteq> CassandraBackup_type then Some False
      else if t \<noteq> Pointer CassandraBackup_type then None
      else case brs_Condition (cb_Status cb) of
             None \<Rightarrow> Some False
           | Some cond \<Rightarrow> Some (IsScheduled cb \<or> brc_Type cond = BackupRunning))"

section \<open>Cron jobs\<close>

text \<open>
  The live cron jobs are those added and not removed since.  The scheduler is in order when its entries and the live jobs
  correspond one to one.  The cron library promises that a new job gets a number that no live job has.
\<close>

fun cron_step :: "nat set \<Rightarrow> brequest \<Rightarrow> nat set" where
  "cron_step js (BCronAdd (Inr i) _ _ _) = insert i js"
| "cron_step js (BCronRemove i) = js - {i}"
| "cron_step js _ = js"

definition cron_jobs :: "brequest list \<Rightarrow> nat set" where
  "cron_jobs tr = foldl cron_step {} tr"

fun not_cron :: "brequest \<Rightarrow> bool" where
  "not_cron (BCronAdd _ _ _ _) = False"
| "not_cron (BCronRemove _) = False"
| "not_cron _ = True"

definition fresh_ids :: "benv \<Rightarrow> bool" where
  "fresh_ids e = (\<forall>tr s i. be_AddFunc e tr s = Inr i \<longrightarrow> i \<notin> cron_jobs tr)"

definition owns :: "nat set \<Rightarrow> (string \<rightharpoonup> nat) \<Rightarrow> bool" where
  "owns js f \<longleftrightarrow> (\<forall>i. i \<in> js \<longleftrightarrow> (\<exists>n. f n = Some i)) \<and> (\<forall>m n i. f m = Some i \<longrightarrow> f n = Some i \<longrightarrow> m = n)"

definition job_of :: "bstate \<Rightarrow> string \<rightharpoonup> nat" where
  "job_of st n = map_option et_ID (bs_entries st n)"

definition scheduler_ok :: "bstate \<Rightarrow> bool" where
  "scheduler_ok st = owns (cron_jobs (bs_trace st)) (job_of st)"

lemma owns_remove:
  assumes "owns js f" and "f n = Some i"
  shows "owns (js - {i}) (f(n := None))"
proof -
  have "f m \<noteq> Some i" if "m \<noteq> n" for m using assms that unfolding owns_def by blast
  then have "k \<in> js - {i} \<longleftrightarrow> (\<exists>m. (f(n := None)) m = Some k)" for k
    using assms unfolding owns_def by (cases "k = i") (auto, metis option.distinct(1) option.inject)
  then show ?thesis using assms(1) unfolding owns_def by simp
qed

lemma owns_add:
  assumes "owns js f" and "f n = None" and "i \<notin> js"
  shows "owns (insert i js) (f(n \<mapsto> i))"
proof -
  have new: "f m \<noteq> Some i" for m using assms unfolding owns_def by blast
  have "k \<in> insert i js \<longleftrightarrow> (\<exists>m. (f(n \<mapsto> i)) m = Some k)" for k
    using assms(1,2) unfolding owns_def by (cases "k = i") (auto, metis option.distinct(1) option.inject)
  moreover have "m = m'" if "(f(n \<mapsto> i)) m = Some k" and "(f(n \<mapsto> i)) m' = Some k" for m m' k
    using assms(1) new that unfolding owns_def by (auto split: if_split_asm)
  ultimately show ?thesis unfolding owns_def by blast
qed

lemma cron_jobs_snoc [simp]: "cron_jobs (tr @ [q]) = cron_step (cron_jobs tr) q"
  by (simp add: cron_jobs_def)

lemma cron_step_other [simp]: "not_cron q \<Longrightarrow> cron_step js q = js"
  by (cases q) auto

lemma job_of_simps [simp]:
  "job_of (bcall q st) = job_of st"
  "job_of (st\<lparr>bs_entries := (bs_entries st')(n := None)\<rparr>) = (job_of st')(n := None)"
  "job_of (st\<lparr>bs_entries := (bs_entries st')(n \<mapsto> x)\<rparr>) = (job_of st')(n \<mapsto> et_ID x)"
  by (auto simp: job_of_def)

lemma scheduler_ok_call [simp]: "not_cron q \<Longrightarrow> scheduler_ok (bcall q st) = scheduler_ok st"
  by (simp add: scheduler_ok_def)

lemma scheduler_ok_event [simp]: "scheduler_ok (event r st) = scheduler_ok st"
  by (simp add: event_def)

lemma Remove_job [simp]: "job_of (Remove n st) = (job_of st)(n := None)"
  by (auto simp: Remove_def job_of_def split: option.split)

lemma Remove_ok: "scheduler_ok st \<Longrightarrow> scheduler_ok (Remove n st)"
  by (cases "bs_entries st n") (auto simp: Remove_def scheduler_ok_def job_of_def [of st n] intro: owns_remove)

lemma AddOrUpdate_ok:
  assumes "fresh_ids e" and "scheduler_ok st"
  shows "scheduler_ok (snd (AddOrUpdate e cb cc st))"
proof -
  define r where "r = Remove (cb_Name cb) st"
  have ok: "scheduler_ok r" and free: "job_of r (cb_Name cb) = None"
    unfolding r_def using Remove_ok [OF assms(2)] by simp_all
  have "scheduler_ok (bcall (BCronAdd (Inl err) s cb cc) r)" for err s
    using ok by (simp add: scheduler_ok_def)
  moreover have "scheduler_ok ((bcall (BCronAdd (Inr i) s cb cc) r)
      \<lparr>bs_entries := (bs_entries r)(cb_Name cb \<mapsto> \<lparr>et_ID = i, et_Schedule = s\<rparr>)\<rparr>)"
    if "be_AddFunc e (bs_trace r) s = Inr i" for s i
    using owns_add [OF ok [unfolded scheduler_ok_def] free, of i] assms(1) that
    by (auto simp: scheduler_ok_def fresh_ids_def)
  ultimately have "scheduler_ok (snd (AddOrUpdate e cb cc st))"
    if "map_option et_Schedule (bs_entries st (cb_Name cb)) \<noteq> Some (bk_Schedule (cb_Spec cb))"
    using that unfolding AddOrUpdate_def Let_def r_def [symmetric]
    by (cases "be_AddFunc e (bs_trace r) (bk_Schedule (cb_Spec cb))") (simp_all only: sum.case if_False snd_conv scheduler_ok_event bcall_simps)
  then show ?thesis using assms(2) by (cases "map_option et_Schedule (bs_entries st (cb_Name cb)) = Some (bk_Schedule (cb_Spec cb))")
    (simp_all add: AddOrUpdate_def)
qed

lemma annotate_simps [simp]:
  "cb_Spec (annotate s cb) = cb_Spec cb" "cb_Status (annotate s cb) = cb_Status cb"
  "cb_Name (annotate s cb) = cb_Name cb" "cb_Namespace (annotate s cb) = cb_Namespace cb"
  "backup_annotation (annotate s cb) = s"
  by (simp_all add: annotate_def backup_annotation_def)

section \<open>An example\<close>

definition example_backup :: "string \<Rightarrow> CassandraBackup" where
  "example_backup schedule =
     \<lparr>cb_Meta = named_meta ''ns'' ''nightly'',
      cb_Spec = \<lparr>bk_CassandraCluster = ''demo'', bk_Datacenter = ''dc1'', bk_StorageLocation = ''file:///backups'',
        bk_Schedule = schedule, bk_SnapshotTag = ''snap'', bk_Duration = ''15m'', bk_Bandwidth = '''',
        bk_ConcurrentConnections = 10, bk_Entities = '''', bk_Secret = ''''\<rparr>,
      cb_Status = zero_backrest\<rparr>"

definition example_response :: "string \<Rightarrow> OperationResponse" where
  "example_response state = \<lparr>or_Id = ''op1'', or_State = state, or_Progress100 = 100, or_CreationTime = '''', or_StartTime = '''',
     or_CompletionTime = '''', or_Errors = []\<rparr>"

text \<open>Numbers are given in increasing order, as the cron library does.\<close>

fun after_id :: "nat \<Rightarrow> brequest \<Rightarrow> nat" where
  "after_id n (BCronAdd (Inr i) _ _ _) = max n (Suc i)"
| "after_id n _ = n"

definition next_id :: "brequest list \<Rightarrow> nat" where
  "next_id tr = foldl after_id 0 tr"

lemma cron_jobs_next: "i \<in> cron_jobs tr \<Longrightarrow> i < next_id tr"
proof (induction tr arbitrary: i rule: rev_induct)
  case (snoc q tr)
  then show ?case
    by (cases "(cron_jobs tr, q)" rule: cron_step.cases) (auto simp: next_id_def less_max_iff_disj)
qed (simp add: cron_jobs_def)

definition example_benv :: "CassandraBackup \<Rightarrow> benv" where
  "example_benv cb =
     \<lparr>be_now = (\<lambda>_. ''now''), be_getBackup = (\<lambda>_ _ _. Inr cb), be_listBackups = (\<lambda>_. Inr [cb]),
      be_getRestore = (\<lambda>_ _ _. Inl NotFound), be_getSecret = (\<lambda>_ _ _. Inl NotFound),
      be_getCluster = (\<lambda>_ _ _. Inr (example_cluster 1 [])),
      be_listPods = (\<lambda>_ _ _. Inr [bare_pod ''ns'' ''demo-0'', bare_pod ''ns'' ''demo-1'']), be_write = (\<lambda>_ _. None),
      be_marshal = (\<lambda>_. Inr ''json''), be_unmarshal = (\<lambda>_. Inr (last_applied_backup cb)),
      be_ParseStandard = (\<lambda>s. if s = ''@daily'' then None else Some (Errorf s)),
      be_AddFunc = (\<lambda>tr _. Inr (next_id tr)), be_postBackup = (\<lambda>_ _ _. Inr (example_response ''RUNNING'')),
      be_postRestore = (\<lambda>_ _ _. Inl NotFound), be_operation = (\<lambda>_ _ _. Inr (example_response ''COMPLETED''))\<rparr>"

definition idle :: bstate where
  "idle = \<lparr>bs_entries = Map.empty, bs_trace = []\<rparr>"

lemmas backup_example = example_backup_def example_benv_def idle_def named_meta_def empty_meta_def zero_backrest_def

lemmas backup_eval = backup_example Reconcile_backup_def reconcile_live_def start_backup_def check_snapshot_def check_secret_def
  check_duration_def check_cluster_def existingNotScheduledSnapshot_def schedule_backup_def backupData_def AddOrUpdate_def Remove_def
  listPods_def updateStatus_def bwrite_def event_def ComputeLastAppliedAnnotation_def backup_annotation_def annotate_def unschedule_def
  setFinalizer_def same_snapshot_def IsScheduled_def Ran_def IsFileBackup_def Contains_entry_def next_id_def cron_jobs_def Let_def

lemma example_duration [simp]: "ParseDuration ''15m'' = Some (15 * 60 * 10 ^ 9)"
  by code_simp

section \<open>What requests keep\<close>

text \<open>
  Most requests neither touch the cron jobs nor start a backup.  A property of the state that they keep is kept by
  the checks and by the bookkeeping of the controller.
\<close>

fun plain :: "brequest \<Rightarrow> bool" where
  "plain (BSpawnBackup _ _) = False"
| "plain q = not_cron q"

lemma plain_not_cron: "plain q \<Longrightarrow> not_cron q"
  by (cases q) auto

locale kept_by_requests =
  fixes inv :: "bstate \<Rightarrow> bool"
  assumes plain_request: "plain q \<Longrightarrow> inv st \<Longrightarrow> inv (bcall q st)"
begin

lemma kept_event: "inv st \<Longrightarrow> inv (event r st)"
  by (simp add: event_def plain_request)

lemma kept_snapshot: "inv st \<Longrightarrow> inv (snd (check_snapshot e cb st))"
  by (simp add: check_snapshot_def existingNotScheduledSnapshot_def plain_request kept_event split: sum.split)

lemma kept_secret: "inv st \<Longrightarrow> inv (snd (check_secret e cb st))"
  by (simp add: check_secret_def Let_def plain_request kept_event split: sum.split option.split)

lemma kept_duration: "inv st \<Longrightarrow> inv (snd (check_duration cb st))"
  by (simp add: check_duration_def kept_event)

lemma kept_cluster: "inv st \<Longrightarrow> inv (snd (check_cluster e cb st))"
  by (simp add: check_cluster_def Let_def plain_request kept_event split: sum.split)

lemma start_backup_kept:
  assumes "inv st"
    and "\<And>cc st. inv st \<Longrightarrow> inv (snd (schedule_backup e changed cb cc st))"
    and "\<And>cc st. inv st \<Longrightarrow> inv (snd (backupData e pick cb cc st))"
  shows "inv (snd (start_backup e pick changed cb st))"
proof -
  obtain v1 s1 v2 s2 v3 s3 v4 s4 where
    c: "check_snapshot e cb st = (v1, s1)" "check_secret e cb s1 = (v2, s2)" "check_duration cb s2 = (v3, s3)"
       "check_cluster e cb s3 = (v4, s4)" by (meson surj_pair)
  have "inv s1" "inv s2" "inv s3" "inv s4"
    using c kept_snapshot [of st e cb] kept_secret [of s1 e cb] kept_duration [of s2 cb] kept_cluster [of s3 e cb] assms(1)
    by simp_all
  then show ?thesis using assms(2,3) c by (simp add: start_backup_def split: verdict.split)
qed

lemma reconcile_live_kept:
  assumes "inv st"
    and "\<And>cb' cc st. cb_Spec cb' = cb_Spec cb \<Longrightarrow> cb_Name cb' = cb_Name cb \<Longrightarrow> inv st \<Longrightarrow>
      inv (snd (schedule_backup e changed cb' cc st))"
    and "\<And>cb' cc st. inv st \<Longrightarrow> inv (snd (backupData e pick cb' cc st))"
  shows "inv (snd (reconcile_live e pick changed cb st))"
  using assms by (simp add: reconcile_live_def start_backup_kept)

lemma Reconcile_backup_kept:
  assumes "inv st"
    and "\<And>cb changed cb' cc st. be_getBackup e tr ns name = Inr cb \<Longrightarrow> cb_Spec cb' = cb_Spec cb \<Longrightarrow>
      cb_Name cb' = cb_Name cb \<Longrightarrow> inv st \<Longrightarrow> inv (snd (schedule_backup e changed cb' cc st))"
    and "\<And>cb' cc st. inv st \<Longrightarrow> inv (snd (backupData e pick cb' cc st))"
    and "\<And>cb st. be_getBackup e tr ns name = Inr cb \<Longrightarrow> meta_DeletionTimestamp (cb_Meta cb) \<noteq> None \<Longrightarrow> IsScheduled cb \<Longrightarrow>
      inv st \<Longrightarrow> inv (snd (unschedule e cb st))"
    and tr: "tr = bs_trace st"
  shows "inv (snd (Reconcile_backup e pick ns name st))"
proof (cases "be_getBackup e tr ns name")
  case (Inl err)
  then show ?thesis using assms(1) tr by (simp add: Reconcile_backup_def plain_request)
next
  case (Inr cb)
  let ?st = "bcall (BGetBackup ns name) st"
  have st: "inv ?st" by (simp add: plain_request assms(1))
  have live: "inv (snd (reconcile_live e pick changed cb' ?st))"
    if "cb_Spec cb' = cb_Spec cb" "cb_Name cb' = cb_Name cb" for changed cb'
    by (rule reconcile_live_kept [OF st]) (use assms(2) [OF Inr] assms(3) that in simp_all)
  show ?thesis
    using Inr assms(4) [OF Inr _ _ st] live [of cb False] live [of "annotate (ComputeLastAppliedAnnotation e cb) cb" True] tr
    by (auto simp: Reconcile_backup_def Let_def split_beta bwrite_def plain_request)
qed

end


definition cron_requests :: "brequest list \<Rightarrow> brequest list" where
  "cron_requests tr = filter (\<lambda>q. \<not> not_cron q) tr"

lemma cron_requests_simps [simp]:
  "cron_requests [] = []" "cron_requests (q # tr) = (if not_cron q then [] else [q]) @ cron_requests tr"
  "cron_requests (tr @ tr') = cron_requests tr @ cron_requests tr'"
  by (simp_all add: cron_requests_def)

interpretation crons: kept_by_requests "\<lambda>st. bs_entries st = entries \<and> cron_requests (bs_trace st) = qs" for entries qs
  by unfold_locales (simp add: plain_not_cron)


lemma backupData_crons:
  "bs_entries (snd (backupData e pick cb cc st)) = bs_entries st"
  "cron_requests (bs_trace (snd (backupData e pick cb cc st))) = cron_requests (bs_trace st)"
  "cron_jobs (bs_trace (snd (backupData e pick cb cc st))) = cron_jobs (bs_trace st)"
  by (simp_all add: backupData_def listPods_def updateStatus_def bwrite_def event_def Let_def cron_jobs_def split: sum.split)

text \<open>
  C32 (same_schedule_keeps_old_task): when a scheduled backup changes in any field but its schedule, no cron job is added or removed: the job
  goes on with the object it was created with.
\<close>

theorem same_schedule_keeps_old_task:
  assumes cb: "be_getBackup e (bs_trace st) ns name = Inr cb" and "meta_DeletionTimestamp (cb_Meta cb) = None"
    and same: "map_option et_Schedule (bs_entries st (cb_Name cb)) = Some (bk_Schedule (cb_Spec cb))"
  shows "bs_entries (snd (Reconcile_backup e pick ns name st)) = bs_entries st \<and>
    cron_requests (bs_trace (snd (Reconcile_backup e pick ns name st))) = cron_requests (bs_trace st)"
  by (rule crons.Reconcile_backup_kept [OF _ _ _ _ refl])
    (use assms in \<open>auto simp: backupData_crons schedule_backup_def AddOrUpdate_def event_def\<close>)

theorem same_schedule_keeps_old_task_witness:
  "cron_requests (bs_trace (snd (Reconcile_backup (example_benv (example_backup ''@daily'')) (\<lambda>_. 0) ''ns'' ''nightly''
     (idle\<lparr>bs_entries := [''nightly'' \<mapsto> \<lparr>et_ID = 7, et_Schedule = ''@daily''\<rparr>]\<rparr>)))) = []"
  using same_schedule_keeps_old_task [of "example_benv (example_backup ''@daily'')"
      "idle\<lparr>bs_entries := [''nightly'' \<mapsto> \<lparr>et_ID = 7, et_Schedule = ''@daily''\<rparr>]\<rparr>" "''ns''" "''nightly''" "example_backup ''@daily''" "\<lambda>_. 0"]
  by (simp add: backup_example)

section \<open>The goroutine of a backup\<close>

lemma follow_backup_returns:
  assumes "follow_backup e c i stopped cb st = Some r"
  shows "\<not> stopped \<and> (\<exists>st0 err. BackupStatusByID e c i st0 = (Inl err, snd r))"
proof (rule follow_backup.raw_induct [where P =
      "\<lambda>e c i stopped cb st r. \<not> stopped \<and> (\<exists>st0 err. BackupStatusByID e c i st0 = (Inl err, snd r))", OF _ assms])
  fix f e c i stopped cb st and r :: "CassandraBackup \<times> bstate"
  assume IH: "\<And>e c i stopped cb st r. f e c i stopped cb st = Some r \<Longrightarrow>
      \<not> stopped \<and> (\<exists>st0 err. BackupStatusByID e c i st0 = (Inl err, snd r))"
    and step: "(if stopped then f e c i stopped cb st
      else
        let (res, st) = BackupStatusByID e c i st in
        case res of
          Inl _ \<Rightarrow> Some (cb, st)
        | Inr status \<Rightarrow>
            let ((ok, cb), st) = updateStatus e status cb st; t = map_option brc_Type (brs_Condition status) in
            if \<not> ok then f e c i False cb st
            else if t = Some BackupFailed then f e c i True cb (event ''BackupFailed'' st)
            else if t = Some BackupCompleted then f e c i True cb (event ''BackupCompleted'' st)
            else f e c i False cb st) = Some r"
  obtain res st1 where b: "BackupStatusByID e c i st = (res, st1)" by (cases "BackupStatusByID e c i st")
  have go: "\<not> stopped" using step IH [of e c i stopped cb st r] by (cases stopped) simp_all
  show "\<not> stopped \<and> (\<exists>st0 err. BackupStatusByID e c i st0 = (Inl err, snd r))"
  proof (cases res)
    case (Inl err)
    then have "BackupStatusByID e c i st = (Inl err, snd r)" using step go b by auto
    then show ?thesis using go by blast
  next
    case (Inr status)
    obtain ok cb1 st2 where u: "updateStatus e status cb st1 = ((ok, cb1), st2)"
      by (metis surj_pair)
    have "\<exists>stp st3. f e c i stp cb1 st3 = Some r"
      using step go b Inr u by (auto simp: Let_def split: if_split_asm)
    then show ?thesis using IH go by blast
  qed
qed

lemma follow_backup_stopped: "follow_backup e c i True cb st = None"
  using follow_backup_returns [of e c i True cb st] by (cases "follow_backup e c i True cb st") auto

text \<open>
  C31 (backup_never_returns): once a backup is seen completed or failed and its status is stored, the goroutine that follows it
  never returns; when it returns at all, the last thing it saw was an error of the sidecar.
\<close>

theorem backup_never_returns:
  assumes "BackupStatusByID e c i st = (Inr status, st1)"
    and "map_option brc_Type (brs_Condition status) \<in> {Some BackupCompleted, Some BackupFailed}"
    and "be_write e (bs_trace st1) (BPatchBackup (cb\<lparr>cb_Status := status\<rparr>)) = None"
  shows "follow_backup e c i False cb st = None \<and>
    (\<forall>cb0 st0 r. follow_backup e c i False cb0 st0 = Some r \<longrightarrow>
       (\<exists>st2 err. BackupStatusByID e c i st2 = (Inl err, snd r)))"
proof -
  have "follow_backup e c i False cb st = None"
    using assms by (subst follow_backup.simps)
      (auto simp: updateStatus_def bwrite_def Let_def follow_backup_stopped)
  then show ?thesis using follow_backup_returns by blast
qed

theorem backup_never_returns_witness:
  "follow_backup (example_benv (example_backup [])) (the (NewClient (Some (bare_pod ''ns'' ''demo-0'')))) ''op1'' False
     (example_backup []) idle = None"
  using backup_never_returns [of "example_benv (example_backup [])" "(the (NewClient (Some (bare_pod ''ns'' ''demo-0''))))"
      "''op1''" idle "ComputeBackupStatus ''now'' (example_response ''COMPLETED'') ''demo-0''" "bcall (BOperation (sidecar (bare_pod ''ns'' ''demo-0'')) ''op1'') idle"
      "example_backup []"]
  by (simp add: BackupStatusByID_def operation_by_id_def example_benv_def ComputeBackupStatus_def example_response_def BackupCompleted_def
      bare_pod_def named_meta_def)

section \<open>When a backup starts\<close>

fun started :: "brequest list \<Rightarrow> (pod \<times> CassandraBackup) list" where
  "started [] = []"
| "started (BSpawnBackup p cb # qs) = (p, cb) # started qs"
| "started (_ # qs) = started qs"

lemma started_append [simp]: "started (xs @ ys) = started xs @ started ys"
  by (induction xs rule: started.induct) auto

interpretation runs: kept_by_requests "\<lambda>st. started (bs_trace st) = ps" for ps
proof unfold_locales
  fix q and st :: bstate assume "plain q" "started (bs_trace st) = ps"
  then show "started (bs_trace (bcall q st)) = ps" by (cases q) auto
qed

lemma started_event [simp]: "started (bs_trace (event r st)) = started (bs_trace st)"
  by (simp add: event_def)

lemma Remove_started [simp]: "started (bs_trace (Remove n st)) = started (bs_trace st)"
  by (simp add: Remove_def split: option.split)

lemma AddOrUpdate_started [simp]: "started (bs_trace (snd (AddOrUpdate e cb cc st))) = started (bs_trace st)"
  by (simp add: AddOrUpdate_def Let_def split: sum.split)

lemma schedule_backup_started [simp]:
  "started (bs_trace (snd (schedule_backup e changed cb cc st))) = started (bs_trace st)"
proof -
  obtain skipped err st1 where a: "AddOrUpdate e cb cc st = ((skipped, err), st1)" by (metis surj_pair)
  then have "started (bs_trace st1) = started (bs_trace st)" by (metis AddOrUpdate_started snd_conv)
  with a show ?thesis by (simp add: schedule_backup_def)
qed

lemma unschedule_started [simp]: "started (bs_trace (snd (unschedule e cb st))) = started (bs_trace st)"
  by (simp add: unschedule_def bwrite_def)

text \<open>
  What has been checked, from the trace with which the checks begin: the requests are made in this order.
\<close>

definition checks_passed :: "benv \<Rightarrow> CassandraBackup \<Rightarrow> brequest list \<Rightarrow> CassandraCluster \<Rightarrow> pod list \<Rightarrow> bool" where
  "checks_passed e cb t cc pods =
     (let ns = cb_Namespace cb; spec = cb_Spec cb; t1 = t @ [BListBackups];
          t2 = (if IsFileBackup cb then t1 else t1 @ [BGetSecret ns (bk_Secret spec)]);
          t3 = t2 @ [BGetCluster ns (bk_CassandraCluster spec)] in
      (case be_listBackups e t of Inl _ \<Rightarrow> False | Inr bs \<Rightarrow> \<not> list_ex (same_snapshot cb) bs) \<and>
      (IsFileBackup cb \<or>
        (case be_getSecret e t1 ns (bk_Secret spec) of
           Inl _ \<Rightarrow> False | Inr secret \<Rightarrow> validateBackupSecret (bk_Secret spec) secret cb = None)) \<and>
      (bk_Duration spec = '''' \<or> ParseDuration (bk_Duration spec) \<noteq> None) \<and>
      be_getCluster e t2 ns (bk_CassandraCluster spec) = Inr cc \<and>
      be_listPods e t3 ns (LabelsForCassandraDC cc (bk_Datacenter spec)) = Inr pods)"

lemma backupData_started:
  assumes "started (bs_trace (snd (backupData e pick cb cc st))) \<noteq> started (bs_trace st)"
  shows "\<exists>pods p b. be_listPods e (bs_trace st) (cb_Namespace cb) (LabelsForCassandraDC cc (bk_Datacenter (cb_Spec cb))) = Inr pods \<and>
    p \<in> set pods \<and> cb_Spec b = cb_Spec cb \<and> brs_CoordinatorMember (cb_Status b) = pod_Name p \<and>
    started (bs_trace (snd (backupData e pick cb cc st))) = started (bs_trace st) @ [(p, b)]"
proof (cases "be_listPods e (bs_trace st) (cb_Namespace cb) (LabelsForCassandraDC cc (bk_Datacenter (cb_Spec cb)))")
  case (Inr pods)
  moreover have "pods \<noteq> []"
    using assms Inr by (auto simp: backupData_def listPods_def updateStatus_def bwrite_def Let_def)
  ultimately show ?thesis
    by (auto simp: backupData_def listPods_def updateStatus_def bwrite_def Let_def)
qed (use assms in \<open>simp add: backupData_def listPods_def\<close>)

lemma snapshot_go:
  "check_snapshot e cb st = (Go u, s1) \<Longrightarrow>
    s1 = bcall BListBackups st \<and> (case be_listBackups e (bs_trace st) of Inl _ \<Rightarrow> False | Inr bs \<Rightarrow> \<not> list_ex (same_snapshot cb) bs)"
  by (cases "be_listBackups e (bs_trace st)")
    (auto simp: check_snapshot_def existingNotScheduledSnapshot_def split: if_split_asm)

lemma secret_go:
  "check_secret e cb st = (Go u, s1) \<Longrightarrow>
    IsFileBackup cb \<and> s1 = st \<or>
    \<not> IsFileBackup cb \<and> s1 = bcall (BGetSecret (cb_Namespace cb) (bk_Secret (cb_Spec cb))) st \<and>
      (case be_getSecret e (bs_trace st) (cb_Namespace cb) (bk_Secret (cb_Spec cb)) of
         Inl _ \<Rightarrow> False | Inr secret \<Rightarrow> validateBackupSecret (bk_Secret (cb_Spec cb)) secret cb = None)"
  by (auto simp: check_secret_def Let_def split: sum.split_asm option.split_asm if_split_asm)

lemma duration_go:
  "check_duration cb st = (Go u, s1) \<Longrightarrow>
    s1 = st \<and> (bk_Duration (cb_Spec cb) = '''' \<or> ParseDuration (bk_Duration (cb_Spec cb)) \<noteq> None)"
  by (auto simp: check_duration_def split: if_split_asm)

lemma cluster_go:
  "check_cluster e cb st = (Go cc, s1) \<Longrightarrow>
    s1 = bcall (BGetCluster (cb_Namespace cb) (bk_CassandraCluster (cb_Spec cb))) st \<and>
    be_getCluster e (bs_trace st) (cb_Namespace cb) (bk_CassandraCluster (cb_Spec cb)) = Inr cc"
  by (auto simp: check_cluster_def Let_def split: sum.split_asm if_split_asm)

lemma checks_go:
  assumes "check_snapshot e cb st = (Go u1, s1)" "check_secret e cb s1 = (Go u2, s2)" "check_duration cb s2 = (Go u3, s3)"
    "check_cluster e cb s3 = (Go cc, s4)"
    and "be_listPods e (bs_trace s4) (cb_Namespace cb) (LabelsForCassandraDC cc (bk_Datacenter (cb_Spec cb))) = Inr pods"
  shows "checks_passed e cb (bs_trace st) cc pods"
  using snapshot_go [OF assms(1)] secret_go [OF assms(2)] duration_go [OF assms(3)] cluster_go [OF assms(4)] assms(5)
  by (auto simp: checks_passed_def Let_def)

lemma start_backup_started:
  assumes "started (bs_trace (snd (start_backup e pick changed cb st))) \<noteq> started (bs_trace st)"
  shows "\<not> IsScheduled cb \<and> (\<exists>cc pods p b. checks_passed e cb (bs_trace st) cc pods \<and> p \<in> set pods \<and> cb_Spec b = cb_Spec cb \<and>
    brs_CoordinatorMember (cb_Status b) = pod_Name p \<and>
    started (bs_trace (snd (start_backup e pick changed cb st))) = started (bs_trace st) @ [(p, b)])"
proof -
  obtain v1 s1 v2 s2 v3 s3 v4 s4 where
    c: "check_snapshot e cb st = (v1, s1)" "check_secret e cb s1 = (v2, s2)" "check_duration cb s2 = (v3, s3)"
       "check_cluster e cb s3 = (v4, s4)" by (meson surj_pair)
  have same: "started (bs_trace s1) = started (bs_trace st)" "started (bs_trace s2) = started (bs_trace st)"
    "started (bs_trace s3) = started (bs_trace st)" "started (bs_trace s4) = started (bs_trace st)"
    using c runs.kept_snapshot [of st _ e cb] runs.kept_secret [of s1 _ e cb] runs.kept_duration [of s2 _ cb]
      runs.kept_cluster [of s3 _ e cb] by simp_all
  obtain cc where go: "v1 = Go ()" "v2 = Go ()" "v3 = Go ()" "v4 = Go cc" "\<not> IsScheduled cb"
    using assms c same by (cases v1; cases v2; cases v3; cases v4) (auto simp: start_backup_def split: if_split_asm)
  have run: "start_backup e pick changed cb st = backupData e pick cb cc s4"
    using c go by (simp add: start_backup_def)
  obtain pods p b where b: "be_listPods e (bs_trace s4) (cb_Namespace cb) (LabelsForCassandraDC cc (bk_Datacenter (cb_Spec cb))) = Inr pods"
    "p \<in> set pods" "cb_Spec b = cb_Spec cb" "brs_CoordinatorMember (cb_Status b) = pod_Name p"
    "started (bs_trace (snd (backupData e pick cb cc s4))) = started (bs_trace st) @ [(p, b)]"
    using backupData_started [of e pick cb cc s4] assms unfolding run same by blast
  have "checks_passed e cb (bs_trace st) cc pods"
    by (rule checks_go [OF c [unfolded go(1-4)] b(1)])
  then show ?thesis using go(5) b unfolding run by blast
qed

lemma spec_only:
  assumes "cb_Spec a = cb_Spec b"
  shows "IsScheduled a = IsScheduled b" "same_snapshot a = same_snapshot b" "IsFileBackup a = IsFileBackup b"
    "validateBackupSecret n s a = validateBackupSecret n s b"
  using assms by (auto simp: IsScheduled_def same_snapshot_def IsFileBackup_def validateBackupSecret_def IsGcpBackup_def
      IsAzureBackup_def IsS3Backup_def fun_eq_iff)

lemma checks_passed_cong:
  assumes "cb_Spec a = cb_Spec b" and "cb_Namespace a = cb_Namespace b"
  shows "checks_passed e a = checks_passed e b"
  by (intro ext) (simp only: checks_passed_def assms spec_only [OF assms(1)])

lemma reconcile_live_started:
  assumes "started (bs_trace (snd (reconcile_live e pick changed cb st))) \<noteq> started (bs_trace st)"
  shows "\<not> IsScheduled cb \<and> \<not> Ran cb \<and> (\<exists>cc pods p b. checks_passed e cb (bs_trace st) cc pods \<and> p \<in> set pods \<and>
    cb_Spec b = cb_Spec cb \<and> brs_CoordinatorMember (cb_Status b) = pod_Name p \<and>
    started (bs_trace (snd (reconcile_live e pick changed cb st))) = started (bs_trace st) @ [(p, b)])"
proof -
  let ?cb = "cb\<lparr>cb_Status := zero_backrest\<rparr>"
  have run: "reconcile_live e pick changed cb st = start_backup e pick changed ?cb st" and ran: "IsScheduled cb \<or> \<not> Ran cb"
    using assms by (auto simp: reconcile_live_def Ran_def split: if_split_asm)
  have eq: "IsScheduled ?cb = IsScheduled cb" "checks_passed e ?cb = checks_passed e cb" "cb_Spec ?cb = cb_Spec cb"
    by (rule spec_only, simp, rule checks_passed_cong, simp_all)
  show ?thesis using ran start_backup_started [OF assms [unfolded run], unfolded eq] unfolding run by blast
qed

text \<open>
  C9 (backup_started_only_when_valid): a pass of the backup controller starts at most one backup, and only for an
  object that exists, is not scheduled and has not run yet, when no backup that ran has the same snapshot, the
  secret and the duration are valid, and the cluster exists; the coordinator is a pod of its datacenter.
\<close>

theorem backup_started_only_when_valid:
  assumes "started (bs_trace (snd (Reconcile_backup e pick ns name st))) \<noteq> started (bs_trace st)"
  shows "\<exists>cb cc pods p b. be_getBackup e (bs_trace st) ns name = Inr cb \<and> \<not> IsScheduled cb \<and> \<not> Ran cb \<and>
    checks_passed e cb (bs_trace st @ [BGetBackup ns name]) cc pods \<and> p \<in> set pods \<and> cb_Spec b = cb_Spec cb \<and>
    brs_CoordinatorMember (cb_Status b) = pod_Name p \<and>
    started (bs_trace (snd (Reconcile_backup e pick ns name st))) = started (bs_trace st) @ [(p, b)]"
proof -
  let ?st = "bcall (BGetBackup ns name) st"
  obtain cb where cb: "be_getBackup e (bs_trace st) ns name = Inr cb"
    using assms by (cases "be_getBackup e (bs_trace st) ns name") (auto simp: Reconcile_backup_def)
  have live: "\<not> (meta_DeletionTimestamp (cb_Meta cb) \<noteq> None \<and> IsScheduled cb)"
  proof
    assume "meta_DeletionTimestamp (cb_Meta cb) \<noteq> None \<and> IsScheduled cb"
    then have "Reconcile_backup e pick ns name st = unschedule e cb ?st" by (simp add: Reconcile_backup_def cb)
    with assms show False by simp
  qed
  obtain changed cb' where cb': "cb_Spec cb' = cb_Spec cb" "cb_Status cb' = cb_Status cb" "cb_Namespace cb' = cb_Namespace cb"
    and run: "started (bs_trace (snd (Reconcile_backup e pick ns name st))) =
      started (bs_trace (snd (reconcile_live e pick changed cb' ?st)))"
  proof (cases "ComputeLastAppliedAnnotation e cb = backup_annotation cb")
    case True
    show ?thesis
      by (rule that [of cb False]) (use live True in \<open>auto simp: Reconcile_backup_def Let_def cb split_beta\<close>)
  next
    case False
    show ?thesis
      by (rule that [of "annotate (ComputeLastAppliedAnnotation e cb) cb" True])
        (use live False in \<open>auto simp: Reconcile_backup_def Let_def cb split_beta bwrite_def\<close>)
  qed
  have eq: "IsScheduled cb' = IsScheduled cb" "Ran cb' = Ran cb" "checks_passed e cb' = checks_passed e cb"
    by (rule spec_only [OF cb'(1)], simp add: Ran_def cb', rule checks_passed_cong [OF cb'(1,3)])
  have same: "bs_trace ?st = bs_trace st @ [BGetBackup ns name]"
    "started (bs_trace st @ [BGetBackup ns name]) = started (bs_trace st)" by simp_all
  show ?thesis
    using cb reconcile_live_started [of e pick changed cb' ?st, unfolded same eq cb'(1), OF assms [unfolded run]]
    unfolding run by blast
qed

theorem backup_started_only_when_valid_witness:
  "\<exists>p b. started (bs_trace (snd (Reconcile_backup (example_benv (example_backup [])) (\<lambda>_. 1) ''ns'' ''nightly'' idle))) = [(p, b)] \<and>
     brs_CoordinatorMember (cb_Status b) = pod_Name p"
proof -
  have "started (bs_trace (snd (Reconcile_backup (example_benv (example_backup [])) (\<lambda>_. 1) ''ns'' ''nightly'' idle))) \<noteq> started (bs_trace idle)"
    by (simp add: backup_eval)
  from backup_started_only_when_valid [OF this] show ?thesis by (auto simp: idle_def)
qed

section \<open>An invalid schedule\<close>

lemma schedule_backup_spec:
  assumes "be_unmarshal e (backup_annotation cb) = Inr old" and "cb_Spec old = cb_Spec cb"
  shows "cb_Spec (snd (fst (schedule_backup e changed cb cc st))) = cb_Spec cb"
  using assms by (auto simp: schedule_backup_def undo_schedule_def setFinalizer_def PreventBackupDeletion_def split_beta Let_def)

lemma backupData_spec: "cb_Spec (snd (fst (backupData e pick cb cc st))) = cb_Spec cb"
  by (simp add: backupData_def listPods_def updateStatus_def bwrite_def Let_def split: sum.split)

lemma start_backup_spec:
  assumes "be_unmarshal e (backup_annotation cb) = Inr old" and "cb_Spec old = cb_Spec cb"
  shows "cb_Spec (snd (fst (start_backup e pick changed cb st))) = cb_Spec cb"
  using schedule_backup_spec [OF assms] backupData_spec
  by (simp add: start_backup_def split: prod.split verdict.split)

text \<open>
  C33 (invalid_schedule_not_undone): an invalid schedule is meant to be reset to the previous one, but the annotation that is read back was
  overwritten with the new configuration before.  When reading the JSON gives back the specification that was written, the object is stored with the
  schedule it had, valid or not.
\<close>

theorem invalid_schedule_not_undone:
  assumes cb: "be_getBackup e (bs_trace st) ns name = Inr cb" and "meta_DeletionTimestamp (cb_Meta cb) = None"
    and "ComputeLastAppliedAnnotation e cb \<noteq> backup_annotation cb"
    and "be_unmarshal e (ComputeLastAppliedAnnotation e cb) = Inr (last_applied_backup cb)"
  shows "\<exists>cb'. last (bs_trace (snd (Reconcile_backup e pick ns name st))) = BUpdateBackup cb' \<and> cb_Spec cb' = cb_Spec cb"
proof -
  let ?cb = "annotate (ComputeLastAppliedAnnotation e cb) cb"
  have "cb_Spec (snd (fst (start_backup e pick True (?cb\<lparr>cb_Status := zero_backrest\<rparr>) st'))) = cb_Spec cb" for st'
    using start_backup_spec [of e "?cb\<lparr>cb_Status := zero_backrest\<rparr>" "last_applied_backup cb"] assms(4)
    by (simp add: backup_annotation_def annotate_def last_applied_backup_def)
  then have "cb_Spec (snd (fst (reconcile_live e pick True ?cb st'))) = cb_Spec cb" for st'
    by (simp add: reconcile_live_def)
  then show ?thesis using assms(1-3) by (simp add: Reconcile_backup_def Let_def split_beta bwrite_def)
qed

theorem invalid_schedule_not_undone_witness:
  "\<exists>cb'. last (bs_trace (snd (Reconcile_backup (example_benv (example_backup ''never'')) (\<lambda>_. 0) ''ns'' ''nightly'' idle))) = BUpdateBackup cb' \<and>
     bk_Schedule (cb_Spec cb') = ''never'' \<and> be_ParseStandard (example_benv (example_backup ''never'')) ''never'' \<noteq> None"
  using invalid_schedule_not_undone [of "example_benv (example_backup ''never'')" idle "''ns''" "''nightly''" "example_backup ''never''" "\<lambda>_. 0"]
  by (auto simp: backup_example ComputeLastAppliedAnnotation_def backup_annotation_def)

section \<open>Update events\<close>

lemma update_events_filtered: "UpdateFunc (Pointer CassandraBackup_type) cb = Some False"
  by (simp add: UpdateFunc_def)

end
