(* ===== verification/Backup_Runs.thy ===== *)
theory Backup_Runs
  imports Backup
begin

text \<open>
  Runs of the backup controller: passes over any backups, cron jobs that fire, and the requests of the goroutines, in any
  order, from the start of the scheduler (src/controllers/cassandrabackup/scheduler.go).
\<close>

section \<open>The jobs of the cron library\<close>

text \<open>The live jobs with their schedules and the objects that their tasks captured, from the requests made so far.\<close>

fun cron_table_step ::
  "(nat \<rightharpoonup> string \<times> CassandraBackup \<times> CassandraCluster) \<Rightarrow> brequest \<Rightarrow> (nat \<rightharpoonup> string \<times> CassandraBackup \<times> CassandraCluster)" where
  "cron_table_step m (BCronAdd (Inr i) s cb cc) = m(i \<mapsto> (s, cb, cc))"
| "cron_table_step m (BCronRemove i) = m(i := None)"
| "cron_table_step m _ = m"

definition cron_table :: "brequest list \<Rightarrow> (nat \<rightharpoonup> string \<times> CassandraBackup \<times> CassandraCluster)" where
  "cron_table tr = foldl cron_table_step Map.empty tr"

lemma cron_table_snoc [simp]: "cron_table (tr @ [q]) = cron_table_step (cron_table tr) q"
  by (simp add: cron_table_def)

lemma cron_table_other [simp]: "not_cron q \<Longrightarrow> cron_table_step m q = m"
  by (cases q) auto

lemma dom_cron_table: "dom (cron_table tr) = cron_jobs tr"
proof (induction tr rule: rev_induct)
  case (snoc q tr)
  have "dom (cron_table_step m q) = cron_step (dom m) q" for m
    by (cases "(dom m, q)" rule: cron_step.cases) auto
  with snoc show ?case by simp
qed (simp add: cron_table_def cron_jobs_def)

text \<open>Every entry of the scheduler names a live job of that backup, with the schedule of the entry.\<close>

definition linked :: "bstate \<Rightarrow> bool" where
  "linked st \<longleftrightarrow> (\<forall>n x. bs_entries st n = Some x \<longrightarrow>
     (\<exists>cb cc. cron_table (bs_trace st) (et_ID x) = Some (et_Schedule x, cb, cc) \<and> cb_Name cb = n \<and>
        bk_Schedule (cb_Spec cb) = et_Schedule x))"

definition scheduled_well :: "bstate \<Rightarrow> bool" where
  "scheduled_well st \<longleftrightarrow> scheduler_ok st \<and> linked st"

lemma scheduled_well_call [simp]: "not_cron q \<Longrightarrow> scheduled_well (bcall q st) = scheduled_well st"
  by (simp add: scheduled_well_def linked_def)

lemma scheduled_well_event [simp]: "scheduled_well (event r st) = scheduled_well st"
  by (simp add: event_def)

lemma scheduler_ok_distinct:
  "scheduler_ok st \<Longrightarrow> bs_entries st m = Some x \<Longrightarrow> bs_entries st n = Some y \<Longrightarrow> et_ID x = et_ID y \<Longrightarrow> m = n"
  unfolding scheduler_ok_def owns_def job_of_def by (metis option.simps(9))

lemma Remove_entries [simp]: "bs_entries (Remove n st) = (bs_entries st)(n := None)"
  by (auto simp: Remove_def split: option.split)

lemma Remove_well:
  assumes "scheduled_well st"
  shows "scheduled_well (Remove n st)"
proof (cases "bs_entries st n")
  case (Some x)
  have ok: "scheduler_ok st" and l: "linked st" using assms by (simp_all add: scheduled_well_def)
  have other: "et_ID y \<noteq> et_ID x" if "bs_entries st m = Some y" "m \<noteq> n" for m y
    using scheduler_ok_distinct [OF ok that(1) Some] that(2) by blast
  have "linked (Remove n st)"
    using l other Some unfolding linked_def by (simp add: Remove_def)
  then show ?thesis using Remove_ok [OF ok] by (simp add: scheduled_well_def)
qed (use assms in \<open>simp add: Remove_def\<close>)

lemma added_linked:
  assumes "linked st" and "i \<notin> cron_jobs (bs_trace st)" and "bs_entries st (cb_Name cb) = None"
  shows "linked ((bcall (BCronAdd (Inr i) (bk_Schedule (cb_Spec cb)) cb cc) st)
    \<lparr>bs_entries := (bs_entries st)(cb_Name cb \<mapsto> \<lparr>et_ID = i, et_Schedule = bk_Schedule (cb_Spec cb)\<rparr>)\<rparr>)"
proof -
  have "et_ID x \<noteq> i" if "bs_entries st n = Some x" for n x
    using assms(1,2) that dom_cron_table [of "bs_trace st"] unfolding linked_def by blast
  then show ?thesis using assms(1) unfolding linked_def by simp
qed

lemma AddOrUpdate_linked:
  assumes "fresh_ids e" and "scheduled_well st"
  shows "linked (snd (AddOrUpdate e cb cc st))"
proof (cases "map_option et_Schedule (bs_entries st (cb_Name cb)) = Some (bk_Schedule (cb_Spec cb))")
  case True
  then show ?thesis using assms(2) by (simp add: AddOrUpdate_def scheduled_well_def)
next
  case False
  define r where "r = Remove (cb_Name cb) st"
  have l: "linked r" and free: "bs_entries r (cb_Name cb) = None"
    using Remove_well [OF assms(2), of "cb_Name cb"] by (simp_all add: r_def scheduled_well_def)
  let ?s = "bk_Schedule (cb_Spec cb)"
  have ev: "linked (event x s) = linked s" for x s by (simp add: event_def linked_def)
  show ?thesis
  proof (cases "be_AddFunc e (bs_trace r) ?s")
    case (Inl err)
    then have "snd (AddOrUpdate e cb cc st) = bcall (BCronAdd (Inl err) ?s cb cc) r"
      using False by (simp add: AddOrUpdate_def Let_def r_def del: map_option_eq_Some)
    then show ?thesis using l by (simp add: linked_def)
  next
    case (Inr i)
    then have "i \<notin> cron_jobs (bs_trace r)" using assms(1) by (auto simp: fresh_ids_def)
    moreover have "snd (AddOrUpdate e cb cc st) = event ''BackupTaskscheduled'' ((bcall (BCronAdd (Inr i) ?s cb cc) r)
        \<lparr>bs_entries := (bs_entries r)(cb_Name cb \<mapsto> \<lparr>et_ID = i, et_Schedule = ?s\<rparr>)\<rparr>)"
      using False Inr by (simp add: AddOrUpdate_def Let_def r_def del: map_option_eq_Some Remove_entries)
    ultimately show ?thesis using added_linked [OF l _ free, of i cc] ev by simp
  qed
qed

interpretation well: kept_by_requests scheduled_well
  by unfold_locales (simp add: plain_not_cron)

lemma backupData_calls:
  "\<exists>qs. snd (backupData e pick cb cc st) = foldl (\<lambda>s q. bcall q s) st qs \<and> list_all not_cron qs"
proof -
  let ?l = "BListPods (cb_Namespace cb) (LabelsForCassandraDC cc (bk_Datacenter (cb_Spec cb)))"
  let ?p = "BPatchBackup (cb\<lparr>cb_Status := zero_backrest\<rparr>)"
  show ?thesis
  proof (cases "be_listPods e (bs_trace st) (cb_Namespace cb) (LabelsForCassandraDC cc (bk_Datacenter (cb_Spec cb)))")
    case (Inl err)
    then show ?thesis by (intro exI [of _ "[?l]"]) (simp add: backupData_def listPods_def)
  next
    case (Inr pods)
    let ?c = "pods ! (pick (length pods) mod length pods)"
    let ?q = "if pods = [] then BEvent ''BackupNotInitiated''
      else BSpawnBackup ?c (cb\<lparr>cb_Status := zero_backrest\<lparr>brs_CoordinatorMember := pod_Name ?c\<rparr>\<rparr>)"
    show ?thesis using Inr
      by (intro exI [of _ "[?l, ?p, ?q]"]) (simp add: backupData_def listPods_def updateStatus_def bwrite_def event_def Let_def)
  qed
qed

lemma scheduled_well_calls: "list_all not_cron qs \<Longrightarrow> scheduled_well (foldl (\<lambda>s q. bcall q s) st qs) = scheduled_well st"
  by (induction qs arbitrary: st) simp_all

lemma backupData_well [simp]: "scheduled_well (snd (backupData e pick cb cc st)) = scheduled_well st"
  using backupData_calls [of e pick cb cc st] scheduled_well_calls by auto

lemma schedule_backup_well:
  assumes "fresh_ids e" and "scheduled_well st"
  shows "scheduled_well (snd (schedule_backup e changed cb cc st))"
proof -
  obtain skipped err st1 where a: "AddOrUpdate e cb cc st = ((skipped, err), st1)" by (metis surj_pair)
  have "scheduled_well st1"
    using AddOrUpdate_ok [OF assms(1), of st cb cc] AddOrUpdate_linked [OF assms, of cb cc] assms(2) a
    by (simp add: scheduled_well_def)
  with a assms(2) show ?thesis by (simp add: schedule_backup_def)
qed

lemma Reconcile_backup_well:
  assumes "fresh_ids e" and "scheduled_well st"
  shows "scheduled_well (snd (Reconcile_backup e pick ns name st))"
  by (rule well.Reconcile_backup_kept [OF assms(2) _ _ _ refl])
    (simp_all add: schedule_backup_well assms(1) unschedule_def bwrite_def Remove_well)

section \<open>Runs\<close>

definition NewScheduler :: bstate where
  "NewScheduler = \<lparr>bs_entries = Map.empty, bs_trace = []\<rparr>"

inductive backup_run :: "benv \<Rightarrow> bstate \<Rightarrow> bool" for e where
  start: "backup_run e NewScheduler"
| pass: "backup_run e st \<Longrightarrow> backup_run e (snd (Reconcile_backup e pick ns name st))"
| fire: "backup_run e st \<Longrightarrow> cron_table (bs_trace st) i = Some (s, cb, cc) \<Longrightarrow> backup_run e (snd (backupData e pick cb cc st))"
| goroutine: "backup_run e st \<Longrightarrow> not_cron q \<Longrightarrow> backup_run e (bcall q st)"

declare backup_run.intros [intro]

lemma NewScheduler_well: "scheduled_well NewScheduler"
  by (simp add: NewScheduler_def scheduled_well_def scheduler_ok_def linked_def owns_def cron_jobs_def job_of_def)

lemma backup_run_well: "backup_run e st \<Longrightarrow> fresh_ids e \<Longrightarrow> scheduled_well st"
  by (induction rule: backup_run.induct) (simp_all add: NewScheduler_well Reconcile_backup_well)

text \<open>
  C17 (scheduler_matches_cron): in every run, with passes, cron jobs that fire and goroutines in any order, and with a cron library that gives unused
  numbers to its jobs, the live jobs are exactly those of the entries of the scheduler: each entry has its own live job, which was added for
  the backup of that name with the schedule of the entry, and every live job belongs to an entry.
\<close>

theorem scheduler_matches_cron:
  assumes "backup_run e st" and "fresh_ids e"
  shows "(\<forall>n x. bs_entries st n = Some x \<longrightarrow> (\<exists>cb cc. cron_table (bs_trace st) (et_ID x) = Some (et_Schedule x, cb, cc) \<and>
        cb_Name cb = n \<and> bk_Schedule (cb_Spec cb) = et_Schedule x)) \<and>
    (\<forall>i job. cron_table (bs_trace st) i = Some job \<longrightarrow> (\<exists>!n. map_option et_ID (bs_entries st n) = Some i))"
proof -
  have l: "linked st" and o: "owns (cron_jobs (bs_trace st)) (job_of st)"
    using backup_run_well [OF assms] by (simp_all add: scheduled_well_def scheduler_ok_def)
  have "\<exists>!n. job_of st n = Some i" if "cron_table (bs_trace st) i = Some job" for i job
    using o that dom_cron_table [of "bs_trace st"] unfolding owns_def by blast
  then show ?thesis using l unfolding linked_def job_of_def by blast
qed

definition daily_run :: bstate where
  "daily_run = snd (Reconcile_backup (example_benv (example_backup ''@daily'')) (\<lambda>_. 0) ''ns'' ''nightly'' NewScheduler)"

theorem scheduler_matches_cron_witness:
  "backup_run (example_benv (example_backup ''@daily'')) daily_run \<and> cron_jobs (bs_trace daily_run) = {0} \<and>
   (\<exists>!n. map_option et_ID (bs_entries daily_run n) = Some 0)"
proof -
  let ?e = "example_benv (example_backup ''@daily'')"
  have run: "backup_run ?e daily_run" unfolding daily_run_def by blast
  have jobs: "cron_jobs (bs_trace daily_run) = {0}" by (simp add: daily_run_def NewScheduler_def backup_eval)
  then obtain job where "cron_table (bs_trace daily_run) 0 = Some job" using dom_cron_table [of "bs_trace daily_run"] by blast
  moreover have "fresh_ids ?e" by (auto simp: fresh_ids_def example_benv_def dest: cron_jobs_next)
  ultimately show ?thesis using scheduler_matches_cron [OF run] run jobs by blast
qed

end
