(* ===== verification/Restore.thy ===== *)
theory Restore
  imports Backup
begin

text \<open>
  The restore controller, src/controllers/cassandrarestore: the reconcile loop of a CassandraRestore, which picks a
  coordinator, posts the restore to its sidecar and polls the operation, and the filters of its events.  None is a
  panic of the pass.  An abstract protocol of the status follows, which the loop refines.
\<close>

section \<open>Errors and results\<close>

text \<open>The errors the loop tells apart by their cause, without their text where none is read.\<close>

datatype rerror =
    ResourceNotReady
  | CassandraBackupSidecarNotReady
  | CassandraBackupOperationRunning
  | CassandraBackupOperationFailure string
  | OtherError error

datatype rresult = Reconciled | RequeueAfter int | RequeueWithError rerror

definition seconds :: "int \<Rightarrow> int" where
  "seconds n = n * 10 ^ 9"

definition LookupCassandraCluster :: "benv \<Rightarrow> string \<Rightarrow> string \<Rightarrow> bstate \<Rightarrow> (error + CassandraCluster) \<times> bstate" where
  "LookupCassandraCluster e name ns st = (be_getCluster e (bs_trace st) ns name, bcall (BGetCluster ns name) st)"

definition LookupCassandraBackup :: "benv \<Rightarrow> string \<Rightarrow> string \<Rightarrow> bstate \<Rightarrow> (error + CassandraBackup) \<times> bstate" where
  "LookupCassandraBackup e name ns st = (be_getBackup e (bs_trace st) ns name, bcall (BGetBackup ns name) st)"

section \<open>The steps of a restore\<close>

definition UpdateRestoreStatus ::
  "benv \<Rightarrow> CassandraRestore \<Rightarrow> BackRestStatus \<Rightarrow> bstate \<Rightarrow> (error option \<times> CassandraRestore) \<times> bstate" where
  "UpdateRestoreStatus e restore status st =
     (let restore = restore\<lparr>cr_Status := status\<rparr>; (err, st) = bwrite e (BPatchRestore restore) st in ((err, restore), st))"

definition requiredRestore ::
  "benv \<Rightarrow> (nat \<Rightarrow> nat) \<Rightarrow> CassandraRestore \<Rightarrow> CassandraCluster \<Rightarrow> CassandraBackup \<Rightarrow> bstate \<Rightarrow> rerror option \<times> bstate" where
  "requiredRestore e pick restore cc cb st =
     (let (res, st) = listPods e (cr_Namespace restore) (LabelsForCassandraDC cc (bk_Datacenter (cb_Spec cb))) st in
      case res of
        Inl _ \<Rightarrow> (Some ResourceNotReady, st)
      | Inr pods \<Rightarrow>
          if length pods > 0
          then
            let status = zero_backrest\<lparr>
                  brs_Condition := Some \<lparr>brc_Type = RestoreRequired, brc_LastTransitionTime = be_now e (bs_trace st), brc_FailureCause = []\<rparr>,
                  brs_CoordinatorMember := pod_Name (pods ! (pick (length pods) mod length pods))\<rparr>;
                ((err, _), st) = UpdateRestoreStatus e restore status st in
            (map_option OtherError err, st)
          else (Some (OtherError (Errorf ''No pods found.'')), st))"

definition handleRequiredRestore ::
  "benv \<Rightarrow> CassandraRestore \<Rightarrow> CassandraCluster \<Rightarrow> CassandraBackup \<Rightarrow> bstate \<Rightarrow> (rerror option \<times> bstate) option" where
  "handleRequiredRestore e restore cc cb st =
     (let (res, st) = listPods e (cr_Namespace restore) (LabelsForCassandraDC cc (bk_Datacenter (cb_Spec cb))) st in
      case res of
        Inl _ \<Rightarrow> Some (Some ResourceNotReady, st)
      | Inr pods \<Rightarrow> do {
          sr \<leftarrow> NewClient (PodByName pods (brs_CoordinatorMember (cr_Status restore)));
          let (res, st) = PerformRestore e sr restore cb st in
          case res of
            Inl _ \<Rightarrow> Some (Some CassandraBackupSidecarNotReady, st)
          | Inr restoreStatus \<Rightarrow>
              let ((err, _), st) = UpdateRestoreStatus e restore
                    (restoreStatus\<lparr>brs_CoordinatorMember := brs_CoordinatorMember (cr_Status restore)\<rparr>) st in
              Some (map_option OtherError err, st) })"

text \<open>The status is written to before the error of the lookup is tested: with an error the pointer is nil.\<close>

definition checkRestoreOperationState ::
  "benv \<Rightarrow> CassandraRestore \<Rightarrow> CassandraCluster \<Rightarrow> CassandraBackup \<Rightarrow> bstate \<Rightarrow> (rerror option \<times> bstate) option" where
  "checkRestoreOperationState e restore cc cb st =
     (let (res, st) = listPods e (cr_Namespace restore) (LabelsForCassandraDC cc (bk_Datacenter (cb_Spec cb))) st;
          restoreId = brs_ID (cr_Status restore) in
      case res of
        Inl _ \<Rightarrow> Some (Some ResourceNotReady, st)
      | Inr pods \<Rightarrow>
          if restoreId = '''' then Some (Some (OtherError (Errorf ''no Restore operation id provided to be checked'')), st)
          else do {
            sr \<leftarrow> NewClient (PodByName pods (brs_CoordinatorMember (cr_Status restore)));
            let (res, st) = RestoreStatusByID e sr restoreId st in
            case res of
              Inl _ \<Rightarrow> None
            | Inr status \<Rightarrow>
                let ((err, restore), st) = UpdateRestoreStatus e restore
                      (status\<lparr>brs_CoordinatorMember := brs_CoordinatorMember (cr_Status restore)\<rparr>) st in
                case err of
                  Some x \<Rightarrow> Some (Some (OtherError x), st)
                | None \<Rightarrow> do {
                    cond \<leftarrow> brs_Condition (cr_Status restore);
                    Some (if IsInError (brc_Type cond)
                          then Some (CassandraBackupOperationFailure
                                 (case brc_FailureCause cond of [] \<Rightarrow> '''' | c # _ \<Rightarrow> fc_Message c))
                          else if IsCompleted (brc_Type cond) then None
                          else Some CassandraBackupOperationRunning, st) } })"

section \<open>The reconcile loop\<close>

definition after_required :: "rerror option \<Rightarrow> bstate \<Rightarrow> rresult \<times> bstate" where
  "after_required err st =
     (case err of
        None \<Rightarrow> (Reconciled, event ''RestoreRequired'' st)
      | Some ResourceNotReady \<Rightarrow> (RequeueAfter (seconds 15), st)
      | Some x \<Rightarrow> (RequeueWithError x, st))"

definition after_post :: "rerror option \<Rightarrow> bstate \<Rightarrow> rresult \<times> bstate" where
  "after_post err st =
     (case err of
        None \<Rightarrow> (Reconciled, event ''RestoreInitiated'' st)
      | Some CassandraBackupSidecarNotReady \<Rightarrow> (RequeueAfter (seconds 15), event ''PerformRestoreOperationFailed'' st)
      | Some ResourceNotReady \<Rightarrow> (RequeueAfter (seconds 15), event ''PerformRestoreOperationFailed'' st)
      | Some x \<Rightarrow> (RequeueWithError x, st))"

definition after_poll :: "rerror option \<Rightarrow> bstate \<Rightarrow> rresult \<times> bstate" where
  "after_poll err st =
     (case err of
        None \<Rightarrow> (Reconciled, event ''RestoreCompleted'' st)
      | Some ResourceNotReady \<Rightarrow> (RequeueAfter (seconds 15), st)
      | Some CassandraBackupSidecarNotReady \<Rightarrow> (RequeueAfter (seconds 15), st)
      | Some CassandraBackupOperationRunning \<Rightarrow> (RequeueAfter (seconds 20), st)
      | Some (CassandraBackupOperationFailure _) \<Rightarrow> (Reconciled, event ''RestoreFailed'' st)
      | Some x \<Rightarrow> (RequeueWithError x, st))"

definition restore_pass ::
  "benv \<Rightarrow> (nat \<Rightarrow> nat) \<Rightarrow> CassandraRestore \<Rightarrow> CassandraCluster \<Rightarrow> CassandraBackup \<Rightarrow> bstate \<Rightarrow> (rresult \<times> bstate) option" where
  "restore_pass e pick restore cc cb st =
     (if length (brs_CoordinatorMember (cr_Status restore)) = 0
      then (let (err, st) = requiredRestore e pick restore cc cb st in Some (after_required err st))
      else do {
        cond \<leftarrow> brs_Condition (cr_Status restore);
        if IsRequired (brc_Type cond)
        then do { (err, st) \<leftarrow> handleRequiredRestore e restore cc cb st; Some (after_post err st) }
        else if IsInProgress (brc_Type cond)
        then do { (err, st) \<leftarrow> checkRestoreOperationState e restore cc cb st; Some (after_poll err st) }
        else Some (Reconciled, st) })"

definition Reconcile_restore ::
  "benv \<Rightarrow> (nat \<Rightarrow> nat) \<Rightarrow> string \<Rightarrow> string \<Rightarrow> bstate \<Rightarrow> (rresult \<times> bstate) option" where
  "Reconcile_restore e pick ns name st =
     (let res = be_getRestore e (bs_trace st) ns name; st = bcall (BGetRestore ns name) st in
      case res of
        Inl err \<Rightarrow> Some (if err = NotFound then Reconciled else RequeueWithError (OtherError err), st)
      | Inr restore \<Rightarrow>
          let (res, st) = LookupCassandraCluster e (rt_CassandraCluster (cr_Spec restore)) (cr_Namespace restore) st in
          case res of
            Inl err \<Rightarrow>
              if IsMarkedForDeletion (cr_Meta restore) then Some (Reconciled, st)
              else Some (RequeueWithError (OtherError err), event ''CassandraClusterNotFound'' st)
          | Inr cc \<Rightarrow>
              let (res, st) = LookupCassandraBackup e (rt_CassandraBackup (cr_Spec restore)) (cr_Namespace restore) st in
              case res of
                Inl err \<Rightarrow> Some (RequeueWithError (OtherError err), event ''BackupNotFound'' st)
              | Inr cb \<Rightarrow> restore_pass e pick restore cc cb st)"

section \<open>Events\<close>

definition restore_CreateFunc :: "CassandraRestore \<Rightarrow> bool" where
  "restore_CreateFunc restore = (GetRestoreCondition (cr_Status restore) RestoreRequired = None)"

definition restore_UpdateFunc :: "CassandraRestore \<Rightarrow> bool" where
  "restore_UpdateFunc new =
     (if length (brs_CoordinatorMember (cr_Status new)) < 1 then False
      else case brs_Condition (cr_Status new) of
             None \<Rightarrow> True
           | Some cond \<Rightarrow> \<not> IsCompleted (brc_Type cond) \<and> \<not> IsInError (brc_Type cond))"

section \<open>The protocol\<close>

text \<open>
  What a pass may do to the status: choose a coordinator when there is none, which makes the restore required, take over the answer to the
  posted operation when the restore is required, and the answer to a poll while the operation is in progress.  The coordinator stays.
\<close>

inductive restore_step :: "BackRestStatus \<Rightarrow> BackRestStatus \<Rightarrow> bool" where
  choose: "brs_CoordinatorMember s = '''' \<Longrightarrow> restore_step s (zero_backrest\<lparr>
    brs_Condition := Some \<lparr>brc_Type = RestoreRequired, brc_LastTransitionTime = nw, brc_FailureCause = []\<rparr>, brs_CoordinatorMember := m\<rparr>)"
| post: "brs_CoordinatorMember s \<noteq> '''' \<Longrightarrow> brs_Condition s = Some c \<Longrightarrow> IsRequired (brc_Type c) \<Longrightarrow>
    restore_step s ((ComputeRestorationStatus nw a)\<lparr>brs_CoordinatorMember := brs_CoordinatorMember s\<rparr>)"
| poll: "brs_CoordinatorMember s \<noteq> '''' \<Longrightarrow> brs_Condition s = Some c \<Longrightarrow> IsInProgress (brc_Type c) \<Longrightarrow> brs_ID s \<noteq> '''' \<Longrightarrow>
    restore_step s ((ComputeRestorationStatus nw a)\<lparr>brs_CoordinatorMember := brs_CoordinatorMember s\<rparr>)"

inductive_cases restore_stepE: "restore_step s s'"

fun restore_writes :: "brequest list \<Rightarrow> CassandraRestore list" where
  "restore_writes [] = []"
| "restore_writes (BPatchRestore r # qs) = r # restore_writes qs"
| "restore_writes (_ # qs) = restore_writes qs"

fun restore_posts :: "brequest list \<Rightarrow> (string \<times> RestoreOperationRequest) list" where
  "restore_posts [] = []"
| "restore_posts (BPostRestore h q # qs) = (h, q) # restore_posts qs"
| "restore_posts (_ # qs) = restore_posts qs"

lemma restore_traces_append [simp]:
  "restore_writes (xs @ ys) = restore_writes xs @ restore_writes ys"
  "restore_posts (xs @ ys) = restore_posts xs @ restore_posts ys"
  by (induction xs rule: restore_writes.induct, simp_all)

lemma restore_step_coordinator:
  "restore_step s s' \<Longrightarrow> brs_CoordinatorMember s \<noteq> '''' \<Longrightarrow> brs_CoordinatorMember s' = brs_CoordinatorMember s"
  by (auto elim: restore_stepE)

lemma restore_step_final:
  "restore_step s s' \<Longrightarrow> brs_CoordinatorMember s \<noteq> '''' \<Longrightarrow> brs_Condition s = Some c \<Longrightarrow> \<not> IsCompleted (brc_Type c) \<and> \<not> IsInError (brc_Type c)"
  by (auto elim!: restore_stepE simp: IsRequired_def IsInProgress_def IsCompleted_def IsInError_def condition_types)

section \<open>Refinement\<close>

text \<open>
  What a part of a pass has done when it ends in a state: the writes are steps of the protocol and the posts are made for a required restore.
\<close>

definition pass_ok :: "CassandraRestore \<Rightarrow> CassandraBackup \<Rightarrow> bstate \<Rightarrow> bstate \<Rightarrow> bool" where
  "pass_ok r b st st' \<longleftrightarrow> (\<exists>ws ps.
     restore_writes (bs_trace st') = restore_writes (bs_trace st) @ ws \<and>
     restore_posts (bs_trace st') = restore_posts (bs_trace st) @ ps \<and>
     length ws \<le> 1 \<and> length ps \<le> 1 \<and>
     (\<forall>w \<in> set ws. restore_step (cr_Status r) (cr_Status w) \<and> cr_Spec w = cr_Spec r \<and> cr_Meta w = cr_Meta r) \<and>
     (\<forall>p \<in> set ps. snd p = restore_request r b \<and> brs_CoordinatorMember (cr_Status r) \<noteq> '''' \<and>
        map_option brc_Type (brs_Condition (cr_Status r)) = Some RestoreRequired))"

lemmas restore_requests = listPods_def UpdateRestoreStatus_def bwrite_def event_def PerformRestore_def RestoreStatusByID_def
  operation_by_id_def LookupCassandraCluster_def LookupCassandraBackup_def

lemma pass_ok_event [simp]: "pass_ok r b st (event x st') = pass_ok r b st st'"
  by (simp add: pass_ok_def event_def)

lemma after_ok [simp]:
  "pass_ok r b st (snd (after_required err st')) = pass_ok r b st st'"
  "pass_ok r b st (snd (after_post err st')) = pass_ok r b st st'"
  "pass_ok r b st (snd (after_poll err st')) = pass_ok r b st st'"
  by (simp_all add: after_required_def after_post_def after_poll_def split: option.split rerror.split)

lemma requiredRestore_ok:
  assumes "brs_CoordinatorMember (cr_Status r) = ''''"
  shows "pass_ok r b st (snd (requiredRestore e pick r cc b st))"
  using assms by (auto simp: requiredRestore_def restore_requests pass_ok_def Let_def intro!: choose split: sum.split)

lemma PerformRestore_result:
  "PerformRestore e c r b st = (res, st') \<Longrightarrow> st' = bcall (BPostRestore (bc_BasePath c) (restore_request r b)) st \<and>
    (\<forall>s. res = Inr s \<longrightarrow> (\<exists>nw a. s = ComputeRestorationStatus nw a))"
  by (cases "be_postRestore e (bs_trace st) (bc_BasePath c) (restore_request r b)")
    (auto simp: PerformRestore_def Let_def)

lemma RestoreStatusByID_result:
  "i \<noteq> '''' \<Longrightarrow> RestoreStatusByID e c i st = (res, st') \<Longrightarrow> st' = bcall (BOperation (bc_BasePath c) i) st \<and>
    (\<forall>s. res = Inr s \<longrightarrow> (\<exists>nw a. s = ComputeRestorationStatus nw a))"
  by (cases "be_operation e (bs_trace st) (bc_BasePath c) i")
    (auto simp: RestoreStatusByID_def operation_by_id_def)

lemma UpdateRestoreStatus_result:
  "UpdateRestoreStatus e r s st =
    ((be_write e (bs_trace st) (BPatchRestore (r\<lparr>cr_Status := s\<rparr>)), r\<lparr>cr_Status := s\<rparr>), bcall (BPatchRestore (r\<lparr>cr_Status := s\<rparr>)) st)"
  by (simp add: UpdateRestoreStatus_def bwrite_def Let_def)

lemma handleRequiredRestore_ok:
  assumes run: "handleRequiredRestore e r cc b st = Some (err, st')" and "brs_CoordinatorMember (cr_Status r) \<noteq> ''''"
    and "brs_Condition (cr_Status r) = Some c" and "IsRequired (brc_Type c)"
  shows "pass_ok r b st st'"
proof -
  obtain res st1 where l: "listPods e (cr_Namespace r) (LabelsForCassandraDC cc (bk_Datacenter (cb_Spec b))) st = (res, st1)"
    and st1: "st1 = bcall (BListPods (cr_Namespace r) (LabelsForCassandraDC cc (bk_Datacenter (cb_Spec b)))) st"
    by (simp add: listPods_def)
  show ?thesis
  proof (cases res)
    case (Inl x)
    then show ?thesis using run l st1 by (auto simp: handleRequiredRestore_def pass_ok_def)
  next
    case (Inr pods)
    obtain sr where sr: "NewClient (PodByName pods (brs_CoordinatorMember (cr_Status r))) = Some sr"
      using run l Inr by (auto simp: handleRequiredRestore_def bind_eq_Some_conv)
    obtain res2 st2 where p: "PerformRestore e sr r b st1 = (res2, st2)" by (meson surj_pair)
    show ?thesis
      using run l st1 Inr sr p PerformRestore_result [OF p] assms(2-4)
      by (cases res2) (auto simp: handleRequiredRestore_def UpdateRestoreStatus_result pass_ok_def IsRequired_def intro!: post [where c = c])
  qed
qed

lemma checkRestoreOperationState_ok:
  assumes run: "checkRestoreOperationState e r cc b st = Some (err, st')" and "brs_CoordinatorMember (cr_Status r) \<noteq> ''''"
    and "brs_Condition (cr_Status r) = Some c" and "IsInProgress (brc_Type c)"
  shows "pass_ok r b st st'"
proof -
  obtain res st1 where l: "listPods e (cr_Namespace r) (LabelsForCassandraDC cc (bk_Datacenter (cb_Spec b))) st = (res, st1)"
    and st1: "st1 = bcall (BListPods (cr_Namespace r) (LabelsForCassandraDC cc (bk_Datacenter (cb_Spec b)))) st"
    by (simp add: listPods_def)
  show ?thesis
  proof (cases "(\<exists>x. res = Inl x) \<or> brs_ID (cr_Status r) = ''''")
    case True
    then show ?thesis using run l st1 by (auto simp: checkRestoreOperationState_def pass_ok_def split: sum.split_asm)
  next
    case False
    then obtain pods where Inr: "res = Inr pods" and i: "brs_ID (cr_Status r) \<noteq> ''''" by (cases res) auto
    obtain sr where sr: "NewClient (PodByName pods (brs_CoordinatorMember (cr_Status r))) = Some sr"
      using run l Inr i by (auto simp: checkRestoreOperationState_def bind_eq_Some_conv)
    obtain res2 st2 where p: "RestoreStatusByID e sr (brs_ID (cr_Status r)) st1 = (res2, st2)" by (meson surj_pair)
    obtain s where s: "res2 = Inr s" using run l Inr i sr p by (cases res2) (auto simp: checkRestoreOperationState_def)
    have "st' = bcall (BPatchRestore (r\<lparr>cr_Status := s\<lparr>brs_CoordinatorMember := brs_CoordinatorMember (cr_Status r)\<rparr>\<rparr>)) st2"
      using run l Inr i sr p s
      by (auto simp: checkRestoreOperationState_def UpdateRestoreStatus_result bind_eq_Some_conv split: option.split_asm)
    then show ?thesis
      using st1 s i RestoreStatusByID_result [OF i p] assms(2-4) by (auto simp: pass_ok_def intro!: poll [where c = c])
  qed
qed

lemma restore_pass_ok:
  assumes "restore_pass e pick r cc b st = Some (res, st')"
  shows "pass_ok r b st st'"
proof (cases "brs_CoordinatorMember (cr_Status r) = ''''")
  case True
  then have "st' = snd (after_required (fst (requiredRestore e pick r cc b st)) (snd (requiredRestore e pick r cc b st)))"
    using assms by (simp add: restore_pass_def split_beta)
  then show ?thesis using requiredRestore_ok [OF True] by simp
next
  case False
  obtain c where c: "brs_Condition (cr_Status r) = Some c"
    using assms False by (auto simp: restore_pass_def bind_eq_Some_conv)
  consider "IsRequired (brc_Type c)" | "\<not> IsRequired (brc_Type c)" "IsInProgress (brc_Type c)" | "st' = st"
    using assms False c by (auto simp: restore_pass_def split: if_split_asm)
  then show ?thesis
  proof cases
    case 1
    obtain err s where h: "handleRequiredRestore e r cc b st = Some (err, s)" and "st' = snd (after_post err s)"
      using assms False c 1 by (auto simp: restore_pass_def bind_eq_Some_conv dest!: arg_cong [where f = snd])
    then show ?thesis using handleRequiredRestore_ok [OF h False c 1] by simp
  next
    case 2
    obtain err s where h: "checkRestoreOperationState e r cc b st = Some (err, s)" and "st' = snd (after_poll err s)"
      using assms False c 2 by (auto simp: restore_pass_def bind_eq_Some_conv dest!: arg_cong [where f = snd])
    then show ?thesis using checkRestoreOperationState_ok [OF h False c 2(2)] by simp
  qed (simp add: pass_ok_def)
qed

section \<open>Properties of a pass\<close>

lemma pass_ok_same:
  "restore_writes (bs_trace st') = restore_writes (bs_trace st) \<Longrightarrow> restore_posts (bs_trace st') = restore_posts (bs_trace st) \<Longrightarrow>
    pass_ok r b st st'"
  by (simp add: pass_ok_def)

lemma pass_ok_shift:
  "restore_writes (bs_trace st1) = restore_writes (bs_trace st) \<Longrightarrow> restore_posts (bs_trace st1) = restore_posts (bs_trace st) \<Longrightarrow>
    pass_ok r b st1 st' \<Longrightarrow> pass_ok r b st st'"
  by (simp add: pass_ok_def)

text \<open>The state in which both lookups have been made.\<close>

definition looked_up :: "string \<Rightarrow> string \<Rightarrow> CassandraRestore \<Rightarrow> bstate \<Rightarrow> bstate" where
  "looked_up ns name r st = bcall (BGetBackup (cr_Namespace r) (rt_CassandraBackup (cr_Spec r)))
     (bcall (BGetCluster (cr_Namespace r) (rt_CassandraCluster (cr_Spec r))) (bcall (BGetRestore ns name) st))"

definition restore_inputs ::
  "benv \<Rightarrow> string \<Rightarrow> string \<Rightarrow> bstate \<Rightarrow> CassandraRestore \<Rightarrow> CassandraCluster \<Rightarrow> CassandraBackup \<Rightarrow> bool" where
  "restore_inputs e ns name st r cc b \<longleftrightarrow>
     be_getRestore e (bs_trace st) ns name = Inr r \<and>
     be_getCluster e (bs_trace st @ [BGetRestore ns name]) (cr_Namespace r) (rt_CassandraCluster (cr_Spec r)) = Inr cc \<and>
     be_getBackup e (bs_trace st @ [BGetRestore ns name, BGetCluster (cr_Namespace r) (rt_CassandraCluster (cr_Spec r))])
       (cr_Namespace r) (rt_CassandraBackup (cr_Spec r)) = Inr b"

lemma Reconcile_restore_run:
  "restore_inputs e ns name st r cc b \<Longrightarrow> Reconcile_restore e pick ns name st = restore_pass e pick r cc b (looked_up ns name r st)"
  by (simp add: restore_inputs_def Reconcile_restore_def LookupCassandraCluster_def LookupCassandraBackup_def looked_up_def Let_def)

lemma looked_up_same [simp]:
  "restore_writes (bs_trace (looked_up ns name r st)) = restore_writes (bs_trace st)"
  "restore_posts (bs_trace (looked_up ns name r st)) = restore_posts (bs_trace st)"
  by (simp_all add: looked_up_def)

lemma Reconcile_restore_stops:
  assumes "Reconcile_restore e pick ns name st = Some (res, st')" and "be_getRestore e (bs_trace st) ns name = Inr r"
    and "\<nexists>cc b. restore_inputs e ns name st r cc b"
  shows "restore_writes (bs_trace st') = restore_writes (bs_trace st) \<and> restore_posts (bs_trace st') = restore_posts (bs_trace st)"
  using assms
  by (auto simp: restore_inputs_def Reconcile_restore_def LookupCassandraCluster_def LookupCassandraBackup_def Let_def event_def
      split: sum.split_asm if_split_asm)

text \<open>
  C10 (restore_protocol): a pass of the restore controller writes the status at most once, by a step of the protocol that leaves the rest of the
  object alone, and posts at most one restore, the request of the restore and its backup, only when the stored restore has a coordinator and is
  required.
\<close>

theorem restore_protocol:
  assumes "Reconcile_restore e pick ns name st = Some (res, st')" and "be_getRestore e (bs_trace st) ns name = Inr r"
  shows "\<exists>b. pass_ok r b st st' \<and> (restore_posts (bs_trace st') \<noteq> restore_posts (bs_trace st) \<longrightarrow> (\<exists>cc. restore_inputs e ns name st r cc b))"
proof (cases "\<exists>cc b. restore_inputs e ns name st r cc b")
  case True
  then obtain cc b where i: "restore_inputs e ns name st r cc b" by blast
  have "pass_ok r b (looked_up ns name r st) st'"
    using assms(1) unfolding Reconcile_restore_run [OF i] by (rule restore_pass_ok)
  then have "pass_ok r b st st'" by (rule pass_ok_shift [rotated 2]) simp_all
  then show ?thesis using i by blast
next
  case False
  then show ?thesis using Reconcile_restore_stops [OF assms] pass_ok_same by blast
qed

text \<open>
  Once the stored restore has a coordinator and is completed, failed or canceled, a pass neither writes its status
  nor posts it again.
\<close>

lemma restore_finished_untouched:
  assumes "Reconcile_restore e pick ns name st = Some (res, st')" and "be_getRestore e (bs_trace st) ns name = Inr r"
    and "brs_CoordinatorMember (cr_Status r) \<noteq> ''''" and "brs_Condition (cr_Status r) = Some c"
    and "IsCompleted (brc_Type c) \<or> IsInError (brc_Type c)"
  shows "restore_writes (bs_trace st') = restore_writes (bs_trace st) \<and> restore_posts (bs_trace st') = restore_posts (bs_trace st)"
proof (cases "\<exists>cc b. restore_inputs e ns name st r cc b")
  case True
  then obtain cc b where i: "restore_inputs e ns name st r cc b" by blast
  have "\<not> IsRequired (brc_Type c)" "\<not> IsInProgress (brc_Type c)"
    using assms(5) by (auto simp: IsRequired_def IsInProgress_def IsCompleted_def IsInError_def condition_types)
  then have "st' = looked_up ns name r st"
    using assms(1,3,4) unfolding Reconcile_restore_run [OF i] by (simp add: restore_pass_def)
  then show ?thesis by simp
next
  case False
  then show ?thesis using Reconcile_restore_stops [OF assms(1,2)] by blast
qed

definition dc_pods :: "benv \<Rightarrow> CassandraRestore \<Rightarrow> CassandraCluster \<Rightarrow> CassandraBackup \<Rightarrow> bstate \<Rightarrow> error + pod list" where
  "dc_pods e r cc b st = be_listPods e (bs_trace st) (cr_Namespace r) (LabelsForCassandraDC cc (bk_Datacenter (cb_Spec b)))"

lemma handleRequiredRestore_None:
  "handleRequiredRestore e r cc b st = None \<longleftrightarrow>
    (\<exists>pods. dc_pods e r cc b st = Inr pods \<and> PodByName pods (brs_CoordinatorMember (cr_Status r)) = None)"
  by (auto simp: handleRequiredRestore_def dc_pods_def listPods_def UpdateRestoreStatus_result bind_eq_None_conv split_beta
      split: sum.split)

lemma restore_posted_once:
  assumes "restore_inputs e ns name st r cc b" and "brs_CoordinatorMember (cr_Status r) \<noteq> ''''"
    and "brs_Condition (cr_Status r) = Some c" and "IsRequired (brc_Type c)"
    and "dc_pods e r cc b (looked_up ns name r st) = Inr pods"
    and "PodByName pods (brs_CoordinatorMember (cr_Status r)) = Some p"
    and "\<And>tr h q. \<exists>resp. be_postRestore e tr h q = Inr resp" and "\<And>tr w. be_write e tr (BPatchRestore w) = Some err"
  shows "\<exists>st'. Reconcile_restore e pick ns name st = Some (RequeueWithError (OtherError err), st') \<and>
    restore_posts (bs_trace st') = restore_posts (bs_trace st) @ [(sidecar p, restore_request r b)]"
proof -
  let ?st = "bcall (BListPods (cr_Namespace r) (LabelsForCassandraDC cc (bk_Datacenter (cb_Spec b)))) (looked_up ns name r st)"
  obtain resp where "be_postRestore e (bs_trace ?st) (sidecar p) (restore_request r b) = Inr resp" using assms(7) by blast
  then show ?thesis
    using assms(2-6,8) unfolding Reconcile_restore_run [OF assms(1)]
    by (auto simp: restore_pass_def handleRequiredRestore_def dc_pods_def listPods_def PerformRestore_def UpdateRestoreStatus_result
        after_post_def Let_def)
qed

definition poll_answer ::
  "benv \<Rightarrow> CassandraRestore \<Rightarrow> CassandraCluster \<Rightarrow> CassandraBackup \<Rightarrow> bstate \<Rightarrow> pod \<Rightarrow> error + OperationResponse" where
  "poll_answer e r cc b st p = be_operation e
     (bs_trace st @ [BListPods (cr_Namespace r) (LabelsForCassandraDC cc (bk_Datacenter (cb_Spec b)))]) (sidecar p) (brs_ID (cr_Status r))"

lemma checkRestoreOperationState_None:
  "checkRestoreOperationState e r cc b st = None \<longleftrightarrow>
    (\<exists>pods. dc_pods e r cc b st = Inr pods \<and> brs_ID (cr_Status r) \<noteq> '''' \<and>
      (case PodByName pods (brs_CoordinatorMember (cr_Status r)) of
         None \<Rightarrow> True | Some p \<Rightarrow> \<exists>err. poll_answer e r cc b st p = Inl err))"
proof (cases "dc_pods e r cc b st")
  case (Inr pods)
  show ?thesis
  proof (cases "PodByName pods (brs_CoordinatorMember (cr_Status r))")
    case (Some p)
    then show ?thesis using Inr
      by (cases "poll_answer e r cc b st p")
        (simp_all add: checkRestoreOperationState_def dc_pods_def poll_answer_def listPods_def RestoreStatusByID_def
          operation_by_id_def UpdateRestoreStatus_result ComputeRestorationStatus_def Let_def split: option.split)
  qed (use Inr in \<open>simp add: checkRestoreOperationState_def dc_pods_def listPods_def Let_def\<close>)
qed (simp add: checkRestoreOperationState_def dc_pods_def listPods_def Let_def)

text \<open>
  C25 (restore_panics): when the objects of a restore with a coordinator are found, the pass panics exactly when the stored status has no condition, when the
  coordinator is not among the pods of a required restore, or, for a restore in progress, when the coordinator is gone or its sidecar answers
  with an error.
\<close>

theorem restore_panics:
  assumes "restore_inputs e ns name st r cc b" and "brs_CoordinatorMember (cr_Status r) \<noteq> ''''"
  shows "Reconcile_restore e pick ns name st = None \<longleftrightarrow>
    (case brs_Condition (cr_Status r) of
       None \<Rightarrow> True
     | Some c \<Rightarrow>
         (case dc_pods e r cc b (looked_up ns name r st) of
            Inl _ \<Rightarrow> False
          | Inr pods \<Rightarrow>
              (case PodByName pods (brs_CoordinatorMember (cr_Status r)) of
                 None \<Rightarrow> IsRequired (brc_Type c) \<or> IsInProgress (brc_Type c) \<and> brs_ID (cr_Status r) \<noteq> ''''
               | Some p \<Rightarrow> IsInProgress (brc_Type c) \<and> brs_ID (cr_Status r) \<noteq> '''' \<and>
                   (\<exists>err. poll_answer e r cc b (looked_up ns name r st) p = Inl err))))"
proof -
  have "\<not> (IsRequired t \<and> IsInProgress t)" for t by (auto simp: IsRequired_def IsInProgress_def condition_types)
  then show ?thesis
    using assms(2) unfolding Reconcile_restore_run [OF assms(1)]
    by (auto simp: restore_pass_def bind_eq_None_conv handleRequiredRestore_None checkRestoreOperationState_None split_beta
        split: option.split sum.split option.split_asm)
qed

section \<open>Examples\<close>

definition example_restore :: "string \<Rightarrow> CassandraRestore" where
  "example_restore phase =
     \<lparr>cr_Meta = named_meta ''ns'' ''undo'',
      cr_Spec = \<lparr>rt_CassandraCluster = ''demo'', rt_Datacenter = ''dc1'', rt_CassandraBackup = ''nightly'', rt_ConcurrentConnection = None,
        rt_CassandraDirectory = '''', rt_NoDeleteTruncates = False, rt_SchemaVersion = '''', rt_ExactSchemaVersion = False,
        rt_Entities = '''', rt_Rename = Map.empty, rt_Secret = ''''\<rparr>,
      cr_Status = zero_backrest\<lparr>brs_CoordinatorMember := ''demo-0'', brs_ID := ''op1'',
        brs_Condition := Some \<lparr>brc_Type = phase, brc_LastTransitionTime = ''now'', brc_FailureCause = []\<rparr>\<rparr>\<rparr>"

definition example_renv :: "string \<Rightarrow> benv" where
  "example_renv phase = (example_benv (example_backup ''''))\<lparr>be_getRestore := (\<lambda>_ _ _. Inr (example_restore phase)),
     be_postRestore := (\<lambda>_ _ _. Inr (example_response ''PENDING'')), be_operation := (\<lambda>_ _ _. Inl (Errorf ''sidecar unreachable''))\<rparr>"

lemmas restore_example = example_restore_def example_renv_def example_benv_def idle_def named_meta_def empty_meta_def bare_pod_def
  zero_backrest_def PodByName_def

lemma example_inputs:
  "restore_inputs (example_renv phase) ns name st (example_restore phase) (example_cluster 1 []) (example_backup '''')"
  "restore_inputs ((example_renv phase)\<lparr>be_write := w\<rparr>) ns name st (example_restore phase) (example_cluster 1 []) (example_backup '''')"
  by (simp_all add: restore_inputs_def example_renv_def example_benv_def)

lemma example_run:
  "\<exists>x. Reconcile_restore (example_renv ''REQUIRED'') (\<lambda>_. 0) ''ns'' ''undo'' idle = Some x \<and> length (restore_posts (bs_trace (snd x))) = 1"
  "\<exists>x. Reconcile_restore (example_renv ''COMPLETED'') (\<lambda>_. 0) ''ns'' ''undo'' idle = Some x"
  unfolding Reconcile_restore_run [OF example_inputs(1)]
  by (auto simp: restore_example restore_pass_def IsRequired_def IsInProgress_def condition_types handleRequiredRestore_def listPods_def
      PerformRestore_def UpdateRestoreStatus_result after_post_def looked_up_def event_def Let_def)

theorem restore_protocol_witness:
  "\<exists>st' b. pass_ok (example_restore ''REQUIRED'') b idle st' \<and> restore_posts (bs_trace st') \<noteq> []"
proof -
  obtain res st' where "Reconcile_restore (example_renv ''REQUIRED'') (\<lambda>_. 0) ''ns'' ''undo'' idle = Some (res, st')"
    and "length (restore_posts (bs_trace st')) = 1" using example_run(1) by auto
  with restore_protocol [OF this(1), of "example_restore ''REQUIRED''"] show ?thesis by (auto simp: example_renv_def)
qed

theorem restore_panics_witness:
  "Reconcile_restore (example_renv ''RUNNING'') (\<lambda>_. 0) ''ns'' ''undo'' idle = None"
proof -
  have "PodByName [bare_pod ''ns'' ''demo-0'', bare_pod ''ns'' ''demo-1''] ''demo-0'' = Some (bare_pod ''ns'' ''demo-0'')"
    by (simp add: restore_example)
  then show ?thesis
    using restore_panics [OF example_inputs(1) [where phase = "''RUNNING''" and ns = "''ns''" and name = "''undo''" and st = idle],
        where pick = "\<lambda>_. 0"]
    by (simp add: example_restore_def example_renv_def example_benv_def dc_pods_def poll_answer_def IsInProgress_def condition_types)
qed

end
