(* ===== verification/Restore_Runs.thy ===== *)
theory Restore_Runs
  imports Restore
begin

text \<open>
  Runs of the restore controller: a sequence of passes over one CassandraRestore.  With an API server that stores the status and
  a sidecar that finishes, the restore is posted once and ends; when the status can not be stored it is posted by every pass.
\<close>

fun restore_passes :: "benv \<Rightarrow> (nat \<Rightarrow> nat) \<Rightarrow> string \<Rightarrow> string \<Rightarrow> nat \<Rightarrow> bstate \<Rightarrow> bstate option" where
  "restore_passes e pick ns name 0 st = Some st"
| "restore_passes e pick ns name (Suc n) st = do { (_, st) \<leftarrow> Reconcile_restore e pick ns name st; restore_passes e pick ns name n st }"

text \<open>The passes with their results.\<close>

fun restore_run :: "benv \<Rightarrow> (nat \<Rightarrow> nat) \<Rightarrow> string \<Rightarrow> string \<Rightarrow> nat \<Rightarrow> bstate \<Rightarrow> (rresult list \<times> bstate) option" where
  "restore_run e pick ns name 0 st = Some ([], st)"
| "restore_run e pick ns name (Suc n) st =
     do { (res, st) \<leftarrow> Reconcile_restore e pick ns name st; (rest, st) \<leftarrow> restore_run e pick ns name n st; Some (res # rest, st) }"

lemma restore_run_passes: "map_option snd (restore_run e pick ns name n st) = restore_passes e pick ns name n st"
proof (induction n arbitrary: st)
  case (Suc n)
  show ?case
  proof (cases "Reconcile_restore e pick ns name st")
    case (Some x)
    then show ?thesis using Suc [of "snd x"] by (cases x; cases "restore_run e pick ns name n (snd x)") auto
  qed simp
qed simp

lemma restore_passes_add:
  "restore_passes e pick ns name (m + n) st = do { st \<leftarrow> restore_passes e pick ns name m st; restore_passes e pick ns name n st }"
proof (induction m arbitrary: st)
  case (Suc m)
  then show ?case by (cases "Reconcile_restore e pick ns name st") auto
qed simp

fun restore_polls :: "brequest list \<Rightarrow> nat" where
  "restore_polls [] = 0"
| "restore_polls (BOperation _ _ # qs) = Suc (restore_polls qs)"
| "restore_polls (_ # qs) = restore_polls qs"

lemma restore_polls_append [simp]: "restore_polls (xs @ ys) = restore_polls xs + restore_polls ys"
  by (induction xs rule: restore_polls.induct) simp_all

section \<open>A status that can not be stored\<close>

text \<open>The API server answers every read with the same objects.\<close>

definition reads :: "benv \<Rightarrow> string \<Rightarrow> string \<Rightarrow> CassandraRestore \<Rightarrow> CassandraCluster \<Rightarrow> CassandraBackup \<Rightarrow> pod list \<Rightarrow> bool" where
  "reads e ns name r cc b pods \<longleftrightarrow> (\<forall>tr.
     be_getCluster e tr (cr_Namespace r) (rt_CassandraCluster (cr_Spec r)) = Inr cc \<and>
     be_getBackup e tr (cr_Namespace r) (rt_CassandraBackup (cr_Spec r)) = Inr b \<and>
     be_listPods e tr (cr_Namespace r) (LabelsForCassandraDC cc (bk_Datacenter (cb_Spec b))) = Inr pods)"

lemma reads_inputs:
  "reads e ns name r cc b pods \<Longrightarrow> be_getRestore e (bs_trace st) ns name = Inr r \<Longrightarrow> restore_inputs e ns name st r cc b"
  by (simp add: reads_def restore_inputs_def)

text \<open>
  C34 (restore_posted_again): when the sidecar accepts a restore and the API server refuses to store its status, the restore stays required and
  every pass posts it once more and fails with the error of the API server: after n passes all n have failed with it, and the restore has
  been posted n times.
\<close>

theorem restore_posted_again:
  assumes "reads e ns name r cc b pods" and "\<forall>tr. be_getRestore e tr ns name = Inr r"
    and "brs_CoordinatorMember (cr_Status r) \<noteq> ''''" and "brs_Condition (cr_Status r) = Some c" and "IsRequired (brc_Type c)"
    and "PodByName pods (brs_CoordinatorMember (cr_Status r)) = Some p"
    and "\<forall>tr h q. \<exists>resp. be_postRestore e tr h q = Inr resp" and "\<forall>tr w. be_write e tr (BPatchRestore w) = Some err"
  shows "\<exists>st'. restore_run e pick ns name n st = Some (replicate n (RequeueWithError (OtherError err)), st') \<and>
    restore_posts (bs_trace st') = restore_posts (bs_trace st) @ replicate n (sidecar p, restore_request r b)"
proof (induction n arbitrary: st)
  case (Suc n)
  have "\<exists>st1. Reconcile_restore e pick ns name st = Some (RequeueWithError (OtherError err), st1) \<and>
      restore_posts (bs_trace st1) = restore_posts (bs_trace st) @ [(sidecar p, restore_request r b)]"
    by (rule restore_posted_once [OF reads_inputs [OF assms(1)] assms(3-5) _ assms(6)])
      (use assms in \<open>auto simp: reads_def dc_pods_def\<close>)
  then obtain st1 where st1: "Reconcile_restore e pick ns name st = Some (RequeueWithError (OtherError err), st1)"
    "restore_posts (bs_trace st1) = restore_posts (bs_trace st) @ [(sidecar p, restore_request r b)]" by blast
  with Suc.IH [of st1] show ?case by auto
qed simp

section \<open>A restore that ends\<close>

definition current :: "CassandraRestore \<Rightarrow> bstate \<Rightarrow> CassandraRestore" where
  "current r st = last (r # restore_writes (bs_trace st))"

text \<open>
  The API server stores every status and gives it back.  The sidecar accepts the restore and answers the k-th poll with answer k: in
  progress until the poll m, which sees the end.
\<close>

definition restore_world ::
  "benv \<Rightarrow> string \<Rightarrow> string \<Rightarrow> CassandraRestore \<Rightarrow> CassandraCluster \<Rightarrow> CassandraBackup \<Rightarrow> pod list \<Rightarrow>
    (nat \<Rightarrow> OperationResponse) \<Rightarrow> nat \<Rightarrow> bool" where
  "restore_world e ns name r cc b pods answer m \<longleftrightarrow>
     reads e ns name r cc b pods \<and> pods \<noteq> [] \<and> (\<forall>p \<in> set pods. pod_Name p \<noteq> '''') \<and>
     (\<forall>tr. be_getRestore e tr ns name = Inr (last (r # restore_writes tr))) \<and> (\<forall>tr w. be_write e tr (BPatchRestore w) = None) \<and>
     (\<forall>tr h q. \<exists>resp. be_postRestore e tr h q = Inr resp \<and> IsInProgress (or_State resp) \<and> or_Id resp \<noteq> '''') \<and>
     (\<forall>tr h i. be_operation e tr h i = Inr (answer (restore_polls tr))) \<and>
     (\<forall>k < m. IsInProgress (or_State (answer k)) \<and> or_Id (answer k) \<noteq> '''') \<and>
     (IsCompleted (or_State (answer m)) \<or> IsInError (or_State (answer m)))"

text \<open>The stored restore is the original one but for its status, which has a coordinator among the pods and the given state.\<close>

definition has_state :: "CassandraRestore \<Rightarrow> pod list \<Rightarrow> string \<Rightarrow> CassandraRestore \<Rightarrow> bool" where
  "has_state r pods t w \<longleftrightarrow> cr_Spec w = cr_Spec r \<and> cr_Meta w = cr_Meta r \<and>
     brs_CoordinatorMember (cr_Status w) \<in> pod_Name ` set pods \<and> map_option brc_Type (brs_Condition (cr_Status w)) = Some t"

lemma PodByName_listed: "n \<in> pod_Name ` set pods \<Longrightarrow> \<exists>p. PodByName pods n = Some p"
  unfolding PodByName_def by (cases "find (\<lambda>p. pod_Name p = n) pods") (auto simp: find_None_iff)

lemma current_inputs:
  assumes "restore_world e ns name r cc b pods answer m" and "cr_Spec (current r st) = cr_Spec r" and "cr_Meta (current r st) = cr_Meta r"
  shows "restore_inputs e ns name st (current r st) cc b" and "dc_pods e (current r st) cc b s = Inr pods"
  using assms unfolding restore_world_def reads_def restore_inputs_def dc_pods_def current_def by simp_all

lemma listPods_world:
  assumes "restore_world e ns name r cc b pods answer m" and "cr_Meta w = cr_Meta r"
  shows "listPods e (cr_Namespace w) (LabelsForCassandraDC cc (bk_Datacenter (cb_Spec b))) st =
    (Inr pods, bcall (BListPods (cr_Namespace w) (LabelsForCassandraDC cc (bk_Datacenter (cb_Spec b)))) st)"
  using assms by (simp add: listPods_def restore_world_def reads_def)

lemma current_snoc: "restore_writes (bs_trace st') = restore_writes (bs_trace st) @ [w] \<Longrightarrow> current r st' = w"
  by (simp add: current_def)

lemma looked_up_polls [simp]: "restore_polls (bs_trace (looked_up ns name r st)) = restore_polls (bs_trace st)"
  by (simp add: looked_up_def)

lemma pass_chooses:
  assumes w: "restore_world e ns name r cc b pods answer m" and "brs_CoordinatorMember (cr_Status r) = ''''"
    and "restore_writes (bs_trace st) = []"
  shows "\<exists>res st'. Reconcile_restore e pick ns name st = Some (res, st') \<and> has_state r pods RestoreRequired (current r st') \<and>
    restore_posts (bs_trace st') = restore_posts (bs_trace st) \<and> restore_polls (bs_trace st') = restore_polls (bs_trace st)"
proof -
  have cur: "current r st = r" using assms(3) by (simp add: current_def)
  have ne: "pods \<noteq> []" using w by (simp add: restore_world_def)
  have "pods ! (pick (length pods) mod length pods) \<in> set pods" using ne by simp
  moreover have ok: "be_write e tr (BPatchRestore x) = None" for tr x using w by (simp add: restore_world_def)
  ultimately show ?thesis
    using assms(2) ne unfolding Reconcile_restore_run [OF current_inputs(1) [OF w, of st, unfolded cur, OF refl refl]]
    by (simp add: restore_pass_def requiredRestore_def listPods_world [OF w refl] UpdateRestoreStatus_result after_required_def event_def Let_def
        has_state_def current_def)
qed

text \<open>A post that is accepted stores the status of the answer.\<close>

lemma restore_pass_post:
  assumes "listPods e (cr_Namespace w) (LabelsForCassandraDC cc (bk_Datacenter (cb_Spec b))) st = (Inr pods, st1)"
    and "PodByName pods (brs_CoordinatorMember (cr_Status w)) = Some p" and "brs_CoordinatorMember (cr_Status w) \<noteq> ''''"
    and "brs_Condition (cr_Status w) = Some cond" and "IsRequired (brc_Type cond)"
    and "be_postRestore e (bs_trace st1) (sidecar p) (restore_request w b) = Inr a"
    and "\<And>tr x. be_write e tr (BPatchRestore x) = None"
  shows "\<exists>nw. restore_pass e pick w cc b st = Some (Reconciled, event ''RestoreInitiated''
    (bcall (BPatchRestore (w\<lparr>cr_Status := (ComputeRestorationStatus nw a)\<lparr>brs_CoordinatorMember := brs_CoordinatorMember (cr_Status w)\<rparr>\<rparr>))
      (bcall (BPostRestore (sidecar p) (restore_request w b)) st1)))"
  using assms by (intro exI [of _ "be_now e (bs_trace (bcall (BPostRestore (sidecar p) (restore_request w b)) st1))"])
    (simp add: restore_pass_def handleRequiredRestore_def PerformRestore_def UpdateRestoreStatus_result after_post_def Let_def)

lemma pass_posts:
  assumes w: "restore_world e ns name r cc b pods answer m" and s: "has_state r pods RestoreRequired (current r st)"
  shows "\<exists>res st' t. Reconcile_restore e pick ns name st = Some (res, st') \<and> has_state r pods t (current r st') \<and> IsInProgress t \<and>
    brs_ID (cr_Status (current r st')) \<noteq> '''' \<and>
    length (restore_posts (bs_trace st')) = Suc (length (restore_posts (bs_trace st))) \<and>
    restore_polls (bs_trace st') = restore_polls (bs_trace st)"
proof -
  let ?w = "current r st"
  have same: "cr_Spec ?w = cr_Spec r" "cr_Meta ?w = cr_Meta r" using s by (simp_all add: has_state_def)
  obtain p where p: "PodByName pods (brs_CoordinatorMember (cr_Status ?w)) = Some p"
    using s PodByName_listed by (auto simp: has_state_def)
  have c: "brs_CoordinatorMember (cr_Status ?w) \<noteq> ''''" using s w by (auto simp: has_state_def restore_world_def)
  obtain cond where cond: "brs_Condition (cr_Status ?w) = Some cond" "IsRequired (brc_Type cond)"
    using s by (auto simp: has_state_def IsRequired_def)
  define st0 where "st0 = looked_up ns name ?w st"
  define st1 where "st1 = bcall (BListPods (cr_Namespace ?w) (LabelsForCassandraDC cc (bk_Datacenter (cb_Spec b)))) st0"
  obtain a where a: "be_postRestore e (bs_trace st1) (sidecar p) (restore_request ?w b) = Inr a" "IsInProgress (or_State a)"
    "or_Id a \<noteq> ''''" using w unfolding restore_world_def by blast
  have ok: "be_write e tr (BPatchRestore x) = None" for tr x using w by (simp add: restore_world_def)
  obtain nw where run: "restore_pass e pick ?w cc b st0 = Some (Reconciled, event ''RestoreInitiated''
    (bcall (BPatchRestore (?w\<lparr>cr_Status := (ComputeRestorationStatus nw a)
        \<lparr>brs_CoordinatorMember := brs_CoordinatorMember (cr_Status ?w)\<rparr>\<rparr>))
      (bcall (BPostRestore (sidecar p) (restore_request ?w b)) st1)))" (is "_ = Some (_, event _ (bcall (BPatchRestore ?w') ?st2))")
    using restore_pass_post [OF listPods_world [OF w same(2), of st0, folded st1_def] p c cond a(1) ok] by blast
  let ?final = "event ''RestoreInitiated'' (bcall (BPatchRestore ?w') ?st2)"
  have "current r ?final = ?w'" by (rule current_snoc [where st = st1]) (simp add: event_def)
  moreover have "has_state r pods (or_State a) ?w'" using s by (simp add: has_state_def ComputeRestorationStatus_def)
  moreover have "Reconcile_restore e pick ns name st = Some (Reconciled, ?final)"
    unfolding Reconcile_restore_run [OF current_inputs(1) [OF w same]] using run by (simp add: st0_def)
  moreover have "length (restore_posts (bs_trace ?final)) = Suc (length (restore_posts (bs_trace st)))"
    "restore_polls (bs_trace ?final) = restore_polls (bs_trace st)" by (simp_all add: st1_def st0_def event_def)
  moreover have "brs_ID (cr_Status ?w') \<noteq> ''''" using a(3) by (simp add: ComputeRestorationStatus_def)
  ultimately show ?thesis using a(2) by metis
qed

lemma after_poll_same [simp]:
  "restore_writes (bs_trace (snd (after_poll err st))) = restore_writes (bs_trace st)"
  "restore_posts (bs_trace (snd (after_poll err st))) = restore_posts (bs_trace st)"
  "restore_polls (bs_trace (snd (after_poll err st))) = restore_polls (bs_trace st)"
  by (simp_all add: after_poll_def event_def split: option.split rerror.split)

text \<open>A poll that is answered stores the status of the answer.\<close>

lemma restore_pass_poll:
  assumes "listPods e (cr_Namespace w) (LabelsForCassandraDC cc (bk_Datacenter (cb_Spec b))) st = (Inr pods, st1)"
    and "PodByName pods (brs_CoordinatorMember (cr_Status w)) = Some p" and "brs_CoordinatorMember (cr_Status w) \<noteq> ''''"
    and "brs_Condition (cr_Status w) = Some cond" and "\<not> IsRequired (brc_Type cond)" and "IsInProgress (brc_Type cond)"
    and "brs_ID (cr_Status w) \<noteq> ''''" and "be_operation e (bs_trace st1) (sidecar p) (brs_ID (cr_Status w)) = Inr a"
    and "\<And>tr x. be_write e tr (BPatchRestore x) = None"
  shows "\<exists>err nw. restore_pass e pick w cc b st = Some (after_poll err
    (bcall (BPatchRestore (w\<lparr>cr_Status := (ComputeRestorationStatus nw a)\<lparr>brs_CoordinatorMember := brs_CoordinatorMember (cr_Status w)\<rparr>\<rparr>))
      (bcall (BOperation (sidecar p) (brs_ID (cr_Status w))) st1)))"
proof -
  define w' where "w' nw = w\<lparr>cr_Status := (ComputeRestorationStatus nw a)\<lparr>brs_CoordinatorMember := brs_CoordinatorMember (cr_Status w)\<rparr>\<rparr>" for nw
  have "\<exists>c. brs_Condition (cr_Status (w' nw)) = Some c" for nw by (simp add: w'_def ComputeRestorationStatus_def)
  then have "\<exists>err nw. checkRestoreOperationState e w cc b st =
      Some (err, bcall (BPatchRestore (w' nw)) (bcall (BOperation (sidecar p) (brs_ID (cr_Status w))) st1))"
    using assms by (auto simp: checkRestoreOperationState_def RestoreStatusByID_def operation_by_id_def UpdateRestoreStatus_result Let_def
        ComputeRestorationStatus_def w'_def)
  then obtain err nw where "checkRestoreOperationState e w cc b st =
      Some (err, bcall (BPatchRestore (w' nw)) (bcall (BOperation (sidecar p) (brs_ID (cr_Status w))) st1))" by blast
  then show ?thesis using assms(3-6) unfolding w'_def [symmetric] by (intro exI [of _ err] exI [of _ nw]) (simp add: restore_pass_def)
qed

lemma pass_polls:
  assumes w: "restore_world e ns name r cc b pods answer m" and s: "has_state r pods t (current r st)" "IsInProgress t"
    and i: "brs_ID (cr_Status (current r st)) \<noteq> ''''"
  shows "\<exists>res st'. Reconcile_restore e pick ns name st = Some (res, st') \<and>
    has_state r pods (or_State (answer (restore_polls (bs_trace st)))) (current r st') \<and>
    brs_ID (cr_Status (current r st')) = or_Id (answer (restore_polls (bs_trace st))) \<and>
    restore_posts (bs_trace st') = restore_posts (bs_trace st) \<and> restore_polls (bs_trace st') = Suc (restore_polls (bs_trace st))"
proof -
  let ?w = "current r st"
  have same: "cr_Spec ?w = cr_Spec r" "cr_Meta ?w = cr_Meta r" using s by (simp_all add: has_state_def)
  obtain p where p: "PodByName pods (brs_CoordinatorMember (cr_Status ?w)) = Some p"
    using s PodByName_listed by (auto simp: has_state_def)
  have c: "brs_CoordinatorMember (cr_Status ?w) \<noteq> ''''" using s w by (auto simp: has_state_def restore_world_def)
  obtain cond where cond: "brs_Condition (cr_Status ?w) = Some cond" "brc_Type cond = t" using s by (auto simp: has_state_def)
  have t: "\<not> IsRequired t" using s(2) by (auto simp: IsRequired_def IsInProgress_def condition_types)
  define st0 where "st0 = looked_up ns name ?w st"
  define st1 where "st1 = bcall (BListPods (cr_Namespace ?w) (LabelsForCassandraDC cc (bk_Datacenter (cb_Spec b)))) st0"
  have polls: "restore_polls (bs_trace st1) = restore_polls (bs_trace st)" by (simp add: st1_def st0_def)
  have a: "be_operation e (bs_trace st1) (sidecar p) (brs_ID (cr_Status ?w)) = Inr (answer (restore_polls (bs_trace st)))"
    using w polls by (simp add: restore_world_def)
  have ok: "be_write e tr (BPatchRestore x) = None" for tr x using w by (simp add: restore_world_def)
  obtain err nw where run: "restore_pass e pick ?w cc b st0 = Some (after_poll err
    (bcall (BPatchRestore (?w\<lparr>cr_Status := (ComputeRestorationStatus nw (answer (restore_polls (bs_trace st))))
        \<lparr>brs_CoordinatorMember := brs_CoordinatorMember (cr_Status ?w)\<rparr>\<rparr>))
      (bcall (BOperation (sidecar p) (brs_ID (cr_Status ?w))) st1)))" (is "_ = Some (after_poll err (bcall (BPatchRestore ?w') ?st2))")
    using restore_pass_poll [OF listPods_world [OF w same(2), of st0, folded st1_def] p c cond(1) _ _ i a ok] cond(2) s(2) t by blast
  have "current r (snd (after_poll err (bcall (BPatchRestore ?w') ?st2))) = ?w'"
    by (rule current_snoc [where st = st1]) simp
  moreover have "has_state r pods (or_State (answer (restore_polls (bs_trace st)))) ?w'"
    using s(1) by (simp add: has_state_def ComputeRestorationStatus_def)
  moreover have "Reconcile_restore e pick ns name st = Some (after_poll err (bcall (BPatchRestore ?w') ?st2))"
    unfolding Reconcile_restore_run [OF current_inputs(1) [OF w same]] using run by (simp add: st0_def)
  ultimately show ?thesis
    by (cases "after_poll err (bcall (BPatchRestore ?w') ?st2)")
      (use after_poll_same [of err "bcall (BPatchRestore ?w') ?st2"] polls in \<open>auto simp: ComputeRestorationStatus_def st1_def st0_def\<close>)
qed

lemma passes_poll:
  assumes w: "restore_world e ns name r cc b pods answer m" and "has_state r pods t (current r st)" and "IsInProgress t"
    and "brs_ID (cr_Status (current r st)) \<noteq> ''''" and "restore_polls (bs_trace st) + n = m"
  shows "\<exists>st'. restore_passes e pick ns name (Suc n) st = Some st' \<and> has_state r pods (or_State (answer m)) (current r st') \<and>
    restore_posts (bs_trace st') = restore_posts (bs_trace st)"
  using assms(2-5)
proof (induction n arbitrary: st t)
  case 0
  then show ?case using pass_polls [OF w 0(1-3), of pick] by auto
next
  case (Suc n)
  let ?k = "restore_polls (bs_trace st)"
  obtain res st1 where st1: "Reconcile_restore e pick ns name st = Some (res, st1)" "has_state r pods (or_State (answer ?k)) (current r st1)"
    "brs_ID (cr_Status (current r st1)) = or_Id (answer ?k)" "restore_posts (bs_trace st1) = restore_posts (bs_trace st)"
    "restore_polls (bs_trace st1) = Suc ?k" using pass_polls [OF w Suc.prems(1-3), of pick] by blast
  have k: "IsInProgress (or_State (answer ?k))" "or_Id (answer ?k) \<noteq> ''''"
    using w Suc.prems(4) by (auto simp: restore_world_def)
  have "restore_polls (bs_trace st1) + n = m" using Suc.prems(4) st1(5) by simp
  then obtain st' where "restore_passes e pick ns name (Suc n) st1 = Some st'" "has_state r pods (or_State (answer m)) (current r st')"
    "restore_posts (bs_trace st') = restore_posts (bs_trace st1)"
    using Suc.IH [OF st1(2) k(1)] st1(3) k(2) by auto
  moreover have "restore_passes e pick ns name (Suc (Suc n)) st = restore_passes e pick ns name (Suc n) st1" using st1(1) by simp
  ultimately show ?case using st1(4) by metis
qed

lemma pass_finished:
  assumes w: "restore_world e ns name r cc b pods answer m" and s: "has_state r pods (or_State (answer m)) (current r st)"
  shows "\<exists>res st'. Reconcile_restore e pick ns name st = Some (res, st') \<and> current r st' = current r st \<and>
    restore_posts (bs_trace st') = restore_posts (bs_trace st)"
proof -
  let ?w = "current r st"
  have same: "cr_Spec ?w = cr_Spec r" "cr_Meta ?w = cr_Meta r" using s by (simp_all add: has_state_def)
  have c: "brs_CoordinatorMember (cr_Status ?w) \<noteq> ''''" using s w by (auto simp: has_state_def restore_world_def)
  obtain cond where cond: "brs_Condition (cr_Status ?w) = Some cond" "brc_Type cond = or_State (answer m)" using s by (auto simp: has_state_def)
  have "\<not> IsRequired (or_State (answer m))" "\<not> IsInProgress (or_State (answer m))"
    using w by (auto simp: restore_world_def IsRequired_def IsInProgress_def IsCompleted_def IsInError_def condition_types)
  then have "Reconcile_restore e pick ns name st = Some (Reconciled, looked_up ns name ?w st)"
    using c cond unfolding Reconcile_restore_run [OF current_inputs(1) [OF w same]] by (simp add: restore_pass_def)
  then show ?thesis by (simp add: current_def)
qed

lemma passes_finished:
  assumes w: "restore_world e ns name r cc b pods answer m" and "has_state r pods (or_State (answer m)) (current r st)"
  shows "\<exists>st'. restore_passes e pick ns name n st = Some st' \<and> current r st' = current r st \<and>
    restore_posts (bs_trace st') = restore_posts (bs_trace st)"
  using assms(2)
proof (induction n arbitrary: st)
  case (Suc n)
  obtain res st1 where "Reconcile_restore e pick ns name st = Some (res, st1)" "current r st1 = current r st"
    "restore_posts (bs_trace st1) = restore_posts (bs_trace st)" using pass_finished [OF w Suc.prems, of pick] by blast
  then show ?case using Suc.IH [of st1] Suc.prems by auto
qed simp

text \<open>
  C11 (restore_completes): when the API server stores what it is given and the sidecar reports the end of the restore at its poll m, then after m + 3 passes, and
  after any number of further ones, the stored restore has the final state that the sidecar reported, completed or in error, with a pod of the datacenter
  as coordinator, and it was posted exactly once.
\<close>

theorem restore_completes:
  assumes w: "restore_world e ns name r cc b pods answer m" and "brs_CoordinatorMember (cr_Status r) = ''''"
    and "restore_writes (bs_trace st) = []" and "restore_posts (bs_trace st) = []" and "restore_polls (bs_trace st) = 0"
  shows "\<exists>st'. restore_passes e pick ns name (m + 3 + n) st = Some st' \<and> has_state r pods (or_State (answer m)) (current r st') \<and>
    length (restore_posts (bs_trace st')) = 1"
proof -
  obtain r1 st1 where st1: "Reconcile_restore e pick ns name st = Some (r1, st1)" "has_state r pods RestoreRequired (current r st1)"
    "restore_posts (bs_trace st1) = []" "restore_polls (bs_trace st1) = 0"
    using pass_chooses [OF w assms(2,3), of pick] assms(4,5) by auto
  obtain r2 st2 t where st2: "Reconcile_restore e pick ns name st1 = Some (r2, st2)" "has_state r pods t (current r st2)" "IsInProgress t"
    "brs_ID (cr_Status (current r st2)) \<noteq> ''''" "length (restore_posts (bs_trace st2)) = 1" "restore_polls (bs_trace st2) = 0"
    using pass_posts [OF w st1(2), of pick] st1(3,4) by auto
  obtain st3 where st3: "restore_passes e pick ns name (Suc m) st2 = Some st3" "has_state r pods (or_State (answer m)) (current r st3)"
    "restore_posts (bs_trace st3) = restore_posts (bs_trace st2)"
    using passes_poll [OF w st2(2-4), of m pick] st2(6) by auto
  obtain st4 where st4: "restore_passes e pick ns name n st3 = Some st4" "current r st4 = current r st3"
    "restore_posts (bs_trace st4) = restore_posts (bs_trace st3)" using passes_finished [OF w st3(2), of pick n] by blast
  have "restore_passes e pick ns name (Suc (Suc (Suc m + n))) st = Some st4"
    using st1(1) st2(1) st3(1) st4(1) by (simp only: restore_passes.simps restore_passes_add bind.bind_lunit split_conv)
  moreover have "Suc (Suc (Suc m + n)) = m + 3 + n" by simp
  ultimately have "restore_passes e pick ns name (m + 3 + n) st = Some st4" by metis
  then show ?thesis using st2(5) st3(2,3) st4(2,3) by simp
qed

text \<open>
  After the first pass the restore is only carried on by the event of the stored status.  The event of an object that is found at
  the start of the operator is dropped in this state: a restart between the first two passes leaves the restore waiting for an update.
\<close>

lemma restart_strands_restore:
  assumes "has_state r pods RestoreRequired w" and "\<forall>p \<in> set pods. pod_Name p \<noteq> ''''"
  shows "\<not> restore_CreateFunc w \<and> restore_UpdateFunc w"
  using assms by (auto simp: has_state_def restore_CreateFunc_def GetRestoreCondition_def restore_UpdateFunc_def IsCompleted_def IsInError_def
      condition_types Suc_le_eq)

section \<open>Examples\<close>

definition new_restore :: CassandraRestore where
  "new_restore = (example_restore ''REQUIRED'')\<lparr>cr_Status := zero_backrest\<rparr>"

definition example_answer :: "nat \<Rightarrow> OperationResponse" where
  "example_answer k = example_response (if k < 2 then ''RUNNING'' else ''COMPLETED'')"

definition storing_env :: benv where
  "storing_env = (example_renv ''REQUIRED'')\<lparr>be_getRestore := (\<lambda>tr _ _. Inr (last (new_restore # restore_writes tr))),
     be_operation := (\<lambda>tr _ _. Inr (example_answer (restore_polls tr)))\<rparr>"

abbreviation two_pods :: "pod list" where
  "two_pods \<equiv> [bare_pod ''ns'' ''demo-0'', bare_pod ''ns'' ''demo-1'']"

lemma storing_world:
  "restore_world storing_env ''ns'' ''undo'' new_restore (example_cluster 1 []) (example_backup '''') two_pods example_answer 2"
  by (simp add: restore_world_def reads_def storing_env_def example_renv_def example_benv_def example_answer_def example_response_def
      bare_pod_def named_meta_def IsInProgress_def IsCompleted_def condition_types)

theorem restore_completes_witness:
  "\<exists>st'. restore_passes storing_env (\<lambda>_. 1) ''ns'' ''undo'' 5 idle = Some st' \<and>
     has_state new_restore two_pods ''COMPLETED'' (current new_restore st') \<and> length (restore_posts (bs_trace st')) = 1"
  using restore_completes [OF storing_world, where st = idle and n = 0 and pick = "\<lambda>_. 1"]
  by (simp add: idle_def new_restore_def zero_backrest_def example_answer_def example_response_def)

theorem restore_posted_again_witness:
  "\<exists>st'. restore_run ((example_renv ''REQUIRED'')\<lparr>be_write := (\<lambda>_ _. Some (Errorf ''conflict''))\<rparr>) (\<lambda>_. 0) ''ns'' ''undo'' 3 idle =
       Some (replicate 3 (RequeueWithError (OtherError (Errorf ''conflict''))), st') \<and>
     length (restore_posts (bs_trace st')) = 3"
proof -
  let ?e = "(example_renv ''REQUIRED'')\<lparr>be_write := (\<lambda>_ _. Some (Errorf ''conflict''))\<rparr>" and ?r = "example_restore ''REQUIRED''"
  have "reads ?e ''ns'' ''undo'' ?r (example_cluster 1 []) (example_backup '''') two_pods"
    by (simp add: reads_def example_renv_def example_benv_def)
  moreover have "PodByName two_pods ''demo-0'' = Some (bare_pod ''ns'' ''demo-0'')" by (simp add: restore_example)
  ultimately show ?thesis
    using restore_posted_again [of ?e "''ns''" "''undo''" ?r "example_cluster 1 []" "example_backup ''''" two_pods _ "bare_pod ''ns'' ''demo-0''"
        "Errorf ''conflict''" "\<lambda>_. 0" 3 idle]
    by (fastforce simp: example_restore_def example_renv_def IsRequired_def RestoreRequired_def idle_def)
qed

end
