(* ===== verification/Multi_Casskop.thy ===== *)
theory Multi_Casskop
  imports Cluster_Topology
begin

text \<open>
  The controller of a MultiCasskop, src/multi-casskop: one CassandraCluster per Kubernetes cluster, computed from a base and an
  override.  Merging two clusters and comparing specifications are done by libraries and are fields of the environment, as are the
  answers of the API servers, which depend on the requests made so far.  None is a panic of the pass.
\<close>

section \<open>Types\<close>

record MultiCasskopSpec =
  ms_DeleteCassandraCluster :: "bool option"
  ms_Base :: CassandraCluster
  ms_Override :: "string \<rightharpoonup> CassandraCluster"

record MultiCasskop =
  mc_Meta :: object_meta
  mc_Spec :: MultiCasskopSpec

text \<open>A client is known by the name of its Kubernetes cluster.\<close>

record Clients =
  cl_Local :: string
  cl_Remotes :: "string list"

definition FlatClients :: "Clients \<Rightarrow> string list" where
  "FlatClients clients = cl_Local clients # cl_Remotes clients"

datatype mrequest =
    MGetCmc string string
  | MUpdateCmc MultiCasskop
  | MGet string string string
  | MCreate string CassandraCluster
  | MUpdate string CassandraCluster
  | MDelete string CassandraCluster

record menv =
  me_getCmc :: "mrequest list \<Rightarrow> string \<Rightarrow> string \<Rightarrow> error + MultiCasskop"
  me_get :: "mrequest list \<Rightarrow> string \<Rightarrow> string \<Rightarrow> string \<Rightarrow> error + CassandraCluster"
  me_write :: "mrequest list \<Rightarrow> mrequest \<Rightarrow> error option"
  me_merge :: "CassandraCluster \<Rightarrow> CassandraCluster \<Rightarrow> CassandraCluster"
  me_specEqual :: "CassandraClusterSpec \<Rightarrow> CassandraClusterSpec \<Rightarrow> bool"
  me_seedsEqual :: "string slice \<Rightarrow> string slice \<Rightarrow> bool"

datatype mresult = Forget | Requeue | Requeue_seconds int

definition mwrite :: "menv \<Rightarrow> mrequest \<Rightarrow> mrequest list \<Rightarrow> error option \<times> mrequest list" where
  "mwrite e q tr = (me_write e tr q, tr @ [q])"

section \<open>Clusters of a MultiCasskop\<close>

definition preventClusterDeletion_multi :: "bool \<Rightarrow> MultiCasskop \<Rightarrow> MultiCasskop" where
  "preventClusterDeletion_multi v cmc =
     cmc\<lparr>mc_Meta := (mc_Meta cmc)\<lparr>meta_Finalizers := (if v then [''kubernetes.io/multi-casskop''] else [])\<rparr>\<rparr>"

definition updateDeletetrategy :: "MultiCasskop \<Rightarrow> (bool \<times> MultiCasskop) option" where
  "updateDeletetrategy cmc = do {
     delete \<leftarrow> ms_DeleteCassandraCluster (mc_Spec cmc);
     Some (if delete \<and> length (meta_Finalizers (mc_Meta cmc)) = 0 then (True, preventClusterDeletion_multi True cmc) else (False, cmc)) }"

text \<open>The keys of a map are unique, so the loop over the overrides is a lookup.\<close>

definition computeCassandraClusterForContext :: "menv \<Rightarrow> MultiCasskop \<Rightarrow> string \<Rightarrow> CassandraCluster option" where
  "computeCassandraClusterForContext e cmc client =
     map_option (\<lambda>override. CheckDefaults (me_merge e (ms_Base (mc_Spec cmc)) override)) (ms_Override (mc_Spec cmc) client)"

definition ReadyCassandraCluster :: "CassandraCluster \<Rightarrow> bool" where
  "ReadyCassandraCluster cc =
     (\<not> (cs_Phase (cc_Status cc) \<noteq> state_Name ClusterPhaseRunning \<or> cs_LastClusterActionStatus (cc_Status cc) \<noteq> StatusDone))"

definition UnsetRollingRestart :: "CassandraCluster \<Rightarrow> CassandraCluster" where
  "UnsetRollingRestart cc = cc\<lparr>cc_Spec := (cc_Spec cc)\<lparr>spec_Topology := (spec_Topology (cc_Spec cc))\<lparr>top_DC :=
     map (\<lambda>d. d\<lparr>dc_Rack := map (\<lambda>r. r\<lparr>rack_RollingRestart := False\<rparr>) (dc_Rack d)\<rparr>) (top_DC (spec_Topology (cc_Spec cc)))\<rparr>\<rparr>\<rparr>"

definition CreateCassandraCluster :: "menv \<Rightarrow> string \<Rightarrow> CassandraCluster \<Rightarrow> mrequest list \<Rightarrow> error option \<times> mrequest list" where
  "CreateCassandraCluster e client cc tr =
     (let (err, tr) = mwrite e (MCreate client cc) tr in (if err = Some AlreadyExists then None else err, tr))"

definition UpdateCassandraCluster :: "menv \<Rightarrow> string \<Rightarrow> CassandraCluster \<Rightarrow> mrequest list \<Rightarrow> error option \<times> mrequest list" where
  "UpdateCassandraCluster e client cc tr =
     (let (err, tr) = mwrite e (MUpdate client cc) tr in (if err = Some AlreadyExists then None else err, tr))"

definition deleteCassandraCluster :: "menv \<Rightarrow> string \<Rightarrow> CassandraCluster \<Rightarrow> mrequest list \<Rightarrow> error option \<times> mrequest list" where
  "deleteCassandraCluster e client cc tr = mwrite e (MDelete client cc) tr"

text \<open>Values that the API server has set are kept where the computed cluster leaves them out.\<close>

definition keep_stored :: "CassandraClusterSpec \<Rightarrow> CassandraClusterSpec \<Rightarrow> CassandraClusterSpec" where
  "keep_stored stored s =
     s\<lparr>spec_RunAsUser := (if spec_RunAsUser s = 0 \<and> spec_RunAsUser s \<noteq> spec_RunAsUser stored then spec_RunAsUser stored else spec_RunAsUser s),
       spec_FSGroup := (if spec_FSGroup s = 0 \<and> spec_FSGroup s \<noteq> spec_FSGroup stored then spec_FSGroup stored else spec_FSGroup s),
       spec_ServerType := (if spec_ServerType s = '''' \<and> spec_ServerType s \<noteq> spec_ServerType stored then spec_ServerType stored
                           else spec_ServerType s)\<rparr>"

text \<open>
  What is stored and whether it differs.  The assignment of AutoUpdateSeedList comes after the specification was copied and
  changes only the computed cluster, which is not used any more but for its seed list.
\<close>

definition updated_cluster :: "menv \<Rightarrow> CassandraCluster \<Rightarrow> CassandraCluster \<Rightarrow> bool \<times> CassandraCluster" where
  "updated_cluster e cc storedCC =
     (let storedCC = UnsetRollingRestart storedCC; spec = keep_stored (cc_Spec storedCC) (cc_Spec cc);
          specDiffers = \<not> me_specEqual e (cc_Spec storedCC) spec;
          storedCC = (if specDiffers then storedCC\<lparr>cc_Spec := spec\<rparr> else storedCC);
          seeds = cs_SeedList (cc_Status cc);
          seedsDiffer = (seeds \<noteq> None \<and> \<not> me_seedsEqual e (cs_SeedList (cc_Status storedCC)) seeds);
          storedCC = (if seedsDiffer then storedCC\<lparr>cc_Status := (cc_Status storedCC)\<lparr>cs_SeedList := seeds\<rparr>\<rparr> else storedCC) in
      (specDiffers \<or> seedsDiffer, storedCC))"

definition CreateOrUpdateCassandraCluster ::
  "menv \<Rightarrow> string \<Rightarrow> CassandraCluster \<Rightarrow> mrequest list \<Rightarrow> (bool \<times> CassandraCluster option \<times> error option) \<times> mrequest list" where
  "CreateOrUpdateCassandraCluster e client cc tr =
     (let ns = meta_Namespace (cc_Meta cc); name = meta_Name (cc_Meta cc);
          res = me_get e tr client ns name; tr = tr @ [MGet client ns name] in
      case res of
        Inl err \<Rightarrow>
          if err = NotFound then (let (err, tr) = CreateCassandraCluster e client cc tr in ((True, Some cc, err), tr))
          else ((False, None, Some err), tr)
      | Inr storedCC \<Rightarrow>
          let (needUpdate, storedCC) = updated_cluster e cc storedCC in
          if needUpdate then (let (err, tr) = UpdateCassandraCluster e client storedCC tr in ((True, Some storedCC, err), tr))
          else ((False, Some storedCC, None), tr))"

section \<open>The reconcile loop\<close>

text \<open>
  The loop over the clients returns early with a result, or falls through.  The cluster of a failed read, None, is never used.
\<close>

fun reconcile_clients ::
  "menv \<Rightarrow> MultiCasskop \<Rightarrow> string list \<Rightarrow> mrequest list \<Rightarrow> (mresult \<times> error option) option \<times> mrequest list" where
  "reconcile_clients e cmc [] tr = (None, tr)"
| "reconcile_clients e cmc (client # clients) tr =
     (case computeCassandraClusterForContext e cmc client of
        None \<Rightarrow> reconcile_clients e cmc clients tr
      | Some cc \<Rightarrow>
          if meta_DeletionTimestamp (mc_Meta cmc) \<noteq> None
          then reconcile_clients e cmc clients (snd (deleteCassandraCluster e client cc tr))
          else
            let ((update, storedCC, err), tr) = CreateOrUpdateCassandraCluster e client cc tr in
            if err \<noteq> None then (Some (Requeue_seconds 5, err), tr)
            else if update then (Some (Requeue_seconds 30, None), tr)
            else case storedCC of
                   Some stored \<Rightarrow>
                     if \<not> ReadyCassandraCluster stored then (Some (Requeue_seconds 30, None), tr)
                     else reconcile_clients e cmc clients tr
                 | None \<Rightarrow> (Some (Requeue_seconds 30, None), tr))"

definition Reconcile_multi ::
  "menv \<Rightarrow> Clients \<Rightarrow> string \<Rightarrow> string \<Rightarrow> string \<Rightarrow> mrequest list \<Rightarrow> ((mresult \<times> error option) \<times> mrequest list) option" where
  "Reconcile_multi e clients watched namespace name tr =
     (if namespace \<noteq> watched then Some ((Forget, None), tr)
      else
        let res = me_getCmc e tr namespace name; tr = tr @ [MGetCmc namespace name] in
        case res of
          Inl err \<Rightarrow> Some (if err = NotFound then (Forget, None) else (Requeue, Some err), tr)
        | Inr cmc \<Rightarrow> do {
            (changed, cmc) \<leftarrow> updateDeletetrategy cmc;
            if changed then (let (err, tr) = mwrite e (MUpdateCmc cmc) tr in Some ((Requeue, err), tr))
            else
              let (early, tr) = reconcile_clients e cmc (FlatClients clients) tr in
              case early of
                Some r \<Rightarrow> Some (r, tr)
              | None \<Rightarrow>
                  if meta_DeletionTimestamp (mc_Meta cmc) \<noteq> None
                  then (let (err, tr) = mwrite e (MUpdateCmc (preventClusterDeletion_multi False cmc)) tr in Some ((Forget, err), tr))
                  else Some ((Requeue_seconds 30, None), tr) })"

section \<open>Rolling out\<close>

fun cluster_writes :: "mrequest list \<Rightarrow> string list" where
  "cluster_writes [] = []"
| "cluster_writes (MCreate c _ # qs) = c # cluster_writes qs"
| "cluster_writes (MUpdate c _ # qs) = c # cluster_writes qs"
| "cluster_writes (_ # qs) = cluster_writes qs"

fun cluster_deletes :: "mrequest list \<Rightarrow> string list" where
  "cluster_deletes [] = []"
| "cluster_deletes (MDelete c _ # qs) = c # cluster_deletes qs"
| "cluster_deletes (_ # qs) = cluster_deletes qs"

lemma cluster_writes_append [simp]: "cluster_writes (xs @ ys) = cluster_writes xs @ cluster_writes ys"
  by (induction xs rule: cluster_writes.induct) simp_all

lemma cluster_deletes_append [simp]: "cluster_deletes (xs @ ys) = cluster_deletes xs @ cluster_deletes ys"
  by (induction xs rule: cluster_deletes.induct) simp_all

text \<open>The cluster of a client was read, needs no change and is ready, or the client has no cluster.\<close>

definition settled :: "menv \<Rightarrow> MultiCasskop \<Rightarrow> string \<Rightarrow> mrequest list \<Rightarrow> bool" where
  "settled e cmc client t =
     (case computeCassandraClusterForContext e cmc client of
        None \<Rightarrow> True
      | Some cc \<Rightarrow> (case me_get e t client (meta_Namespace (cc_Meta cc)) (meta_Name (cc_Meta cc)) of
                     Inl _ \<Rightarrow> False
                   | Inr stored \<Rightarrow> \<not> fst (updated_cluster e cc stored) \<and> ReadyCassandraCluster stored))"

lemma updated_cluster_same:
  "\<not> fst (updated_cluster e cc stored) \<Longrightarrow> cc_Status (snd (updated_cluster e cc stored)) = cc_Status stored"
  by (auto simp: updated_cluster_def UnsetRollingRestart_def Let_def)

lemma updated_cluster_spec:
  assumes "\<not> me_specEqual e (cc_Spec (UnsetRollingRestart old)) (keep_stored (cc_Spec (UnsetRollingRestart old)) (cc_Spec cc))"
  shows "spec_AutoUpdateSeedList (cc_Spec (snd (updated_cluster e cc old))) = spec_AutoUpdateSeedList (cc_Spec cc)"
proof -
  have "cc_Spec (snd (updated_cluster e cc old)) = keep_stored (cc_Spec (UnsetRollingRestart old)) (cc_Spec cc)"
    using assms by (simp add: updated_cluster_def Let_def)
  then show ?thesis by (simp add: keep_stored_def)
qed

lemma CreateOrUpdate_requests:
  assumes "CreateOrUpdateCassandraCluster e client cc tr = ((update, stored, err), tr')"
  shows "\<exists>qs. tr' = tr @ MGet client (meta_Namespace (cc_Meta cc)) (meta_Name (cc_Meta cc)) # qs \<and> cluster_deletes qs = [] \<and>
    (cluster_writes qs = [] \<or> cluster_writes qs = [client] \<and> update)"
  using assms by (auto simp: CreateOrUpdateCassandraCluster_def CreateCassandraCluster_def UpdateCassandraCluster_def mwrite_def Let_def split_beta
      split: sum.split_asm if_split_asm)

lemma CreateOrUpdate_settled:
  assumes "CreateOrUpdateCassandraCluster e client cc tr = ((False, Some stored, None), tr')" and "ReadyCassandraCluster stored"
    and "computeCassandraClusterForContext e cmc client = Some cc"
  shows "settled e cmc client tr"
proof (cases "me_get e tr client (meta_Namespace (cc_Meta cc)) (meta_Name (cc_Meta cc))")
  case (Inl err)
  then show ?thesis using assms(1)
    by (auto simp: CreateOrUpdateCassandraCluster_def Let_def split_beta split: if_split_asm)
next
  case (Inr s)
  then have same: "\<not> fst (updated_cluster e cc s)" "stored = snd (updated_cluster e cc s)"
    using assms(1) by (auto simp: CreateOrUpdateCassandraCluster_def Let_def split_beta split: if_split_asm)
  then show ?thesis using Inr assms(2,3) updated_cluster_same [OF same(1)] by (simp add: settled_def ReadyCassandraCluster_def)
qed

definition rolled_out :: "menv \<Rightarrow> MultiCasskop \<Rightarrow> string list \<Rightarrow> mrequest list \<Rightarrow> mrequest list \<Rightarrow> bool" where
  "rolled_out e cmc clients tr qs \<longleftrightarrow> cluster_deletes qs = [] \<and> length (cluster_writes qs) \<le> 1 \<and>
     (\<forall>c \<in> set (cluster_writes qs). \<exists>before after. clients = before @ c # after \<and>
        (\<forall>b \<in> set before. \<exists>us vs. qs = us @ vs \<and> cluster_writes us = [] \<and> settled e cmc b (tr @ us)))"

lemma rolled_out_step:
  assumes "rolled_out e cmc clients (tr @ ps) qs" and "cluster_writes ps = []" and "cluster_deletes ps = []" and "settled e cmc client tr"
  shows "rolled_out e cmc (client # clients) tr (ps @ qs)"
  unfolding rolled_out_def
proof (intro conjI ballI)
  fix c assume "c \<in> set (cluster_writes (ps @ qs))"
  then obtain before after where b: "clients = before @ c # after"
    and s: "\<forall>b \<in> set before. \<exists>us vs. qs = us @ vs \<and> cluster_writes us = [] \<and> settled e cmc b ((tr @ ps) @ us)"
    using assms(1,2) unfolding rolled_out_def by auto
  have "\<exists>us vs. ps @ qs = us @ vs \<and> cluster_writes us = [] \<and> settled e cmc b (tr @ us)" if mem: "b \<in> set (client # before)" for b
  proof (cases "b = client")
    case True
    then show ?thesis using assms(4) by (intro exI [of _ "[]"] exI [of _ "ps @ qs"]) simp
  next
    case False
    then obtain us vs where "qs = us @ vs" "cluster_writes us = []" "settled e cmc b ((tr @ ps) @ us)" using s mem by fastforce
    then show ?thesis using assms(2) by (intro exI [of _ "ps @ us"] exI [of _ vs]) simp
  qed
  then show "\<exists>before after. client # clients = before @ c # after \<and>
      (\<forall>b \<in> set before. \<exists>us vs. ps @ qs = us @ vs \<and> cluster_writes us = [] \<and> settled e cmc b (tr @ us))"
    using b by (intro exI [of _ "client # before"] exI [of _ after]) simp
qed (use assms in \<open>auto simp: rolled_out_def\<close>)

lemma rolled_out_stop:
  "cluster_deletes qs = [] \<Longrightarrow> cluster_writes qs = [] \<or> cluster_writes qs = [client] \<Longrightarrow> rolled_out e cmc (client # clients) tr qs"
  by (auto simp: rolled_out_def intro: exI [of _ "[]"])

lemma reconcile_clients_rolled_out:
  assumes "meta_DeletionTimestamp (mc_Meta cmc) = None" and "reconcile_clients e cmc clients tr = (early, tr')"
  shows "\<exists>qs. tr' = tr @ qs \<and> rolled_out e cmc clients tr qs"
  using assms(2)
proof (induction clients arbitrary: tr)
  case Nil
  then show ?case by (simp add: rolled_out_def)
next
  case (Cons client clients)
  show ?case
  proof (cases "computeCassandraClusterForContext e cmc client")
    case None
    then obtain qs where "tr' = tr @ qs" "rolled_out e cmc clients (tr @ []) qs" using Cons by auto
    moreover have "settled e cmc client tr" using None by (simp add: settled_def)
    ultimately show ?thesis using rolled_out_step [of e cmc clients tr "[]" qs client] by auto
  next
    case (Some cc)
    obtain update stored err tr1 where u: "CreateOrUpdateCassandraCluster e client cc tr = ((update, stored, err), tr1)"
      by (metis surj_pair)
    obtain ps where ps: "tr1 = tr @ ps" "cluster_deletes ps = []" "cluster_writes ps = [] \<or> cluster_writes ps = [client] \<and> update"
      using CreateOrUpdate_requests [OF u] by auto
    show ?thesis
    proof (cases "\<exists>s. \<not> update \<and> err = None \<and> stored = Some s \<and> ReadyCassandraCluster s")
      case True
      then obtain s where s: "\<not> update" "err = None" "stored = Some s" "ReadyCassandraCluster s" by blast
      then have "reconcile_clients e cmc clients tr1 = (early, tr')" using Cons.prems Some u assms(1) by simp
      then obtain qs where "tr' = tr1 @ qs" "rolled_out e cmc clients (tr @ ps) qs" using Cons.IH ps(1) by blast
      moreover have "settled e cmc client tr" using CreateOrUpdate_settled [OF _ s(4) Some] u s by simp
      ultimately show ?thesis using rolled_out_step ps s(1) by (metis append.assoc)
    next
      case False
      then have "tr' = tr1" using Cons.prems Some u assms(1) by (auto split: if_split_asm option.split_asm)
      then show ?thesis using ps rolled_out_stop by blast
    qed
  qed
qed

section \<open>Properties of a pass\<close>

lemma Reconcile_multi_run:
  assumes "me_getCmc e tr ns name = Inr cmc" and "updateDeletetrategy cmc = Some (False, cmc)"
  shows "Reconcile_multi e clients ns ns name tr =
    (let (early, tr) = reconcile_clients e cmc (FlatClients clients) (tr @ [MGetCmc ns name]) in
     case early of
       Some r \<Rightarrow> Some (r, tr)
     | None \<Rightarrow>
         if meta_DeletionTimestamp (mc_Meta cmc) \<noteq> None
         then (let (err, tr) = mwrite e (MUpdateCmc (preventClusterDeletion_multi False cmc)) tr in Some ((Forget, err), tr))
         else Some ((Requeue_seconds 30, None), tr))"
  using assms by (simp add: Reconcile_multi_def)

lemma updateDeletetrategy_cases:
  assumes "updateDeletetrategy cmc = Some (changed, cmc')"
  shows "changed \<and> cmc' = preventClusterDeletion_multi True cmc \<or> \<not> changed \<and> cmc' = cmc"
  using assms by (auto simp: updateDeletetrategy_def bind_eq_Some_conv split: if_split_asm)

text \<open>
  C13 (multi_rolls_out_in_order): a pass over a MultiCasskop that is not being deleted creates or updates at most one cluster and deletes none; when
  it writes one, the clusters of all Kubernetes clusters before it were read earlier in the pass, needed no change and were ready.
\<close>

theorem multi_rolls_out_in_order:
  assumes run: "Reconcile_multi e clients ns ns name tr = Some (r, tr')" and cmc: "me_getCmc e tr ns name = Inr cmc"
    and live: "meta_DeletionTimestamp (mc_Meta cmc) = None"
  shows "\<exists>qs. tr' = tr @ MGetCmc ns name # qs \<and> rolled_out e cmc (FlatClients clients) (tr @ [MGetCmc ns name]) qs"
proof -
  obtain changed cmc' where u: "updateDeletetrategy cmc = Some (changed, cmc')"
    using run cmc by (cases "updateDeletetrategy cmc") (auto simp: Reconcile_multi_def Let_def)
  show ?thesis
  proof (cases changed)
    case True
    then have "tr' = tr @ [MGetCmc ns name, MUpdateCmc cmc']" using run cmc u by (simp add: Reconcile_multi_def mwrite_def)
    then show ?thesis by (simp add: rolled_out_def)
  next
    case False
    then have same: "updateDeletetrategy cmc = Some (False, cmc)" using u updateDeletetrategy_cases [OF u] by simp
    obtain early tr1 where c: "reconcile_clients e cmc (FlatClients clients) (tr @ [MGetCmc ns name]) = (early, tr1)" by (metis surj_pair)
    then have "tr' = tr1" using run live unfolding Reconcile_multi_run [OF cmc same] by (auto split: option.split_asm)
    then show ?thesis using reconcile_clients_rolled_out [OF live c] by auto
  qed
qed

text \<open>Clusters of the clients that have an override.\<close>

definition managed :: "menv \<Rightarrow> MultiCasskop \<Rightarrow> string list \<Rightarrow> mrequest list" where
  "managed e cmc clients =
     concat (map (\<lambda>c. case computeCassandraClusterForContext e cmc c of None \<Rightarrow> [] | Some cc \<Rightarrow> [MDelete c cc]) clients)"

lemma reconcile_clients_deletes:
  "meta_DeletionTimestamp (mc_Meta cmc) \<noteq> None \<Longrightarrow> reconcile_clients e cmc clients tr = (None, tr @ managed e cmc clients)"
  by (induction clients arbitrary: tr) (auto simp: managed_def deleteCassandraCluster_def mwrite_def split: option.split)

text \<open>
  C36 (multi_deletion_ignores_errors): a pass over a MultiCasskop that is being deleted asks for the deletion of every managed cluster and then removes the
  finalizer, whatever the deletions answered, and also when DeleteCassandraCluster is false.
\<close>

theorem multi_deletion_ignores_errors:
  assumes "me_getCmc e tr ns name = Inr cmc" and "meta_DeletionTimestamp (mc_Meta cmc) \<noteq> None"
    and "ms_DeleteCassandraCluster (mc_Spec cmc) = Some delete" and "delete \<longrightarrow> meta_Finalizers (mc_Meta cmc) \<noteq> []"
  shows "map_option snd (Reconcile_multi e clients ns ns name tr) =
    Some (tr @ MGetCmc ns name # managed e cmc (FlatClients clients) @ [MUpdateCmc (preventClusterDeletion_multi False cmc)])"
proof -
  have "updateDeletetrategy cmc = Some (False, cmc)" using assms(3,4) by (simp add: updateDeletetrategy_def)
  then show ?thesis
    unfolding Reconcile_multi_run [OF assms(1) \<open>updateDeletetrategy cmc = Some (False, cmc)\<close>] reconcile_clients_deletes [OF assms(2)]
    using assms(2) by (simp add: mwrite_def)
qed

text \<open>
  C38 (multi_seed_list_kept): the controller means to switch off AutoUpdateSeedList in the clusters it manages, but a cluster whose specification is updated is
  stored with the value of the computed cluster, and so is a new one.
\<close>

theorem multi_seed_list_kept:
  assumes "CreateOrUpdateCassandraCluster e client cc tr = ((True, Some stored, err), tr')"
    and "\<forall>old. me_get e tr client (meta_Namespace (cc_Meta cc)) (meta_Name (cc_Meta cc)) = Inr old \<longrightarrow>
      \<not> me_specEqual e (cc_Spec (UnsetRollingRestart old)) (keep_stored (cc_Spec (UnsetRollingRestart old)) (cc_Spec cc))"
  shows "spec_AutoUpdateSeedList (cc_Spec stored) = spec_AutoUpdateSeedList (cc_Spec cc) \<and>
    (last tr' = MCreate client stored \<or> last tr' = MUpdate client stored)"
proof (cases "me_get e tr client (meta_Namespace (cc_Meta cc)) (meta_Name (cc_Meta cc))")
  case (Inl x)
  then show ?thesis using assms(1)
    by (auto simp: CreateOrUpdateCassandraCluster_def CreateCassandraCluster_def mwrite_def Let_def split: if_split_asm)
next
  case (Inr old)
  then show ?thesis using assms(1) updated_cluster_spec [of e old cc] assms(2)
    by (auto simp: CreateOrUpdateCassandraCluster_def UpdateCassandraCluster_def mwrite_def Let_def split_beta split: if_split_asm)
qed

text \<open>A pass panics exactly when the MultiCasskop is read and DeleteCassandraCluster, an optional field, is not set.\<close>

lemma Reconcile_multi_None:
  "Reconcile_multi e clients watched ns name tr = None \<longleftrightarrow>
     ns = watched \<and> (\<exists>cmc. me_getCmc e tr ns name = Inr cmc \<and> ms_DeleteCassandraCluster (mc_Spec cmc) = None)"
proof (cases "me_getCmc e tr ns name")
  case (Inr cmc)
  then show ?thesis
    by (cases "ms_DeleteCassandraCluster (mc_Spec cmc)")
      (auto simp: Reconcile_multi_def updateDeletetrategy_def mwrite_def Let_def split_beta split: option.split)
qed (auto simp: Reconcile_multi_def Let_def)

section \<open>Examples\<close>

definition example_multi :: "bool option \<Rightarrow> time option \<Rightarrow> MultiCasskop" where
  "example_multi delete deleted =
     \<lparr>mc_Meta = (named_meta ''ns'' ''multi'')\<lparr>meta_DeletionTimestamp := deleted\<rparr>,
      mc_Spec = \<lparr>ms_DeleteCassandraCluster = delete, ms_Base = example_cluster 1 [], ms_Override = [''k1'' \<mapsto> example_cluster 1 [], ''k2'' \<mapsto> example_cluster 1 []]\<rparr>\<rparr>"

definition example_menv :: "MultiCasskop \<Rightarrow> menv" where
  "example_menv cmc =
     \<lparr>me_getCmc = (\<lambda>_ _ _. Inr cmc), me_get = (\<lambda>_ _ _ _. Inl NotFound), me_write = (\<lambda>_ _. Some (Errorf ''forbidden'')),
      me_merge = (\<lambda>b _. b), me_specEqual = (=), me_seedsEqual = (=)\<rparr>"

definition two_clients :: Clients where
  "two_clients = \<lparr>cl_Local = ''k1'', cl_Remotes = [''k2'']\<rparr>"

theorem multi_rolls_out_in_order_witness:
  "\<exists>r tr' qs. Reconcile_multi (example_menv (example_multi (Some False) None)) two_clients ''ns'' ''ns'' ''multi'' [] = Some (r, tr') \<and>
     tr' = MGetCmc ''ns'' ''multi'' # qs \<and> length (cluster_writes qs) \<le> 1 \<and> cluster_deletes qs = []"
proof -
  let ?cmc = "example_multi (Some False) None"
  have "Reconcile_multi (example_menv ?cmc) two_clients ''ns'' ''ns'' ''multi'' [] \<noteq> None"
    by (simp add: Reconcile_multi_None example_menv_def example_multi_def)
  then obtain r tr' where run: "Reconcile_multi (example_menv ?cmc) two_clients ''ns'' ''ns'' ''multi'' [] = Some (r, tr')" by auto
  have "me_getCmc (example_menv ?cmc) [] ''ns'' ''multi'' = Inr ?cmc" "meta_DeletionTimestamp (mc_Meta ?cmc) = None"
    by (simp_all add: example_menv_def example_multi_def)
  with multi_rolls_out_in_order [OF run] run show ?thesis by (auto simp: rolled_out_def)
qed

theorem multi_deletion_ignores_errors_witness:
  "map_option (\<lambda>x. cluster_deletes (snd x))
     (Reconcile_multi (example_menv (example_multi (Some False) (Some 0))) two_clients ''ns'' ''ns'' ''multi'' []) = Some [''k1'', ''k2'']"
proof -
  let ?cmc = "example_multi (Some False) (Some 0)"
  have "map_option snd (Reconcile_multi (example_menv ?cmc) two_clients ''ns'' ''ns'' ''multi'' []) =
      Some ([] @ MGetCmc ''ns'' ''multi'' # managed (example_menv ?cmc) ?cmc (FlatClients two_clients) @ [MUpdateCmc (preventClusterDeletion_multi False ?cmc)])"
    by (rule multi_deletion_ignores_errors [where delete = False]) (simp_all add: example_menv_def example_multi_def)
  moreover have "cluster_deletes (managed (example_menv ?cmc) ?cmc (FlatClients two_clients)) = [''k1'', ''k2'']"
    by (simp add: managed_def FlatClients_def two_clients_def computeCassandraClusterForContext_def example_multi_def)
  ultimately show ?thesis by (auto simp: map_option_case split: option.split_asm)
qed

theorem multi_seed_list_kept_witness:
  "\<exists>stored tr' err. CreateOrUpdateCassandraCluster (example_menv (example_multi None None)) ''k1''
      ((example_cluster 1 [])\<lparr>cc_Spec := (cc_Spec (example_cluster 1 []))\<lparr>spec_AutoUpdateSeedList := True\<rparr>\<rparr>) [] = ((True, Some stored, err), tr') \<and>
     spec_AutoUpdateSeedList (cc_Spec stored)"
proof -
  let ?cc = "(example_cluster 1 [])\<lparr>cc_Spec := (cc_Spec (example_cluster 1 []))\<lparr>spec_AutoUpdateSeedList := True\<rparr>\<rparr>"
  let ?e = "example_menv (example_multi None None)"
  obtain err tr' where run: "CreateOrUpdateCassandraCluster ?e ''k1'' ?cc [] = ((True, Some ?cc, err), tr')"
    by (simp add: CreateOrUpdateCassandraCluster_def CreateCassandraCluster_def mwrite_def example_menv_def Let_def)
  have "spec_AutoUpdateSeedList (cc_Spec ?cc) = True"
    using multi_seed_list_kept [OF run] by (simp add: example_menv_def)
  with run show ?thesis by blast
qed

end
