(* ===== verification/Multi_Runs.thy ===== *)
theory Multi_Runs
  imports Multi_Casskop
begin

text \<open>
  Sequences of passes of the MultiCasskop controller, src/multi-casskop/controllers: the roll-out over all Kubernetes clusters comes
  to its end when every cluster that was written becomes ready, and a requested rolling restart never lets it get past its cluster.
\<close>

section \<open>Passes\<close>

fun multi_passes :: "menv \<Rightarrow> Clients \<Rightarrow> string \<Rightarrow> string \<Rightarrow> nat \<Rightarrow> mrequest list \<Rightarrow> mrequest list option" where
  "multi_passes e clients ns name 0 tr = Some tr"
| "multi_passes e clients ns name (Suc n) tr = do {
     (_, tr) \<leftarrow> Reconcile_multi e clients ns ns name tr;
     multi_passes e clients ns name n tr }"

lemma multi_passes_add:
  "multi_passes e clients ns name (m + n) tr = do { tr \<leftarrow> multi_passes e clients ns name m tr; multi_passes e clients ns name n tr }"
  by (induction m arbitrary: tr) (auto split: Option.bind_split)

text \<open>One pass over a MultiCasskop that is neither deleted nor about to get its finalizer runs the loop over the clients.\<close>

definition steady :: "MultiCasskop \<Rightarrow> bool" where
  "steady cmc \<longleftrightarrow> meta_DeletionTimestamp (mc_Meta cmc) = None \<and> updateDeletetrategy cmc = Some (False, cmc)"

lemma multi_pass:
  assumes "\<forall>tr. me_getCmc e tr ns name = Inr cmc" and "steady cmc"
  shows "map_option snd (Reconcile_multi e clients ns ns name tr) =
    Some (snd (reconcile_clients e cmc (FlatClients clients) (tr @ [MGetCmc ns name])))"
proof -
  have u: "updateDeletetrategy cmc = Some (False, cmc)" and live: "meta_DeletionTimestamp (mc_Meta cmc) = None"
    using assms(2) by (simp_all add: steady_def)
  show ?thesis unfolding Reconcile_multi_run [OF assms(1) [rule_format] u] using live by (auto simp: split_beta split: option.split)
qed

lemma multi_passes_Suc:
  assumes "\<forall>tr. me_getCmc e tr ns name = Inr cmc" and "steady cmc"
  shows "multi_passes e clients ns name (Suc n) tr =
    multi_passes e clients ns name n (snd (reconcile_clients e cmc (FlatClients clients) (tr @ [MGetCmc ns name])))"
  using multi_pass [OF assms, of clients tr] by (auto split: Option.bind_split)

lemma reconcile_clients_settled:
  assumes "meta_DeletionTimestamp (mc_Meta cmc) = None" and "computeCassandraClusterForContext e cmc c = Some cc" and "settled e cmc c tr"
  shows "reconcile_clients e cmc (c # cs) tr =
    reconcile_clients e cmc cs (tr @ [MGet c (meta_Namespace (cc_Meta cc)) (meta_Name (cc_Meta cc))])"
proof -
  obtain s where s: "me_get e tr c (meta_Namespace (cc_Meta cc)) (meta_Name (cc_Meta cc)) = Inr s"
    "\<not> fst (updated_cluster e cc s)" "ReadyCassandraCluster s"
    using assms(2,3) by (auto simp: settled_def split: sum.split_asm)
  have "ReadyCassandraCluster (snd (updated_cluster e cc s))"
    using updated_cluster_same [OF s(2)] s(3) by (simp add: ReadyCassandraCluster_def)
  then show ?thesis using assms(1,2) s(1,2) by (simp add: CreateOrUpdateCassandraCluster_def Let_def split_beta)
qed

section \<open>The API servers\<close>

text \<open>What the requests so far tell of a client: the cluster written last, and how often it was read since.\<close>

fun noted :: "string \<Rightarrow> mrequest \<Rightarrow> (CassandraCluster \<times> nat) option \<Rightarrow> (CassandraCluster \<times> nat) option" where
  "noted c (MCreate d cc) h = (if d = c then Some (cc, 0) else h)"
| "noted c (MUpdate d cc) h = (if d = c then Some (cc, 0) else h)"
| "noted c (MGet d _ _) h = (if d = c then map_option (\<lambda>(cc, n). (cc, Suc n)) h else h)"
| "noted c _ h = h"

definition history :: "string \<Rightarrow> mrequest list \<Rightarrow> (CassandraCluster \<times> nat) option" where
  "history c tr = fold (noted c) tr None"

lemma history_Nil [simp]: "history c [] = None"
  by (simp add: history_def)

lemma history_snoc [simp]: "history c (tr @ [q]) = noted c q (history c tr)"
  by (simp add: history_def)

text \<open>
  Servers that store what is written.  The cluster of client c is not ready the first delay c times it is read after it was
  written, and ready from then on; its specification and its list of seeds stay as written.
\<close>

definition answers :: "nat \<Rightarrow> (CassandraCluster \<times> nat) option \<Rightarrow> error + CassandraCluster \<Rightarrow> bool" where
  "answers d h res =
     (case h of
        None \<Rightarrow> res = Inl NotFound
      | Some (cc, n) \<Rightarrow>
          (case res of
             Inl _ \<Rightarrow> False
           | Inr s \<Rightarrow> cc_Spec s = cc_Spec cc \<and> cs_SeedList (cc_Status s) = cs_SeedList (cc_Status cc) \<and>
                      ReadyCassandraCluster s = (d \<le> n)))"

definition multi_world :: "menv \<Rightarrow> MultiCasskop \<Rightarrow> string \<Rightarrow> string \<Rightarrow> (string \<Rightarrow> nat) \<Rightarrow> bool" where
  "multi_world e cmc ns name delay \<longleftrightarrow>
     (\<forall>tr. me_getCmc e tr ns name = Inr cmc) \<and> (\<forall>tr q. me_write e tr q = None) \<and>
     (\<forall>tr c cns cname. answers (delay c) (history c tr) (me_get e tr c cns cname)) \<and>
     (\<forall>s. me_specEqual e s s) \<and> (\<forall>l. me_seedsEqual e l l)"

text \<open>Some rack asks for a rolling restart.\<close>

definition restart_requested :: "CassandraClusterSpec \<Rightarrow> bool" where
  "restart_requested s = (\<exists>d \<in> set (top_DC (spec_Topology s)). \<exists>r \<in> set (dc_Rack d). rack_RollingRestart r)"

lemma UnsetRollingRestart_spec:
  assumes "\<not> restart_requested (cc_Spec cc)"
  shows "cc_Spec (UnsetRollingRestart cc) = cc_Spec cc"
proof -
  have "map (\<lambda>r. r\<lparr>rack_RollingRestart := False\<rparr>) (dc_Rack d) = dc_Rack d" if "d \<in> set (top_DC (spec_Topology (cc_Spec cc)))" for d
    using assms that by (intro map_idI) (auto simp: restart_requested_def)
  then have "map (\<lambda>d. d\<lparr>dc_Rack := map (\<lambda>r. r\<lparr>rack_RollingRestart := False\<rparr>) (dc_Rack d)\<rparr>) (top_DC (spec_Topology (cc_Spec cc))) =
      top_DC (spec_Topology (cc_Spec cc))"
    by (intro map_idI) simp
  then show ?thesis by (simp add: UnsetRollingRestart_def)
qed

lemma UnsetRollingRestart_clears: "\<not> restart_requested (cc_Spec (UnsetRollingRestart cc))"
  by (auto simp: restart_requested_def UnsetRollingRestart_def)

lemma UnsetRollingRestart_status [simp]: "cc_Status (UnsetRollingRestart cc) = cc_Status cc"
  by (simp add: UnsetRollingRestart_def)

lemma keep_stored_same [simp]: "keep_stored s s = s"
  by (simp add: keep_stored_def)

lemma restart_requested_keep_stored [simp]: "restart_requested (keep_stored s t) = restart_requested t"
  by (simp add: restart_requested_def keep_stored_def)

text \<open>A cluster that is stored as it was computed needs no update.\<close>

lemma updated_cluster_stored:
  assumes "cc_Spec s = cc_Spec cc" and "cs_SeedList (cc_Status s) = cs_SeedList (cc_Status cc)" and "\<not> restart_requested (cc_Spec cc)"
    and "\<forall>s. me_specEqual e s s" and "\<forall>l. me_seedsEqual e l l"
  shows "\<not> fst (updated_cluster e cc s)"
  using assms UnsetRollingRestart_spec [of s] by (simp add: updated_cluster_def Let_def)

lemma world_facts:
  assumes "multi_world e cmc ns name delay"
  shows "\<forall>tr. me_getCmc e tr ns name = Inr cmc" and "me_write e tr q = None"
    and "answers (delay c) (history c tr) (me_get e tr c cns cname)" and "\<forall>s. me_specEqual e s s" and "\<forall>l. me_seedsEqual e l l"
  using assms unfolding multi_world_def by blast+

lemma world_reads:
  assumes "multi_world e cmc ns name delay" and "\<not> restart_requested (cc_Spec cc)" and "history c tr = Some (cc, n)"
  shows "\<exists>s. me_get e tr c (meta_Namespace (cc_Meta cc)) (meta_Name (cc_Meta cc)) = Inr s \<and>
    \<not> fst (updated_cluster e cc s) \<and> ReadyCassandraCluster s = (delay c \<le> n)"
proof -
  have "answers (delay c) (Some (cc, n)) (me_get e tr c (meta_Namespace (cc_Meta cc)) (meta_Name (cc_Meta cc)))"
    using world_facts(3) [OF assms(1), of c tr] assms(3) by simp
  then obtain s where s: "me_get e tr c (meta_Namespace (cc_Meta cc)) (meta_Name (cc_Meta cc)) = Inr s" "cc_Spec s = cc_Spec cc"
    "cs_SeedList (cc_Status s) = cs_SeedList (cc_Status cc)" "ReadyCassandraCluster s = (delay c \<le> n)"
    unfolding answers_def by (auto split: sum.split_asm)
  then show ?thesis using updated_cluster_stored [OF s(2,3) assms(2) world_facts(4,5) [OF assms(1)]] by blast
qed

lemma world_settled:
  assumes "multi_world e cmc ns name delay" and "computeCassandraClusterForContext e cmc c = Some cc" and "\<not> restart_requested (cc_Spec cc)"
    and "history c tr = Some (cc, n)" and "delay c \<le> n"
  shows "settled e cmc c tr"
  using world_reads [OF assms(1,3,4)] assms(2,5) by (auto simp: settled_def)

text \<open>The two other passes over a client: its cluster is created, or is not ready yet.\<close>

lemma world_creates:
  assumes "multi_world e cmc ns name delay" and "meta_DeletionTimestamp (mc_Meta cmc) = None"
    and "computeCassandraClusterForContext e cmc c = Some cc" and "history c tr = None"
  shows "snd (reconcile_clients e cmc (c # cs) tr) = tr @ [MGet c (meta_Namespace (cc_Meta cc)) (meta_Name (cc_Meta cc)), MCreate c cc]"
proof -
  have "me_get e tr c (meta_Namespace (cc_Meta cc)) (meta_Name (cc_Meta cc)) = Inl NotFound"
    using world_facts(3) [OF assms(1), of c tr] assms(4) by (simp add: answers_def)
  then show ?thesis using assms(2,3) world_facts(2) [OF assms(1)]
    by (simp add: CreateOrUpdateCassandraCluster_def CreateCassandraCluster_def mwrite_def Let_def)
qed

lemma world_waits:
  assumes "multi_world e cmc ns name delay" and "meta_DeletionTimestamp (mc_Meta cmc) = None"
    and "computeCassandraClusterForContext e cmc c = Some cc" and "\<not> restart_requested (cc_Spec cc)"
    and "history c tr = Some (cc, n)" and "n < delay c"
  shows "snd (reconcile_clients e cmc (c # cs) tr) = tr @ [MGet c (meta_Namespace (cc_Meta cc)) (meta_Name (cc_Meta cc))]"
proof -
  obtain s where s: "me_get e tr c (meta_Namespace (cc_Meta cc)) (meta_Name (cc_Meta cc)) = Inr s"
    "\<not> fst (updated_cluster e cc s)" "\<not> ReadyCassandraCluster s"
    using world_reads [OF assms(1,4,5)] assms(6) by auto
  have "\<not> ReadyCassandraCluster (snd (updated_cluster e cc s))"
    using updated_cluster_same [OF s(2)] s(3) by (simp add: ReadyCassandraCluster_def)
  then show ?thesis using assms(2,3) s(1,2) by (simp add: CreateOrUpdateCassandraCluster_def Let_def split_beta)
qed

section \<open>The roll-out comes to its end\<close>

text \<open>Requests that only read: the MultiCasskop, or clusters of the given clients.\<close>

fun reads_only :: "string set \<Rightarrow> mrequest \<Rightarrow> bool" where
  "reads_only D (MGet c _ _) = (c \<in> D)"
| "reads_only D (MGetCmc _ _) = True"
| "reads_only D _ = False"

lemma reads_only_writes [simp]: "list_all (reads_only D) qs \<Longrightarrow> cluster_writes qs = [] \<and> cluster_deletes qs = []"
  by (induction qs rule: cluster_writes.induct) auto

lemma reads_only_other: "list_all (reads_only D) qs \<Longrightarrow> c \<notin> D \<Longrightarrow> history c (tr @ qs) = history c tr"
proof (induction qs rule: rev_induct)
  case (snoc q qs)
  then show ?case by (cases q) (auto simp del: append_assoc simp: append_assoc [symmetric])
qed simp

lemma reads_only_kept: "list_all (reads_only D) qs \<Longrightarrow> history c tr = Some (cc, n) \<Longrightarrow> \<exists>m \<ge> n. history c (tr @ qs) = Some (cc, m)"
proof (induction qs rule: rev_induct)
  case (snoc q qs)
  then obtain m where "m \<ge> n" "history c (tr @ qs) = Some (cc, m)" by auto
  then show ?case using snoc.prems by (cases q) (auto simp del: append_assoc simp: append_assoc [symmetric])
qed simp

text \<open>
  How far the roll-out is: the clusters of the first clients are stored as computed and were read often enough to be ready, those of
  the others are not there, and nothing else was written.
\<close>

definition brought_up :: "menv \<Rightarrow> MultiCasskop \<Rightarrow> (string \<Rightarrow> nat) \<Rightarrow> string list \<Rightarrow> mrequest list \<Rightarrow> bool" where
  "brought_up e cmc delay first tr \<longleftrightarrow>
     (\<forall>c \<in> set first. \<forall>cc. computeCassandraClusterForContext e cmc c = Some cc \<longrightarrow> (\<exists>n \<ge> delay c. history c tr = Some (cc, n)))"

definition progress :: "menv \<Rightarrow> MultiCasskop \<Rightarrow> string list \<Rightarrow> string list \<Rightarrow> mrequest list \<Rightarrow> bool" where
  "progress e cmc first rest tr \<longleftrightarrow> (\<forall>c \<in> set rest. history c tr = None) \<and>
     cluster_writes tr = filter (\<lambda>c. computeCassandraClusterForContext e cmc c \<noteq> None) first \<and> cluster_deletes tr = []"

lemma brought_up_reads_only: "brought_up e cmc delay first tr \<Longrightarrow> list_all (reads_only D) qs \<Longrightarrow> brought_up e cmc delay first (tr @ qs)"
  unfolding brought_up_def by (meson order_trans reads_only_kept)

lemma progress_reads_only:
  "progress e cmc first rest tr \<Longrightarrow> list_all (reads_only D) qs \<Longrightarrow> D \<inter> set rest = {} \<Longrightarrow> progress e cmc first rest (tr @ qs)"
  unfolding progress_def by (simp add: reads_only_writes) (metis disjoint_iff reads_only_other)

text \<open>What the roll-out needs: a steady MultiCasskop, and no rolling restart.\<close>

definition rollout :: "menv \<Rightarrow> MultiCasskop \<Rightarrow> string \<Rightarrow> string \<Rightarrow> (string \<Rightarrow> nat) \<Rightarrow> bool" where
  "rollout e cmc ns name delay \<longleftrightarrow> multi_world e cmc ns name delay \<and> steady cmc \<and>
     (\<forall>c cc. computeCassandraClusterForContext e cmc c = Some cc \<longrightarrow> \<not> restart_requested (cc_Spec cc))"

lemma rollout_facts:
  assumes "rollout e cmc ns name delay"
  shows "multi_world e cmc ns name delay" and "steady cmc" and "meta_DeletionTimestamp (mc_Meta cmc) = None"
    and "computeCassandraClusterForContext e cmc c = Some cc \<Longrightarrow> \<not> restart_requested (cc_Spec cc)"
  using assms by (simp_all add: rollout_def steady_def)

lemma reconcile_first:
  assumes "rollout e cmc ns name delay" and "brought_up e cmc delay first tr"
  shows "\<exists>qs. list_all (reads_only (set first)) qs \<and> reconcile_clients e cmc (first @ ds) tr = reconcile_clients e cmc ds (tr @ qs)"
  using assms(2)
proof (induction first arbitrary: tr)
  case Nil
  then show ?case by (intro exI [of _ "[]"]) simp
next
  case (Cons c cs)
  have up: "brought_up e cmc delay cs tr" using Cons.prems by (simp add: brought_up_def)
  have larger: "list_all (reads_only (set cs)) qs \<Longrightarrow> list_all (reads_only (set (c # cs))) qs" for qs
    by (erule list.pred_mono_strong) (auto elim!: reads_only.elims)
  show ?case
  proof (cases "computeCassandraClusterForContext e cmc c")
    case None
    then show ?thesis using Cons.IH [OF up] larger by auto
  next
    case (Some cc)
    let ?q = "MGet c (meta_Namespace (cc_Meta cc)) (meta_Name (cc_Meta cc))"
    obtain n where n: "delay c \<le> n" "history c tr = Some (cc, n)" using Cons.prems Some unfolding brought_up_def by (meson list.set_intros(1))
    have "settled e cmc c tr" using world_settled [OF rollout_facts(1) [OF assms(1)] Some rollout_facts(4) [OF assms(1) Some] n(2,1)] .
    then have step: "reconcile_clients e cmc (c # cs @ ds) tr = reconcile_clients e cmc (cs @ ds) (tr @ [?q])"
      using reconcile_clients_settled [OF rollout_facts(3) [OF assms(1)] Some] by blast
    obtain qs where "list_all (reads_only (set cs)) qs" "reconcile_clients e cmc (cs @ ds) (tr @ [?q]) = reconcile_clients e cmc ds ((tr @ [?q]) @ qs)"
      using Cons.IH [OF brought_up_reads_only [OF up, of "{c}" "[?q]"]] by auto
    then show ?thesis using step larger by (intro exI [of _ "?q # qs"]) simp
  qed
qed

lemma pass_first:
  assumes "rollout e cmc ns name delay" and "brought_up e cmc delay first tr"
  shows "\<exists>qs. list_all (reads_only (set first)) qs \<and>
    reconcile_clients e cmc (first @ ds) (tr @ [MGetCmc ns name]) = reconcile_clients e cmc ds (tr @ qs)"
proof -
  have "brought_up e cmc delay first (tr @ [MGetCmc ns name])" using assms(2) by (rule brought_up_reads_only [where D = "{}"]) simp
  then obtain qs where "list_all (reads_only (set first)) qs"
    "reconcile_clients e cmc (first @ ds) (tr @ [MGetCmc ns name]) = reconcile_clients e cmc ds ((tr @ [MGetCmc ns name]) @ qs)"
    using reconcile_first [OF assms(1)] by blast
  then show ?thesis by (intro exI [of _ "MGetCmc ns name # qs"]) simp
qed

text \<open>The next cluster is created; while it is not ready the passes only read.\<close>

lemma pass_creates:
  assumes "rollout e cmc ns name delay" and "brought_up e cmc delay first tr" and "progress e cmc first (c # rest) tr"
    and "distinct (first @ c # rest)" and "computeCassandraClusterForContext e cmc c = Some cc"
    and "tr' = snd (reconcile_clients e cmc (first @ c # rest) (tr @ [MGetCmc ns name]))"
  shows "brought_up e cmc delay first tr' \<and> progress e cmc (first @ [c]) rest tr' \<and> history c tr' = Some (cc, 0)"
proof -
  let ?q = "MGet c (meta_Namespace (cc_Meta cc)) (meta_Name (cc_Meta cc))"
  obtain qs where qs: "list_all (reads_only (set first)) qs"
    "reconcile_clients e cmc (first @ c # rest) (tr @ [MGetCmc ns name]) = reconcile_clients e cmc (c # rest) (tr @ qs)"
    using pass_first [OF assms(1,2)] by blast
  have up: "brought_up e cmc delay first (tr @ qs)" using brought_up_reads_only [OF assms(2) qs(1)] .
  have p: "progress e cmc first (c # rest) (tr @ qs)" using progress_reads_only [OF assms(3) qs(1)] assms(4) by auto
  have "tr' = (tr @ qs) @ [?q, MCreate c cc]"
    unfolding assms(6) qs(2) using p by (intro world_creates [OF rollout_facts(1,3) [OF assms(1)] assms(5)]) (simp add: progress_def)
  then have tr': "tr' = ((tr @ qs) @ [?q]) @ [MCreate c cc]" by simp
  have other: "history d tr' = history d (tr @ qs)" if "d \<noteq> c" for d using that unfolding tr' history_snoc by simp
  have "brought_up e cmc delay first tr'" using up other assms(4) unfolding brought_up_def by fastforce
  moreover have "progress e cmc (first @ [c]) rest tr'"
    using p other assms(4,5) by (auto simp: progress_def tr' simp del: append_assoc)
  moreover have "history c tr' = Some (cc, 0)" unfolding tr' history_snoc by simp
  ultimately show ?thesis by blast
qed

lemma pass_waits:
  assumes "rollout e cmc ns name delay" and "brought_up e cmc delay first tr" and "progress e cmc (first @ [c]) rest tr"
    and "distinct (first @ c # rest)" and "computeCassandraClusterForContext e cmc c = Some cc" and "history c tr = Some (cc, k)" and "k < delay c"
    and "tr' = snd (reconcile_clients e cmc (first @ c # rest) (tr @ [MGetCmc ns name]))"
  shows "brought_up e cmc delay first tr' \<and> progress e cmc (first @ [c]) rest tr' \<and> history c tr' = Some (cc, Suc k)"
proof -
  let ?q = "MGet c (meta_Namespace (cc_Meta cc)) (meta_Name (cc_Meta cc))"
  obtain qs where qs: "list_all (reads_only (set first)) qs"
    "reconcile_clients e cmc (first @ c # rest) (tr @ [MGetCmc ns name]) = reconcile_clients e cmc (c # rest) (tr @ qs)"
    using pass_first [OF assms(1,2)] by blast
  have h: "history c (tr @ qs) = Some (cc, k)" using reads_only_other [OF qs(1)] assms(4,6) by auto
  have tr': "tr' = (tr @ qs) @ [?q]"
    unfolding assms(8) qs(2)
    by (rule world_waits [OF rollout_facts(1,3) [OF assms(1)] assms(5) rollout_facts(4) [OF assms(1,5)] h assms(7)])
  have "brought_up e cmc delay first tr'" unfolding tr'
    by (intro brought_up_reads_only [where D = "{c}"] brought_up_reads_only [OF assms(2) qs(1)]) simp
  moreover have "progress e cmc (first @ [c]) rest tr'" unfolding tr'
    using assms(4) by (intro progress_reads_only [where D = "{c}"] progress_reads_only [OF assms(3) qs(1)]) auto
  moreover have "history c tr' = Some (cc, Suc k)" unfolding tr' history_snoc h by simp
  ultimately show ?thesis by blast
qed

text \<open>A client takes one pass to write its cluster and as many as the cluster needs to become ready.\<close>

lemma passes_wait:
  assumes "rollout e cmc ns name delay" and "distinct (first @ c # rest)" and "FlatClients clients = first @ c # rest"
    and "computeCassandraClusterForContext e cmc c = Some cc"
  shows "brought_up e cmc delay first tr \<Longrightarrow> progress e cmc (first @ [c]) rest tr \<Longrightarrow> history c tr = Some (cc, k) \<Longrightarrow> k + m = delay c \<Longrightarrow>
    \<exists>tr'. multi_passes e clients ns name m tr = Some tr' \<and> brought_up e cmc delay (first @ [c]) tr' \<and> progress e cmc (first @ [c]) rest tr'"
proof (induction m arbitrary: tr k)
  case 0
  then show ?case using assms(4) by (auto simp: brought_up_def)
next
  case (Suc m)
  let ?tr = "snd (reconcile_clients e cmc (first @ c # rest) (tr @ [MGetCmc ns name]))"
  have "k < delay c" using Suc.prems(4) by simp
  from pass_waits [OF assms(1) Suc.prems(1,2) assms(2,4) Suc.prems(3) this refl]
  have "\<exists>tr'. multi_passes e clients ns name m ?tr = Some tr' \<and> brought_up e cmc delay (first @ [c]) tr' \<and> progress e cmc (first @ [c]) rest tr'"
    using Suc.IH [of ?tr "Suc k"] Suc.prems(4) by simp
  then show ?case
    unfolding multi_passes_Suc [OF world_facts(1) [OF rollout_facts(1) [OF assms(1)]] rollout_facts(2) [OF assms(1)]] assms(3) .
qed

definition passes_needed :: "menv \<Rightarrow> MultiCasskop \<Rightarrow> (string \<Rightarrow> nat) \<Rightarrow> string list \<Rightarrow> nat" where
  "passes_needed e cmc delay cs = sum_list (map (\<lambda>c. if computeCassandraClusterForContext e cmc c = None then 0 else Suc (delay c)) cs)"

lemma passes_client:
  assumes "rollout e cmc ns name delay" and "distinct (first @ c # rest)" and "FlatClients clients = first @ c # rest"
    and "brought_up e cmc delay first tr" and "progress e cmc first (c # rest) tr"
  shows "\<exists>tr'. multi_passes e clients ns name (passes_needed e cmc delay [c]) tr = Some tr' \<and>
    brought_up e cmc delay (first @ [c]) tr' \<and> progress e cmc (first @ [c]) rest tr'"
proof (cases "computeCassandraClusterForContext e cmc c")
  case None
  then show ?thesis using assms(4,5) by (simp add: passes_needed_def brought_up_def progress_def)
next
  case (Some cc)
  let ?tr = "snd (reconcile_clients e cmc (first @ c # rest) (tr @ [MGetCmc ns name]))"
  from pass_creates [OF assms(1,4,5,2) Some refl]
  have "\<exists>tr'. multi_passes e clients ns name (delay c) ?tr = Some tr' \<and> brought_up e cmc delay (first @ [c]) tr' \<and> progress e cmc (first @ [c]) rest tr'"
    using passes_wait [OF assms(1-3) Some, of ?tr 0 "delay c"] by simp
  moreover have "passes_needed e cmc delay [c] = Suc (delay c)" using Some by (simp add: passes_needed_def)
  ultimately show ?thesis
    using multi_passes_Suc [OF world_facts(1) [OF rollout_facts(1) [OF assms(1)]] rollout_facts(2) [OF assms(1)], of clients "delay c" tr] assms(3)
    by simp
qed

lemma passes_rollout:
  assumes "rollout e cmc ns name delay"
  shows "distinct (first @ rest) \<Longrightarrow> FlatClients clients = first @ rest \<Longrightarrow> brought_up e cmc delay first tr \<Longrightarrow> progress e cmc first rest tr \<Longrightarrow>
    \<exists>tr'. multi_passes e clients ns name (passes_needed e cmc delay rest) tr = Some tr' \<and>
      brought_up e cmc delay (first @ rest) tr' \<and> progress e cmc (first @ rest) [] tr'"
proof (induction rest arbitrary: first tr)
  case Nil
  then show ?case by (simp add: passes_needed_def)
next
  case (Cons c rest)
  obtain tr1 where t: "multi_passes e clients ns name (passes_needed e cmc delay [c]) tr = Some tr1"
    "brought_up e cmc delay (first @ [c]) tr1" "progress e cmc (first @ [c]) rest tr1"
    using passes_client [OF assms Cons.prems] by blast
  have "passes_needed e cmc delay (c # rest) = passes_needed e cmc delay [c] + passes_needed e cmc delay rest"
    by (simp add: passes_needed_def)
  then show ?case using Cons.IH [of "first @ [c]" tr1] Cons.prems(1,2) t by (simp add: multi_passes_add)
qed

lemma brought_up_settled:
  assumes "rollout e cmc ns name delay" and "brought_up e cmc delay cs tr" and "c \<in> set cs"
  shows "settled e cmc c tr"
proof (cases "computeCassandraClusterForContext e cmc c")
  case (Some cc)
  then obtain k where "delay c \<le> k" "history c tr = Some (cc, k)" using assms(2,3) unfolding brought_up_def by meson
  then show ?thesis using world_settled [OF rollout_facts(1) [OF assms(1)] Some rollout_facts(4) [OF assms(1) Some]] by blast
qed (simp add: settled_def)

text \<open>A finished roll-out stays finished.\<close>

lemma multi_passes_finished:
  assumes "rollout e cmc ns name delay"
  shows "brought_up e cmc delay (FlatClients clients) tr \<Longrightarrow> progress e cmc (FlatClients clients) [] tr \<Longrightarrow>
    \<exists>tr'. multi_passes e clients ns name n tr = Some tr' \<and> brought_up e cmc delay (FlatClients clients) tr' \<and> progress e cmc (FlatClients clients) [] tr'"
proof (induction n arbitrary: tr)
  case (Suc n)
  obtain qs where qs: "list_all (reads_only (set (FlatClients clients))) qs"
    "reconcile_clients e cmc (FlatClients clients) (tr @ [MGetCmc ns name]) = reconcile_clients e cmc [] (tr @ qs)"
    using pass_first [OF assms Suc.prems(1), of "[]"] by auto
  have "brought_up e cmc delay (FlatClients clients) (tr @ qs)" "progress e cmc (FlatClients clients) [] (tr @ qs)"
    using brought_up_reads_only [OF Suc.prems(1) qs(1)] progress_reads_only [OF Suc.prems(2) qs(1)] by simp_all
  from Suc.IH [OF this] show ?case
    unfolding multi_passes_Suc [OF world_facts(1) [OF rollout_facts(1) [OF assms]] rollout_facts(2) [OF assms]] qs(2) by simp
qed simp


section \<open>A rolling restart is asked for again and again\<close>

fun restarting_write :: "mrequest \<Rightarrow> bool" where
  "restarting_write (MCreate _ cc) = restart_requested (cc_Spec cc)"
| "restarting_write (MUpdate _ cc) = restart_requested (cc_Spec cc)"
| "restarting_write _ = False"

lemma reads_only_not_restarting [simp]: "list_all (reads_only D) qs \<Longrightarrow> filter restarting_write qs = []"
  by (induction qs) (auto elim!: reads_only.elims)

lemma reconcile_settled_clients:
  assumes "meta_DeletionTimestamp (mc_Meta cmc) = None"
  shows "\<forall>b \<in> set before. \<forall>tr. settled e cmc b tr \<Longrightarrow>
    \<exists>qs. list_all (reads_only UNIV) qs \<and> reconcile_clients e cmc (before @ ds) tr = reconcile_clients e cmc ds (tr @ qs)"
proof (induction before arbitrary: tr)
  case Nil
  then show ?case by (intro exI [of _ "[]"]) simp
next
  case (Cons b before)
  show ?case
  proof (cases "computeCassandraClusterForContext e cmc b")
    case None
    then show ?thesis using Cons by simp
  next
    case (Some cc)
    let ?q = "MGet b (meta_Namespace (cc_Meta cc)) (meta_Name (cc_Meta cc))"
    obtain qs where "list_all (reads_only UNIV) qs" "reconcile_clients e cmc (before @ ds) (tr @ [?q]) = reconcile_clients e cmc ds ((tr @ [?q]) @ qs)"
      using Cons.IH Cons.prems by (meson list.set_intros(2))
    then show ?thesis using reconcile_clients_settled [OF assms Some, of tr "before @ ds"] Cons.prems by (intro exI [of _ "?q # qs"]) simp
  qed
qed

lemma restart_differs:
  assumes "restart_requested (cc_Spec cc)" and "\<forall>s t. me_specEqual e s t \<longrightarrow> restart_requested s = restart_requested t"
  shows "fst (updated_cluster e cc s)" and "restart_requested (cc_Spec (snd (updated_cluster e cc s)))"
proof -
  have "\<not> me_specEqual e (cc_Spec (UnsetRollingRestart s)) (keep_stored (cc_Spec (UnsetRollingRestart s)) (cc_Spec cc))"
    using assms UnsetRollingRestart_clears [of s] by (metis restart_requested_keep_stored)
  then show "fst (updated_cluster e cc s)" "restart_requested (cc_Spec (snd (updated_cluster e cc s)))"
    using assms(1) by (simp_all add: updated_cluster_def Let_def)
qed

lemma restart_written:
  assumes "meta_DeletionTimestamp (mc_Meta cmc) = None" and "computeCassandraClusterForContext e cmc c = Some cc"
    and "restart_requested (cc_Spec cc)" and "\<forall>s t. me_specEqual e s t \<longrightarrow> restart_requested s = restart_requested t"
    and "\<forall>err. me_get e tr c (meta_Namespace (cc_Meta cc)) (meta_Name (cc_Meta cc)) = Inl err \<longrightarrow> err = NotFound"
  shows "\<exists>q. snd (reconcile_clients e cmc (c # cs) tr) = tr @ [MGet c (meta_Namespace (cc_Meta cc)) (meta_Name (cc_Meta cc)), q] \<and>
    cluster_writes [q] = [c] \<and> restarting_write q"
proof (cases "me_get e tr c (meta_Namespace (cc_Meta cc)) (meta_Name (cc_Meta cc))")
  case (Inl err)
  then have "me_get e tr c (meta_Namespace (cc_Meta cc)) (meta_Name (cc_Meta cc)) = Inl NotFound" using assms(5) by simp
  then show ?thesis using assms(1-3)
    by (intro exI [of _ "MCreate c cc"]) (simp add: CreateOrUpdateCassandraCluster_def CreateCassandraCluster_def mwrite_def Let_def)
next
  case (Inr s)
  then show ?thesis using assms(1,2) restart_differs [OF assms(3,4), of s]
    by (intro exI [of _ "MUpdate c (snd (updated_cluster e cc s))"])
      (simp add: CreateOrUpdateCassandraCluster_def UpdateCassandraCluster_def mwrite_def Let_def split_beta)
qed

text \<open>
  C35 (multi_rolling_restart_repeats): the flags of a requested rolling restart are cleared in the cluster that was read, not in the one that was computed,
  so the two always differ: as long as the MultiCasskop asks for a rolling restart in one Kubernetes cluster, every pass writes that
  cluster with the request in it once more, and no cluster after it is ever created or updated.
\<close>

theorem multi_rolling_restart_repeats:
  assumes cmc: "\<forall>tr. me_getCmc e tr ns name = Inr cmc" and steady: "steady cmc" and clients: "FlatClients clients = before @ c # after"
    and before: "\<forall>b \<in> set before. \<forall>tr. settled e cmc b tr" and cc: "computeCassandraClusterForContext e cmc c = Some cc"
    and restart: "restart_requested (cc_Spec cc)" and eq: "\<forall>s t. me_specEqual e s t \<longrightarrow> restart_requested s = restart_requested t"
    and get: "\<forall>tr err. me_get e tr c (meta_Namespace (cc_Meta cc)) (meta_Name (cc_Meta cc)) = Inl err \<longrightarrow> err = NotFound"
  shows "\<exists>qs. multi_passes e clients ns name n tr = Some (tr @ qs) \<and> cluster_writes qs = replicate n c \<and>
    cluster_writes (filter restarting_write qs) = replicate n c"
proof (induction n arbitrary: tr)
  case (Suc n)
  have live: "meta_DeletionTimestamp (mc_Meta cmc) = None" using steady by (simp add: steady_def)
  obtain ps where ps: "list_all (reads_only UNIV) ps"
    "reconcile_clients e cmc (FlatClients clients) (tr @ [MGetCmc ns name]) = reconcile_clients e cmc (c # after) ((tr @ [MGetCmc ns name]) @ ps)"
    unfolding clients using reconcile_settled_clients [OF live before] by blast
  obtain q where q: "snd (reconcile_clients e cmc (c # after) ((tr @ [MGetCmc ns name]) @ ps)) =
      ((tr @ [MGetCmc ns name]) @ ps) @ [MGet c (meta_Namespace (cc_Meta cc)) (meta_Name (cc_Meta cc)), q]" "cluster_writes [q] = [c]" "restarting_write q"
    using restart_written [OF live cc restart eq, of "(tr @ [MGetCmc ns name]) @ ps"] get by blast
  let ?us = "MGetCmc ns name # ps @ [MGet c (meta_Namespace (cc_Meta cc)) (meta_Name (cc_Meta cc)), q]"
  obtain qs where "multi_passes e clients ns name n (tr @ ?us) = Some ((tr @ ?us) @ qs)" "cluster_writes qs = replicate n c"
    "cluster_writes (filter restarting_write qs) = replicate n c"
    using Suc.IH by blast
  moreover have "cluster_writes ?us = [c]" "cluster_writes (filter restarting_write ?us) = [c]"
    using ps(1) q(2,3) by simp_all
  ultimately have "cluster_writes (?us @ qs) = replicate (Suc n) c" "cluster_writes (filter restarting_write (?us @ qs)) = replicate (Suc n) c"
    unfolding cluster_writes_append filter_append by simp_all
  with \<open>multi_passes e clients ns name n (tr @ ?us) = Some ((tr @ ?us) @ qs)\<close> show ?case
    unfolding multi_passes_Suc [OF cmc steady] ps(2) q(1) by (intro exI [of _ "?us @ qs"] conjI) simp_all
qed simp

section \<open>Example servers\<close>

definition reported :: "bool \<Rightarrow> CassandraCluster \<Rightarrow> CassandraCluster" where
  "reported ready cc =
     cc\<lparr>cc_Status := (cc_Status cc)\<lparr>cs_Phase := (if ready then state_Name ClusterPhaseRunning else ''''), cs_LastClusterActionStatus := StatusDone\<rparr>\<rparr>"

definition storing_menv :: "MultiCasskop \<Rightarrow> (string \<Rightarrow> nat) \<Rightarrow> menv" where
  "storing_menv cmc delay =
     \<lparr>me_getCmc = (\<lambda>_ _ _. Inr cmc),
      me_get = (\<lambda>tr c _ _. case history c tr of None \<Rightarrow> Inl NotFound | Some (cc, n) \<Rightarrow> Inr (reported (delay c \<le> n) cc)),
      me_write = (\<lambda>_ _. None), me_merge = (\<lambda>b _. b), me_specEqual = (=), me_seedsEqual = (=)\<rparr>"

lemma storing_multi_world: "multi_world (storing_menv cmc delay) cmc ns name delay"
  by (auto simp: multi_world_def storing_menv_def answers_def reported_def ReadyCassandraCluster_def ClusterPhaseRunning_def split: option.split)

lemma storing_rollout: "rollout (storing_menv (example_multi (Some False) None) delay) (example_multi (Some False) None) ns name delay"
  unfolding rollout_def
proof (intro conjI allI impI storing_multi_world)
  show "steady (example_multi (Some False) None)" by (simp add: steady_def updateDeletetrategy_def example_multi_def)
  fix c cc
  assume "computeCassandraClusterForContext (storing_menv (example_multi (Some False) None) delay) (example_multi (Some False) None) c = Some cc"
  then have "cc = CheckDefaults (example_cluster 1 [])"
    by (auto simp: computeCassandraClusterForContext_def storing_menv_def example_multi_def split: if_split_asm)
  moreover have "\<not> restart_requested (cc_Spec (CheckDefaults (example_cluster 1 [])))" by code_simp
  ultimately show "\<not> restart_requested (cc_Spec cc)" by simp
qed


text \<open>A MultiCasskop whose clusters have one rack that asks for a rolling restart.\<close>

definition restarting_multi :: MultiCasskop where
  "restarting_multi = (example_multi (Some False) None)\<lparr>mc_Spec := (mc_Spec (example_multi (Some False) None))
     \<lparr>ms_Base := example_cluster 1 [zero_dc ''dc1'' [(zero_rack ''rack1'')\<lparr>rack_RollingRestart := True\<rparr>]]\<rparr>\<rparr>"

theorem multi_rolling_restart_repeats_witness:
  "\<exists>qs. multi_passes (storing_menv restarting_multi (\<lambda>_. 0)) two_clients ''ns'' ''multi'' 3 [] = Some qs \<and>
    cluster_writes qs = [''k1'', ''k1'', ''k1'']"
proof -
  let ?e = "storing_menv restarting_multi (\<lambda>_. 0)"
  let ?cc = "CheckDefaults (ms_Base (mc_Spec restarting_multi))"
  have "\<exists>qs. multi_passes ?e two_clients ''ns'' ''multi'' 3 [] = Some ([] @ qs) \<and> cluster_writes qs = replicate 3 ''k1'' \<and>
      cluster_writes (filter restarting_write qs) = replicate 3 ''k1''"
  proof (rule multi_rolling_restart_repeats [where cmc = restarting_multi and before = "[]" and after = "[''k2'']" and cc = ?cc])
    show "steady restarting_multi" by (simp add: steady_def updateDeletetrategy_def restarting_multi_def example_multi_def)
    show "restart_requested (cc_Spec ?cc)" by code_simp
  qed (auto simp: storing_menv_def FlatClients_def two_clients_def computeCassandraClusterForContext_def restarting_multi_def example_multi_def
      split: option.split_asm)
  then show ?thesis by (auto simp: numeral_3_eq_3)
qed

end
