(* ===== verification/Startup.thy ===== *)
theory Startup
  imports Multi_Casskop
begin

text \<open>
  How the two operators start, src/main.go and src/multi-casskop: the environment variables they read, the order in which the
  operator of CassandraClusters sets itself up, and how the operator of MultiCasskops gets its clients and its watches.  The libraries
  that answer (leader election, manager, configurations, multi-cluster controller) are parameters.  Messages and log levels are left
  out; code 1 is that of os.Exit(1) and log.Fatal.
\<close>

section \<open>Environment variables\<close>

type_synonym environ = "string \<rightharpoonup> string"

definition getWatchNamespace :: "environ \<Rightarrow> string \<times> error option" where
  "getWatchNamespace env =
     (case env ''WATCH_NAMESPACE'' of None \<Rightarrow> ('''', Some (Errorf ''WATCH_NAMESPACE must be set'')) | Some ns \<Rightarrow> (ns, None))"

text \<open>Atoi with its error: None when the text is not a number or does not fit in 64 bits.\<close>

definition Atoi :: "string \<Rightarrow> int option" where
  "Atoi s =
     (let body = (if s \<noteq> [] \<and> (hd s = CHR ''-'' \<or> hd s = CHR ''+'') then tl s else s);
          n = (if s \<noteq> [] \<and> hd s = CHR ''-'' then - int (digits_val body) else int (digits_val body))
      in if body = [] \<or> \<not> list_all is_digit body \<or> n < - int64_max - 1 \<or> int64_max < n then None else Some n)"

definition getResyncPeriod :: "environ \<Rightarrow> int" where
  "getResyncPeriod env =
     (case env ''RESYNC_PERIOD'' of
        None \<Rightarrow> DefaultResyncPeriod
      | Some resync \<Rightarrow> (case Atoi resync of None \<Rightarrow> DefaultResyncPeriod | Some n \<Rightarrow> n))"

lemma Atoi_atoi_sat: "Atoi s = Some n \<Longrightarrow> n = atoi_sat s"
  by (auto simp: Atoi_def atoi_sat_def Let_def split: if_split_asm)

lemma Atoi_itoa:
  assumes "- int64_max - 1 \<le> i" and "i \<le> int64_max"
  shows "Atoi (itoa i) = Some i"
proof -
  have d: "\<not> is_digit CHR ''-''" "\<not> is_digit CHR ''+''" by (simp_all add: is_digit_def)
  have "itoa_nat m \<noteq> [] \<and> hd (itoa_nat m) \<noteq> CHR ''-'' \<and> hd (itoa_nat m) \<noteq> CHR ''+''" for m
    using list_all_itoa_nat [of m] d by (cases "itoa_nat m") auto
  then show ?thesis using assms by (auto simp: Atoi_def itoa_def Let_def)
qed

text \<open>A period that is printed as a number is the one that is read.\<close>

lemma getResyncPeriod_itoa:
  "- int64_max - 1 \<le> i \<Longrightarrow> i \<le> int64_max \<Longrightarrow> getResyncPeriod (env(''RESYNC_PERIOD'' \<mapsto> itoa i)) = i"
  by (simp add: getResyncPeriod_def Atoi_itoa)

section \<open>The operator of CassandraClusters\<close>

datatype start_call =
    Become string
  | GetConfigOrDie
  | NewManager string
  | SetupWithManager string
  | AddHealthzCheck
  | AddReadyzCheck
  | StartManager

text \<open>The calls are made in turn; the first one that fails ends the program.\<close>

fun start_calls :: "(start_call \<Rightarrow> error option) \<Rightarrow> start_call list \<Rightarrow> nat \<times> start_call list" where
  "start_calls answer [] = (0, [])"
| "start_calls answer (c # cs) =
     (if answer c \<noteq> None then (1, [c]) else (let (code, made) = start_calls answer cs in (code, c # made)))"

definition main :: "(start_call \<Rightarrow> error option) \<Rightarrow> environ \<Rightarrow> nat \<times> start_call list" where
  "main answer env =
     (let (namespace, _) = getWatchNamespace env in
      start_calls answer
        [Become ''casskop-lock'', GetConfigOrDie, NewManager namespace, SetupWithManager ''CassandraBackup'',
         SetupWithManager ''CassandraCluster'', SetupWithManager ''CassandraRestore'', AddHealthzCheck, AddReadyzCheck, StartManager])"

lemma start_calls_made:
  "start_calls answer cs = (code, made) \<Longrightarrow>
     \<exists>rest. cs = made @ rest \<and> (\<forall>c \<in> set (butlast made). answer c = None) \<and> (code = 0 \<longleftrightarrow> rest = [] \<and> list_all (\<lambda>c. answer c = None) cs)"
proof (induction cs arbitrary: code made)
  case (Cons c cs)
  show ?case
  proof (cases "answer c")
    case None
    obtain code' made' where r: "start_calls answer cs = (code', made')" by (metis surj_pair)
    then have "code = code'" "made = c # made'" using Cons.prems None by simp_all
    with Cons.IH [OF r] None show ?thesis by auto
  qed (use Cons.prems in auto)
qed auto

text \<open>
  Nothing is set up without the lock of the leader, and the manager only starts with all three controllers and both checks.
\<close>

lemma main_starts_as_leader:
  assumes "main answer env = (code, made)"
  shows "made \<noteq> [] \<and> hd made = Become ''casskop-lock''" and "length made > 1 \<Longrightarrow> answer (Become ''casskop-lock'') = None"
    and "StartManager \<in> set made \<Longrightarrow> \<forall>k \<in> {''CassandraBackup'', ''CassandraCluster'', ''CassandraRestore''}. answer (SetupWithManager k) = None"
  using assms by (simp_all add: main_def split_beta split: if_split_asm) auto

section \<open>The clients of the operator of MultiCasskops\<close>

text \<open>A connection of the library is known by the name and the namespace it was made for; None is the nil pointer.\<close>

type_synonym connection = "(string \<times> string) option"

record Cluster =
  kc_Name :: string
  kc_Cluster :: connection

record Clusters =
  kcs_Local :: "Cluster option"
  kcs_Remotes :: "Cluster list"

datatype watch = WatchMultiCasskop connection string | WatchCassandraCluster connection string

text \<open>
  Answers of the libraries: the parsed options (Inl True when help was asked for), the local and the named configurations, a
  client of a connection (None when the call panics), the registration of the two groups of types, the watches, and the manager.
\<close>

record start_env =
  su_Parse :: "bool + string \<times> string list"
  su_GetConfig :: "error option"
  su_NamedConfig :: "string \<Rightarrow> error option"
  su_GetDelegatingClient :: "connection \<Rightarrow> error option option"
  su_AddCassandraCluster :: "connection \<Rightarrow> error option"
  su_AddMultiCasskop :: "connection \<Rightarrow> error option"
  su_Watch :: "watch \<Rightarrow> error option"
  su_Start :: "error option"

definition SetUpClient :: "start_env \<Rightarrow> Cluster \<Rightarrow> (error + string) option" where
  "SetUpClient s cl = do {
     err \<leftarrow> su_GetDelegatingClient s (kc_Cluster cl);
     Some (if err \<noteq> None then Inl (Errorf ''getting delegating client for Cluster  Cluster: '')
           else if su_AddCassandraCluster s (kc_Cluster cl) \<noteq> None
           then Inl (Errorf ''adding APIs CassandraCluster to Cluster  Cluster's scheme: '')
           else if su_AddMultiCasskop s (kc_Cluster cl) \<noteq> None
           then Inl (Errorf ''adding APIs MultiCasskop to Cluster  Cluster's scheme: '')
           else Inr (kc_Name cl)) }"

fun set_up_remotes :: "start_env \<Rightarrow> Cluster list \<Rightarrow> (error + string list) option" where
  "set_up_remotes s [] = Some (Inr [])"
| "set_up_remotes s (cl # cls) = do {
     r \<leftarrow> SetUpClient s cl;
     case r of
       Inl err \<Rightarrow> Some (Inl err)
     | Inr c \<Rightarrow> do { rs \<leftarrow> set_up_remotes s cls; Some (case rs of Inl err \<Rightarrow> Inl err | Inr cs \<Rightarrow> Inr (c # cs)) } }"

definition SetUpClients :: "start_env \<Rightarrow> Clusters \<Rightarrow> (error + Clients) option" where
  "SetUpClients s clusters = do {
     local \<leftarrow> kcs_Local clusters;
     r \<leftarrow> SetUpClient s local;
     case r of
       Inl err \<Rightarrow> Some (Inl err)
     | Inr c \<Rightarrow> do {
         rs \<leftarrow> set_up_remotes s (kcs_Remotes clusters);
         Some (case rs of Inl err \<Rightarrow> Inl err | Inr cs \<Rightarrow> Inr \<lparr>cl_Local = c, cl_Remotes = cs\<rparr>) } }"

fun set_up_watches :: "start_env \<Rightarrow> watch list \<Rightarrow> error option" where
  "set_up_watches s [] = None"
| "set_up_watches s (w # ws) =
     (if su_Watch s w \<noteq> None then Some (Errorf ''setting up MultiCasskop watch in Cluster  Cluster: '') else set_up_watches s ws)"

text \<open>The controller is known by its clients, its namespace and its watches.\<close>

definition NewController :: "start_env \<Rightarrow> Clusters \<Rightarrow> string \<Rightarrow> (error + Clients \<times> string \<times> watch list) option" where
  "NewController s clusters namespace = do {
     r \<leftarrow> SetUpClients s clusters;
     case r of
       Inl err \<Rightarrow> Some (Inl err)
     | Inr clients \<Rightarrow> do {
         local \<leftarrow> kcs_Local clusters;
         if kc_Cluster local = None then Some (Inl (Errorf ''No local cluster defined can't watch MultiCassKop customs resources''))
         else
           let ws = WatchMultiCasskop (kc_Cluster local) namespace #
                      map (\<lambda>cl. WatchCassandraCluster (kc_Cluster cl) namespace) (kcs_Remotes clusters @ [local]) in
           Some (case set_up_watches s ws of Some err \<Rightarrow> Inl err | None \<Rightarrow> Inr (clients, namespace, ws)) } }"

text \<open>
  The program ends with a code, and the manager may have been started with a controller before.  The server of the health checks
  runs beside it and is left out.
\<close>

definition main_multi :: "start_env \<Rightarrow> environ \<Rightarrow> (nat \<times> (Clients \<times> string \<times> watch list) option) option" where
  "main_multi s env =
     (case su_Parse s of
        Inl help \<Rightarrow> Some (if help then 0 else 1, None)
      | Inr (local, remotes) \<Rightarrow>
          let (namespace, _) = getWatchNamespace env;
              connect = (\<lambda>name. \<lparr>kc_Name = name, kc_Cluster = Some (name, namespace)\<rparr>) in
          if su_GetConfig s \<noteq> None \<or> (\<exists>r \<in> set remotes. su_NamedConfig s r \<noteq> None) then Some (1, None)
          else do {
            co \<leftarrow> NewController s \<lparr>kcs_Local = Some (connect local), kcs_Remotes = map connect remotes\<rparr> namespace;
            Some (case co of
                    Inl _ \<Rightarrow> (1, None)
                  | Inr controller \<Rightarrow> (if su_Start s \<noteq> None then 1 else 0, Some controller)) })"

section \<open>What is watched, and what is reconciled\<close>

lemma SetUpClient_name: "SetUpClient s cl = Some (Inr c) \<Longrightarrow> c = kc_Name cl"
  by (auto simp: SetUpClient_def bind_eq_Some_conv split: if_split_asm)

lemma set_up_remotes_names: "set_up_remotes s cls = Some (Inr cs) \<Longrightarrow> cs = map kc_Name cls"
  by (induction cls arbitrary: cs) (auto dest: SetUpClient_name split: Option.bind_split_asm sum.split_asm)

lemma SetUpClients_names:
  "SetUpClients s clusters = Some (Inr clients) \<Longrightarrow>
     \<exists>local. kcs_Local clusters = Some local \<and> FlatClients clients = kc_Name local # map kc_Name (kcs_Remotes clusters)"
  by (auto simp: SetUpClients_def FlatClients_def dest: SetUpClient_name set_up_remotes_names split: Option.bind_split_asm sum.split_asm)

lemma set_up_watches_None: "set_up_watches s ws = None \<longleftrightarrow> list_all (\<lambda>w. su_Watch s w = None) ws"
  by (induction ws) auto

text \<open>
  A started controller has one client per Kubernetes cluster of the options, the local one first; it watches MultiCasskops on the local
  one and CassandraClusters on each of them, all in the namespace it reconciles.
\<close>

lemma main_multi_started:
  assumes "main_multi s env = Some (code, Some (clients, watched, ws))"
  shows "\<exists>local remotes. su_Parse s = Inr (local, remotes) \<and> FlatClients clients = local # remotes \<and> watched = fst (getWatchNamespace env) \<and>
    ws = WatchMultiCasskop (Some (local, watched)) watched # map (\<lambda>c. WatchCassandraCluster (Some (c, watched)) watched) (remotes @ [local]) \<and>
    list_all (\<lambda>w. su_Watch s w = None) ws"
proof -
  obtain local remotes where p: "su_Parse s = Inr (local, remotes)" using assms by (auto simp: main_multi_def split: sum.split_asm)
  let ?ns = "fst (getWatchNamespace env)"
  let ?connect = "\<lambda>name. \<lparr>kc_Name = name, kc_Cluster = Some (name, ?ns)\<rparr>"
  let ?clusters = "\<lparr>kcs_Local = Some (?connect local), kcs_Remotes = map ?connect remotes\<rparr>"
  have "NewController s ?clusters ?ns = Some (Inr (clients, watched, ws))"
    using assms p by (auto simp: main_multi_def split_beta Let_def split: Option.bind_split_asm sum.split_asm if_split_asm)
  then have "SetUpClients s ?clusters = Some (Inr clients)" "watched = ?ns"
    "ws = WatchMultiCasskop (Some (local, ?ns)) ?ns # map (\<lambda>cl. WatchCassandraCluster (kc_Cluster cl) ?ns) (map ?connect remotes @ [?connect local])"
    "set_up_watches s ws = None"
    by (auto simp: NewController_def Let_def split: Option.bind_split_asm sum.split_asm option.split_asm if_split_asm)
  then show ?thesis using p SetUpClients_names [of s ?clusters clients] by (simp add: set_up_watches_None comp_def del: set_up_watches.simps)
qed

text \<open>
  C37 (multi_without_namespace): when WATCH_NAMESPACE is not set, or is empty, the operator starts and watches all namespaces, as its message announces,
  but compares the namespace of each request with the empty one: every request of an object, which has a namespace, is dropped
  without a look at the object.
\<close>

theorem multi_without_namespace:
  assumes "main_multi s env = Some (code, Some (clients, watched, ws))" and "env ''WATCH_NAMESPACE'' = None \<or> env ''WATCH_NAMESPACE'' = Some ''''"
    and "ns \<noteq> ''''"
  shows "Reconcile_multi e clients watched ns name tr = Some ((Forget, None), tr) \<and>
    (\<exists>local remotes. FlatClients clients = local # remotes \<and>
      ws = WatchMultiCasskop (Some (local, '''')) '''' # map (\<lambda>c. WatchCassandraCluster (Some (c, '''')) '''') (remotes @ [local]))"
proof -
  have "fst (getWatchNamespace env) = ''''" using assms(2) by (auto simp: getWatchNamespace_def)
  then have "watched = ''''" "\<exists>local remotes. FlatClients clients = local # remotes \<and>
      ws = WatchMultiCasskop (Some (local, '''')) '''' # map (\<lambda>c. WatchCassandraCluster (Some (c, '''')) '''') (remotes @ [local])"
    using main_multi_started [OF assms(1)] by auto
  then show ?thesis using assms(3) by (simp add: Reconcile_multi_def)
qed

definition willing :: start_env where
  "willing = \<lparr>su_Parse = Inr (''k1'', [''k2'']), su_GetConfig = None, su_NamedConfig = (\<lambda>_. None), su_GetDelegatingClient = (\<lambda>_. Some None),
     su_AddCassandraCluster = (\<lambda>_. None), su_AddMultiCasskop = (\<lambda>_. None), su_Watch = (\<lambda>_. None), su_Start = None\<rparr>"

theorem multi_without_namespace_witness:
  "\<exists>ws. main_multi willing Map.empty = Some (0, Some (two_clients, '''', ws)) \<and>
     Reconcile_multi (example_menv (example_multi (Some False) None)) two_clients '''' ''ns'' ''multi'' [] = Some ((Forget, None), [])"
proof -
  obtain ws where run: "main_multi willing Map.empty = Some (0, Some (two_clients, '''', ws))"
    by (simp add: main_multi_def willing_def getWatchNamespace_def NewController_def SetUpClients_def SetUpClient_def two_clients_def)
  then show ?thesis using multi_without_namespace [OF run, of "''ns''"] by auto
qed

end
