(* ===== verification/Spec2Isabelle.thy ===== *)
theory Spec2Isabelle
  imports Rack_Writes Change_Control Generator_Props Backup_Runs Restore_Runs Multi_Runs Startup
begin

text \<open>
  Verification of CassKop, the Kubernetes operator for Apache Cassandra (the Go code under src/).

  \<^bold>\<open>The program.\<close>  Four controllers share the API types of src/api/v2.  The controller of a CassandraCluster
  (src/controllers/cassandracluster) turns a topology of datacenters and racks into one statefulset per rack and drives scaling,
  decommission, storage upsize and operations on pods, one step per pass.  The controllers of CassandraBackup and
  CassandraRestore (src/controllers/cassandrabackup, src/controllers/cassandrarestore) talk to the backup sidecar of a pod.  The
  controller of a MultiCasskop (src/multi-casskop) keeps one CassandraCluster in each of several Kubernetes clusters.

  \<^bold>\<open>Conventions.\<close>  A definition has the name of the function it models; record fields carry the Go field name after a prefix.
  None in an option result is a panic of Go (an index out of range, a nil pointer); an error is the left side of a sum or an
  optional error beside the result.  A slice whose nil-ness matters is an optional list, a Go map is a partial map, int32
  conversions wrap.  Everything outside the repository (API servers, Cassandra nodes, the sidecar, the clock, encoders, the cron
  library, merging) is a field of an environment record and answers as an arbitrary function of the requests made so far, so
  nothing is assumed about what happens between two requests.  The state holds the trace of all requests; a goroutine or a cron
  job is an entry of the trace where it is started.  Random choices and the order of map iteration are arguments.

  \<^bold>\<open>Theories.\<close>
  \<^item> Prelude: panics, slices, strings, numbers.  K8s_Types: the Kubernetes objects.  Api_Types: src/api/v2/cassandracluster_types.go
    and names.go.
  \<^item> Cluster_Topology: the methods of CassandraCluster; racks, seeds, defaults, the coding of rack names (locale rack_codec).
  \<^item> K8s_Util: src/pkg/k8s/util.go and src/pkg/util.  Pods: pod.go and cassandrapod, with the order of pods (locale pod_sorter).
  \<^item> Rcc: state, environment and API calls of the cluster controller.  Node_Operations: node_operations.go.  Cluster_Pods: the
    checks over all pods.
  \<^item> Storage_Upsize: the package storageupsize; its steps share the contracts upsize_step and preparing_step.
  \<^item> Rack_Status: cassandra_status.go, the state machine of a rack; its detectors share the contract rack_step.
  \<^item> Decommission and Pod_Operations: pod_operation.go.
  \<^item> Generator: generator.go.  Statefulset: statefulset.go, poddisruptionbudget.go, deploy_cassandra.go.
  \<^item> Reconcile: reconcile.go and the Reconcile method.
  \<^item> Backrest: the types and the sidecar client of backups and restores.  Backup: scheduler, reconcile loop and goroutine of
    src/controllers/cassandrabackup.  Restore: src/controllers/cassandrarestore.
  \<^item> Multi_Casskop: src/multi-casskop/controllers.  Startup: src/main.go, src/multi-casskop/main.go, clusters.go and NewController.
  \<^item> Backup_Runs, Restore_Runs, Multi_Runs: sequences of passes of these three controllers.

  \<^bold>\<open>What is shown.\<close>
  \<^item> Rack_Writes: a pass writes at most one statefulset, by the contract stopping_step of its steps.
  \<^item> Statefulset, Decommission, Storage_Upsize, Pod_Operations: nodes are added and removed one at a time, a decommission follows
    its protocol, claims go only after their pod, and an upsize ends only when every filesystem has grown.  The exact conditions
    under which the lists of a pod operation stay consistent, and a loop of it that never returns.
  \<^item> Change_Control: which changes of the custom resource are refused or undone (a DC taken out or scaled to 0, the storage
    class), and the cases the code misses; the phase of the cluster after a pass follows that of the racks.
  \<^item> Generator_Props: generation does not panic after the defaults, and every mount has its volume, with two exceptions.
  \<^item> Backup: a backup starts only after all checks; a finished backup leaks its goroutine.  Backup_Runs: in every run of the
    controller (the relation backup_run) entries and cron jobs correspond.  Both rest on the contract kept_by_requests, which says
    what requests leave alone.
  \<^item> Restore: the loop refines the step relation restore_step; the exact conditions of its panics.  Restore_Runs: with servers
    that store what is written and a sidecar that completes, a restore is posted once and completes; when the status can not be
    stored every pass fails and posts it again.
  \<^item> Multi_Casskop: clusters are rolled out one by one in order; deletion ignores errors.  Multi_Runs: the roll-out finishes when
    the clusters become ready and their specification is left alone, and does not get past a requested rolling restart.
  \<^item> Startup: the operator of CassandraClusters sets nothing up before it leads; the operator of MultiCasskops has a client and a
    watch per Kubernetes cluster, and without a namespace it drops every request.
  \<^item> Several theorems state a defect as the code has it; their text says what the code means to do.

  \<^bold>\<open>Loops.\<close>  Recursion is structural or has a termination proof; no fuel is used.  The loops that may go on forever
  (finalize_loop and monitor_loop in Pod_Operations, follow_backup in Backup) are partial functions.  The two of Pod_Operations have
  two options in their result: the outer None is a loop that never returns, the inner one a panic.  The body of
  follow_backup does not panic, so None is there a loop that never returns, or that waits forever for its stopped ticker.  The wait for a new revision of a statefulset polls five times, as in the code.

  \<^bold>\<open>Not modelled.\<close>
  \<^item> Of the two main programs: the levels and formats of logging, the flags of addresses, and the server of the health checks.
    Of SetupWithManager only the event filters of backups and restores.
  \<^item> src/pkg/k8s/client_util.go, which nothing calls, and the mocks and helpers of the tests.
  \<^item> Generated deep copies and scheme registration: a value of the model is its own copy.
  \<^item> Logging, metrics beyond the entry in the trace, and the texts of events; of an event only the reason is kept.
  \<^item> The HTTP client of the sidecar and the decoding of its answers; the progress of an operation is the product the code
    truncates.  Text is ASCII, so the micro sign is not among the units of a duration, and the fraction of a duration is exact.
  \<^item> The body of the goroutine that watches a disruption budget in waitForStatefulSetToBeUpdated, which is an entry of the trace.
  \<^item> Objects written to the API server are not refreshed with its answer; a later pass reads them again.
\<close>

end
